(* ===== verification/Prelude.thy ===== *)
theory Prelude
  imports Main "HOL-Library.Word"
begin

text \<open>
  What every theory of the development shares.

  \<^item> The numbers of the program: a Go \<open>int64\<close> is a \<open>64 word\<close> read as two's
    complement by \<open>sint\<close>, so \<open>+\<close> and \<open>-\<close> wrap as they do in Go; the one arithmetic
    fact the money code relies on, that a sum of a non-negative balance and a delta that
    comes out non-negative did not wrap, is proved here once.
  \<^item> An action of a service: a function from the state to the next state and an error or
    a value, with the combinators the handlers are written with. A Go function that
    returns \<open>(T, error)\<close> and changes the store is an action; \<open>if err != nil { return err }\<close>
    is \<open>act_bind\<close>.
  \<^item> \<open>keeps I m\<close>, the judgement that an action keeps a predicate of the state whatever it
    answers, and \<open>ok_then\<close>, inversion of a run that answered a value. Invariants of
    whole handlers are proved by the rules collected in \<open>keeps_intros\<close>.
  \<^item> The struct-tag validator, which is a library outside the repository: a parameter
    \<open>validator\<close> of the definitions that call it.
\<close>

named_theorems act_defs \<open>the combinators of actions, for symbolic execution\<close>
named_theorems keeps_intros \<open>rules for the judgement that an action keeps a predicate\<close>

section \<open>Numbers and times\<close>

type_synonym i64 = "64 word"
type_synonym time = int
type_synonym duration = int

abbreviation max_i64 :: int where "max_i64 \<equiv> 9223372036854775807"
abbreviation min_i64 :: int where "min_i64 \<equiv> - 9223372036854775808"

lemma sint_i64_bounds: "min_i64 \<le> sint (x :: i64)" "sint (x :: i64) \<le> max_i64"
  using sint_range_size [of x] by (simp_all add: word_size)

lemma wrap_plus: "sint (a + b :: i64) = (sint a + sint b + 9223372036854775808) mod 18446744073709551616 - 9223372036854775808"
  using sint_word_ariths(1) [of a b]
  by (simp add: signed_take_bit_eq_take_bit_shift take_bit_eq_mod)

lemma wrap_minus: "sint (- b :: i64) = (- sint b + 9223372036854775808) mod 18446744073709551616 - 9223372036854775808"
  using sint_word_ariths(4) [of b]
  by (simp add: signed_take_bit_eq_take_bit_shift take_bit_eq_mod)

lemma wrap_range:
  assumes "min_i64 \<le> s" "s \<le> max_i64"
  shows "(s + 9223372036854775808) mod 18446744073709551616 - 9223372036854775808 = s"
proof -
  have "(s + 9223372036854775808) mod 18446744073709551616 = s + 9223372036854775808"
    using assms by (intro mod_pos_pos_trivial) auto
  then show ?thesis by simp
qed

lemma wrap_over:
  assumes "max_i64 < s" "s \<le> 2 * max_i64"
  shows "(s + 9223372036854775808) mod 18446744073709551616 - 9223372036854775808 < 0"
proof -
  have "(s + 9223372036854775808) mod 18446744073709551616
      = (s + 9223372036854775808 - 18446744073709551616) mod 18446744073709551616"
    by (simp only: minus_mod_self2)
  also have "\<dots> = s + 9223372036854775808 - 18446744073709551616"
    using assms by (intro mod_pos_pos_trivial) auto
  finally show ?thesis using assms by linarith
qed

lemma sint_add_in_range:
  assumes "min_i64 \<le> sint a + sint b" "sint a + sint b \<le> max_i64"
  shows "sint (a + b :: i64) = sint a + sint b"
  unfolding wrap_plus using assms by (rule wrap_range)

lemma sint_add_exact:
  assumes "0 \<le> sint a" and "0 \<le> sint (a + b :: i64)"
  shows "sint (a + b) = sint a + sint b"
proof (rule sint_add_in_range)
  have bounds: "sint a \<le> max_i64" "min_i64 \<le> sint b" "sint b \<le> max_i64"
    by (simp_all add: sint_i64_bounds)
  from bounds(2) assms(1) show "min_i64 \<le> sint a + sint b" by linarith
  show "sint a + sint b \<le> max_i64"
  proof (rule ccontr)
    assume "\<not> sint a + sint b \<le> max_i64"
    with bounds have "max_i64 < sint a + sint b" "sint a + sint b \<le> 2 * max_i64" by linarith+
    from wrap_over [OF this] assms(2) show False by (simp add: wrap_plus)
  qed
qed

lemma sint_uminus: "min_i64 < sint (b :: i64) \<Longrightarrow> sint (- b) = - sint b"
  unfolding wrap_minus using sint_i64_bounds [of b] by (intro wrap_range) linarith+


lemma sint_word_of_int_i64:
  "min_i64 \<le> n \<Longrightarrow> n \<le> max_i64 \<Longrightarrow> sint (word_of_int n :: i64) = n"
  using wrap_range [of n]
  by (simp add: sint_sbintrunc' signed_take_bit_eq_take_bit_shift take_bit_eq_mod)

lemma sint_eq_0_iff_i64 [simp]: "sint (x :: i64) = 0 \<longleftrightarrow> x = 0"
  by (metis signed_0 signed_word_eqI)

section \<open>Actions\<close>

type_synonym ('s, 'e, 'a) act = "'s \<Rightarrow> 's \<times> ('e + 'a)"

definition ret :: "'a \<Rightarrow> ('s, 'e, 'a) act" where
  [act_defs]: "ret x s = (s, Inr x)"

definition fail :: "'e \<Rightarrow> ('s, 'e, 'a) act" where
  [act_defs]: "fail e s = (s, Inl e)"

definition act_bind :: "('s, 'e, 'a) act \<Rightarrow> ('a \<Rightarrow> ('s, 'e, 'b) act) \<Rightarrow> ('s, 'e, 'b) act" where
  [act_defs]: "act_bind m f s = (case m s of (s', Inl e) \<Rightarrow> (s', Inl e) | (s', Inr x) \<Rightarrow> f x s')"

definition ensure :: "bool \<Rightarrow> 'e \<Rightarrow> ('s, 'e, unit) act" where
  [act_defs]: "ensure c e = (if c then ret () else fail e)"

definition gets :: "('s \<Rightarrow> 'a) \<Rightarrow> ('s, 'e, 'a) act" where
  [act_defs]: "gets f s = (s, Inr (f s))"

definition modify :: "('s \<Rightarrow> 's) \<Rightarrow> ('s, 'e, unit) act" where
  [act_defs]: "modify f s = (f s, Inr ())"

definition of_sum :: "'e + 'a \<Rightarrow> ('s, 'e, 'a) act" where
  [act_defs]: "of_sum r s = (s, r)"

definition of_option :: "'e \<Rightarrow> 'a option \<Rightarrow> ('s, 'e, 'a) act" where
  [act_defs]: "of_option e x = (case x of None \<Rightarrow> fail e | Some y \<Rightarrow> ret y)"

text \<open>
  \<open>attempt m\<close> hands the error to the caller as a value, for the handlers that look at an
  error and go on: \<open>if err := m(); errors.Is(err, e) { \<dots> }\<close>.
\<close>

definition attempt :: "('s, 'e, 'a) act \<Rightarrow> ('s, 'f, 'e + 'a) act" where
  [act_defs]: "attempt m s = (case m s of (s', r) \<Rightarrow> (s', Inr r))"

definition map_err :: "('e \<Rightarrow> 'f) \<Rightarrow> ('s, 'e, 'a) act \<Rightarrow> ('s, 'f, 'a) act" where
  [act_defs]: "map_err g m s = (case m s of (s', Inl e) \<Rightarrow> (s', Inl (g e)) | (s', Inr x) \<Rightarrow> (s', Inr x))"

text \<open>
  A database transaction: an error rolls the state back, all but what Postgres does not roll
  back (the sequences), which \<open>keep old new\<close> carries over.
\<close>

definition in_tx :: "('s \<Rightarrow> 's \<Rightarrow> 's) \<Rightarrow> ('s, 'e, 'a) act \<Rightarrow> ('s, 'e, 'a) act" where
  "in_tx keep m s =
    (case m s of (s', Inl e) \<Rightarrow> (keep s s', Inl e) | (s', Inr x) \<Rightarrow> (s', Inr x))"

text \<open>An action of one part of a larger state: \<open>get\<close> reads the part, \<open>put\<close> writes it back, \<open>wrap\<close> names its errors.\<close>

definition zoom ::
  "('m \<Rightarrow> 's) \<Rightarrow> ('s \<Rightarrow> 'm \<Rightarrow> 'm) \<Rightarrow> ('e \<Rightarrow> 'f) \<Rightarrow> ('s, 'e, 'a) act \<Rightarrow> ('m, 'f, 'a) act" where
  "zoom get put wrap m s =
    (case m (get s) of (t, Inl e) \<Rightarrow> (put t s, Inl (wrap e)) | (t, Inr x) \<Rightarrow> (put t s, Inr x))"

section \<open>Reasoning about actions\<close>

lemma act_bind_Inr:
  "act_bind m f s = (s'', Inr y) \<longleftrightarrow> (\<exists>s' x. m s = (s', Inr x) \<and> f x s' = (s'', Inr y))"
  by (auto simp: act_bind_def split: prod.splits sum.splits)

lemma act_bind_Inl:
  "act_bind m f s = (s'', Inl e) \<longleftrightarrow>
    m s = (s'', Inl e) \<or> (\<exists>s' x. m s = (s', Inr x) \<and> f x s' = (s'', Inl e))"
  by (auto simp: act_bind_def split: prod.splits sum.splits)

lemma ret_eq [simp]: "ret x s = (s', r) \<longleftrightarrow> s' = s \<and> r = Inr x"
  by (auto simp: ret_def)

lemma fail_eq [simp]: "fail e s = (s', r) \<longleftrightarrow> s' = s \<and> r = Inl e"
  by (auto simp: fail_def)

lemma gets_eq [simp]: "gets f s = (s', r) \<longleftrightarrow> s' = s \<and> r = Inr (f s)"
  by (auto simp: gets_def)

lemma modify_eq [simp]: "modify f s = (s', r) \<longleftrightarrow> s' = f s \<and> r = Inr ()"
  by (auto simp: modify_def)

lemma of_sum_eq [simp]: "of_sum x s = (s', r) \<longleftrightarrow> s' = s \<and> r = x"
  by (auto simp: of_sum_def)

lemma of_option_Inr [simp]: "of_option e x s = (s', Inr y) \<longleftrightarrow> s' = s \<and> x = Some y"
  by (auto simp: of_option_def split: option.splits)

lemma of_option_Inl [simp]: "of_option e x s = (s', Inl e') \<longleftrightarrow> s' = s \<and> x = None \<and> e' = e"
  by (auto simp: of_option_def split: option.splits)

lemma ensure_Inr [simp]: "ensure c e s = (s', Inr u) \<longleftrightarrow> s' = s \<and> c"
  by (auto simp: ensure_def)

lemma ensure_Inl [simp]: "ensure c e s = (s', Inl e') \<longleftrightarrow> s' = s \<and> \<not> c \<and> e' = e"
  by (auto simp: ensure_def)

lemma attempt_eq [simp]: "attempt m s = (s', Inr r) \<longleftrightarrow> m s = (s', r)"
  by (auto simp: attempt_def split: prod.splits)

lemma attempt_not_Inl [simp]: "attempt m s \<noteq> (s', Inl e)"
  by (auto simp: attempt_def split: prod.splits)

lemma map_err_Inr [simp]: "map_err g m s = (s', Inr x) \<longleftrightarrow> m s = (s', Inr x)"
  by (auto simp: map_err_def split: prod.splits sum.splits)

lemma map_err_Inl [simp]: "map_err g m s = (s', Inl e) \<longleftrightarrow> (\<exists>e'. m s = (s', Inl e') \<and> e = g e')"
  by (auto simp: map_err_def split: prod.splits sum.splits)

lemma in_tx_Inr [simp]: "in_tx keep m s = (s', Inr x) \<longleftrightarrow> m s = (s', Inr x)"
  by (auto simp: in_tx_def split: prod.splits sum.splits)

lemma in_tx_Inl: "in_tx keep m s = (s', Inl e) \<longleftrightarrow> (\<exists>t. m s = (t, Inl e) \<and> s' = keep s t)"
  by (auto simp: in_tx_def split: prod.splits sum.splits)

lemma act_bind_step: "m s = (s', Inr x) \<Longrightarrow> act_bind m f s = f x s'"
  by (simp add: act_bind_def)

lemma act_bind_stop: "m s = (s', Inl e) \<Longrightarrow> act_bind m f s = (s', Inl e)"
  by (simp add: act_bind_def)

lemma run_ok: "snd x = Inr y \<Longrightarrow> x = (fst x, Inr y)"
  by (cases x) simp

lemma run_err: "snd x = Inl e \<Longrightarrow> x = (fst x, Inl e)"
  by (cases x) simp

lemma zoom_Inr: "zoom get put wrap m s = (s', Inr x) \<longleftrightarrow> (\<exists>t. m (get s) = (t, Inr x) \<and> s' = put t s)"
  by (auto simp: zoom_def split: prod.splits sum.splits)

lemma zoom_Inl: "zoom get put wrap m s = (s', Inl f) \<longleftrightarrow> (\<exists>t e. m (get s) = (t, Inl e) \<and> s' = put t s \<and> f = wrap e)"
  by (auto simp: zoom_def split: prod.splits sum.splits)

lemmas act_runs = act_bind_Inr act_bind_Inl in_tx_Inl

definition keeps :: "('s \<Rightarrow> bool) \<Rightarrow> ('s, 'e, 'a) act \<Rightarrow> bool" where
  "keeps I m \<longleftrightarrow> (\<forall>s. I s \<longrightarrow> I (fst (m s)))"

lemma keepsI: "(\<And>s s' r. I s \<Longrightarrow> m s = (s', r) \<Longrightarrow> I s') \<Longrightarrow> keeps I m"
  by (auto simp: keeps_def) (metis prod.collapse)

lemma keepsD: "keeps I m \<Longrightarrow> I s \<Longrightarrow> m s = (s', r) \<Longrightarrow> I s'"
  by (auto simp: keeps_def dest: spec [of _ s])

lemma keeps_ret [keeps_intros]: "keeps I (ret x)"
  by (simp add: keeps_def act_defs)

lemma keeps_fail [keeps_intros]: "keeps I (fail e)"
  by (simp add: keeps_def act_defs)

lemma keeps_gets [keeps_intros]: "keeps I (gets f)"
  by (simp add: keeps_def act_defs)

lemma keeps_of_sum [keeps_intros]: "keeps I (of_sum r)"
  by (simp add: keeps_def act_defs)

lemma keeps_ensure [keeps_intros]: "keeps I (ensure c e)"
  by (simp add: keeps_def act_defs)

lemma keeps_of_option [keeps_intros]: "keeps I (of_option e x)"
  by (simp add: keeps_def act_defs split: option.splits)

lemma keeps_modify [keeps_intros]: "(\<And>s. I s \<Longrightarrow> I (f s)) \<Longrightarrow> keeps I (modify f)"
  by (auto simp: keeps_def act_defs)

lemma keeps_bind [keeps_intros]:
  "keeps I m \<Longrightarrow> (\<And>x. keeps I (f x)) \<Longrightarrow> keeps I (act_bind m f)"
  by (auto simp: keeps_def act_bind_def split: prod.splits sum.splits)

lemma keeps_attempt [keeps_intros]: "keeps I m \<Longrightarrow> keeps I (attempt m)"
  by (auto simp: keeps_def act_defs split: prod.splits)

lemma keeps_map_err [keeps_intros]: "keeps I m \<Longrightarrow> keeps I (map_err g m)"
  by (auto simp: keeps_def act_defs split: prod.splits sum.splits)

lemma keeps_if [keeps_intros]:
  "(c \<Longrightarrow> keeps I m) \<Longrightarrow> (\<not> c \<Longrightarrow> keeps I n) \<Longrightarrow> keeps I (if c then m else n)"
  by simp

lemma keeps_option [keeps_intros]:
  "(x = None \<Longrightarrow> keeps I m) \<Longrightarrow> (\<And>y. x = Some y \<Longrightarrow> keeps I (g y))
    \<Longrightarrow> keeps I (case x of None \<Rightarrow> m | Some y \<Rightarrow> g y)"
  by (simp split: option.splits)

lemma keeps_sum [keeps_intros]:
  "(\<And>e. r = Inl e \<Longrightarrow> keeps I (f e)) \<Longrightarrow> (\<And>y. r = Inr y \<Longrightarrow> keeps I (h y))
    \<Longrightarrow> keeps I (case r of Inl e \<Rightarrow> f e | Inr y \<Rightarrow> h y)"
  by (simp split: sum.splits)

lemma keeps_pair [keeps_intros]:
  "(\<And>a b. p = (a, b) \<Longrightarrow> keeps I (k a b)) \<Longrightarrow> keeps I (case p of (a, b) \<Rightarrow> k a b)"
  by (simp split: prod.splits)

lemma keeps_let [keeps_intros]: "(\<And>v. v = t \<Longrightarrow> keeps I (j v)) \<Longrightarrow> keeps I (Let t j)"
  by simp

section \<open>The struct-tag validator\<close>

text \<open>
  The Go structs carry their rules as tags (\<open>validate:"required,gt=0"\<close>), which a library
  outside the repository checks. A tag and a value are data here (a map is what its length
  is, \<open>VMap\<close>) and the library is a
  parameter \<open>V\<close> of every definition that validates; \<open>documented V\<close> states what its
  documentation says of the tags the properties depend on.
\<close>

datatype vval = VInt i64 | VStr string | VTime time | VMap nat

datatype vtag = Required | Len nat | Max nat | Min nat | Gt int | Gte int | Uppercase
  | OneOf "string list"

type_synonym validator = "vtag \<Rightarrow> vval \<Rightarrow> bool"
type_synonym vfield = "vtag list \<times> vval"

definition struct_ok :: "validator \<Rightarrow> vfield list \<Rightarrow> bool" where
  "struct_ok V = list_all (\<lambda>(tags, v). list_all (\<lambda>t. V t v) tags)"

lemma struct_ok_simps [simp]:
  "struct_ok V []"
  "struct_ok V ((tags, v) # fs) \<longleftrightarrow> (\<forall>t \<in> set tags. V t v) \<and> struct_ok V fs"
  by (auto simp: struct_ok_def list_all_iff)

definition documented :: "validator \<Rightarrow> bool" where
  "documented V \<longleftrightarrow>
    (\<forall>n. V Required (VInt n) \<longleftrightarrow> n \<noteq> 0) \<and>
    (\<forall>s. V Required (VStr s) \<longleftrightarrow> s \<noteq> []) \<and>
    (\<forall>n k. V (Gt k) (VInt n) \<longleftrightarrow> k < sint n) \<and>
    (\<forall>n k. V (Gte k) (VInt n) \<longleftrightarrow> k \<le> sint n)"

fun doc_validator :: validator where
  "doc_validator Required (VInt n) = (n \<noteq> 0)"
| "doc_validator Required (VStr s) = (s \<noteq> [])"
| "doc_validator Required (VTime t) = (t \<noteq> 0)"
| "doc_validator (Len k) (VStr s) = (length s = k)"
| "doc_validator (Max k) (VStr s) = (length s \<le> k)"
| "doc_validator (Min k) (VStr s) = (k \<le> length s)"
| "doc_validator (Gt k) (VInt n) = (k < sint n)"
| "doc_validator (Gte k) (VInt n) = (k \<le> sint n)"
| "doc_validator Required (VMap n) = True"
| "doc_validator (Min k) (VMap n) = (k \<le> n)"
| "doc_validator Uppercase (VStr s) = list_all (\<lambda>c. c \<in> set ''ABCDEFGHIJKLMNOPQRSTUVWXYZ'') s"
| "doc_validator (OneOf xs) (VStr s) = (s \<in> set xs)"
| "doc_validator _ _ = False"

lemma documented_doc_validator: "documented doc_validator"
  by (simp add: documented_def)

lemma documentedD:
  assumes "documented V"
  shows "V Required (VInt n) \<longleftrightarrow> n \<noteq> 0" "V Required (VStr s) \<longleftrightarrow> s \<noteq> []"
    "V (Gt k) (VInt n) \<longleftrightarrow> k < sint n" "V (Gte k) (VInt n) \<longleftrightarrow> k \<le> sint n"
  using assms by (simp_all add: documented_def)

section \<open>Decimal numerals\<close>

text \<open>\<open>fmt.Sprintf\<close> of a \<open>%d\<close>: the decimal digits of an int64, with a sign.\<close>

definition digit :: "nat \<Rightarrow> char" where
  "digit d = ''0123456789'' ! d"

fun dec_nat :: "nat \<Rightarrow> string" where
  "dec_nat n = (if n < 10 then [digit n] else dec_nat (n div 10) @ [digit (n mod 10)])"

declare dec_nat.simps [simp del]

definition dec_i64 :: "i64 \<Rightarrow> string" where
  "dec_i64 x = (if sint x < 0 then CHR ''-'' # dec_nat (nat (- sint x)) else dec_nat (nat (sint x)))"

end
