(* ===== verification/OpaqueId.thy ===== *)
theory OpaqueId
  imports Prelude "HOL-Library.Char_ord"
begin

unbundle bit_operations_syntax

text \<open>
  The opaque ids of the wire (\<open>internal/shared/id\<close>): a database key goes out as its
  kind's prefix, an underscore and thirteen base32 characters of the key under a four-round
  Feistel network, and comes back through the inverse.

  AES (\<open>aes.Block.Encrypt\<close>) and SHA-256 are the functions \<open>aes\<close> and \<open>sha\<close> on bytes,
  parameters of every definition: nothing here depends on what they compute. The
  process-wide cipher and the memo table of tweaks are passed explicitly.
\<close>

type_synonym u8 = "8 word"
type_synonym u32 = "32 word"
type_synonym u64 = "64 word"

datatype id_err = InvalidID | CipherNotInstalled

section \<open>The Feistel network\<close>

definition rounds :: nat where
  "rounds = 4"

definition be32 :: "u32 \<Rightarrow> u8 list" where
  "be32 x = [ucast (drop_bit 24 x), ucast (drop_bit 16 x), ucast (drop_bit 8 x), ucast x]"

definition of_be32 :: "u8 list \<Rightarrow> u32" where
  "of_be32 bs = push_bit 24 (ucast (bs ! 0)) OR push_bit 16 (ucast (bs ! 1))
     OR push_bit 8 (ucast (bs ! 2)) OR ucast (bs ! 3)"

text \<open>
  The round function: the block handed to AES is the round, the eight tweak bytes, the half
  in big-endian order and three zero bytes; the first four bytes that come back are the mask.
\<close>

definition feistel_f :: "(u8 list \<Rightarrow> u8 list) \<Rightarrow> u8 list \<Rightarrow> nat \<Rightarrow> u32 \<Rightarrow> u32" where
  "feistel_f aes tweak round x =
     of_be32 (take 4 (aes ([of_nat round] @ tweak @ be32 x @ replicate 3 0)))"

definition split64 :: "u64 \<Rightarrow> u32 \<times> u32" where
  "split64 v = (ucast (drop_bit 32 v), ucast v)"

definition join64 :: "u32 \<times> u32 \<Rightarrow> u64" where
  "join64 = (\<lambda>(l, r). push_bit 32 (ucast l) OR ucast r)"

definition encrypt_round :: "(nat \<Rightarrow> u32 \<Rightarrow> u32) \<Rightarrow> nat \<Rightarrow> u32 \<times> u32 \<Rightarrow> u32 \<times> u32" where
  "encrypt_round f round = (\<lambda>(l, r). (r, l XOR f round r))"

definition decrypt_round :: "(nat \<Rightarrow> u32 \<Rightarrow> u32) \<Rightarrow> nat \<Rightarrow> u32 \<times> u32 \<Rightarrow> u32 \<times> u32" where
  "decrypt_round f round = (\<lambda>(l, r). (r XOR f round l, l))"

definition encrypt :: "(u8 list \<Rightarrow> u8 list) \<Rightarrow> u8 list \<Rightarrow> u64 \<Rightarrow> u64" where
  "encrypt aes tweak v =
     join64 (fold (encrypt_round (feistel_f aes tweak)) [0..<rounds] (split64 v))"

definition decrypt :: "(u8 list \<Rightarrow> u8 list) \<Rightarrow> u8 list \<Rightarrow> u64 \<Rightarrow> u64" where
  "decrypt aes tweak v =
     join64 (fold (decrypt_round (feistel_f aes tweak)) (rev [0..<rounds]) (split64 v))"

lemma u32_high_bits [simp]: "\<not> bit (b :: u32) (32 + n)"
  using bit_imp_le_length [of b "32 + n"] by auto

lemma split64_join64 [simp]: "split64 (join64 p) = p"
  by (cases p)
    (auto simp: split64_def join64_def bit_simps intro!: bit_word_eqI)

lemma join64_split64 [simp]: "join64 (split64 v) = v"
  by (auto simp: split64_def join64_def intro!: bit_word_eqI simp: bit_simps)

lemma decrypt_round_encrypt_round [simp]: "decrypt_round f i (encrypt_round f i p) = p"
  by (cases p) (auto simp: encrypt_round_def decrypt_round_def intro!: bit_word_eqI simp: bit_simps)

lemma encrypt_round_decrypt_round [simp]: "encrypt_round f i (decrypt_round f i p) = p"
  by (cases p) (auto simp: encrypt_round_def decrypt_round_def intro!: bit_word_eqI simp: bit_simps)

lemma fold_rev_inverse:
  assumes "\<And>i p. g i (h i p) = p"
  shows "fold g (rev xs) (fold h xs p) = p"
  using assms by (induction xs arbitrary: p) simp_all

lemma decrypt_encrypt [simp]: "decrypt aes tweak (encrypt aes tweak v) = v"
  by (simp add: decrypt_def encrypt_def fold_rev_inverse)

lemma encrypt_decrypt [simp]: "encrypt aes tweak (decrypt aes tweak v) = v"
  using fold_rev_inverse [of "encrypt_round f" "decrypt_round f" "rev xs" for f xs]
  by (simp add: decrypt_def encrypt_def)

section \<open>Base32\<close>

definition alphabet :: string where
  "alphabet = ''0123456789abcdefghjkmnpqrstvwxyz''"

definition encodedLen :: nat where
  "encodedLen = 13"

text \<open>The loop writes \<open>out[i]\<close> from the last position to the first, taking five bits at a time.\<close>

fun encode_loop :: "nat \<Rightarrow> u64 \<Rightarrow> string \<Rightarrow> string" where
  "encode_loop 0 v out = out"
| "encode_loop (Suc i) v out =
     encode_loop i (drop_bit 5 v) (alphabet ! unat (v AND 31) # out)"

definition encodeBase32 :: "u64 \<Rightarrow> string" where
  "encodeBase32 v = encode_loop encodedLen v []"

text \<open>
  The decode table: the alphabet, its letters in upper case too, and the aliases a person
  may write for one and zero. An unset entry is \<open>-1\<close>.
\<close>

definition decodeTable :: "char \<Rightarrow> int" where
  "decodeTable =
     fold (\<lambda>c t. t(c := 0)) ''oO''
      (fold (\<lambda>c t. t(c := 1)) ''iIlL''
        (fold (\<lambda>(i, c) t.
            (let t' = t(c := int i)
             in if CHR ''a'' \<le> c \<and> c \<le> CHR ''z''
                then t'(char_of (of_char c - of_char CHR ''a'' + of_char CHR ''A'' :: nat) := int i)
                else t'))
          (enumerate 0 alphabet) (\<lambda>_. -1)))"

fun decode_loop :: "nat \<Rightarrow> string \<Rightarrow> u64 \<Rightarrow> id_err + u64" where
  "decode_loop i [] v = Inr v"
| "decode_loop i (c # s) v =
     (let d = decodeTable c
      in if d < 0 then Inl InvalidID
         else if i = 0 \<and> d > 15 then Inl InvalidID
         else decode_loop (Suc i) s (push_bit 5 v OR of_int d))"

definition decodeBase32 :: "string \<Rightarrow> id_err + u64" where
  "decodeBase32 s = (if length s \<noteq> encodedLen then Inl InvalidID else decode_loop 0 s 0)"

lemma decodeTable_alphabet: "\<forall>d \<in> set [0..<32]. decodeTable (alphabet ! d) = int d"
  by code_simp


lemma decodeTable_digit: "d < 32 \<Longrightarrow> decodeTable (alphabet ! d) = int d"
  using decodeTable_alphabet by auto

lemma unat_and_31: "unat (v AND 31 :: u64) < 32"
proof -
  have "unat (v AND 31) \<le> unat (31 :: u64)"
    by (rule word_and_le1 [THEN word_le_nat_alt [THEN iffD1]])
  then show ?thesis by simp
qed

lemma length_encode_loop [simp]: "length (encode_loop n v out) = n + length out"
  by (induction n arbitrary: v out) simp_all

text \<open>What the digits written so far are worth, and that the decoder reads them back.\<close>

fun digits_of :: "nat \<Rightarrow> u64 \<Rightarrow> nat list" where
  "digits_of 0 v = []"
| "digits_of (Suc n) v = digits_of n (drop_bit 5 v) @ [unat (v AND 31)]"

lemma encode_loop_digits: "encode_loop n v out = map ((!) alphabet) (digits_of n v) @ out"
  by (induction n arbitrary: v out) simp_all

lemma digits_of_bound: "d \<in> set (digits_of n v) \<Longrightarrow> d < 32"
  by (induction n arbitrary: v) (auto simp: unat_and_31)

lemma decode_loop_Suc:
  "\<forall>d \<in> set ds. d < 32 \<Longrightarrow>
    decode_loop (Suc i) (map ((!) alphabet) ds) w = Inr (foldl (\<lambda>w d. push_bit 5 w OR of_nat d) w ds)"
  by (induction ds arbitrary: i w) (simp_all add: decodeTable_digit)

lemma foldl_digits_of:
  "foldl (\<lambda>w d. push_bit 5 w OR of_nat d) w (digits_of n v)
    = push_bit (5 * n) w OR take_bit (5 * n) (v :: u64)"
proof (induction n arbitrary: v)
  case 0
  show ?case by simp
next
  case (Suc n)
  have "v AND 31 = take_bit 5 v"
    by (simp add: take_bit_eq_mask mask_eq_exp_minus_1)
  then show ?case
    by (auto simp: Suc intro!: bit_word_eqI)
      (auto simp: bit_simps)
qed

lemma length_digits_of [simp]: "length (digits_of n v) = n"
  by (induction n arbitrary: v) simp_all

lemma decodeBase32_encodeBase32 [simp]: "decodeBase32 (encodeBase32 v) = Inr v"
proof -
  obtain d ds where ds: "digits_of 13 v = d # ds"
    using length_digits_of [of 13 v] by (cases "digits_of 13 v") auto
  then have first: "d = unat (drop_bit 60 v AND 31)"
    by (simp add: eval_nat_numeral)
  have "drop_bit 60 v AND 31 = take_bit 5 (drop_bit 60 v)"
    by (simp add: take_bit_eq_mask mask_eq_exp_minus_1)
  then have "drop_bit 60 v AND 31 = drop_bit 60 v"
    by (simp add: take_bit_drop_bit take_bit_word_eq_self)
  moreover have "unat (drop_bit 60 v) \<le> 15"
  proof -
    have "unat (drop_bit 60 v) = unat v div 2 ^ 60"
      using unat_drop_bit_eq [of 60 v] drop_bit_eq_div [of 60 "unat v"] by (rule trans)
    moreover have "unat v < 2 ^ 64" using unsigned_less [of v] by simp
    ultimately show ?thesis by simp
  qed
  ultimately have small: "d \<le> 15" using first by simp
  have bounds: "\<forall>d \<in> set (d # ds). d < 32"
    using digits_of_bound [of _ 13 v] by (simp add: ds)
  have "encodeBase32 v = map ((!) alphabet) (d # ds)"
    by (simp add: encodeBase32_def encode_loop_digits encodedLen_def ds)
  moreover have "length (encodeBase32 v) = encodedLen"
    by (simp add: encodeBase32_def)
  moreover have "decode_loop 0 (map ((!) alphabet) (d # ds)) 0
      = Inr (foldl (\<lambda>w d. push_bit 5 w OR of_nat d) 0 (digits_of 13 v))"
    using bounds small by (simp add: ds decodeTable_digit decode_loop_Suc)
  ultimately show ?thesis
    by (simp add: decodeBase32_def foldl_digits_of take_bit_word_eq_self)
qed

lemma encodeBase32_inj: "encodeBase32 v = encodeBase32 w \<longleftrightarrow> v = w"
  by (metis decodeBase32_encodeBase32 sum.inject(2))

section \<open>Tweaks and the installed cipher\<close>

type_synonym codec = "u8 list \<Rightarrow> u8 list"

definition tweak_of :: "(string \<Rightarrow> u8 list) \<Rightarrow> string \<Rightarrow> u8 list" where
  "tweak_of sha prefix = take 8 (sha prefix)"

text \<open>The memo table \<open>tweaks\<close> is read and filled as the code does; it never changes an answer.\<close>

definition tweakOf ::
  "(string \<Rightarrow> u8 list) \<Rightarrow> (string \<rightharpoonup> u8 list) \<Rightarrow> string \<Rightarrow> u8 list \<times> (string \<rightharpoonup> u8 list)" where
  "tweakOf sha tweaks prefix =
     (case tweaks prefix of
        Some t \<Rightarrow> (t, tweaks)
      | None \<Rightarrow> (let t = take 8 (sha prefix) in (t, tweaks(prefix \<mapsto> t))))"

definition memo_ok :: "(string \<Rightarrow> u8 list) \<Rightarrow> (string \<rightharpoonup> u8 list) \<Rightarrow> bool" where
  "memo_ok sha tweaks \<longleftrightarrow> (\<forall>p t. tweaks p = Some t \<longrightarrow> t = tweak_of sha p)"

lemma tweakOf_transparent:
  "memo_ok sha tweaks \<Longrightarrow>
    fst (tweakOf sha tweaks prefix) = tweak_of sha prefix \<and> memo_ok sha (snd (tweakOf sha tweaks prefix))"
  by (auto simp: tweakOf_def memo_ok_def tweak_of_def Let_def split: option.splits)

definition SetCipher :: "(u8 list \<rightharpoonup> codec) \<Rightarrow> u8 list \<Rightarrow> codec option \<Rightarrow> codec option \<times> bool" where
  "SetCipher newCipher key current =
     (case newCipher key of None \<Rightarrow> (current, False) | Some block \<Rightarrow> (Some block, True))"

definition load :: "codec option \<Rightarrow> id_err + codec" where
  "load current = (case current of None \<Rightarrow> Inl CipherNotInstalled | Some c \<Rightarrow> Inr c)"

definition encode :: "codec option \<Rightarrow> (string \<Rightarrow> u8 list) \<Rightarrow> string \<Rightarrow> u64 \<Rightarrow> id_err + string" where
  "encode current sha prefix v =
     (case load current of
        Inl e \<Rightarrow> Inl e
      | Inr c \<Rightarrow> Inr (encodeBase32 (encrypt c (tweak_of sha prefix) v)))"

definition decode :: "codec option \<Rightarrow> (string \<Rightarrow> u8 list) \<Rightarrow> string \<Rightarrow> string \<Rightarrow> id_err + u64" where
  "decode current sha prefix s =
     (case decodeBase32 s of
        Inl e \<Rightarrow> Inl e
      | Inr raw \<Rightarrow> (case load current of
          Inl e \<Rightarrow> Inl e
        | Inr c \<Rightarrow> Inr (decrypt c (tweak_of sha prefix) raw)))"

section \<open>Ids\<close>

text \<open>One constructor per empty struct of \<open>kinds.go\<close>.\<close>

datatype kind =
    K_Account | K_Contact | K_Device | K_Notification | K_IdentityDocument | K_Category
  | K_Listing | K_Variant | K_CartItem | K_DraftOrder | K_Transport | K_Order | K_Item
  | K_Refund | K_Offer | K_PaymentSession | K_Transaction | K_BankAccount | K_Feedback
  | K_Review | K_ReviewReply | K_Ticket | K_Conversation | K_Message | K_Resource

fun Prefix :: "kind \<Rightarrow> string" where
  "Prefix K_Account = ''acc''"
| "Prefix K_Contact = ''ctc''"
| "Prefix K_Device = ''dvc''"
| "Prefix K_Notification = ''ntf''"
| "Prefix K_IdentityDocument = ''idd''"
| "Prefix K_Category = ''cat''"
| "Prefix K_Listing = ''lst''"
| "Prefix K_Variant = ''vrn''"
| "Prefix K_CartItem = ''crt''"
| "Prefix K_DraftOrder = ''drf''"
| "Prefix K_Transport = ''trp''"
| "Prefix K_Order = ''ord''"
| "Prefix K_Item = ''itm''"
| "Prefix K_Refund = ''rfd''"
| "Prefix K_Offer = ''ofr''"
| "Prefix K_PaymentSession = ''pay''"
| "Prefix K_Transaction = ''txn''"
| "Prefix K_BankAccount = ''bnk''"
| "Prefix K_Feedback = ''fbk''"
| "Prefix K_Review = ''rvw''"
| "Prefix K_ReviewReply = ''rpl''"
| "Prefix K_Ticket = ''tkt''"
| "Prefix K_Conversation = ''cnv''"
| "Prefix K_Message = ''msg''"
| "Prefix K_Resource = ''res''"

definition FormatOpaque :: "codec option \<Rightarrow> (string \<Rightarrow> u8 list) \<Rightarrow> string \<Rightarrow> i64 \<Rightarrow> id_err + string" where
  "FormatOpaque current sha prefix n =
     (case encode current sha prefix n of Inl e \<Rightarrow> Inl e | Inr s \<Rightarrow> Inr (prefix @ ''_'' @ s))"

definition cut_prefix :: "string \<Rightarrow> string \<Rightarrow> string option" where
  "cut_prefix s p = (if take (length p) s = p then Some (drop (length p) s) else None)"

definition ParseOpaque :: "codec option \<Rightarrow> (string \<Rightarrow> u8 list) \<Rightarrow> string \<Rightarrow> string \<Rightarrow> id_err + i64" where
  "ParseOpaque current sha prefix s =
     (case cut_prefix s (prefix @ ''_'') of
        None \<Rightarrow> Inl InvalidID
      | Some body \<Rightarrow>
          (case decode current sha prefix body of
             Inl e \<Rightarrow> Inl e
           | Inr n \<Rightarrow> if sint n \<le> 0 then Inl InvalidID else Inr n))"

definition id_String :: "codec option \<Rightarrow> (string \<Rightarrow> u8 list) \<Rightarrow> kind \<Rightarrow> i64 \<Rightarrow> id_err + string" where
  "id_String current sha k i = (if i = 0 then Inr [] else FormatOpaque current sha (Prefix k) i)"

definition Parse :: "codec option \<Rightarrow> (string \<Rightarrow> u8 list) \<Rightarrow> kind \<Rightarrow> string \<Rightarrow> id_err + i64" where
  "Parse current sha k s = ParseOpaque current sha (Prefix k) s"

text \<open>
  JSON: \<open>json_string\<close> is the decoder of a JSON string value (\<open>encoding/json/v2\<close>),
  \<open>None\<close> where it reports an error.
\<close>

definition MarshalJSON :: "codec option \<Rightarrow> (string \<Rightarrow> u8 list) \<Rightarrow> kind \<Rightarrow> i64 \<Rightarrow> id_err + string" where
  "MarshalJSON current sha k i =
     (if i = 0 then Inr ''null''
      else (case id_String current sha k i of
              Inl e \<Rightarrow> Inl e | Inr s \<Rightarrow> Inr ([CHR 0x22] @ s @ [CHR 0x22])))"

definition UnmarshalText :: "codec option \<Rightarrow> (string \<Rightarrow> u8 list) \<Rightarrow> kind \<Rightarrow> string \<Rightarrow> id_err + i64" where
  "UnmarshalText current sha k b = (if b = [] then Inr 0 else Parse current sha k b)"

definition UnmarshalJSON ::
  "codec option \<Rightarrow> (string \<Rightarrow> u8 list) \<Rightarrow> (string \<rightharpoonup> string) \<Rightarrow> kind \<Rightarrow> string \<Rightarrow> id_err + i64" where
  "UnmarshalJSON current sha json_string k b =
     (if b = ''null'' then Inr 0
      else (case json_string b of
              None \<Rightarrow> Inl InvalidID
            | Some s \<Rightarrow> UnmarshalText current sha k s))"

lemma cut_prefix_append [simp]: "cut_prefix (p @ s) p = Some s"
  by (simp add: cut_prefix_def)

lemma length_Prefix [simp]: "length (Prefix k) = 3"
  by (cases k) simp_all

lemma Prefix_inj: "Prefix k = Prefix k' \<longleftrightarrow> k = k'"
  by (cases k; cases k') simp_all

lemma cut_prefix_other_kind:
  "k \<noteq> k' \<Longrightarrow> cut_prefix (Prefix k @ ''_'' @ s) (Prefix k' @ ''_'') = None"
  by (auto simp: cut_prefix_def Prefix_inj)

lemma id_String_positive:
  "0 < sint i \<Longrightarrow>
    id_String (Some c) sha k i = Inr (Prefix k @ ''_'' @ encodeBase32 (encrypt c (tweak_of sha (Prefix k)) i))"
  by (auto simp: id_String_def FormatOpaque_def encode_def load_def)

lemma decode_loop_accepts: "decode_loop i b v = Inr w \<Longrightarrow> c \<in> set b \<Longrightarrow> 0 \<le> decodeTable c"
  by (induction i b v rule: decode_loop.induct) (auto simp: Let_def split: if_splits)

text \<open>The characters of a wire form, none of which JSON escapes.\<close>

definition plain_chars :: string where
  "plain_chars = ''_0123456789abcdefghijklmnopqrstuvwxyz''"

definition undoes_quotes :: "(string \<rightharpoonup> string) \<Rightarrow> bool" where
  "undoes_quotes json_string \<longleftrightarrow>
    (\<forall>s. set s \<subseteq> set plain_chars \<longrightarrow> json_string ([CHR 0x22] @ s @ [CHR 0x22]) = Some s)"

lemma Prefix_plain: "set (Prefix k) \<subseteq> set plain_chars"
  by (cases k) (simp_all add: plain_chars_def)

lemma encodeBase32_plain: "set (encodeBase32 v) \<subseteq> set plain_chars"
proof -
  have "set alphabet \<subseteq> set plain_chars" and "length alphabet = 32"
    by (simp_all add: alphabet_def plain_chars_def)
  moreover have "alphabet ! d \<in> set alphabet" if "d \<in> set (digits_of 13 v)" for d
    using digits_of_bound [OF that] \<open>length alphabet = 32\<close> by (intro nth_mem) simp
  ultimately show ?thesis
    by (auto simp: encodeBase32_def encode_loop_digits encodedLen_def)
qed

section \<open>Properties\<close>

text \<open>
  C36: an id that goes out comes back: whatever block cipher is installed and whatever the hash,
  parsing the wire form of a positive key under its own kind answers the key.
\<close>

theorem parse_format_roundtrip:
  assumes "0 < sint n"
  shows "\<exists>s. id_String (Some c) sha k n = Inr s \<and> Parse (Some c) sha k s = Inr n"
  using assms
  by (simp add: id_String_positive Parse_def ParseOpaque_def decode_def load_def
      cut_prefix_append [of "Prefix k @ ''_''", simplified])

theorem parse_format_roundtrip_witness:
  "\<exists>s. id_String (Some (\<lambda>bs. rev bs)) (\<lambda>p. replicate 8 7) K_Listing 42 = Inr s
    \<and> Parse (Some (\<lambda>bs. rev bs)) (\<lambda>p. replicate 8 7) K_Listing s = Inr 42"
  by (rule parse_format_roundtrip) simp

text \<open>
  C37: the wire form is injective and typed: two ids of one kind that print the same are the same
  key, and an id of one kind never parses as another, whatever the cipher.
\<close>

theorem id_String_injective_and_typed:
  assumes "0 < sint m" and "0 < sint n"
    and "id_String (Some c) sha k m = Inr s" and "id_String (Some c) sha k' n = Inr s'"
  shows "(s = s' \<longrightarrow> k = k' \<and> m = n) \<and> (k \<noteq> k' \<longrightarrow> Parse (Some c) sha k' s = Inl InvalidID)"
proof -
  have s: "s = Prefix k @ ''_'' @ encodeBase32 (encrypt c (tweak_of sha (Prefix k)) m)"
    and s': "s' = Prefix k' @ ''_'' @ encodeBase32 (encrypt c (tweak_of sha (Prefix k')) n)"
    using assms by (simp_all add: id_String_positive)
  have "encrypt c t m = encrypt c t n \<longleftrightarrow> m = n" for t
    by (metis decrypt_encrypt)
  then have "s = s' \<longrightarrow> k = k' \<and> m = n"
    by (auto simp: s s' append_eq_append_conv Prefix_inj encodeBase32_inj)
  moreover have "k \<noteq> k' \<longrightarrow> Parse (Some c) sha k' s = Inl InvalidID"
    using cut_prefix_other_kind [of k k'] by (simp add: s Parse_def ParseOpaque_def)
  ultimately show ?thesis ..
qed

theorem id_String_injective_and_typed_witness:
  "Parse (Some rev) (\<lambda>p. replicate 8 7) K_Order
     (Prefix K_Account @ ''_'' @ encodeBase32 (encrypt rev (replicate 8 7) 42)) = Inl InvalidID"
proof -
  have a: "id_String (Some rev) (\<lambda>p. replicate 8 7) K_Account 42
      = Inr (Prefix K_Account @ ''_'' @ encodeBase32 (encrypt rev (replicate 8 7) 42))"
    by (simp add: id_String_positive tweak_of_def del: Prefix.simps)
  have b: "id_String (Some rev) (\<lambda>p. replicate 8 7) K_Order 42
      = Inr (Prefix K_Order @ ''_'' @ encodeBase32 (encrypt rev (replicate 8 7) 42))"
    by (simp add: id_String_positive tweak_of_def del: Prefix.simps)
  show ?thesis
    using id_String_injective_and_typed [OF _ _ a b] by simp
qed



text \<open>
  JSON round trip: the JSON of an id, zero included, decodes to the id, for any JSON string
  decoder that undoes the quotes of a string with nothing to escape.
\<close>

theorem json_roundtrip:
  assumes "0 \<le> sint n" and "undoes_quotes json_string"
  shows "\<exists>b. MarshalJSON (Some c) sha k n = Inr b \<and> UnmarshalJSON (Some c) sha json_string k b = Inr n"
proof (cases "n = 0")
  case True
  then show ?thesis by (simp add: MarshalJSON_def UnmarshalJSON_def)
next
  case False
  then have "sint n \<noteq> 0" by simp
  with assms(1) have pos: "0 < sint n" by linarith
  let ?s = "(Prefix k @ ''_'') @ encodeBase32 (encrypt c (tweak_of sha (Prefix k)) n)"
  have str: "id_String (Some c) sha k n = Inr ?s"
    using pos by (simp add: id_String_positive)
  have "set ?s \<subseteq> set plain_chars"
    using encodeBase32_plain [of "encrypt c (tweak_of sha (Prefix k)) n"] Prefix_plain [of k]
    by (auto simp: plain_chars_def)
  then have "json_string ([CHR 0x22] @ ?s @ [CHR 0x22]) = Some ?s"
    using assms(2) unfolding undoes_quotes_def by blast
  moreover have "Parse (Some c) sha k ?s = Inr n"
    using pos unfolding Parse_def ParseOpaque_def cut_prefix_append by (simp add: decode_def load_def)
  ultimately show ?thesis
    using False str by (auto simp: MarshalJSON_def UnmarshalJSON_def UnmarshalText_def)
qed

theorem json_roundtrip_witness:
  "\<exists>b. MarshalJSON (Some rev) (\<lambda>p. replicate 8 7) K_Order 7 = Inr b
     \<and> UnmarshalJSON (Some rev) (\<lambda>p. replicate 8 7) (\<lambda>b. Some (butlast (tl b))) K_Order b = Inr 7"
  by (rule json_roundtrip) (simp_all add: undoes_quotes_def)

end
