(* ===== verification/FinanceDomain.thy ===== *)
theory FinanceDomain
  imports Prelude
begin

text \<open>
  The finance module's entities and rules (\<open>internal/module/finance/domain\<close>): the wallet and
  its signed movements, the payment session and the legs tendered under it, as the pure
  functions of the Go package. A method with a pointer receiver answers the entity it leaves
  behind together with its error or value, since some of them write before they refuse.
\<close>

section \<open>Errors\<close>

text \<open>The sentinel errors of \<open>errors.go\<close>; what reaches a handler from elsewhere keeps its own constructor.\<close>

datatype finance_err =
    ErrSessionNotFound | ErrWalletNotFound | ErrSessionExpiryInvalid | ErrInsufficientBalance
  | ErrEmptyMovement | ErrMovementAlreadyPosted
  | ErrSessionSettled | ErrSessionExpired | ErrSessionNotPayable
  | ErrSessionKindNotPayable | ErrSessionKindNotCancellable | ErrReturnURLNotAllowed
  | ErrLegAlreadyBooked | ErrTransactionNotFound | ErrTransactionSettled
  | ErrTransactionStatusInvalid | ErrChargeAmountInvalid | ErrReversalNeedsSuccess
  | ErrPaymentOptionUnknown
  | ErrBankAccountNotFound | ErrBankCodeInvalid | ErrAccountNumberInvalid | ErrBankAccountInUse
  | ErrWithdrawalNotFound | ErrWithdrawalSettled | ErrPayeeUnverified | ErrRejectionNeedsReason
  | ErrTaxInfoNotFound | ErrTaxCodeInvalid | ErrTaxInfoSettled | ErrTaxCodeTaken
  | ErrAdminRequired
  | FinValidation
  | FinDatabase string
  | FinInvalidID
  | FinOptionProviderUnknown
  | FinAccounts string
  | FinRail string
  | FinDecode

section \<open>The wallet\<close>

datatype wallet_kind =
    WalletKindTopup | WalletKindEscrowHold | WalletKindEscrowRelease | WalletKindPayout
  | WalletKindRefund | WalletKindWithdrawal | WalletKindFee | WalletKindAdjustment

fun wallet_kind_str :: "wallet_kind \<Rightarrow> string" where
  "wallet_kind_str WalletKindTopup = ''topup''"
| "wallet_kind_str WalletKindEscrowHold = ''escrow-hold''"
| "wallet_kind_str WalletKindEscrowRelease = ''escrow-release''"
| "wallet_kind_str WalletKindPayout = ''payout''"
| "wallet_kind_str WalletKindRefund = ''refund''"
| "wallet_kind_str WalletKindWithdrawal = ''withdrawal''"
| "wallet_kind_str WalletKindFee = ''fee''"
| "wallet_kind_str WalletKindAdjustment = ''adjustment''"

record wallet =
  w_account :: i64
  w_currency :: string
  w_available :: i64
  w_held :: i64

definition wallet_Total :: "wallet \<Rightarrow> i64" where
  "wallet_Total w = w_available w + w_held w"

definition CanSpend :: "wallet \<Rightarrow> i64 \<Rightarrow> bool" where
  "CanSpend w amount \<longleftrightarrow> 0 < sint amount \<and> sint amount \<le> sint (w_available w)"

record movement =
  m_account :: i64
  m_currency :: string
  m_seq :: i64
  m_kind :: wallet_kind
  m_available_delta :: i64
  m_held_delta :: i64
  m_available_after :: i64
  m_held_after :: i64
  m_group :: "i64 option"
  m_ref_type :: "string option"
  m_ref_id :: "i64 option"
  m_key :: "string option"
  m_note :: string

record transfer =
  t_kind :: wallet_kind
  t_available_delta :: i64
  t_held_delta :: i64
  t_group :: "i64 option"
  t_ref_type :: "string option"
  t_ref_id :: "i64 option"
  t_key :: "string option"
  t_note :: string

text \<open>The \<open>validate\<close> tags of \<open>Movement\<close>.\<close>

definition movement_fields :: "movement \<Rightarrow> vfield list" where
  "movement_fields m =
    [([Required], VInt (m_account m)),
     ([Required, Len 3], VStr (m_currency m)),
     ([Required, Gt 0], VInt (m_seq m)),
     ([Required, OneOf [''topup'', ''escrow-hold'', ''escrow-release'', ''payout'', ''refund'',
        ''withdrawal'', ''fee'', ''adjustment'']], VStr (wallet_kind_str (m_kind m))),
     ([Gte 0], VInt (m_available_after m)),
     ([Gte 0], VInt (m_held_after m))]"

text \<open>
  \<open>Apply\<close>: the sums wrap as Go's do, the balances are written before the ledger row is
  validated, and a refused row leaves them written on the entity (the adapter drops it).
\<close>

definition Apply :: "validator \<Rightarrow> transfer \<Rightarrow> i64 \<Rightarrow> wallet \<Rightarrow> wallet \<times> (finance_err + movement)" where
  "Apply V t seq w =
    (if t_available_delta t = 0 \<and> t_held_delta t = 0 then (w, Inl ErrEmptyMovement)
     else
       let available = w_available w + t_available_delta t;
           held = w_held w + t_held_delta t
       in if sint available < 0 \<or> sint held < 0 then (w, Inl ErrInsufficientBalance)
          else
            let w' = w\<lparr>w_available := available, w_held := held\<rparr>;
                m = \<lparr>m_account = w_account w, m_currency = w_currency w, m_seq = seq,
                     m_kind = t_kind t,
                     m_available_delta = t_available_delta t, m_held_delta = t_held_delta t,
                     m_available_after = available, m_held_after = held,
                     m_group = t_group t, m_ref_type = t_ref_type t, m_ref_id = t_ref_id t,
                     m_key = t_key t, m_note = t_note t\<rparr>
            in if struct_ok V (movement_fields m) then (w', Inr m) else (w', Inl FinValidation))"

text \<open>What a movement points at, and the constructors of the movements the marketplace makes.\<close>

record ref =
  ref_Kind :: string
  ref_Key :: i64

definition RefOrder :: string where "RefOrder = ''order''"
definition RefPaymentSession :: string where "RefPaymentSession = ''payment-session''"

definition OrderRef :: "i64 \<Rightarrow> ref" where
  "OrderRef orderID = \<lparr>ref_Kind = RefOrder, ref_Key = orderID\<rparr>"

definition SessionRef :: "i64 \<Rightarrow> ref" where
  "SessionRef sessionID = \<lparr>ref_Kind = RefPaymentSession, ref_Key = sessionID\<rparr>"

definition ref_Type :: "ref \<Rightarrow> string option" where
  "ref_Type r = (if ref_Kind r = [] then None else Some (ref_Kind r))"

definition ref_ID :: "ref \<Rightarrow> i64 option" where
  "ref_ID r = (if ref_Key r = 0 then None else Some (ref_Key r))"

definition keyOf :: "string \<Rightarrow> string option" where
  "keyOf s = (if s = [] then None else Some s)"

definition transfer_of ::
  "wallet_kind \<Rightarrow> i64 \<Rightarrow> i64 \<Rightarrow> string option \<Rightarrow> i64 option \<Rightarrow> string option \<Rightarrow> string \<Rightarrow> transfer" where
  "transfer_of kind available_delta held_delta rtype rid key note =
    \<lparr>t_kind = kind, t_available_delta = available_delta, t_held_delta = held_delta,
     t_group = None, t_ref_type = rtype, t_ref_id = rid, t_key = key, t_note = note\<rparr>"

definition Hold :: "i64 \<Rightarrow> ref \<Rightarrow> string \<Rightarrow> string \<Rightarrow> transfer" where
  "Hold amount r key note =
    transfer_of WalletKindEscrowHold (- amount) amount (ref_Type r) (ref_ID r) (keyOf key) note"

definition Release :: "i64 \<Rightarrow> ref \<Rightarrow> string \<Rightarrow> string \<Rightarrow> transfer" where
  "Release amount r key note =
    transfer_of WalletKindEscrowRelease amount (- amount) (ref_Type r) (ref_ID r) (keyOf key) note"

definition Credit :: "wallet_kind \<Rightarrow> i64 \<Rightarrow> ref \<Rightarrow> string \<Rightarrow> string \<Rightarrow> transfer" where
  "Credit kind amount r key note =
    transfer_of kind amount 0 (ref_Type r) (ref_ID r) (keyOf key) note"

definition Debit :: "wallet_kind \<Rightarrow> i64 \<Rightarrow> ref \<Rightarrow> string \<Rightarrow> string \<Rightarrow> transfer" where
  "Debit kind amount r key note =
    transfer_of kind (- amount) 0 (ref_Type r) (ref_ID r) (keyOf key) note"

definition Adjust :: "i64 \<Rightarrow> i64 \<Rightarrow> string \<Rightarrow> string \<Rightarrow> transfer" where
  "Adjust available_delta held_delta key note =
    transfer_of WalletKindAdjustment available_delta held_delta None None (keyOf key) note"

lemmas transfer_defs = Hold_def Release_def Credit_def Debit_def Adjust_def transfer_of_def

section \<open>The payment session\<close>

datatype session_kind = KindBuyerCheckout | KindSellerPayout | KindWithdrawal

datatype status = StatusPending | StatusProcessing | StatusSuccess | StatusCancelled | StatusFailed

fun session_kind_str :: "session_kind \<Rightarrow> string" where
  "session_kind_str KindBuyerCheckout = ''buyer-checkout''"
| "session_kind_str KindSellerPayout = ''seller-payout''"
| "session_kind_str KindWithdrawal = ''withdrawal''"

fun status_str :: "status \<Rightarrow> string" where
  "status_str StatusPending = ''pending''"
| "status_str StatusProcessing = ''processing''"
| "status_str StatusSuccess = ''success''"
| "status_str StatusCancelled = ''cancelled''"
| "status_str StatusFailed = ''failed''"

text \<open>\<open>s_data\<close> is the JSON column, kept as the bytes it is; a zero party is the system.\<close>

record session =
  s_id :: i64
  s_kind :: session_kind
  s_status :: status
  s_from :: i64
  s_to :: i64
  s_note :: string
  s_currency :: string
  s_total :: i64
  s_data :: string
  s_paid_at :: "time option"
  s_expired_at :: time

definition session_fields :: "session \<Rightarrow> vfield list" where
  "session_fields s =
    [([Required], VInt (s_id s)),
     ([Required, OneOf [''buyer-checkout'', ''seller-payout'', ''withdrawal'']],
        VStr (session_kind_str (s_kind s))),
     ([Required, OneOf [''pending'', ''processing'', ''success'', ''cancelled'', ''failed'']],
        VStr (status_str (s_status s))),
     ([Required, Len 3], VStr (s_currency s)),
     ([Gt 0], VInt (s_total s)),
     ([Required], VTime (s_expired_at s))]"

definition NewSession ::
  "validator \<Rightarrow> time \<Rightarrow> i64 \<Rightarrow> session_kind \<Rightarrow> i64 \<Rightarrow> i64 \<Rightarrow> string \<Rightarrow> string \<Rightarrow> i64 \<Rightarrow> string \<Rightarrow> duration
    \<Rightarrow> finance_err + session" where
  "NewSession V now sid kind from to note currency totalAmount data expiresIn =
    (let s = \<lparr>s_id = sid, s_kind = kind, s_status = StatusPending, s_from = from, s_to = to,
              s_note = note, s_currency = currency, s_total = totalAmount,
              s_data = (if data = [] then ''{}'' else data),
              s_paid_at = None, s_expired_at = now + expiresIn\<rparr>
     in if expiresIn \<le> 0 then Inl ErrSessionExpiryInvalid
        else if struct_ok V (session_fields s) then Inr s else Inl FinValidation)"

definition session_Expired :: "session \<Rightarrow> time \<Rightarrow> bool" where
  "session_Expired s now \<longleftrightarrow> s_status s = StatusPending \<and> s_expired_at s < now"

definition session_Settled :: "session \<Rightarrow> bool" where
  "session_Settled s \<longleftrightarrow>
    s_status s = StatusSuccess \<or> s_status s = StatusCancelled \<or> s_status s = StatusFailed"

definition RailPayable :: "session \<Rightarrow> bool" where
  "RailPayable s \<longleftrightarrow> s_kind s = KindBuyerCheckout"

definition session_Resumable :: "session \<Rightarrow> time \<Rightarrow> bool" where
  "session_Resumable s now \<longleftrightarrow> \<not> session_Settled s \<and> now < s_expired_at s"

definition session_Charge :: "time \<Rightarrow> session \<Rightarrow> finance_err + session" where
  "session_Charge now s =
    (if \<not> RailPayable s then Inl ErrSessionKindNotPayable
     else if s_status s \<noteq> StatusPending then Inl ErrSessionNotPayable
     else if session_Expired s now then Inl ErrSessionExpired
     else Inr (s\<lparr>s_status := StatusProcessing\<rparr>))"

definition MarkPaid :: "time \<Rightarrow> session \<Rightarrow> finance_err + session" where
  "MarkPaid now s =
    (if session_Settled s then Inl ErrSessionSettled
     else Inr (s\<lparr>s_status := StatusSuccess, s_paid_at := Some now\<rparr>))"

definition MarkFailed :: "session \<Rightarrow> finance_err + session" where
  "MarkFailed s =
    (if session_Settled s then Inl ErrSessionSettled else Inr (s\<lparr>s_status := StatusFailed\<rparr>))"

definition ReopenForRetry :: "time \<Rightarrow> session \<Rightarrow> finance_err + session" where
  "ReopenForRetry now s =
    (if session_Settled s then Inl ErrSessionSettled
     else if session_Expired s now then Inl ErrSessionExpired
     else Inr (s\<lparr>s_status := StatusPending\<rparr>))"

definition session_Cancel :: "session \<Rightarrow> finance_err + session" where
  "session_Cancel s =
    (if session_Settled s then Inl ErrSessionSettled else Inr (s\<lparr>s_status := StatusCancelled\<rparr>))"

definition session_Involves :: "session \<Rightarrow> i64 \<Rightarrow> bool" where
  "session_Involves s account \<longleftrightarrow> account \<noteq> 0 \<and> (s_from s = account \<or> s_to s = account)"

section \<open>The legs of a session\<close>

record txn =
  x_id :: i64
  x_session :: i64
  x_status :: status
  x_note :: string
  x_error :: "string option"
  x_option :: string
  x_provider_ref :: "string option"
  x_checkout_url :: "string option"
  x_data :: string
  x_amount :: i64
  x_currency :: string
  x_reverses :: "i64 option"
  x_settled_at :: "time option"
  x_expired_at :: "time option"

definition txn_fields :: "txn \<Rightarrow> vfield list" where
  "txn_fields t =
    [([Required], VInt (x_id t)),
     ([Required], VInt (x_session t)),
     ([Required, OneOf [''pending'', ''success'', ''failed'']], VStr (status_str (x_status t))),
     ([Required], VStr (x_option t)),
     ([Required], VInt (x_amount t)),
     ([Required, Len 3], VStr (x_currency t))]"

definition jsonOrEmpty :: "string \<Rightarrow> string" where
  "jsonOrEmpty b = (if b = [] then ''{}'' else b)"

definition NewCharge ::
  "validator \<Rightarrow> i64 \<Rightarrow> i64 \<Rightarrow> string \<Rightarrow> string \<Rightarrow> i64 \<Rightarrow> string \<Rightarrow> finance_err + txn" where
  "NewCharge V tid session opt currency amount data =
    (if sint amount \<le> 0 then Inl ErrChargeAmountInvalid
     else
       let t = \<lparr>x_id = tid, x_session = session, x_status = StatusPending, x_note = ''charge'',
                x_error = None, x_option = opt, x_provider_ref = None, x_checkout_url = None,
                x_data = jsonOrEmpty data, x_amount = amount, x_currency = currency,
                x_reverses = None, x_settled_at = None, x_expired_at = None\<rparr>
       in if struct_ok V (txn_fields t) then Inr t else Inl FinValidation)"

definition txn_Resumable :: "txn \<Rightarrow> time \<Rightarrow> bool" where
  "txn_Resumable t now \<longleftrightarrow>
    \<not> (x_status t \<noteq> StatusPending \<or> x_checkout_url t = None \<or> x_checkout_url t = Some [])
    \<and> (case x_expired_at t of None \<Rightarrow> True | Some e \<Rightarrow> now < e)"

definition NewReversal :: "txn \<Rightarrow> i64 \<Rightarrow> i64 \<Rightarrow> finance_err + txn" where
  "NewReversal t tid amount =
    (if x_status t \<noteq> StatusSuccess then Inl ErrReversalNeedsSuccess
     else if sint amount \<le> 0 \<or> sint (x_amount t) < sint amount then Inl ErrChargeAmountInvalid
     else Inr \<lparr>x_id = tid, x_session = x_session t, x_status = StatusPending, x_note = ''reversal'',
               x_error = None, x_option = x_option t, x_provider_ref = None,
               x_checkout_url = None, x_data = ''{}'', x_amount = - amount,
               x_currency = x_currency t, x_reverses = Some (x_id t),
               x_settled_at = None, x_expired_at = None\<rparr>)"

definition txn_Settle :: "time \<Rightarrow> status \<Rightarrow> string \<Rightarrow> string \<Rightarrow> txn \<Rightarrow> finance_err + txn" where
  "txn_Settle now st providerRef failure t =
    (if x_status t \<noteq> StatusPending then Inl ErrTransactionSettled
     else
       (let with_ref = (\<lambda>t. if providerRef \<noteq> [] then t\<lparr>x_provider_ref := Some providerRef\<rparr> else t)
        in case st of
             StatusSuccess \<Rightarrow>
               Inr (with_ref (t\<lparr>x_status := StatusSuccess, x_settled_at := Some now\<rparr>))
           | StatusFailed \<Rightarrow>
               Inr (with_ref (if failure \<noteq> [] then t\<lparr>x_status := StatusFailed, x_error := Some failure\<rparr>
                              else t\<lparr>x_status := StatusFailed\<rparr>))
           | _ \<Rightarrow> Inl ErrTransactionStatusInvalid))"

section \<open>Lemmas\<close>

lemma Apply_Inr:
  "Apply V t seq w = (w', Inr m) \<longleftrightarrow>
    (t_available_delta t \<noteq> 0 \<or> t_held_delta t \<noteq> 0)
    \<and> w' = w\<lparr>w_available := w_available w + t_available_delta t, w_held := w_held w + t_held_delta t\<rparr>
    \<and> 0 \<le> sint (w_available w') \<and> 0 \<le> sint (w_held w')
    \<and> m = \<lparr>m_account = w_account w, m_currency = w_currency w, m_seq = seq, m_kind = t_kind t,
           m_available_delta = t_available_delta t, m_held_delta = t_held_delta t,
           m_available_after = w_available w', m_held_after = w_held w',
           m_group = t_group t, m_ref_type = t_ref_type t, m_ref_id = t_ref_id t,
           m_key = t_key t, m_note = t_note t\<rparr>
    \<and> struct_ok V (movement_fields m)"
  by (auto simp: Apply_def Let_def not_less)

lemma session_transition_from:
  "session_Charge now s = Inr s' \<Longrightarrow> s_status s = StatusPending \<and> \<not> session_Settled s'"
  "ReopenForRetry now s = Inr s' \<Longrightarrow> \<not> session_Settled s \<and> \<not> session_Settled s'"
  "MarkPaid now s = Inr s' \<Longrightarrow> \<not> session_Settled s"
  "MarkFailed s = Inr s' \<Longrightarrow> \<not> session_Settled s"
  "session_Cancel s = Inr s' \<Longrightarrow> \<not> session_Settled s"
  by (auto simp: session_Charge_def ReopenForRetry_def MarkPaid_def MarkFailed_def
      session_Cancel_def session_Settled_def split: if_splits)

end
