(* ===== verification/FinanceStore.thy ===== *)
theory FinanceStore
  imports FinanceDomain "HOL-Library.Product_Lexorder" "HOL-Library.List_Lexorder"
    "HOL-Library.Char_ord" "HOL-Library.Multiset"
begin

text \<open>
  The finance tables and the adapter's statements (\<open>finance/adapter/postgres\<close>, constraints
  from \<open>finance/migrations/001_init.sql\<close>).

  A table is a map or a list of rows, a sequence is its last value, and a statement is an
  action: an \<open>UPDATE \<dots> WHERE\<close> that touches no row is the error the adapter turns that into,
  a constraint of the schema that a row would break is the driver's error
  (\<open>FinDatabase\<close>) or, for a unique index the adapter recognises, the domain error. What the
  driver can report for its own reasons (a lost connection) is not modelled. The row lock of
  \<open>SELECT \<dots> FOR UPDATE\<close> is what lets one \<open>Move\<close> be read as one step.
\<close>

section \<open>Tables\<close>

record bank =
  b_id :: i64
  b_account :: i64
  b_code :: string
  b_number :: string
  b_holder :: string
  b_default :: bool
  b_created :: time
  b_deleted :: "time option"

datatype fin_event =
    SessionPaid i64 session_kind i64 i64 string i64 string
  | SessionCancelled i64 session_kind i64 i64

record fin_db =
  d_wallets :: "(i64 \<times> string) \<rightharpoonup> wallet"
  d_ledger :: "movement list"
  d_sessions :: "i64 \<rightharpoonup> session"
  d_txns :: "txn list"
  d_banks :: "bank list"
  d_session_seq :: int
  d_txn_seq :: int
  d_ledger_seq :: int
  d_bank_seq :: int
  d_bus :: "fin_event list"

type_synonym 'a fin_act = "(fin_db, finance_err, 'a) act"

text \<open>A rollback undoes the rows and leaves the sequences where they are.\<close>

definition keep_seqs :: "fin_db \<Rightarrow> fin_db \<Rightarrow> fin_db" where
  "keep_seqs old new = old\<lparr>d_session_seq := d_session_seq new, d_txn_seq := d_txn_seq new,
     d_ledger_seq := d_ledger_seq new, d_bank_seq := d_bank_seq new\<rparr>"

definition InTx :: "'a fin_act \<Rightarrow> 'a fin_act" where
  "InTx = in_tx keep_seqs"

definition nextval :: "(fin_db \<Rightarrow> int) \<Rightarrow> (int \<Rightarrow> fin_db \<Rightarrow> fin_db) \<Rightarrow> i64 fin_act" where
  "nextval get put db =
    (if get db \<ge> max_i64 then (db, Inl (FinDatabase ''nextval: reached maximum value of sequence''))
     else (put (get db + 1) db, Inr (word_of_int (get db + 1))))"

definition upper_char :: "char \<Rightarrow> bool" where
  "upper_char c \<longleftrightarrow> c \<in> set ''ABCDEFGHIJKLMNOPQRSTUVWXYZ''"

definition currency_format :: "string \<Rightarrow> bool" where
  "currency_format s \<longleftrightarrow> length s = 3 \<and> list_all upper_char s"

definition slug_char :: "char \<Rightarrow> bool" where
  "slug_char c \<longleftrightarrow> c \<in> set ''abcdefghijklmnopqrstuvwxyz0123456789''"

fun slug_tail :: "bool \<Rightarrow> string \<Rightarrow> bool" where
  "slug_tail seen [] = seen"
| "slug_tail seen (c # cs) = (if c = CHR ''-'' then seen \<and> slug_tail False cs
     else slug_char c \<and> slug_tail True cs)"

definition slug_format :: "string \<Rightarrow> bool" where
  "slug_format s = slug_tail False s"

section \<open>Wallets and the ledger\<close>

record leg =
  l_account :: i64
  l_currency :: string
  l_transfer :: transfer

abbreviation leg_key :: "leg \<Rightarrow> i64 \<times> string" where
  "leg_key l \<equiv> (l_account l, l_currency l)"

abbreviation mov_key :: "movement \<Rightarrow> i64 \<times> string" where
  "mov_key m \<equiv> (m_account m, m_currency m)"

definition FindWallet :: "i64 \<Rightarrow> string \<Rightarrow> wallet fin_act" where
  "FindWallet account currency =
    act_bind (gets (\<lambda>db. d_wallets db (account, currency))) (of_option ErrWalletNotFound)"

text \<open>\<open>lockWallet\<close>: the insert that opens a wallet at zero, \<open>ON CONFLICT DO NOTHING\<close>, then the read.\<close>

definition lockWallet :: "i64 \<Rightarrow> string \<Rightarrow> wallet fin_act" where
  "lockWallet account currency db =
    (case d_wallets db (account, currency) of
       Some w \<Rightarrow> (db, Inr w)
     | None \<Rightarrow>
         if \<not> currency_format currency then (db, Inl (FinDatabase ''db open wallet''))
         else (let w = \<lparr>w_account = account, w_currency = currency, w_available = 0, w_held = 0\<rparr>
               in (db\<lparr>d_wallets := (d_wallets db)((account, currency) \<mapsto> w)\<rparr>, Inr w)))"

definition ledger_of :: "fin_db \<Rightarrow> i64 \<times> string \<Rightarrow> movement list" where
  "ledger_of db k = filter (\<lambda>m. mov_key m = k) (d_ledger db)"

definition max_seq :: "movement list \<Rightarrow> int" where
  "max_seq ms = fold max (map (\<lambda>m. sint (m_seq m)) ms) 0"

text \<open>
  \<open>nextSeq\<close>: \<open>COALESCE(MAX(seq), 0) + 1\<close>. The \<open>fold\<close> starts at 0, which is the maximum wherever
  the sequence numbers are positive, as every stored one is.
\<close>

definition nextSeq :: "i64 \<Rightarrow> string \<Rightarrow> i64 fin_act" where
  "nextSeq account currency db =
    (let n = max_seq (ledger_of db (account, currency))
     in if n \<ge> max_i64 then (db, Inl (FinDatabase ''db read next ledger seq'')) else (db, Inr (word_of_int (n + 1))))"

definition nextGroupID :: "i64 fin_act" where
  "nextGroupID = nextval d_ledger_seq (\<lambda>n db. db\<lparr>d_ledger_seq := n\<rparr>)"

definition insertMovement :: "movement \<Rightarrow> unit fin_act" where
  "insertMovement m =
    act_bind nextGroupID (\<lambda>_.
    act_bind (gets id) (\<lambda>db.
    if \<not> currency_format (m_currency m) \<or> sint (m_available_after m) < 0 \<or> sint (m_held_after m) < 0
       \<or> (m_available_delta m = 0 \<and> m_held_delta m = 0) \<or> d_wallets db (mov_key m) = None
    then fail (FinDatabase ''db insert movement'')
    else if (\<exists>m' \<in> set (d_ledger db). mov_key m' = mov_key m \<and> m_seq m' = m_seq m)
       \<or> (m_key m \<noteq> None \<and> (\<exists>m' \<in> set (d_ledger db). m_key m' = m_key m))
    then fail ErrMovementAlreadyPosted
    else modify (\<lambda>db. db\<lparr>d_ledger := d_ledger db @ [m]\<rparr>)))"

definition saveBalances :: "wallet \<Rightarrow> unit fin_act" where
  "saveBalances w =
    (if sint (w_available w) < 0 \<or> sint (w_held w) < 0 then fail (FinDatabase ''db update wallet balances'')
     else modify (\<lambda>db. case d_wallets db (w_account w, w_currency w) of
        None \<Rightarrow> db
      | Some row \<Rightarrow> db\<lparr>d_wallets := (d_wallets db)((w_account w, w_currency w) \<mapsto>
            row\<lparr>w_available := w_available w, w_held := w_held w\<rparr>)\<rparr>))"

text \<open>One iteration of the loop of \<open>move\<close>.\<close>

definition move_leg :: "validator \<Rightarrow> i64 \<Rightarrow> leg \<Rightarrow> movement fin_act" where
  "move_leg V groupID l =
    act_bind (lockWallet (l_account l) (l_currency l)) (\<lambda>w.
    act_bind (nextSeq (l_account l) (l_currency l)) (\<lambda>seq.
    (let t = (case t_group (l_transfer l) of
                None \<Rightarrow> (l_transfer l)\<lparr>t_group := Some groupID\<rparr> | Some _ \<Rightarrow> l_transfer l);
         (w', r) = Apply V t seq w
     in act_bind (of_sum r) (\<lambda>m.
        act_bind (insertMovement m) (\<lambda>_.
        act_bind (saveBalances w') (\<lambda>_. ret m))))))"

fun move_legs :: "validator \<Rightarrow> i64 \<Rightarrow> leg list \<Rightarrow> movement list fin_act" where
  "move_legs V groupID [] = ret []"
| "move_legs V groupID (l # ls) =
    act_bind (move_leg V groupID l) (\<lambda>m.
    act_bind (move_legs V groupID ls) (\<lambda>ms. ret (m # ms)))"

text \<open>
  \<open>move\<close>: one group id for the call, and the legs in the fixed order of account then currency,
  stable as \<open>slices.SortStableFunc\<close> is.
\<close>

definition order_legs :: "leg list \<Rightarrow> leg list" where
  "order_legs = sort_key (\<lambda>l. (sint (l_account l), l_currency l))"

definition move :: "validator \<Rightarrow> leg list \<Rightarrow> movement list fin_act" where
  "move V legs = act_bind nextGroupID (\<lambda>groupID. move_legs V groupID (order_legs legs))"

definition Move :: "validator \<Rightarrow> leg list \<Rightarrow> movement list fin_act" where
  "Move V legs = (if legs = [] then ret [] else InTx (move V legs))"

section \<open>Sessions\<close>

definition NextSessionID :: "i64 fin_act" where
  "NextSessionID = nextval d_session_seq (\<lambda>n db. db\<lparr>d_session_seq := n\<rparr>)"

definition insertSession :: "session \<Rightarrow> unit fin_act" where
  "insertSession s =
    act_bind (gets id) (\<lambda>db.
    if d_sessions db (s_id s) \<noteq> None \<or> \<not> currency_format (s_currency s) \<or> sint (s_total s) \<le> 0
    then fail (FinDatabase ''db insert payment_session'')
    else modify (\<lambda>db. db\<lparr>d_sessions := (d_sessions db)(s_id s \<mapsto> s\<lparr>s_paid_at := None\<rparr>)\<rparr>))"

definition InsertSession :: "session \<Rightarrow> unit fin_act" where
  "InsertSession s = insertSession s"

definition InsertWithdrawal :: "validator \<Rightarrow> session \<Rightarrow> leg \<Rightarrow> unit fin_act" where
  "InsertWithdrawal V s debit =
    InTx (act_bind (insertSession s) (\<lambda>_. act_bind (move V [debit]) (\<lambda>_. ret ())))"

definition FindSessionByID :: "i64 \<Rightarrow> session fin_act" where
  "FindSessionByID sid =
    act_bind (gets (\<lambda>db. d_sessions db sid)) (of_option ErrSessionNotFound)"

definition SaveSession :: "session \<Rightarrow> status list \<Rightarrow> unit fin_act" where
  "SaveSession s from db =
    (case d_sessions db (s_id s) of
       None \<Rightarrow> (db, Inl ErrSessionSettled)
     | Some row \<Rightarrow>
         if s_status row \<notin> set from then (db, Inl ErrSessionSettled)
         else (db\<lparr>d_sessions := (d_sessions db)(s_id s \<mapsto>
                 row\<lparr>s_status := s_status s, s_paid_at := s_paid_at s,
                     s_data := (if s_data s = [] then ''{}'' else s_data s), s_note := s_note s\<rparr>)\<rparr>,
               Inr ()))"

section \<open>Legs\<close>

definition NextTransactionID :: "i64 fin_act" where
  "NextTransactionID = nextval d_txn_seq (\<lambda>n db. db\<lparr>d_txn_seq := n\<rparr>)"

text \<open>
  \<open>transactionData\<close> folds the gateway page into the JSON column, from which every read takes
  \<open>CheckoutURL\<close>; an empty page is not written.
\<close>

definition stored_url :: "string option \<Rightarrow> string option" where
  "stored_url u = (if u = Some [] then None else u)"

definition ref_taken :: "fin_db \<Rightarrow> txn \<Rightarrow> bool" where
  "ref_taken db t \<longleftrightarrow>
    x_provider_ref t \<noteq> None \<and>
    (\<exists>t' \<in> set (d_txns db). x_id t' \<noteq> x_id t \<and> x_option t' = x_option t \<and> x_provider_ref t' = x_provider_ref t)"

definition InsertTransaction :: "txn \<Rightarrow> unit fin_act" where
  "InsertTransaction t =
    act_bind (gets id) (\<lambda>db.
    if \<not> currency_format (x_currency t) \<or> \<not> slug_format (x_option t) \<or> 100 < length (x_option t)
       \<or> \<not> (0 < sint (x_amount t) \<and> x_reverses t = None \<or> sint (x_amount t) < 0 \<and> x_reverses t \<noteq> None)
       \<or> x_reverses t = Some (x_id t)
    then fail (FinDatabase ''db insert transaction'')
    else if (\<exists>t' \<in> set (d_txns db). x_id t' = x_id t) \<or> ref_taken db t
       \<or> (x_reverses t \<noteq> None \<and> (\<exists>t' \<in> set (d_txns db). x_reverses t' = x_reverses t))
    then fail ErrLegAlreadyBooked
    else if d_sessions db (x_session t) = None
    then fail (FinDatabase ''db insert transaction'')
    else modify (\<lambda>db. db\<lparr>d_txns := d_txns db @
           [t\<lparr>x_checkout_url := stored_url (x_checkout_url t), x_settled_at := None\<rparr>]\<rparr>))"

definition txn_update :: "txn \<Rightarrow> txn \<Rightarrow> txn" where
  "txn_update t row =
    row\<lparr>x_status := x_status t, x_provider_ref := x_provider_ref t, x_error := x_error t,
        x_settled_at := x_settled_at t, x_data := x_data t,
        x_checkout_url := stored_url (x_checkout_url t)\<rparr>"

definition SaveTransaction :: "txn \<Rightarrow> unit fin_act" where
  "SaveTransaction t =
    act_bind (gets id) (\<lambda>db.
    if \<not> (\<exists>row \<in> set (d_txns db). x_id row = x_id t \<and> x_status row = StatusPending)
    then fail ErrTransactionSettled
    else if ref_taken db t then fail (FinDatabase ''db update transaction'')
    else modify (\<lambda>db. db\<lparr>d_txns := map (\<lambda>row.
           if x_id row = x_id t \<and> x_status row = StatusPending then txn_update t row else row) (d_txns db)\<rparr>))"

definition ListTransactions :: "i64 \<Rightarrow> txn list fin_act" where
  "ListTransactions sid =
    gets (\<lambda>db. sort_key (\<lambda>t. sint (x_id t)) (filter (\<lambda>t. x_session t = sid) (d_txns db)))"

definition FindTransactionByID :: "i64 \<Rightarrow> txn fin_act" where
  "FindTransactionByID tid =
    act_bind (gets (\<lambda>db. find (\<lambda>t. x_id t = tid) (d_txns db))) (of_option ErrTransactionNotFound)"

section \<open>Bank accounts\<close>

definition FindBankAccount :: "i64 \<Rightarrow> i64 \<Rightarrow> bank fin_act" where
  "FindBankAccount bid account =
    act_bind (gets (\<lambda>db. find (\<lambda>b. b_id b = bid \<and> b_account b = account \<and> b_deleted b = None) (d_banks db)))
      (of_option ErrBankAccountNotFound)"

definition clear_default :: "i64 \<Rightarrow> bank list \<Rightarrow> bank list" where
  "clear_default account = map (\<lambda>b.
     if b_account b = account \<and> b_default b \<and> b_deleted b = None then b\<lparr>b_default := False\<rparr> else b)"

definition InsertBankAccount :: "bank \<Rightarrow> bank fin_act" where
  "InsertBankAccount b =
    InTx (act_bind (if b_default b
                    then modify (\<lambda>db. db\<lparr>d_banks := clear_default (b_account b) (d_banks db)\<rparr>)
                    else ret ()) (\<lambda>_.
          act_bind (nextval d_bank_seq (\<lambda>n db. db\<lparr>d_bank_seq := n\<rparr>)) (\<lambda>bid.
          act_bind (gets id) (\<lambda>db.
          if b_default b \<and> (\<exists>b' \<in> set (d_banks db). b_account b' = b_account b \<and> b_default b' \<and> b_deleted b' = None)
          then fail (FinDatabase ''db insert bank account'')
          else let row = b\<lparr>b_id := bid, b_deleted := None\<rparr>
               in act_bind (modify (\<lambda>db. db\<lparr>d_banks := d_banks db @ [row]\<rparr>)) (\<lambda>_. ret row)))))"

definition SaveBankAccount :: "bank \<Rightarrow> unit fin_act" where
  "SaveBankAccount b =
    InTx (act_bind (if b_default b
                    then modify (\<lambda>db. db\<lparr>d_banks := clear_default (b_account b) (d_banks db)\<rparr>)
                    else ret ()) (\<lambda>_.
          act_bind (gets id) (\<lambda>db.
          if \<not> (\<exists>row \<in> set (d_banks db). b_id row = b_id b \<and> b_account row = b_account b \<and> b_deleted row = None)
          then fail ErrBankAccountNotFound
          else modify (\<lambda>db. db\<lparr>d_banks := map (\<lambda>row.
                 if b_id row = b_id b \<and> b_account row = b_account b \<and> b_deleted row = None
                 then row\<lparr>b_code := b_code b, b_number := b_number b, b_holder := b_holder b,
                          b_default := b_default b\<rparr> else row) (d_banks db)\<rparr>))))"

section \<open>The ledger invariant\<close>

text \<open>
  Balances as integers, a wallet that was never opened at zero. \<open>chain n a h ms\<close>: the movements
  \<open>ms\<close> continue a ledger of \<open>n\<close> rows whose balances are \<open>a\<close> and \<open>h\<close>, each with the next
  sequence number, each recording the balances its deltas make, none negative.
\<close>

definition avail :: "fin_db \<Rightarrow> i64 \<times> string \<Rightarrow> int" where
  "avail db k = (case d_wallets db k of None \<Rightarrow> 0 | Some w \<Rightarrow> sint (w_available w))"

definition held :: "fin_db \<Rightarrow> i64 \<times> string \<Rightarrow> int" where
  "held db k = (case d_wallets db k of None \<Rightarrow> 0 | Some w \<Rightarrow> sint (w_held w))"

abbreviation sum_avail :: "movement list \<Rightarrow> int" where
  "sum_avail ms \<equiv> sum_list (map (\<lambda>m. sint (m_available_delta m)) ms)"

abbreviation sum_held :: "movement list \<Rightarrow> int" where
  "sum_held ms \<equiv> sum_list (map (\<lambda>m. sint (m_held_delta m)) ms)"

fun chain :: "int \<Rightarrow> int \<Rightarrow> int \<Rightarrow> movement list \<Rightarrow> bool" where
  "chain n a h [] = True"
| "chain n a h (m # ms) =
    (sint (m_seq m) = n + 1
     \<and> sint (m_available_after m) = a + sint (m_available_delta m) \<and> 0 \<le> sint (m_available_after m)
     \<and> sint (m_held_after m) = h + sint (m_held_delta m) \<and> 0 \<le> sint (m_held_after m)
     \<and> chain (n + 1) (sint (m_available_after m)) (sint (m_held_after m)) ms)"

definition keys_of :: "movement list \<Rightarrow> string list" where
  "keys_of ms = List.map_filter m_key ms"

definition ledger_inv :: "fin_db \<Rightarrow> bool" where
  "ledger_inv db \<longleftrightarrow>
    (\<forall>k. chain 0 0 0 (ledger_of db k)
       \<and> avail db k = sum_avail (ledger_of db k) \<and> held db k = sum_held (ledger_of db k))
    \<and> (\<forall>k w. d_wallets db k = Some w \<longrightarrow> (w_account w, w_currency w) = k)
    \<and> distinct (keys_of (d_ledger db))"

lemma keys_of_simps [simp]:
  "keys_of [] = []"
  "keys_of (ms @ ns) = keys_of ms @ keys_of ns"
  "keys_of [m] = (case m_key m of None \<Rightarrow> [] | Some s \<Rightarrow> [s])"
  by (simp_all add: keys_of_def List.map_filter_def split: option.splits)

lemma set_keys_of: "s \<in> set (keys_of ms) \<longleftrightarrow> (\<exists>m \<in> set ms. m_key m = Some s)"
  by (force simp: keys_of_def List.map_filter_def)

lemma chain_snoc:
  "chain n a h (ms @ [m]) \<longleftrightarrow>
    chain n a h ms \<and> chain (n + int (length ms)) (a + sum_avail ms) (h + sum_held ms) [m]"
  by (induction n a h ms rule: chain.induct) (auto simp: algebra_simps)

lemma chain_nonneg:
  "chain n a h ms \<Longrightarrow> 0 \<le> a \<Longrightarrow> 0 \<le> h \<Longrightarrow> 0 \<le> a + sum_avail ms \<and> 0 \<le> h + sum_held ms"
proof (induction n a h ms rule: chain.induct)
  case (2 n a h m ms)
  then show ?case by (auto simp: algebra_simps)
qed simp

lemma chain_max_seq: "chain n a h ms \<Longrightarrow> 0 \<le> n \<Longrightarrow> fold max (map (\<lambda>m. sint (m_seq m)) ms) n = n + int (length ms)"
proof (induction n a h ms rule: chain.induct)
  case (2 n a h m ms)
  then show ?case by (auto simp: max_def algebra_simps)
qed simp

lemma ledger_invD:
  assumes "ledger_inv db"
  shows "chain 0 0 0 (ledger_of db k)" "avail db k = sum_avail (ledger_of db k)"
    "held db k = sum_held (ledger_of db k)"
    "0 \<le> avail db k" "0 \<le> held db k"
    "max_seq (ledger_of db k) = int (length (ledger_of db k))"
    "d_wallets db k = Some w \<Longrightarrow> w_account w = fst k \<and> w_currency w = snd k"
    "distinct (keys_of (d_ledger db))"
  using assms chain_nonneg [of 0 0 0 "ledger_of db k"] chain_max_seq [of 0 0 0 "ledger_of db k"]
  by (cases k; auto simp: ledger_inv_def max_seq_def)+

text \<open>The wallet a leg works on: the row, or the one the insert opens.\<close>

definition wallet_at :: "fin_db \<Rightarrow> i64 \<times> string \<Rightarrow> wallet" where
  "wallet_at db k = (case d_wallets db k of Some w \<Rightarrow> w
     | None \<Rightarrow> \<lparr>w_account = fst k, w_currency = snd k, w_available = 0, w_held = 0\<rparr>)"

lemma sint_wallet_at [simp]:
  "sint (w_available (wallet_at db k)) = avail db k" "sint (w_held (wallet_at db k)) = held db k"
  by (auto simp: wallet_at_def avail_def held_def split: option.splits)

definition leg_group :: "i64 \<Rightarrow> leg \<Rightarrow> transfer" where
  "leg_group groupID l = (case t_group (l_transfer l) of
     None \<Rightarrow> (l_transfer l)\<lparr>t_group := Some groupID\<rparr> | Some _ \<Rightarrow> l_transfer l)"

lemma leg_group_fields [simp]:
  "t_available_delta (leg_group g l) = t_available_delta (l_transfer l)"
  "t_held_delta (leg_group g l) = t_held_delta (l_transfer l)"
  "t_key (leg_group g l) = t_key (l_transfer l)"
  "t_kind (leg_group g l) = t_kind (l_transfer l)"
  "t_ref_type (leg_group g l) = t_ref_type (l_transfer l)"
  "t_ref_id (leg_group g l) = t_ref_id (l_transfer l)"
  by (auto simp: leg_group_def split: option.splits)

text \<open>What a leg that lands did: the whole next state.\<close>

lemma move_leg_Inr:
  assumes "ledger_inv db" and "move_leg V g l db = (db', Inr m)"
  shows "\<exists>w' seq. Apply V (leg_group g l) seq (wallet_at db (leg_key l)) = (w', Inr m)
    \<and> sint seq = int (length (ledger_of db (leg_key l))) + 1
    \<and> (m_key m \<noteq> None \<longrightarrow> m_key m \<notin> m_key ` set (d_ledger db))
    \<and> db' = db\<lparr>d_ledger_seq := d_ledger_seq db + 1, d_ledger := d_ledger db @ [m],
              d_wallets := (d_wallets db)(leg_key l \<mapsto> w')\<rparr>"
proof -
  let ?k = "leg_key l"
  note inv = ledger_invD [OF assms(1)]
  from assms(2) obtain db1 w where lock: "lockWallet (l_account l) (l_currency l) db = (db1, Inr w)"
    and rest: "(act_bind (nextSeq (l_account l) (l_currency l)) (\<lambda>seq.
       (let (w', r) = Apply V (leg_group g l) seq w
        in act_bind (of_sum r) (\<lambda>m.
        act_bind (insertMovement m) (\<lambda>_.
        act_bind (saveBalances w') (\<lambda>_. ret m)))))) db1 = (db', Inr m)"
    unfolding move_leg_def leg_group_def [symmetric] Let_def by (auto simp: act_runs)
  from lock have w: "w = wallet_at db ?k" and db1: "db1 = db\<lparr>d_wallets := (d_wallets db)(?k \<mapsto> w)\<rparr>"
    by (auto simp: lockWallet_def wallet_at_def Let_def fun_upd_idem split: option.splits if_splits)
  have ledger1: "ledger_of db1 k = ledger_of db k" for k by (simp add: db1 ledger_of_def)
  have max: "max_seq (ledger_of db ?k) < max_i64"
    using rest by (auto simp: act_runs nextSeq_def Let_def ledger1 split: if_splits)
  define seq :: i64 where "seq = word_of_int (max_seq (ledger_of db ?k) + 1)"
  have "nextSeq (l_account l) (l_currency l) db1 = (db1, Inr seq)"
    using max by (simp add: nextSeq_def ledger1 Let_def seq_def)
  moreover obtain w' r where app: "Apply V (leg_group g l) seq w = (w', r)" by (cases "Apply V (leg_group g l) seq w")
  ultimately have "(act_bind (of_sum r) (\<lambda>m.
        act_bind (insertMovement m) (\<lambda>_.
        act_bind (saveBalances w') (\<lambda>_. ret m)))) db1 = (db', Inr m)"
    using rest by (simp add: act_bind_def [of "nextSeq _ _"])
  then have r: "r = Inr m"
    and ins: "(act_bind (insertMovement m) (\<lambda>_. act_bind (saveBalances w') (\<lambda>_. ret m))) db1 = (db', Inr m)"
    by (auto simp: act_runs)
  have key: "(w_account w, w_currency w) = ?k"
    using inv(7) [of ?k] by (auto simp: w wallet_at_def split: option.splits)
  from app r have fields: "w_account w' = w_account w" "w_currency w' = w_currency w"
    "m_account m = w_account w" "m_currency m = w_currency w"
    "w\<lparr>w_available := w_available w', w_held := w_held w'\<rparr> = w'"
    by (auto simp: Apply_Inr)
  from ins key fields(1-4) have "db' = db\<lparr>d_ledger_seq := d_ledger_seq db + 1, d_ledger := d_ledger db @ [m],
      d_wallets := (d_wallets db)(?k \<mapsto> w\<lparr>w_available := w_available w', w_held := w_held w'\<rparr>)\<rparr>"
    and "m_key m \<noteq> None \<longrightarrow> m_key m \<notin> m_key ` set (d_ledger db)"
    by (auto simp: act_runs insertMovement_def nextGroupID_def nextval_def saveBalances_def db1
        split: if_splits option.splits)
  note this [unfolded fields(5)]
  moreover have "sint seq = int (length (ledger_of db ?k)) + 1"
    using sint_word_of_int_i64 [of "max_seq (ledger_of db ?k) + 1"] max inv(6) [of ?k]
    unfolding seq_def by linarith
  ultimately show ?thesis using app r w by auto
qed


text \<open>What a movement of money leaves alone.\<close>

definition same_but_money :: "fin_db \<Rightarrow> fin_db \<Rightarrow> bool" where
  "same_but_money db db' \<longleftrightarrow>
    d_sessions db' = d_sessions db \<and> d_txns db' = d_txns db \<and> d_banks db' = d_banks db
    \<and> d_session_seq db' = d_session_seq db \<and> d_txn_seq db' = d_txn_seq db
    \<and> d_bank_seq db' = d_bank_seq db \<and> d_bus db' = d_bus db"

lemma ledger_of_snoc [simp]:
  "ledger_of (db\<lparr>d_ledger_seq := n, d_ledger := d_ledger db @ [m], d_wallets := W\<rparr>) k
    = ledger_of db k @ (if mov_key m = k then [m] else [])"
  by (simp add: ledger_of_def)

text \<open>
  One leg: the invariant, the balances of every wallet, and the row appended. Everything the
  leg does not name is unchanged.
\<close>

lemma move_leg_effect:
  assumes "ledger_inv db" and "move_leg V g l db = (db', Inr m)"
  shows "ledger_inv db'"
    and "avail db' k = avail db k + (if leg_key l = k then sint (t_available_delta (l_transfer l)) else 0)"
    and "held db' k = held db k + (if leg_key l = k then sint (t_held_delta (l_transfer l)) else 0)"
    and "d_ledger db' = d_ledger db @ [m]"
    and "mov_key m = leg_key l" and "m_key m = t_key (l_transfer l)"
    and "same_but_money db db'"
proof -
  from move_leg_Inr [OF assms] obtain w' seq where
      app: "Apply V (leg_group g l) seq (wallet_at db (leg_key l)) = (w', Inr m)"
    and seq: "sint seq = int (length (ledger_of db (leg_key l))) + 1"
    and fresh: "m_key m \<noteq> None \<longrightarrow> m_key m \<notin> m_key ` set (d_ledger db)"
    and db': "db' = db\<lparr>d_ledger_seq := d_ledger_seq db + 1, d_ledger := d_ledger db @ [m],
              d_wallets := (d_wallets db)(leg_key l \<mapsto> w')\<rparr>"
    by blast
  note inv = ledger_invD [OF assms(1)]
  have at: "w_account (wallet_at db (leg_key l)) = l_account l" "w_currency (wallet_at db (leg_key l)) = l_currency l"
    using inv(7) [of "leg_key l"] by (auto simp: wallet_at_def split: option.splits)
  from app have m: "mov_key m = leg_key l" "m_key m = t_key (l_transfer l)" "m_seq m = seq"
    "m_available_delta m = t_available_delta (l_transfer l)" "m_held_delta m = t_held_delta (l_transfer l)"
    "m_available_after m = w_available w'" "m_held_after m = w_held w'"
    "w_account w' = l_account l" "w_currency w' = l_currency l"
    by (auto simp: Apply_Inr at)
  have a: "sint (w_available w') = avail db (leg_key l) + sint (t_available_delta (l_transfer l))"
    "0 \<le> sint (w_available w')"
    using app inv(4) [of "leg_key l"]
      sint_add_exact [of "w_available (wallet_at db (leg_key l))" "t_available_delta (l_transfer l)"]
    by (auto simp: Apply_Inr)
  have h: "sint (w_held w') = held db (leg_key l) + sint (t_held_delta (l_transfer l))"
    "0 \<le> sint (w_held w')"
    using app inv(5) [of "leg_key l"]
      sint_add_exact [of "w_held (wallet_at db (leg_key l))" "t_held_delta (l_transfer l)"]
    by (auto simp: Apply_Inr)
  show avail': "avail db' k = avail db k + (if leg_key l = k then sint (t_available_delta (l_transfer l)) else 0)" for k
    using a by (auto simp: db' avail_def)
  show held': "held db' k = held db k + (if leg_key l = k then sint (t_held_delta (l_transfer l)) else 0)" for k
    using h by (auto simp: db' held_def)
  have "distinct (keys_of (d_ledger db'))"
    using inv(8) fresh by (auto simp: db' set_keys_of image_iff split: option.splits)
  moreover have "chain 0 0 0 (ledger_of db' k)" for k
    using inv(1,2,3) [of k] seq a h m by (auto simp: db' chain_snoc)
  moreover have "avail db' k = sum_avail (ledger_of db' k) \<and> held db' k = sum_held (ledger_of db' k)" for k
    unfolding avail' held' using inv(2,3) [of k] m by (auto simp: db')
  moreover have "(w_account w, w_currency w) = k" if "d_wallets db' k = Some w" for k w
    using that inv(7) [of k w] m by (auto simp: db' split: if_splits)
  ultimately show "ledger_inv db'" by (simp add: ledger_inv_def)
  show "d_ledger db' = d_ledger db @ [m]" by (simp add: db')
  show "mov_key m = leg_key l" "m_key m = t_key (l_transfer l)" by (fact m)+
  show "same_but_money db db'" by (simp add: db' same_but_money_def)
qed

definition avail_delta :: "leg list \<Rightarrow> i64 \<times> string \<Rightarrow> int" where
  "avail_delta legs k =
    sum_list (map (\<lambda>l. sint (t_available_delta (l_transfer l))) (filter (\<lambda>l. leg_key l = k) legs))"

definition held_delta :: "leg list \<Rightarrow> i64 \<times> string \<Rightarrow> int" where
  "held_delta legs k =
    sum_list (map (\<lambda>l. sint (t_held_delta (l_transfer l))) (filter (\<lambda>l. leg_key l = k) legs))"

lemma leg_delta_simps [simp]:
  "avail_delta [] k = 0" "held_delta [] k = 0"
  "avail_delta (l # ls) k = (if leg_key l = k then sint (t_available_delta (l_transfer l)) else 0) + avail_delta ls k"
  "held_delta (l # ls) k = (if leg_key l = k then sint (t_held_delta (l_transfer l)) else 0) + held_delta ls k"
  by (simp_all add: avail_delta_def held_delta_def)

lemma sum_list_mset_cong: "mset xs = mset ys \<Longrightarrow> sum_list (map f xs) = (sum_list (map f ys) :: int)"
  by (metis mset_map sum_mset_sum_list)

lemma leg_delta_order [simp]:
  "avail_delta (order_legs legs) k = avail_delta legs k" "held_delta (order_legs legs) k = held_delta legs k"
  unfolding avail_delta_def held_delta_def order_legs_def by (rule sum_list_mset_cong; simp)+

lemma move_legs_effect:
  assumes "ledger_inv db" and "move_legs V g ls db = (db', Inr ms)"
  shows "ledger_inv db'
    \<and> avail db' k = avail db k + avail_delta ls k \<and> held db' k = held db k + held_delta ls k
    \<and> d_ledger db' = d_ledger db @ ms
    \<and> map mov_key ms = map leg_key ls \<and> map m_key ms = map (\<lambda>l. t_key (l_transfer l)) ls
    \<and> same_but_money db db'"
  using assms
proof (induction ls arbitrary: db ms)
  case Nil
  then show ?case by (simp add: same_but_money_def)
next
  case (Cons l ls)
  from Cons.prems(2) obtain db1 m ms' where step: "move_leg V g l db = (db1, Inr m)"
    and rest: "move_legs V g ls db1 = (db', Inr ms')" and ms: "ms = m # ms'"
    by (auto simp: act_runs)
  note eff = move_leg_effect [OF Cons.prems(1) step]
  note IH = Cons.IH [OF eff(1) rest]
  have "same_but_money db db'"
    using IH eff(7) by (simp add: same_but_money_def)
  with IH show ?case
    by (simp add: ms eff(2) [of k] eff(3) [of k] eff(4-6))
qed

section \<open>The contract of \<open>Move\<close>\<close>

definition posted :: "fin_db \<Rightarrow> string set" where
  "posted db = set (keys_of (d_ledger db))"

definition leg_keys :: "leg list \<Rightarrow> string set" where
  "leg_keys legs = {s. \<exists>l \<in> set legs. t_key (l_transfer l) = Some s}"

lemma nextGroupID_effect:
  "nextGroupID db = (db', r) \<Longrightarrow>
    same_but_money db db' \<and> d_wallets db' = d_wallets db \<and> d_ledger db' = d_ledger db"
  by (auto simp: nextGroupID_def nextval_def same_but_money_def split: if_splits)

lemma same_money:
  assumes "d_wallets db' = d_wallets db" and "d_ledger db' = d_ledger db"
  shows "ledger_inv db' = ledger_inv db" "avail db' = avail db" "held db' = held db" "posted db' = posted db"
  using assms by (simp_all add: ledger_inv_def avail_def held_def ledger_of_def posted_def fun_eq_iff)

lemma keep_seqs_fields [simp]:
  "d_wallets (keep_seqs db t) = d_wallets db" "d_ledger (keep_seqs db t) = d_ledger db"
  "d_sessions (keep_seqs db t) = d_sessions db" "d_txns (keep_seqs db t) = d_txns db"
  "d_banks (keep_seqs db t) = d_banks db" "d_bus (keep_seqs db t) = d_bus db"
  by (simp_all add: keep_seqs_def)

lemma move_effect:
  assumes "ledger_inv db" and "move V legs db = (db', Inr ms)"
  shows "ledger_inv db'
    \<and> avail db' k = avail db k + avail_delta legs k \<and> held db' k = held db k + held_delta legs k
    \<and> d_ledger db' = d_ledger db @ ms
    \<and> map m_key ms = map (\<lambda>l. t_key (l_transfer l)) (order_legs legs)
    \<and> same_but_money db db'"
proof -
  from assms(2) obtain db1 g where g: "nextGroupID db = (db1, Inr g)"
    and ls: "move_legs V g (order_legs legs) db1 = (db', Inr ms)"
    by (auto simp: move_def act_runs)
  note eff = nextGroupID_effect [OF g]
  have "d_wallets db1 = d_wallets db" "d_ledger db1 = d_ledger db" using eff by auto
  note same = same_money [OF this]
  have "ledger_inv db1" using assms(1) same by simp
  from move_legs_effect [OF this ls, of k] eff show ?thesis
    by (auto simp: same same_but_money_def)
qed

lemma Move_Inr:
  assumes "ledger_inv db" and "Move V legs db = (db', Inr ms)"
  shows "ledger_inv db'
    \<and> avail db' k = avail db k + avail_delta legs k \<and> held db' k = held db k + held_delta legs k
    \<and> posted db' = posted db \<union> leg_keys legs \<and> posted db \<inter> leg_keys legs = {}
    \<and> same_but_money db db'"
proof (cases "legs = []")
  case True
  with assms show ?thesis by (auto simp: Move_def leg_keys_def same_but_money_def)
next
  case False
  with assms(2) have "move V legs db = (db', Inr ms)" by (simp add: Move_def InTx_def)
  note eff = move_effect [OF assms(1) this, of k]
  have "map m_key ms = map (\<lambda>l. t_key (l_transfer l)) (order_legs legs)" using eff by blast
  then have "set (map m_key ms) = set (map (\<lambda>l. t_key (l_transfer l)) (order_legs legs))"
    by (rule arg_cong)
  then have "m_key ` set ms = (\<lambda>l. t_key (l_transfer l)) ` set legs"
    by (simp add: order_legs_def)
  then have "Some s \<in> m_key ` set ms \<longleftrightarrow> Some s \<in> (\<lambda>l. t_key (l_transfer l)) ` set legs" for s
    by simp
  then have keys: "set (keys_of ms) = leg_keys legs"
    by (simp add: set_eq_iff set_keys_of leg_keys_def image_iff Bex_def eq_commute)
  then have "posted db' = posted db \<union> leg_keys legs"
    using eff by (simp add: posted_def)
  moreover have "posted db \<inter> leg_keys legs = {}"
    using eff ledger_invD(8) [of db'] keys by (simp add: posted_def)
  ultimately show ?thesis using eff by blast
qed

lemma Move_Inl:
  "Move V legs db = (db', Inl e) \<Longrightarrow>
    d_wallets db' = d_wallets db \<and> d_ledger db' = d_ledger db \<and> d_sessions db' = d_sessions db
    \<and> d_txns db' = d_txns db \<and> d_banks db' = d_banks db \<and> d_bus db' = d_bus db"
  by (auto simp: Move_def InTx_def in_tx_Inl split: if_splits)

text \<open>
  A single keyed movement that is refused as already posted really has its key in the ledger: under
  the invariant the other unique index, on the sequence number, cannot be hit.
\<close>

lemma chain_seq_bound: "chain n a h ms \<Longrightarrow> m \<in> set ms \<Longrightarrow> n < sint (m_seq m) \<and> sint (m_seq m) \<le> n + int (length ms)"
  by (induction n a h ms rule: chain.induct) (force split: if_splits)+

lemma move_leg_already_posted:
  assumes "ledger_inv db" and "move_leg V g l db = (db', Inl ErrMovementAlreadyPosted)"
  shows "\<exists>s. t_key (l_transfer l) = Some s \<and> s \<in> posted db"
proof -
  let ?k = "leg_key l"
  note inv = ledger_invD [OF assms(1)]
  from assms(2) obtain db1 w seq w' m where lock: "lockWallet (l_account l) (l_currency l) db = (db1, Inr w)"
    and seq: "nextSeq (l_account l) (l_currency l) db1 = (db1, Inr seq)"
    and app: "Apply V (leg_group g l) seq w = (w', Inr m)"
    and ins: "\<exists>db2. insertMovement m db1 = (db2, Inl ErrMovementAlreadyPosted)"
    unfolding move_leg_def leg_group_def [symmetric] Let_def
    by (auto simp: act_runs lockWallet_def nextSeq_def Apply_def saveBalances_def Let_def
        split: if_splits option.splits)
  from lock have w: "w = wallet_at db ?k" and ledger: "d_ledger db1 = d_ledger db"
    by (auto simp: lockWallet_def wallet_at_def Let_def split: option.splits if_splits)
  have "sint seq = int (length (ledger_of db ?k)) + 1"
  proof -
    have *: "max_seq (ledger_of db ?k) < max_i64" "seq = word_of_int (max_seq (ledger_of db ?k) + 1)"
      using seq by (auto simp: nextSeq_def ledger_of_def ledger Let_def split: if_splits)
    show ?thesis
      unfolding *(2) using *(1) inv(6) [of ?k] by (subst sint_word_of_int_i64) linarith+
  qed
  note top = this
  have key: "(w_account w, w_currency w) = ?k"
    using inv(7) [of ?k] by (auto simp: w wallet_at_def split: option.splits)
  have m: "mov_key m = ?k" "m_seq m = seq" "m_key m = t_key (l_transfer l)"
    using app key by (simp_all add: Apply_Inr)
  have "\<not> (\<exists>m' \<in> set (d_ledger db). mov_key m' = mov_key m \<and> m_seq m' = m_seq m)"
  proof
    assume "\<exists>m' \<in> set (d_ledger db). mov_key m' = mov_key m \<and> m_seq m' = m_seq m"
    then obtain m' where "m' \<in> set (ledger_of db ?k)" "m_seq m' = seq"
      unfolding m(1,2) by (auto simp: ledger_of_def)
    with chain_seq_bound [OF inv(1) [of ?k], of m'] top show False by simp
  qed
  with ins have "m_key m \<noteq> None \<and> (\<exists>m' \<in> set (d_ledger db). m_key m' = m_key m)"
    by (auto simp: insertMovement_def act_runs nextGroupID_def nextval_def ledger split: if_splits)
  then show ?thesis
    using m(3) by (auto simp: posted_def set_keys_of)
qed

lemma Move_single_already_posted:
  assumes "ledger_inv db" and "Move V [l] db = (db', Inl ErrMovementAlreadyPosted)"
  shows "\<exists>s. t_key (l_transfer l) = Some s \<and> s \<in> posted db"
proof -
  from assms(2) obtain db1 g t where g: "nextGroupID db = (db1, Inr g)"
    and l: "move_leg V g l db1 = (t, Inl ErrMovementAlreadyPosted)"
    by (auto simp: Move_def InTx_def in_tx_Inl move_def order_legs_def act_runs nextGroupID_def nextval_def
        split: if_splits)
  have "d_wallets db1 = d_wallets db" "d_ledger db1 = d_ledger db"
    using nextGroupID_effect [OF g] by auto
  note same = same_money [OF this]
  from move_leg_already_posted [OF _ l] assms(1) show ?thesis by (simp add: same)
qed

text \<open>
  What the rest of finance, and through it the order module, relies on when it moves money. The
  laws are those the port states of \<open>Move\<close>: all the legs or none, a balance never below zero, and
  a key posted at most once.
\<close>

locale money_mover =
  fixes mover :: "leg list \<Rightarrow> 'db \<Rightarrow> 'db \<times> ('e + 'm)"
    and inv :: "'db \<Rightarrow> bool"
    and av :: "'db \<Rightarrow> i64 \<times> string \<Rightarrow> int"
    and hd :: "'db \<Rightarrow> i64 \<times> string \<Rightarrow> int"
    and keys :: "'db \<Rightarrow> string set"
  assumes mover_ok:
    "inv db \<Longrightarrow> mover legs db = (db', Inr m) \<Longrightarrow>
      inv db' \<and> av db' k = av db k + avail_delta legs k \<and> hd db' k = hd db k + held_delta legs k
      \<and> keys db' = keys db \<union> leg_keys legs \<and> keys db \<inter> leg_keys legs = {}"
    and mover_refused:
    "inv db \<Longrightarrow> mover legs db = (db', Inl e) \<Longrightarrow>
      inv db' \<and> av db' = av db \<and> hd db' = hd db \<and> keys db' = keys db"
    and balances_nonneg: "inv db \<Longrightarrow> 0 \<le> av db k \<and> 0 \<le> hd db k"
begin

lemma mover_inv: "inv db \<Longrightarrow> mover legs db = (db', r) \<Longrightarrow> inv db'"
  by (cases r) (auto dest: mover_ok mover_refused)

lemma repeat_refused:
  assumes "inv db" and "mover legs db = (db1, Inr m)" and "leg_keys legs \<noteq> {}"
    and "keys db1 \<subseteq> keys db2" and "inv db2"
  shows "\<exists>e db3. mover legs db2 = (db3, Inl e) \<and> av db3 = av db2 \<and> hd db3 = hd db2"
proof -
  have "leg_keys legs \<subseteq> keys db2"
    using mover_ok [OF assms(1,2)] assms(4) by auto
  with assms(3) have "keys db2 \<inter> leg_keys legs \<noteq> {}" by auto
  then have "\<nexists>db3 m'. mover legs db2 = (db3, Inr m')"
    using mover_ok [OF assms(5)] by blast
  then obtain db3 e where "mover legs db2 = (db3, Inl e)"
    by (cases "mover legs db2") (metis sum.exhaust)
  then show ?thesis using mover_refused [OF assms(5)] by blast
qed

lemma opposite_restores:
  assumes "inv db" and "mover legs db = (db1, Inr m)" and "mover legs' db1 = (db2, Inr m')"
    and "avail_delta legs' k = - avail_delta legs k" and "held_delta legs' k = - held_delta legs k"
  shows "av db2 k = av db k \<and> hd db2 k = hd db k"
proof -
  from mover_ok [OF assms(1,2), of k] have "inv db1" by simp
  from mover_ok [OF assms(1,2), of k] mover_ok [OF this assms(3), of k] assms(4,5)
  show ?thesis by simp
qed

end

interpretation fin: money_mover "Move V" ledger_inv avail held posted for V
proof
  fix db :: fin_db and legs db' m k
  assume "ledger_inv db" and "Move V legs db = (db', Inr m)"
  from Move_Inr [OF this, of k] show "ledger_inv db' \<and> avail db' k = avail db k + avail_delta legs k
      \<and> held db' k = held db k + held_delta legs k
      \<and> posted db' = posted db \<union> leg_keys legs \<and> posted db \<inter> leg_keys legs = {}"
    by simp
next
  fix db :: fin_db and legs db' e
  assume "ledger_inv db" and "Move V legs db = (db', Inl e)"
  then show "ledger_inv db' \<and> avail db' = avail db \<and> held db' = held db \<and> posted db' = posted db"
    using same_money [of db' db] by (auto dest: Move_Inl)
next
  fix db :: fin_db and k
  assume "ledger_inv db"
  then show "0 \<le> avail db k \<and> 0 \<le> held db k" using ledger_invD(4,5) by blast
qed

end
