(* ===== verification/FinanceService.thy ===== *)
theory FinanceService
  imports FinanceStore OpaqueId
begin

text \<open>
  The finance service (\<open>finance/service.go\<close>, \<open>service_wallet.go\<close>, \<open>service_session.go\<close>,
  \<open>service_withdrawal.go\<close>, \<open>service_payee.go\<close>): every handler that moves money or a session, over
  the tables of FinanceStore.

  What the service calls and does not own is the record \<open>fin_env\<close>: the validator, the account
  module's answers, the rails, the option registry, the allowed return hosts with the URL
  parser, the JSON codec of the withdrawal context and the id cipher. A handler reads the clock
  once (\<open>now\<close>). A handler answers the domain entity; the copy into the DTO is not modelled.
\<close>

section \<open>The environment\<close>

datatype rail_status = RailSuccess | RailFailed | RailOpen

record charge_params =
  cp_ref :: string
  cp_option :: string
  cp_amount :: i64
  cp_currency :: string
  cp_description :: string
  cp_return_url :: string

record charge_result =
  cr_provider_id :: string
  cr_redirect_url :: string
  cr_status :: rail_status

record withdrawalData =
  wd_bank :: i64
  wd_reason :: string
  wd_provider_ref :: string
  wd_resolved_by :: "i64 option"
  wd_resolved_at :: "time option"

record fin_env =
  e_V :: validator
  e_is_admin :: "i64 \<Rightarrow> string + bool"
  e_verified :: "i64 \<Rightarrow> string + bool"
  e_options :: "(string \<times> string) list"
  e_rails :: "string \<Rightarrow> (charge_params \<Rightarrow> string + charge_result) option"
  e_return_hosts :: "string list"
  e_url_host :: "string \<Rightarrow> string option"
  e_encode_wd :: "withdrawalData \<Rightarrow> string"
  e_decode_wd :: "string \<Rightarrow> withdrawalData option"
  e_cipher :: "codec option"
  e_sha :: "string \<Rightarrow> u8 list"

definition sessionTTL :: duration where "sessionTTL = 15 * 60 * 1000000000"
definition withdrawalTTL :: duration where "withdrawalTTL = 30 * 24 * 3600 * 1000000000"

text \<open>\<open>if err := m; errors.Is(err, e) { return nil }\<close>, then \<open>k\<close>.\<close>

definition tolerate :: "finance_err \<Rightarrow> unit fin_act \<Rightarrow> unit fin_act \<Rightarrow> unit fin_act" where
  "tolerate e m k = act_bind (attempt m) (\<lambda>r. case r of
     Inl e' \<Rightarrow> if e' = e then ret () else fail e'
   | Inr _ \<Rightarrow> k)"

definition requireAdmin :: "fin_env \<Rightarrow> i64 \<Rightarrow> unit fin_act" where
  "requireAdmin E actor = (case e_is_admin E actor of
     Inl msg \<Rightarrow> fail (FinAccounts msg)
   | Inr admin \<Rightarrow> ensure admin ErrAdminRequired)"

definition checkReturnURL :: "fin_env \<Rightarrow> string \<Rightarrow> unit fin_act" where
  "checkReturnURL E raw =
    (if raw = [] then ret ()
     else case e_url_host E raw of
       None \<Rightarrow> fail ErrReturnURLNotAllowed
     | Some host \<Rightarrow>
         if host = [] then fail ErrReturnURLNotAllowed
         else if host \<in> set (e_return_hosts E) then ret () else fail ErrReturnURLNotAllowed)"

text \<open>The enabled rows of the registry, as pairs of an option id and its provider.\<close>

definition paymentOption :: "fin_env \<Rightarrow> string \<Rightarrow> (string \<times> string) fin_act" where
  "paymentOption E slug = of_option ErrPaymentOptionUnknown (find (\<lambda>o'. fst o' = slug) (e_options E))"

section \<open>Escrow\<close>

record escrow_req =
  er_buyer :: i64
  er_seller :: i64
  er_order :: i64
  er_currency :: string
  er_amount :: i64
  er_fee :: i64
  er_key :: string

definition escrow_fields :: "escrow_req \<Rightarrow> vfield list" where
  "escrow_fields r =
    [([Required], VInt (er_buyer r)),
     ([Required], VInt (er_seller r)),
     ([Required], VInt (er_order r)),
     ([Required, Len 3, Uppercase], VStr (er_currency r)),
     ([Required, Gt 0], VInt (er_amount r)),
     ([Gte 0], VInt (er_fee r)),
     ([Required, Max 200], VStr (er_key r))]"

definition mk_leg :: "i64 \<Rightarrow> string \<Rightarrow> transfer \<Rightarrow> leg" where
  "mk_leg account currency t = \<lparr>l_account = account, l_currency = currency, l_transfer = t\<rparr>"

definition hold_legs :: "escrow_req \<Rightarrow> leg list" where
  "hold_legs r =
    (let rf = OrderRef (er_order r) in
     [mk_leg (er_buyer r) (er_currency r)
        (Debit WalletKindEscrowHold (er_amount r) rf (er_key r @ '':buyer'') ''checkout debit''),
      mk_leg (er_seller r) (er_currency r)
        (transfer_of WalletKindEscrowHold 0 (er_amount r) (ref_Type rf) (ref_ID rf)
           (Some (er_key r @ '':seller'')) ''escrow hold'')]
     @ (if 0 < sint (er_fee r) then
          [mk_leg (er_buyer r) (er_currency r)
            (Debit WalletKindFee (er_fee r) rf (er_key r @ '':shipping'') ''shipping fee'')]
        else []))"

definition HoldEscrow :: "fin_env \<Rightarrow> escrow_req \<Rightarrow> unit fin_act" where
  "HoldEscrow E r =
    act_bind (ensure (struct_ok (e_V E) (escrow_fields r)) FinValidation) (\<lambda>_.
    act_bind (Move (e_V E) (hold_legs r)) (\<lambda>_. ret ()))"

definition release_legs :: "escrow_req \<Rightarrow> leg list" where
  "release_legs r =
    [mk_leg (er_seller r) (er_currency r)
      (Release (er_amount r) (OrderRef (er_order r)) (er_key r) ''escrow release'')]"

definition ReleaseEscrow :: "fin_env \<Rightarrow> escrow_req \<Rightarrow> unit fin_act" where
  "ReleaseEscrow E r =
    act_bind (ensure (struct_ok (e_V E) (escrow_fields r)) FinValidation) (\<lambda>_.
    act_bind (Move (e_V E) (release_legs r)) (\<lambda>_. ret ()))"

definition refund_legs :: "escrow_req \<Rightarrow> leg list" where
  "refund_legs r =
    (let rf = OrderRef (er_order r) in
     [mk_leg (er_seller r) (er_currency r)
        (transfer_of WalletKindRefund 0 (- er_amount r) (ref_Type rf) (ref_ID rf)
           (Some (er_key r @ '':seller'')) ''refund released from escrow''),
      mk_leg (er_buyer r) (er_currency r)
        (Credit WalletKindRefund (er_amount r) rf (er_key r @ '':buyer'') ''refund returned'')]
     @ (if 0 < sint (er_fee r) then
          [mk_leg (er_buyer r) (er_currency r)
            (Credit WalletKindRefund (er_fee r) rf (er_key r @ '':shipping'') ''shipping fee returned'')]
        else []))"

definition RefundEscrow :: "fin_env \<Rightarrow> escrow_req \<Rightarrow> unit fin_act" where
  "RefundEscrow E r =
    act_bind (ensure (struct_ok (e_V E) (escrow_fields r)) FinValidation) (\<lambda>_.
    act_bind (Move (e_V E) (refund_legs r)) (\<lambda>_. ret ()))"

section \<open>Wallets\<close>

record adjust_req =
  ar_actor :: i64
  ar_account :: i64
  ar_currency :: string
  ar_available :: i64
  ar_held :: i64
  ar_reason :: string
  ar_key :: string

definition adjust_fields :: "adjust_req \<Rightarrow> vfield list" where
  "adjust_fields r =
    [([Required], VInt (ar_actor r)),
     ([Required], VInt (ar_account r)),
     ([Required, Len 3, Uppercase], VStr (ar_currency r)),
     ([Required, Min 1, Max 2000], VStr (ar_reason r)),
     ([Required, Max 200], VStr (ar_key r))]"

definition GetWallet :: "fin_env \<Rightarrow> i64 \<Rightarrow> i64 \<Rightarrow> string \<Rightarrow> wallet fin_act" where
  "GetWallet E actor account currency =
    act_bind (if account \<noteq> actor then requireAdmin E actor else ret ()) (\<lambda>_.
    FindWallet account currency)"

definition AdminAdjustWallet :: "fin_env \<Rightarrow> adjust_req \<Rightarrow> wallet fin_act" where
  "AdminAdjustWallet E r =
    act_bind (requireAdmin E (ar_actor r)) (\<lambda>_.
    act_bind (ensure (struct_ok (e_V E) (adjust_fields r)) FinValidation) (\<lambda>_.
    act_bind (attempt (Move (e_V E)
        [mk_leg (ar_account r) (ar_currency r)
           (Adjust (ar_available r) (ar_held r) (''adjustment:'' @ ar_key r) (ar_reason r))])) (\<lambda>res.
    act_bind (case res of
        Inl e \<Rightarrow> if e \<noteq> ErrMovementAlreadyPosted then fail e else ret ()
      | Inr _ \<Rightarrow> ret ()) (\<lambda>_.
    FindWallet (ar_account r) (ar_currency r)))))"

section \<open>Checkout sessions\<close>

record checkout_req =
  cq_buyer :: i64
  cq_seller :: i64
  cq_currency :: string
  cq_total :: i64
  cq_note :: string
  cq_data :: string

definition checkout_fields :: "checkout_req \<Rightarrow> vfield list" where
  "checkout_fields r =
    [([Required], VInt (cq_buyer r)),
     ([Required], VInt (cq_seller r)),
     ([Required, Len 3, Uppercase], VStr (cq_currency r)),
     ([Required, Gt 0], VInt (cq_total r)),
     ([Max 500], VStr (cq_note r))]"

record tender =
  td_outstanding :: i64
  td_checkout_url :: string

definition OpenCheckout :: "fin_env \<Rightarrow> time \<Rightarrow> checkout_req \<Rightarrow> (session \<times> tender) fin_act" where
  "OpenCheckout E now r =
    act_bind (ensure (struct_ok (e_V E) (checkout_fields r)) FinValidation) (\<lambda>_.
    act_bind NextSessionID (\<lambda>sid.
    act_bind (of_sum (NewSession (e_V E) now sid KindBuyerCheckout (cq_buyer r) (cq_seller r)
        (cq_note r) (cq_currency r) (cq_total r) (cq_data r) sessionTTL)) (\<lambda>s.
    act_bind (InsertSession s) (\<lambda>_.
    ret (s, \<lparr>td_outstanding = s_total s, td_checkout_url = []\<rparr>)))))"

definition party :: "i64 \<Rightarrow> i64 \<Rightarrow> session fin_act" where
  "party actor sid =
    act_bind (FindSessionByID sid) (\<lambda>s.
    act_bind (ensure (session_Involves s actor) ErrSessionNotFound) (\<lambda>_. ret s))"

text \<open>
  \<open>tenderOf\<close>: the sum of the settled legs, which wraps as Go's does, and the page of the last leg
  the payer can be sent back to.
\<close>

definition settled_sum :: "txn list \<Rightarrow> i64" where
  "settled_sum legs = foldl (\<lambda>acc t. if x_status t = StatusSuccess then acc + x_amount t else acc) 0 legs"

definition resume_url :: "bool \<Rightarrow> time \<Rightarrow> txn list \<Rightarrow> string" where
  "resume_url resumable now legs =
    foldl (\<lambda>url t. if resumable \<and> txn_Resumable t now then the (x_checkout_url t) else url) [] legs"

definition tenderOf :: "time \<Rightarrow> session \<Rightarrow> tender fin_act" where
  "tenderOf now s =
    act_bind (ListTransactions (s_id s)) (\<lambda>legs.
    ret \<lparr>td_outstanding = (let settled = settled_sum legs
                           in if sint settled < sint (s_total s) then s_total s - settled else 0),
         td_checkout_url = resume_url (session_Resumable s now) now legs\<rparr>)"

definition GetSession :: "time \<Rightarrow> i64 \<Rightarrow> i64 \<Rightarrow> (session \<times> tender) fin_act" where
  "GetSession now actor sid =
    act_bind (party actor sid) (\<lambda>s. act_bind (tenderOf now s) (\<lambda>t. ret (s, t)))"

definition ListSessionTransactions :: "i64 \<Rightarrow> i64 \<Rightarrow> txn list fin_act" where
  "ListSessionTransactions actor sid =
    act_bind (party actor sid) (\<lambda>_. ListTransactions sid)"

definition resumable :: "time \<Rightarrow> session \<Rightarrow> string \<Rightarrow> txn option fin_act" where
  "resumable now s opt =
    (if \<not> session_Resumable s now then ret None
     else act_bind (ListTransactions (s_id s)) (\<lambda>legs.
       ret (find (\<lambda>t. x_option t = opt \<and> txn_Resumable t now) legs)))"

text \<open>Events are handed to the bus best-effort; \<open>d_bus\<close> is what was handed over.\<close>

definition publish :: "fin_event \<Rightarrow> unit fin_act" where
  "publish ev = modify (\<lambda>db. db\<lparr>d_bus := d_bus db @ [ev]\<rparr>)"

definition publishPaid :: "session \<Rightarrow> unit fin_act" where
  "publishPaid s = publish (SessionPaid (s_id s) (s_kind s) (s_from s) (s_to s) (s_currency s) (s_total s) (s_data s))"

definition publishCancelled :: "session \<Rightarrow> unit fin_act" where
  "publishCancelled s = publish (SessionCancelled (s_id s) (s_kind s) (s_from s) (s_to s))"

definition topup_key :: "i64 \<Rightarrow> string" where
  "topup_key sid = ''session:'' @ dec_i64 sid @ '':topup''"

definition creditRail :: "fin_env \<Rightarrow> session \<Rightarrow> unit fin_act" where
  "creditRail E s =
    (if \<not> RailPayable s \<or> s_from s = 0 then ret ()
     else tolerate ErrMovementAlreadyPosted
       (act_bind (Move (e_V E) [mk_leg (s_from s) (s_currency s)
          (Credit WalletKindTopup (s_total s) (SessionRef (s_id s)) (topup_key (s_id s)) (s_note s))])
          (\<lambda>_. ret ()))
       (ret ()))"

text \<open>\<open>settle\<close> from the point where the leg's own row is saved: the effect on its session.\<close>

definition settle_session :: "fin_env \<Rightarrow> time \<Rightarrow> status \<Rightarrow> txn \<Rightarrow> unit fin_act" where
  "settle_session E now domainStatus leg =
    act_bind (FindSessionByID (x_session leg)) (\<lambda>s.
    if domainStatus = StatusFailed then
      (case ReopenForRetry now s of
         Inl _ \<Rightarrow> ret ()
       | Inr s' \<Rightarrow> tolerate ErrSessionSettled (SaveSession s' [StatusProcessing]) (ret ()))
    else
      act_bind (tenderOf now s) (\<lambda>state.
      if 0 < sint (td_outstanding state) then ret ()
      else
        act_bind (creditRail E s) (\<lambda>_.
        case MarkPaid now s of
          Inl e \<Rightarrow> if e = ErrSessionSettled then ret () else fail e
        | Inr s' \<Rightarrow>
            tolerate ErrSessionSettled (SaveSession s' [StatusPending, StatusProcessing])
              (publishPaid s'))))"

definition settle :: "fin_env \<Rightarrow> time \<Rightarrow> txn \<Rightarrow> rail_status \<Rightarrow> string \<Rightarrow> string \<Rightarrow> unit fin_act" where
  "settle E now leg st providerRef note =
    (let domainStatus = (if st = RailSuccess then StatusSuccess else StatusFailed)
     in case txn_Settle now domainStatus providerRef note leg of
       Inl e \<Rightarrow> if e = ErrTransactionSettled then ret () else fail e
     | Inr leg' \<Rightarrow>
         tolerate ErrTransactionSettled (SaveTransaction leg') (settle_session E now domainStatus leg'))"

record notification =
  n_ref :: string
  n_status :: rail_status
  n_status_text :: string
  n_provider_txn :: string

definition Settle :: "fin_env \<Rightarrow> time \<Rightarrow> notification \<Rightarrow> unit fin_act" where
  "Settle E now n =
    (case Parse (e_cipher E) (e_sha E) K_Transaction (n_ref n) of
       Inl _ \<Rightarrow> fail FinInvalidID
     | Inr legID \<Rightarrow>
         act_bind (FindTransactionByID legID) (\<lambda>leg.
         settle E now leg (if n_status n = RailSuccess then RailSuccess else RailFailed)
           (n_provider_txn n) (n_status_text n)))"

record start_req =
  sr_actor :: i64
  sr_session :: i64
  sr_option :: string
  sr_amount :: "i64 option"
  sr_return_url :: string

text \<open>The leg once the rail has answered: the gateway's id and page are kept when they are given.\<close>

definition with_charge :: "charge_result \<Rightarrow> txn \<Rightarrow> txn" where
  "with_charge c leg =
    (let leg1 = (if cr_provider_id c \<noteq> [] then leg\<lparr>x_provider_ref := Some (cr_provider_id c)\<rparr> else leg)
     in if cr_redirect_url c \<noteq> [] then leg1\<lparr>x_checkout_url := Some (cr_redirect_url c)\<rparr> else leg1)"

text \<open>\<open>StartPayment\<close> from the outstanding balance on: the leg is opened, charged, stored, and settled at once where the rail decided.\<close>

definition open_leg ::
  "fin_env \<Rightarrow> time \<Rightarrow> start_req \<Rightarrow> session \<Rightarrow> (charge_params \<Rightarrow> string + charge_result) \<Rightarrow> txn fin_act" where
  "open_leg E now r s rail =
    act_bind (tenderOf now s) (\<lambda>state.
    act_bind (gets (\<lambda>_. case sr_amount r of None \<Rightarrow> td_outstanding state | Some a \<Rightarrow> a)) (\<lambda>amount.
    act_bind (ensure (0 < sint amount \<and> sint amount \<le> sint (td_outstanding state)) ErrChargeAmountInvalid) (\<lambda>_.
    act_bind (of_sum (session_Charge now s)) (\<lambda>s'.
    act_bind NextTransactionID (\<lambda>legID.
    act_bind (of_sum (NewCharge (e_V E) legID (s_id s') (sr_option r) (s_currency s') amount [])) (\<lambda>leg.
    act_bind (map_err (\<lambda>_. FinInvalidID) (of_sum (id_String (e_cipher E) (e_sha E) K_Transaction legID))) (\<lambda>refID.
    act_bind (map_err FinRail (of_sum (rail \<lparr>cp_ref = refID, cp_option = sr_option r, cp_amount = amount,
        cp_currency = s_currency s', cp_description = s_note s', cp_return_url = sr_return_url r\<rparr>))) (\<lambda>charge.
    act_bind (InsertTransaction (with_charge charge leg)) (\<lambda>_.
    act_bind (SaveSession s' [StatusPending]) (\<lambda>_.
    if cr_status charge = RailSuccess \<or> cr_status charge = RailFailed then
      act_bind (settle E now (with_charge charge leg) (cr_status charge) (cr_provider_id charge) []) (\<lambda>_.
      FindTransactionByID (x_id leg))
    else ret (with_charge charge leg)))))))))))"

definition StartPayment :: "fin_env \<Rightarrow> time \<Rightarrow> start_req \<Rightarrow> txn fin_act" where
  "StartPayment E now r =
    act_bind (party (sr_actor r) (sr_session r)) (\<lambda>s.
    act_bind (ensure (s_from s = sr_actor r) ErrSessionNotPayable) (\<lambda>_.
    act_bind (paymentOption E (sr_option r)) (\<lambda>opt.
    act_bind (of_option FinOptionProviderUnknown (e_rails E (snd opt))) (\<lambda>rail.
    act_bind (checkReturnURL E (sr_return_url r)) (\<lambda>_.
    act_bind (resumable now s (sr_option r)) (\<lambda>resumed.
    case resumed of
      Some leg \<Rightarrow> ret leg
    | None \<Rightarrow> open_leg E now r s rail))))))"

definition CancelSession :: "time \<Rightarrow> i64 \<Rightarrow> i64 \<Rightarrow> session fin_act" where
  "CancelSession now actor sid =
    act_bind (party actor sid) (\<lambda>s.
    act_bind (ensure (s_from s = actor) ErrSessionNotPayable) (\<lambda>_.
    act_bind (ensure (RailPayable s) ErrSessionKindNotCancellable) (\<lambda>_.
    act_bind (of_sum (session_Cancel s)) (\<lambda>s'.
    act_bind (SaveSession s' [StatusPending, StatusProcessing]) (\<lambda>_.
    act_bind (publishCancelled s') (\<lambda>_. ret s'))))))"

section \<open>Withdrawals\<close>

record withdraw_req =
  wr_actor :: i64
  wr_bank :: i64
  wr_currency :: string
  wr_amount :: i64

definition liveWithdrawal :: "status list" where
  "liveWithdrawal = [StatusPending, StatusProcessing]"

definition withdrawal_key :: "i64 \<Rightarrow> string" where
  "withdrawal_key sid = ''withdrawal:'' @ dec_i64 sid"

definition CreateWithdrawal :: "fin_env \<Rightarrow> time \<Rightarrow> withdraw_req \<Rightarrow> session fin_act" where
  "CreateWithdrawal E now r =
    act_bind (FindBankAccount (wr_bank r) (wr_actor r)) (\<lambda>payee.
    act_bind (case e_verified E (wr_actor r) of
        Inl msg \<Rightarrow> fail (FinAccounts msg) | Inr v \<Rightarrow> ensure v ErrPayeeUnverified) (\<lambda>_.
    act_bind NextSessionID (\<lambda>sid.
    act_bind (of_sum (NewSession (e_V E) now sid KindWithdrawal (wr_actor r) 0 ''withdrawal''
        (wr_currency r) (wr_amount r)
        (e_encode_wd E \<lparr>wd_bank = b_id payee, wd_reason = [], wd_provider_ref = [],
                        wd_resolved_by = None, wd_resolved_at = None\<rparr>) withdrawalTTL)) (\<lambda>s.
    act_bind (InsertWithdrawal (e_V E) s (mk_leg (wr_actor r) (wr_currency r)
        (Debit WalletKindWithdrawal (wr_amount r) (SessionRef (s_id s)) (withdrawal_key (s_id s))
           ''withdrawal requested''))) (\<lambda>_.
    ret s)))))"

definition withdrawal :: "fin_env \<Rightarrow> i64 \<Rightarrow> i64 \<Rightarrow> bool \<Rightarrow> session fin_act" where
  "withdrawal E actor sid admin =
    act_bind (if admin then requireAdmin E actor else ret ()) (\<lambda>_.
    act_bind (FindSessionByID sid) (\<lambda>s.
    act_bind (ensure (s_kind s = KindWithdrawal) ErrWithdrawalNotFound) (\<lambda>_.
    act_bind (ensure (admin \<or> s_from s = actor) ErrWithdrawalNotFound) (\<lambda>_. ret s))))"

definition decodeWithdrawal :: "fin_env \<Rightarrow> session \<Rightarrow> withdrawalData fin_act" where
  "decodeWithdrawal E s =
    (if s_data s = [] then ret \<lparr>wd_bank = 0, wd_reason = [], wd_provider_ref = [],
                                wd_resolved_by = None, wd_resolved_at = None\<rparr>
     else of_option FinDecode (e_decode_wd E (s_data s)))"

definition saveWithdrawalData :: "fin_env \<Rightarrow> session \<Rightarrow> withdrawalData \<Rightarrow> session fin_act" where
  "saveWithdrawalData E s d =
    (let s' = s\<lparr>s_data := e_encode_wd E d\<rparr>
     in act_bind (SaveSession s' liveWithdrawal) (\<lambda>_. ret s'))"

definition return_leg :: "session \<Rightarrow> string \<Rightarrow> leg" where
  "return_leg s note = mk_leg (s_from s) (s_currency s)
     (Credit WalletKindWithdrawal (s_total s) (SessionRef (s_id s))
        (withdrawal_key (s_id s) @ '':return'') note)"

definition returnWithdrawal :: "fin_env \<Rightarrow> session \<Rightarrow> string \<Rightarrow> unit fin_act" where
  "returnWithdrawal E s note = act_bind (Move (e_V E) [return_leg s note]) (\<lambda>_. ret ())"

definition CancelWithdrawal :: "fin_env \<Rightarrow> i64 \<Rightarrow> i64 \<Rightarrow> unit fin_act" where
  "CancelWithdrawal E actor sid =
    act_bind (withdrawal E actor sid False) (\<lambda>s.
    act_bind (of_sum (session_Cancel s)) (\<lambda>s'.
    act_bind (SaveSession s' liveWithdrawal) (\<lambda>_.
    returnWithdrawal E s' ''withdrawal cancelled'')))"

record resolve_req =
  rr_actor :: i64
  rr_session :: i64
  rr_reason :: string
  rr_provider_ref :: string

definition AdminApproveWithdrawal :: "fin_env \<Rightarrow> time \<Rightarrow> resolve_req \<Rightarrow> session fin_act" where
  "AdminApproveWithdrawal E now r =
    act_bind (withdrawal E (rr_actor r) (rr_session r) True) (\<lambda>s.
    act_bind (of_sum (MarkPaid now s)) (\<lambda>s'.
    act_bind (decodeWithdrawal E s') (\<lambda>d.
    saveWithdrawalData E s' (d\<lparr>wd_provider_ref := rr_provider_ref r, wd_reason := rr_reason r,
      wd_resolved_by := Some (rr_actor r), wd_resolved_at := Some now\<rparr>))))"

definition AdminRejectWithdrawal :: "fin_env \<Rightarrow> time \<Rightarrow> resolve_req \<Rightarrow> session fin_act" where
  "AdminRejectWithdrawal E now r =
    act_bind (withdrawal E (rr_actor r) (rr_session r) True) (\<lambda>s.
    act_bind (ensure (rr_reason r \<noteq> []) ErrRejectionNeedsReason) (\<lambda>_.
    act_bind (of_sum (MarkFailed s)) (\<lambda>s'.
    act_bind (decodeWithdrawal E s') (\<lambda>d.
    act_bind (saveWithdrawalData E s' (d\<lparr>wd_reason := rr_reason r,
      wd_resolved_by := Some (rr_actor r), wd_resolved_at := Some now\<rparr>)) (\<lambda>s''.
    act_bind (returnWithdrawal E s'' (''withdrawal rejected: '' @ rr_reason r)) (\<lambda>_. ret s''))))))"

datatype withdrawal_outcome =
  WithdrawalApproved | WithdrawalRejected | WithdrawalCancelled | WithdrawalAwaitingReview

definition withdrawalOutcome :: "status \<Rightarrow> withdrawal_outcome" where
  "withdrawalOutcome st = (case st of
     StatusSuccess \<Rightarrow> WithdrawalApproved
   | StatusFailed \<Rightarrow> WithdrawalRejected
   | StatusCancelled \<Rightarrow> WithdrawalCancelled
   | _ \<Rightarrow> WithdrawalAwaitingReview)"

section \<open>The service as a machine\<close>

text \<open>Every write the service offers, as one step: the outcome of a call is the next state whatever it answers.\<close>

datatype fin_op =
    OpOpenCheckout checkout_req
  | OpStartPayment start_req
  | OpCancelSession i64 i64
  | OpSettle notification
  | OpHoldEscrow escrow_req
  | OpReleaseEscrow escrow_req
  | OpRefundEscrow escrow_req
  | OpAdjust adjust_req
  | OpCreateWithdrawal withdraw_req
  | OpCancelWithdrawal i64 i64
  | OpApproveWithdrawal resolve_req
  | OpRejectWithdrawal resolve_req

fun fin_call :: "fin_env \<Rightarrow> time \<Rightarrow> fin_op \<Rightarrow> unit fin_act" where
  "fin_call E now (OpOpenCheckout r) = act_bind (OpenCheckout E now r) (\<lambda>_. ret ())"
| "fin_call E now (OpStartPayment r) = act_bind (StartPayment E now r) (\<lambda>_. ret ())"
| "fin_call E now (OpCancelSession a sid) = act_bind (CancelSession now a sid) (\<lambda>_. ret ())"
| "fin_call E now (OpSettle n) = Settle E now n"
| "fin_call E now (OpHoldEscrow r) = HoldEscrow E r"
| "fin_call E now (OpReleaseEscrow r) = ReleaseEscrow E r"
| "fin_call E now (OpRefundEscrow r) = RefundEscrow E r"
| "fin_call E now (OpAdjust r) = act_bind (AdminAdjustWallet E r) (\<lambda>_. ret ())"
| "fin_call E now (OpCreateWithdrawal r) = act_bind (CreateWithdrawal E now r) (\<lambda>_. ret ())"
| "fin_call E now (OpCancelWithdrawal a sid) = CancelWithdrawal E a sid"
| "fin_call E now (OpApproveWithdrawal r) = act_bind (AdminApproveWithdrawal E now r) (\<lambda>_. ret ())"
| "fin_call E now (OpRejectWithdrawal r) = act_bind (AdminRejectWithdrawal E now r) (\<lambda>_. ret ())"

definition empty_fin :: fin_db where
  "empty_fin = \<lparr>d_wallets = Map.empty, d_ledger = [], d_sessions = Map.empty, d_txns = [], d_banks = [],
     d_session_seq = 0, d_txn_seq = 0, d_ledger_seq = 0, d_bank_seq = 0, d_bus = []\<rparr>"

inductive fin_reach :: "fin_env \<Rightarrow> fin_db \<Rightarrow> bool" for E where
  from_empty: "fin_reach E (empty_fin\<lparr>d_banks := banks\<rparr>)"
| by_call: "fin_reach E db \<Longrightarrow> fin_call E now op db = (db', r) \<Longrightarrow> fin_reach E db'"

lemma fin_reach_invariant:
  assumes "\<And>banks. I (empty_fin\<lparr>d_banks := banks\<rparr>)" and "\<And>now op. keeps I (fin_call E now op)"
    and "fin_reach E db"
  shows "I db"
  using assms(3) by (induction rule: fin_reach.induct) (auto intro: assms(1) keepsD [OF assms(2)])

lemmas handler_defs =
  OpenCheckout_def StartPayment_def open_leg_def CancelSession_def Settle_def settle_def settle_session_def
  HoldEscrow_def ReleaseEscrow_def RefundEscrow_def AdminAdjustWallet_def
  CreateWithdrawal_def CancelWithdrawal_def AdminApproveWithdrawal_def AdminRejectWithdrawal_def
  party_def requireAdmin_def paymentOption_def checkReturnURL_def resumable_def tenderOf_def
  creditRail_def publishPaid_def publishCancelled_def withdrawal_def decodeWithdrawal_def
  saveWithdrawalData_def returnWithdrawal_def tolerate_def
  FindBankAccount_def FindSessionByID_def FindTransactionByID_def FindWallet_def
  ListTransactions_def

lemma InsertWithdrawal_runs:
  "InsertWithdrawal V s debit db = (db', Inr ()) \<longleftrightarrow>
    (\<exists>db1 ms. insertSession s db = (db1, Inr ()) \<and> move V [debit] db1 = (db', Inr ms))"
  "InsertWithdrawal V s debit db = (db', Inl e) \<Longrightarrow> \<exists>t. db' = keep_seqs db t"
  by (auto simp: InsertWithdrawal_def InTx_def act_runs)

lemma insertSession_Inr:
  "insertSession s db = (db', Inr ()) \<longleftrightarrow>
    d_sessions db (s_id s) = None \<and> currency_format (s_currency s) \<and> 0 < sint (s_total s)
    \<and> db' = db\<lparr>d_sessions := (d_sessions db)(s_id s \<mapsto> s\<lparr>s_paid_at := None\<rparr>)\<rparr>"
  by (auto simp: insertSession_def act_runs)

lemma tenderOf_Inr: "tenderOf now s db = (db', r) \<Longrightarrow> db' = db"
  by (auto simp: tenderOf_def ListTransactions_def act_defs)

lemma tolerate_runs:
  "tolerate e m k db = (db', Inr ()) \<longleftrightarrow>
    m db = (db', Inl e) \<or> (\<exists>db1. m db = (db1, Inr ()) \<and> k db1 = (db', Inr ()))"
  "tolerate e m k db = (db', Inl e') \<Longrightarrow>
    m db = (db', Inl e') \<or> (\<exists>db1. m db = (db1, Inr ()) \<and> k db1 = (db', Inl e'))"
  by (cases "m db"; cases "snd (m db)"; auto simp: tolerate_def act_defs split: if_splits)+

section \<open>Invariants of the money\<close>

text \<open>
  A predicate of the wallets and the ledger that one \<open>move\<close> keeps is kept by every call the
  service offers, whatever it answers.
\<close>

locale money_invariant =
  fixes I :: "fin_db \<Rightarrow> bool"
  assumes rows_only: "I db \<Longrightarrow> d_wallets db' = d_wallets db \<Longrightarrow> d_ledger db' = d_ledger db \<Longrightarrow> I db'"
    and moved: "I db \<Longrightarrow> move V legs db = (db', Inr ms) \<Longrightarrow> I db'"
begin

lemma keeps_Move [keeps_intros]: "keeps I (Move V legs)"
proof (rule keepsI)
  fix db db' :: fin_db and r
  assume "I db" and run: "Move V legs db = (db', r)"
  then show "I db'"
    by (cases r) (auto simp: Move_def InTx_def in_tx_Inl split: if_splits intro: moved rows_only)
qed

lemma keeps_NextSessionID [keeps_intros]: "keeps I NextSessionID"
  and keeps_NextTransactionID [keeps_intros]: "keeps I NextTransactionID"
  and keeps_InsertSession [keeps_intros]: "keeps I (InsertSession s)"
  and keeps_SaveSession [keeps_intros]: "keeps I (SaveSession s from)"
  and keeps_InsertTransaction [keeps_intros]: "keeps I (InsertTransaction t)"
  and keeps_SaveTransaction [keeps_intros]: "keeps I (SaveTransaction t)"
  and keeps_publish [keeps_intros]: "keeps I (publish ev)"
  by (rule keepsI, erule rows_only;
      auto simp: NextSessionID_def NextTransactionID_def nextval_def InsertSession_def insertSession_def
        SaveSession_def InsertTransaction_def SaveTransaction_def publish_def act_defs
        split: if_splits option.splits)+

lemma keeps_InsertWithdrawal [keeps_intros]: "keeps I (InsertWithdrawal V s debit)"
proof (rule keepsI)
  fix db db' :: fin_db and r :: "finance_err + unit"
  assume I: "I db" and run: "InsertWithdrawal V s debit db = (db', r)"
  show "I db'"
  proof (cases r)
    case (Inl e)
    with run InsertWithdrawal_runs(2) obtain t where "db' = keep_seqs db t" by blast
    with I show ?thesis by (auto intro: rows_only)
  next
    case (Inr u)
    with run obtain db1 ms where ins: "insertSession s db = (db1, Inr ())" and "move V [debit] db1 = (db', Inr ms)"
      by (auto simp: InsertWithdrawal_runs)
    moreover have "I db1"
      using I ins by (auto simp: insertSession_Inr intro: rows_only)
    ultimately show ?thesis using moved by blast
  qed
qed

lemma keeps_call: "keeps I (fin_call E now op)"
  by (cases op; simp only: fin_call.simps handler_defs Let_def; intro keeps_intros)

end

interpretation ledger: money_invariant ledger_inv
proof
  fix db db' :: fin_db
  assume "ledger_inv db" "d_wallets db' = d_wallets db" "d_ledger db' = d_ledger db"
  then show "ledger_inv db'" using same_money(1) [of db' db] by simp
next
  fix db db' :: fin_db and V legs ms
  assume "ledger_inv db" "move V legs db = (db', Inr ms)"
  then show "ledger_inv db'" using move_effect by blast
qed

text \<open>A key once in the ledger stays there.\<close>

interpretation keys: money_invariant "\<lambda>db. ledger_inv db \<and> K \<subseteq> posted db" for K
proof
  fix db db' :: fin_db
  assume "ledger_inv db \<and> K \<subseteq> posted db" "d_wallets db' = d_wallets db" "d_ledger db' = d_ledger db"
  then show "ledger_inv db' \<and> K \<subseteq> posted db'" using same_money(1,4) [of db' db] by simp
next
  fix db db' :: fin_db and V legs ms
  assume I: "ledger_inv db \<and> K \<subseteq> posted db" and "move V legs db = (db', Inr ms)"
  then have "ledger_inv db'" and "d_ledger db' = d_ledger db @ ms" using move_effect by blast+
  with I show "ledger_inv db' \<and> K \<subseteq> posted db'" by (auto simp: posted_def)
qed

section \<open>Invariants of the session and leg rows\<close>

definition rows_are :: "(i64 \<rightharpoonup> session) \<Rightarrow> txn list \<Rightarrow> fin_db \<Rightarrow> bool" where
  "rows_are S T db \<longleftrightarrow> d_sessions db = S \<and> d_txns db = T"

lemma rows_money_statements:
  "keeps (rows_are S T) nextGroupID"
  "keeps (rows_are S T) (lockWallet a c)" "keeps (rows_are S T) (nextSeq a c)"
  "keeps (rows_are S T) (saveBalances w)"
  by (rule keepsI;
      auto simp: nextGroupID_def nextval_def lockWallet_def nextSeq_def saveBalances_def rows_are_def act_defs Let_def
        split: if_splits option.splits)+

lemma rows_insertMovement: "keeps (rows_are S T) (insertMovement m)"
  unfolding insertMovement_def by (intro keeps_intros rows_money_statements) (simp add: rows_are_def)

lemma rows_move_leg: "keeps (rows_are S T) (move_leg V g l)"
  unfolding move_leg_def by (intro keeps_intros rows_money_statements rows_insertMovement)

lemma rows_move_legs: "keeps (rows_are S T) (move_legs V g ls)"
proof (induction ls)
  case (Cons l ls)
  then show ?case by (simp, intro keeps_intros rows_move_leg)
qed (simp add: keeps_ret)

lemma rows_move: "keeps (rows_are S T) (move V legs)"
  unfolding move_def by (intro keeps_intros rows_money_statements rows_move_legs)

lemma move_rows:
  "move V legs db = (db', r) \<Longrightarrow> d_sessions db' = d_sessions db \<and> d_txns db' = d_txns db"
  using keepsD [OF rows_move, of "d_sessions db" "d_txns db" db V legs db' r] by (simp add: rows_are_def)

lemma Move_rows:
  "Move V legs db = (db', r) \<Longrightarrow> d_sessions db' = d_sessions db \<and> d_txns db' = d_txns db"
  by (cases r) (auto simp: Move_def InTx_def in_tx_Inl dest: move_rows split: if_splits)

text \<open>
  A predicate of the session and leg rows that the statements writing them keep, where a session is
  only ever saved over a live row, is kept by every call.
\<close>

locale row_invariant =
  fixes I :: "fin_db \<Rightarrow> bool"
  assumes same_rows: "I db \<Longrightarrow> d_sessions db' = d_sessions db \<Longrightarrow> d_txns db' = d_txns db \<Longrightarrow> I db'"
    and inserted: "I db \<Longrightarrow> insertSession s db = (db', r) \<Longrightarrow> I db'"
    and saved: "I db \<Longrightarrow> set from \<subseteq> {StatusPending, StatusProcessing} \<Longrightarrow> SaveSession s from db = (db', r) \<Longrightarrow> I db'"
    and leg_inserted: "I db \<Longrightarrow> InsertTransaction t db = (db', r) \<Longrightarrow> I db'"
    and leg_saved: "I db \<Longrightarrow> SaveTransaction t db = (db', r) \<Longrightarrow> I db'"
begin

lemma keeps_ids [keeps_intros]: "keeps I NextSessionID" "keeps I NextTransactionID" "keeps I (publish ev)"
  by (rule keepsI, erule same_rows;
      auto simp: NextSessionID_def NextTransactionID_def nextval_def publish_def act_defs split: if_splits)+

lemma keeps_Move [keeps_intros]: "keeps I (Move V legs)"
  by (rule keepsI) (blast intro: same_rows dest: Move_rows)

lemma keeps_InsertSession [keeps_intros]: "keeps I (InsertSession s)"
  by (rule keepsI) (auto simp: InsertSession_def intro: inserted)

lemma keeps_SaveSession [keeps_intros]:
  "keeps I (SaveSession s [StatusPending])" "keeps I (SaveSession s [StatusProcessing])"
  "keeps I (SaveSession s [StatusPending, StatusProcessing])" "keeps I (SaveSession s liveWithdrawal)"
  by (rule keepsI, erule saved; simp add: liveWithdrawal_def)+

lemma keeps_legs [keeps_intros]: "keeps I (InsertTransaction t)" "keeps I (SaveTransaction t)"
  by (rule keepsI, erule leg_inserted leg_saved, assumption)+

lemma keeps_InsertWithdrawal [keeps_intros]: "keeps I (InsertWithdrawal V s debit)"
proof (rule keepsI)
  fix db db' :: fin_db and r :: "finance_err + unit"
  assume I: "I db" and run: "InsertWithdrawal V s debit db = (db', r)"
  show "I db'"
  proof (cases r)
    case (Inl e)
    with run InsertWithdrawal_runs(2) obtain t where "db' = keep_seqs db t" by blast
    with I show ?thesis by (auto intro: same_rows)
  next
    case (Inr u)
    with run obtain db1 ms where "insertSession s db = (db1, Inr ())" "move V [debit] db1 = (db', Inr ms)"
      by (auto simp: InsertWithdrawal_runs)
    with I show ?thesis by (blast intro: same_rows inserted dest: move_rows)
  qed
qed

lemma keeps_settle_session: "keeps I (settle_session E now ds leg)"
  by (simp only: handler_defs Let_def; intro keeps_intros)

lemma keeps_call: "keeps I (fin_call E now op)"
  by (cases op; simp only: fin_call.simps handler_defs Let_def; intro keeps_intros)

end

text \<open>The row of a settled session, and the row of a settled leg, are never written again.\<close>

definition session_at :: "i64 \<Rightarrow> session \<Rightarrow> fin_db \<Rightarrow> bool" where
  "session_at sid row db \<longleftrightarrow> d_sessions db sid = Some row \<and> session_Settled row"

definition leg_at :: "i64 \<Rightarrow> txn \<Rightarrow> fin_db \<Rightarrow> bool" where
  "leg_at tid row db \<longleftrightarrow> find (\<lambda>t. x_id t = tid) (d_txns db) = Some row \<and> x_status row \<noteq> StatusPending"

lemma live_not_settled:
  "set from \<subseteq> {StatusPending, StatusProcessing} \<Longrightarrow> session_Settled row \<Longrightarrow> s_status row \<notin> set from"
  by (auto simp: session_Settled_def)

interpretation settled_session: row_invariant "session_at sid row" for sid row
proof
  fix db db' :: fin_db and s live r
  assume "session_at sid row db" "set live \<subseteq> {StatusPending, StatusProcessing}" "SaveSession s live db = (db', r)"
  then show "session_at sid row db'"
    using live_not_settled [of live row]
    by (cases "s_id s = sid") (auto simp: session_at_def SaveSession_def split: if_splits option.splits)
qed (auto simp: session_at_def insertSession_def InsertTransaction_def SaveTransaction_def act_defs
      split: if_splits option.splits)

lemma find_append_Some: "find P xs = Some y \<Longrightarrow> find P (xs @ ys) = Some y"
  by (induction xs) auto

lemma find_map_same:
  assumes "\<And>t. x_id (f t) = x_id t" and "find (\<lambda>t. x_id t = tid) ts = Some row" and "f row = row"
  shows "find (\<lambda>t. x_id t = tid) (map f ts) = Some row"
  using assms(2) by (induction ts) (auto simp: assms(1,3) split: if_splits)

interpretation settled_leg: row_invariant "leg_at tid row" for tid row
proof
  fix db db' :: fin_db and t :: txn and r
  assume I: "leg_at tid row db" and run: "SaveTransaction t db = (db', r)"
  let ?f = "\<lambda>u. if x_id u = x_id t \<and> x_status u = StatusPending then txn_update t u else u"
  from run have "d_txns db' = d_txns db \<or> d_txns db' = map ?f (d_txns db)"
    by (auto simp: SaveTransaction_def act_defs split: if_splits)
  with I show "leg_at tid row db'"
    using find_map_same [of ?f tid "d_txns db" row] by (auto simp: leg_at_def txn_update_def)
qed (auto simp: leg_at_def insertSession_def SaveSession_def InsertTransaction_def find_append_Some act_defs
      split: if_splits option.splits)

text \<open>What a run of several calls keeps.\<close>

inductive fin_steps :: "fin_env \<Rightarrow> fin_db \<Rightarrow> fin_db \<Rightarrow> bool" for E where
  no_call: "fin_steps E db db"
| one_more: "fin_steps E db db1 \<Longrightarrow> fin_call E now op db1 = (db2, r) \<Longrightarrow> fin_steps E db db2"

lemma fin_steps_keep:
  assumes "\<And>now op. keeps I (fin_call E now op)" and "fin_steps E db db'" and "I db"
  shows "I db'"
  using assms(2,3) by (induction rule: fin_steps.induct) (auto intro: keepsD [OF assms(1)])

end
