(* ===== verification/FinanceEscrow.thy ===== *)
theory FinanceEscrow
  imports FinanceService
begin

text \<open>
  What the finance service guarantees of money: the arithmetic of a wallet, the ledger under every
  call, the escrow of an order, and the retries a caller may make. The properties rest on the
  contract of \<open>Move\<close> (locale \<open>money_mover\<close>) and on the invariant locale \<open>money_invariant\<close>, through
  their interpretations on the finance tables. The last definitions of each section are small
  runs of the service, on which the properties are applied.
\<close>

section \<open>A wallet that is moved\<close>



section \<open>The ledger under every call\<close>

lemma reachable_inv: "fin_reach E db \<Longrightarrow> ledger_inv db"
  by (rule fin_reach_invariant [OF _ ledger.keeps_call])
    (simp_all add: empty_fin_def ledger_inv_def avail_def held_def ledger_of_def)

text \<open>C1: After any sequence of calls from an empty store, every wallet stands at the sum of its ledger
  rows, its rows are numbered from 1 without a gap and each records the balance it left, no balance is
  negative, and no idempotency key is in the ledger twice.\<close>

theorem reachable_ledger:
  assumes "fin_reach E db"
  shows "chain 0 0 0 (ledger_of db k)
    \<and> avail db k = sum_avail (ledger_of db k) \<and> held db k = sum_held (ledger_of db k)
    \<and> 0 \<le> avail db k \<and> 0 \<le> held db k \<and> distinct (keys_of (d_ledger db))"
  using ledger_invD [OF reachable_inv [OF assms]] by blast

text \<open>An environment to run the service on: one option on one rail, account 99 an administrator.\<close>

definition demo_env :: fin_env where
  "demo_env = \<lparr>e_V = doc_validator, e_is_admin = (\<lambda>a. Inr (a = 99)), e_verified = (\<lambda>_. Inr True),
    e_options = [(''qr'', ''rail'')],
    e_rails = (\<lambda>p. if p = ''rail'' then Some (\<lambda>c. Inr \<lparr>cr_provider_id = ''g1'', cr_redirect_url = [],
       cr_status = RailSuccess\<rparr>) else None),
    e_return_hosts = [], e_url_host = (\<lambda>_. None),
    e_encode_wd = (\<lambda>_. ''{}''), e_decode_wd = (\<lambda>_. None),
    e_cipher = Some (\<lambda>_. replicate 16 0), e_sha = (\<lambda>_. replicate 32 0)\<rparr>"

definition demo_adjust :: "i64 \<Rightarrow> i64 \<Rightarrow> string \<Rightarrow> adjust_req" where
  "demo_adjust account amount key = \<lparr>ar_actor = 99, ar_account = account, ar_currency = ''VND'',
    ar_available = amount, ar_held = 0, ar_reason = ''why'', ar_key = key\<rparr>"

definition demo_escrow :: escrow_req where
  "demo_escrow = \<lparr>er_buyer = 1, er_seller = 2, er_order = 7, er_currency = ''VND'', er_amount = 80,
    er_fee = 5, er_key = ''order:7''\<rparr>"

definition funded :: "i64 \<Rightarrow> fin_db" where
  "funded amount = fst (AdminAdjustWallet demo_env (demo_adjust 1 amount ''a'') empty_fin)"

lemmas run_defs =
  act_defs in_tx_def InTx_def keep_seqs_def nextval_def Let_def
  Move_def move_def order_legs_def move_leg_def mk_leg_def transfer_defs Apply_def keyOf_def movement_fields_def
  ref_Type_def ref_ID_def OrderRef_def SessionRef_def RefOrder_def RefPaymentSession_def
  lockWallet_def nextSeq_def nextGroupID_def ledger_of_def max_seq_def insertMovement_def saveBalances_def
  currency_format_def upper_char_def slug_format_def slug_char_def
  requireAdmin_def AdminAdjustWallet_def adjust_fields_def FindWallet_def
  HoldEscrow_def ReleaseEscrow_def RefundEscrow_def escrow_fields_def hold_legs_def release_legs_def refund_legs_def
  demo_env_def demo_adjust_def demo_escrow_def empty_fin_def avail_def held_def

lemma funded_run: "AdminAdjustWallet demo_env (demo_adjust 1 100 ''a'') empty_fin
    = (funded 100, Inr \<lparr>w_account = 1, w_currency = ''VND'', w_available = 100, w_held = 0\<rparr>)"
  by (simp add: funded_def run_defs)

lemma funded_eq: "funded 100 = \<lparr>d_wallets = [(1, ''VND'') \<mapsto>
      \<lparr>w_account = 1, w_currency = ''VND'', w_available = 100, w_held = 0\<rparr>],
    d_ledger = [\<lparr>m_account = 1, m_currency = ''VND'', m_seq = 1, m_kind = WalletKindAdjustment,
      m_available_delta = 100, m_held_delta = 0, m_available_after = 100, m_held_after = 0,
      m_group = Some 1, m_ref_type = None, m_ref_id = None, m_key = Some ''adjustment:a'', m_note = ''why''\<rparr>],
    d_sessions = Map.empty, d_txns = [], d_banks = [], d_session_seq = 0, d_txn_seq = 0,
    d_ledger_seq = 2, d_bank_seq = 0, d_bus = []\<rparr>"
  by (simp add: funded_def run_defs)

lemma funded_reach: "fin_reach demo_env (funded 100)"
  using fin_reach.by_call [OF fin_reach.from_empty [of demo_env "[]"], of 0 "OpAdjust (demo_adjust 1 100 ''a'')"
      "funded 100" "Inr ()"] funded_run
  by (simp add: act_defs empty_fin_def)

lemmas funded_inv = reachable_inv [OF funded_reach]

theorem reachable_ledger_witness:
  "avail (funded 100) (1, ''VND'') = 100 \<and> distinct (keys_of (d_ledger (funded 100)))"
  using reachable_ledger [OF funded_reach, of "(1, ''VND'')"] by (simp add: funded_def run_defs)

section \<open>The escrow of an order\<close>

abbreviation buyer_wallet :: "escrow_req \<Rightarrow> i64 \<times> string" where
  "buyer_wallet r \<equiv> (er_buyer r, er_currency r)"

abbreviation seller_wallet :: "escrow_req \<Rightarrow> i64 \<times> string" where
  "seller_wallet r \<equiv> (er_seller r, er_currency r)"

lemma escrow_amounts:
  assumes "documented V" and "struct_ok V (escrow_fields r)"
  shows "0 < sint (er_amount r)" "0 \<le> sint (er_fee r)" "er_key r \<noteq> []"
    "sint (- er_amount r) = - sint (er_amount r)" "sint (- er_fee r) = - sint (er_fee r)"
  using assms sint_uminus [of "er_amount r"] sint_uminus [of "er_fee r"]
  by (auto simp: escrow_fields_def documentedD)

lemma escrow_deltas:
  assumes "documented V" and "struct_ok V (escrow_fields r)"
  shows
    "avail_delta (hold_legs r) k = (if k = buyer_wallet r then - sint (er_amount r) - sint (er_fee r) else 0)"
    "held_delta (hold_legs r) k = (if k = seller_wallet r then sint (er_amount r) else 0)"
    "avail_delta (release_legs r) k = (if k = seller_wallet r then sint (er_amount r) else 0)"
    "held_delta (release_legs r) k = (if k = seller_wallet r then - sint (er_amount r) else 0)"
    "avail_delta (refund_legs r) k = (if k = buyer_wallet r then sint (er_amount r) + sint (er_fee r) else 0)"
    "held_delta (refund_legs r) k = (if k = seller_wallet r then - sint (er_amount r) else 0)"
  using escrow_amounts [OF assms]
  by (auto simp: hold_legs_def release_legs_def refund_legs_def mk_leg_def transfer_defs Let_def)

lemma escrow_keys:
  "leg_keys (hold_legs r) = {er_key r @ '':buyer'', er_key r @ '':seller''}
     \<union> (if 0 < sint (er_fee r) then {er_key r @ '':shipping''} else {})"
  "leg_keys (refund_legs r) = {er_key r @ '':buyer'', er_key r @ '':seller''}
     \<union> (if 0 < sint (er_fee r) then {er_key r @ '':shipping''} else {})"
  "er_key r \<noteq> [] \<Longrightarrow> leg_keys (release_legs r) = {er_key r}"
  by (auto simp: leg_keys_def hold_legs_def refund_legs_def release_legs_def mk_leg_def transfer_defs
      keyOf_def Let_def)

lemma escrow_runs:
  "HoldEscrow E r db = (db', Inr ()) \<longleftrightarrow>
    struct_ok (e_V E) (escrow_fields r) \<and> (\<exists>ms. Move (e_V E) (hold_legs r) db = (db', Inr ms))"
  "ReleaseEscrow E r db = (db', Inr ()) \<longleftrightarrow>
    struct_ok (e_V E) (escrow_fields r) \<and> (\<exists>ms. Move (e_V E) (release_legs r) db = (db', Inr ms))"
  "RefundEscrow E r db = (db', Inr ()) \<longleftrightarrow>
    struct_ok (e_V E) (escrow_fields r) \<and> (\<exists>ms. Move (e_V E) (refund_legs r) db = (db', Inr ms))"
  by (auto simp: HoldEscrow_def ReleaseEscrow_def RefundEscrow_def act_runs)

lemma escrow_effect:
  assumes "ledger_inv db" "documented (e_V E)"
  shows "HoldEscrow E r db = (db', Inr ()) \<Longrightarrow>
      ledger_inv db'
      \<and> avail db' k = avail db k - (if k = buyer_wallet r then sint (er_amount r) + sint (er_fee r) else 0)
      \<and> held db' k = held db k + (if k = seller_wallet r then sint (er_amount r) else 0)
      \<and> posted db' = posted db \<union> leg_keys (hold_legs r) \<and> posted db \<inter> leg_keys (hold_legs r) = {}"
    and "ReleaseEscrow E r db = (db', Inr ()) \<Longrightarrow>
      ledger_inv db'
      \<and> avail db' k = avail db k + (if k = seller_wallet r then sint (er_amount r) else 0)
      \<and> held db' k = held db k - (if k = seller_wallet r then sint (er_amount r) else 0)
      \<and> posted db' = posted db \<union> leg_keys (release_legs r) \<and> posted db \<inter> leg_keys (release_legs r) = {}"
    and "RefundEscrow E r db = (db', Inr ()) \<Longrightarrow>
      ledger_inv db'
      \<and> avail db' k = avail db k + (if k = buyer_wallet r then sint (er_amount r) + sint (er_fee r) else 0)
      \<and> held db' k = held db k - (if k = seller_wallet r then sint (er_amount r) else 0)
      \<and> posted db' = posted db \<union> leg_keys (refund_legs r) \<and> posted db \<inter> leg_keys (refund_legs r) = {}"
  unfolding escrow_runs
  by (elim conjE exE, drule fin.mover_ok [OF assms(1), of _ _ _ _ k],
      simp add: escrow_deltas [OF assms(2)])+

lemmas hold_effect = escrow_effect(1) and release_effect = escrow_effect(2) and refund_effect = escrow_effect(3)

lemma escrow_errors:
  "HoldEscrow E r db = (db', Inl e) \<Longrightarrow> db' = db \<or> Move (e_V E) (hold_legs r) db = (db', Inl e)"
  "ReleaseEscrow E r db = (db', Inl e) \<Longrightarrow> db' = db \<or> Move (e_V E) (release_legs r) db = (db', Inl e)"
  "RefundEscrow E r db = (db', Inl e) \<Longrightarrow> db' = db \<or> Move (e_V E) (refund_legs r) db = (db', Inl e)"
  by (auto simp: HoldEscrow_def ReleaseEscrow_def RefundEscrow_def act_runs)

definition escrow_held :: fin_db where
  "escrow_held = fst (HoldEscrow demo_env demo_escrow (funded 100))"

lemma hold_run: "HoldEscrow demo_env demo_escrow (funded 100) = (escrow_held, Inr ())"
  unfolding escrow_held_def by (rule run_ok) (simp add: funded_eq run_defs)

lemma escrow_held_eq: "escrow_held = \<lparr>d_wallets = [(1, ''VND'') \<mapsto>
      \<lparr>w_account = 1, w_currency = ''VND'', w_available = 15, w_held = 0\<rparr>,
      (2, ''VND'') \<mapsto> \<lparr>w_account = 2, w_currency = ''VND'', w_available = 0, w_held = 80\<rparr>],
    d_ledger = [\<lparr>m_account = 1, m_currency = ''VND'', m_seq = 1, m_kind = WalletKindAdjustment,
      m_available_delta = 100, m_held_delta = 0, m_available_after = 100, m_held_after = 0,
      m_group = Some 1, m_ref_type = None, m_ref_id = None, m_key = Some ''adjustment:a'', m_note = ''why''\<rparr>,
     \<lparr>m_account = 1, m_currency = ''VND'', m_seq = 2, m_kind = WalletKindEscrowHold,
      m_available_delta = - 80, m_held_delta = 0, m_available_after = 20, m_held_after = 0,
      m_group = Some 3, m_ref_type = Some ''order'', m_ref_id = Some 7, m_key = Some ''order:7:buyer'',
      m_note = ''checkout debit''\<rparr>,
     \<lparr>m_account = 1, m_currency = ''VND'', m_seq = 3, m_kind = WalletKindFee,
      m_available_delta = - 5, m_held_delta = 0, m_available_after = 15, m_held_after = 0,
      m_group = Some 3, m_ref_type = Some ''order'', m_ref_id = Some 7, m_key = Some ''order:7:shipping'',
      m_note = ''shipping fee''\<rparr>,
     \<lparr>m_account = 2, m_currency = ''VND'', m_seq = 1, m_kind = WalletKindEscrowHold,
      m_available_delta = 0, m_held_delta = 80, m_available_after = 0, m_held_after = 80,
      m_group = Some 3, m_ref_type = Some ''order'', m_ref_id = Some 7, m_key = Some ''order:7:seller'',
      m_note = ''escrow hold''\<rparr>],
    d_sessions = Map.empty, d_txns = [], d_banks = [], d_session_seq = 0, d_txn_seq = 0,
    d_ledger_seq = 6, d_bank_seq = 0, d_bus = []\<rparr>"
  by (simp add: escrow_held_def funded_eq run_defs)

lemma demo_documented: "documented (e_V demo_env)"
  by (simp add: demo_env_def documented_doc_validator)

lemma hold_reach: "fin_reach demo_env escrow_held"
  using fin_reach.by_call [OF funded_reach, of 0 "OpHoldEscrow demo_escrow"] hold_run by simp

lemmas hold_inv = reachable_inv [OF hold_reach]

text \<open>C17: A hold that lands takes the amount and the fee from the buyer's spendable balance and parks the
  amount, not the fee, as the seller's escrow; every other balance stays.\<close>

theorem hold_escrow_moves:
  assumes "ledger_inv db" and "documented (e_V E)" and "HoldEscrow E r db = (db', Inr ())"
  shows "avail db' k = avail db k - (if k = buyer_wallet r then sint (er_amount r) + sint (er_fee r) else 0)
    \<and> held db' k = held db k + (if k = seller_wallet r then sint (er_amount r) else 0)"
  using hold_effect [OF assms, of k] by blast

theorem hold_escrow_moves_witness:
  "avail escrow_held (1, ''VND'') = 15 \<and> held escrow_held (2, ''VND'') = 80"
  using hold_escrow_moves [OF funded_inv demo_documented hold_run, of "(1, ''VND'')"]
    hold_escrow_moves [OF funded_inv demo_documented hold_run, of "(2, ''VND'')"]
  by (simp add: funded_eq run_defs)

text \<open>A release that lands makes exactly the amount spendable for the seller and takes it out of the
  seller's escrow; nobody else's balance moves.\<close>

theorem release_escrow_moves:
  assumes "ledger_inv db" and "documented (e_V E)" and "ReleaseEscrow E r db = (db', Inr ())"
  shows "avail db' k = avail db k + (if k = seller_wallet r then sint (er_amount r) else 0)
    \<and> held db' k = held db k - (if k = seller_wallet r then sint (er_amount r) else 0)
    \<and> sint (er_amount r) \<le> held db (seller_wallet r)"
  using release_effect [OF assms, of k] release_effect [OF assms, of "seller_wallet r"]
    fin.balances_nonneg [of db' "seller_wallet r"] by simp

theorem release_escrow_moves_witness:
  "avail (fst (ReleaseEscrow demo_env demo_escrow escrow_held)) (2, ''VND'') = 80"
proof -
  have "ReleaseEscrow demo_env demo_escrow escrow_held
      = (fst (ReleaseEscrow demo_env demo_escrow escrow_held), Inr ())"
    by (rule run_ok) (simp add: escrow_held_eq funded_eq run_defs)
  from release_escrow_moves [OF hold_inv demo_documented this, of "(2, ''VND'')"]
  show ?thesis by (simp add: escrow_held_eq funded_eq run_defs)
qed



lemma posted_grows:
  assumes "fin_steps E db db'" and "ledger_inv db"
  shows "ledger_inv db' \<and> posted db \<subseteq> posted db'"
  using fin_steps_keep [OF keys.keeps_call [of "posted db"] assms(1)] assms(2) by blast

lemma keyed_retry:
  assumes "ledger_inv db" and "Move V legs db = (db1, Inr ms)" and "leg_keys legs \<noteq> {}" and "fin_steps E db1 db2"
  shows "\<exists>e db3. Move V legs db2 = (db3, Inl e) \<and> avail db3 = avail db2 \<and> held db3 = held db2"
  using posted_grows [OF assms(4) fin.mover_inv [OF assms(1,2)]] fin.repeat_refused [OF assms(1-3)] by blast

text \<open>C18: A retry of escrow never moves money twice: once a hold, a release or a refund has landed, the same
  request is answered with an error and moves nothing, after any number of calls in between.\<close>

theorem escrow_retry_moves_nothing:
  assumes "ledger_inv db" and "documented (e_V E)"
    and "f = HoldEscrow \<or> f = ReleaseEscrow \<or> f = RefundEscrow"
    and "f E r db = (db1, Inr ())" and "fin_steps E db1 db2"
  shows "\<exists>e db3. f E r db2 = (db3, Inl e) \<and> avail db3 = avail db2 \<and> held db3 = held db2"
proof -
  have run: "f E r = act_bind (ensure (struct_ok (e_V E) (escrow_fields r)) FinValidation) (\<lambda>_.
      act_bind (Move (e_V E) legs) (\<lambda>_. ret ()))" and keys: "struct_ok (e_V E) (escrow_fields r) \<Longrightarrow> leg_keys legs \<noteq> {}"
    if "legs = (if f = HoldEscrow then hold_legs r else if f = ReleaseEscrow then release_legs r else refund_legs r)"
    for legs
    using that assms(3) escrow_keys [of r] escrow_amounts(3) [OF assms(2)]
    by (auto simp: HoldEscrow_def ReleaseEscrow_def RefundEscrow_def fun_eq_iff)
  obtain legs where legs: "legs = (if f = HoldEscrow then hold_legs r else if f = ReleaseEscrow then release_legs r else refund_legs r)"
    by blast
  from assms(4) obtain ms where v: "struct_ok (e_V E) (escrow_fields r)" and mv: "Move (e_V E) legs db = (db1, Inr ms)"
    by (auto simp: run [OF legs] act_runs)
  from keyed_retry [OF assms(1) mv keys [OF legs v] assms(5)] v show ?thesis
    by (auto simp: run [OF legs] act_runs)
qed

theorem escrow_retry_moves_nothing_witness:
  "\<exists>e db3. HoldEscrow demo_env demo_escrow escrow_held = (db3, Inl e) \<and> avail db3 = avail escrow_held"
  using escrow_retry_moves_nothing [of "funded 100" demo_env HoldEscrow demo_escrow escrow_held escrow_held]
    funded_inv demo_documented hold_run fin_steps.no_call by blast


end
