(* ===== verification/FinanceSessions.thy ===== *)
theory FinanceSessions
  imports FinanceEscrow
begin

text \<open>
  What the finance service guarantees of a checkout: a gateway notice may come again, a settled
  session is final, a checkout that is paid has credited its payer exactly once, and what becomes of
  a payment that covers only part of a session. The first two rest on the locale \<open>row_invariant\<close>;
  the third is an invariant of money and sessions together, proved handler by handler.
\<close>

section \<open>Notices and settled rows\<close>

lemma settle_settles:
  assumes "find (\<lambda>t. x_id t = tid) (d_txns db) = Some leg"
    and "settle E now leg st ref note db = (db', Inr ())"
  shows "\<exists>row. leg_at tid row db'"
proof (cases "x_status leg = StatusPending")
  case False
  with assms show ?thesis by (auto simp: settle_def txn_Settle_def leg_at_def Let_def)
next
  case True
  have leg: "x_id leg = tid" "leg \<in> set (d_txns db)"
    using assms(1) by (auto simp: find_Some_iff)
  define ds where "ds = (if st = RailSuccess then StatusSuccess else StatusFailed)"
  obtain leg' where s: "txn_Settle now ds ref note leg = Inr leg'" and leg': "x_id leg' = tid" "x_status leg' = ds"
    using True leg(1) by (cases "st = RailSuccess") (auto simp: txn_Settle_def ds_def Let_def)
  have "SaveTransaction leg' db \<noteq> (db', Inl ErrTransactionSettled)"
    using True leg leg' by (auto simp: SaveTransaction_def act_runs)
  with assms(2) obtain db1 where save: "SaveTransaction leg' db = (db1, Inr ())"
    and rest: "settle_session E now ds leg' db1 = (db', Inr ())"
    by (auto simp: settle_def ds_def [symmetric] s Let_def tolerate_runs)
  let ?f = "\<lambda>row. if x_id row = x_id leg' \<and> x_status row = StatusPending then txn_update leg' row else row"
  from save have db1: "d_txns db1 = map ?f (d_txns db)"
    by (auto simp: SaveTransaction_def act_runs split: if_splits)
  have find: "find (\<lambda>t. x_id t = tid) (map f ts) = map_option f (find (\<lambda>t. x_id t = tid) ts)"
    if "\<And>t. x_id (f t) = x_id t" for f ts
    using that by (induction ts) auto
  have "leg_at tid (txn_update leg' leg) db1"
    using True leg leg' assms(1) by (simp add: leg_at_def db1 find txn_update_def) (simp add: ds_def)
  then show ?thesis
    using keepsD [OF settled_leg.keeps_settle_session _ rest] by blast
qed

text \<open>A checkout of 60 that is opened, and paid in full on a rail that decides at once.\<close>

lemmas session_defs =
  OpenCheckout_def checkout_fields_def NextSessionID_def NewSession_def session_fields_def InsertSession_def
  insertSession_def sessionTTL_def StartPayment_def open_leg_def party_def FindSessionByID_def session_Involves_def
  paymentOption_def checkReturnURL_def resumable_def session_Resumable_def session_Settled_def ListTransactions_def
  tenderOf_def settled_sum_def resume_url_def session_Charge_def RailPayable_def session_Expired_def
  NextTransactionID_def NewCharge_def txn_fields_def jsonOrEmpty_def InsertTransaction_def with_charge_def
  stored_url_def ref_taken_def SaveSession_def settle_def settle_session_def txn_Settle_def tolerate_def
  SaveTransaction_def txn_update_def creditRail_def topup_key_def dec_i64_def digit_def
  MarkPaid_def publishPaid_def publish_def FindTransactionByID_def

definition demo_checkout :: checkout_req where
  "demo_checkout = \<lparr>cq_buyer = 1, cq_seller = 2, cq_currency = ''VND'', cq_total = 60, cq_note = ''n'', cq_data = []\<rparr>"



lemma id_String_1: "id_String (Some (\<lambda>_. replicate 16 0)) (\<lambda>_. replicate 32 0) K_Transaction 1 = Inr ''txn_0000000000001''"
  by code_simp

definition demo_start :: start_req where
  "demo_start = \<lparr>sr_actor = 1, sr_session = 1, sr_option = ''qr'', sr_amount = None, sr_return_url = []\<rparr>"

definition opened :: fin_db where "opened = fst (OpenCheckout demo_env 0 demo_checkout empty_fin)"

lemma opened_eq: "opened = \<lparr>d_wallets = Map.empty, d_ledger = [],
         d_sessions =
           [1 \<mapsto>
            \<lparr>s_id = 1, s_kind = KindBuyerCheckout, s_status = StatusPending,
               s_from = 1, s_to = 2, s_note = ''n'', s_currency = ''VND'',
               s_total = 60, s_data = ''{}'', s_paid_at = None,
               s_expired_at = 900000000000\<rparr>],
         d_txns = [], d_banks = [], d_session_seq = 1, d_txn_seq = 0,
         d_ledger_seq = 0, d_bank_seq = 0, d_bus = []\<rparr>"
  by (simp add: opened_def demo_checkout_def session_defs run_defs)


lemma opened_reach: "fin_reach demo_env opened"
proof -
  have "OpenCheckout demo_env 0 demo_checkout empty_fin = (opened, snd (OpenCheckout demo_env 0 demo_checkout empty_fin))"
    by (simp add: opened_def)
  then have "fin_call demo_env 0 (OpOpenCheckout demo_checkout) (empty_fin\<lparr>d_banks := []\<rparr>) = (opened, Inr ())"
    by (auto simp: act_bind_def empty_fin_def demo_checkout_def session_defs run_defs opened_eq)
  then show ?thesis by (rule fin_reach.by_call [OF fin_reach.from_empty])
qed

definition paid :: fin_db where
  "paid = fst (StartPayment demo_env 1 demo_start opened)"

lemma paid_eq: "paid = \<lparr>d_wallets = [(1, ''VND'') \<mapsto>
      \<lparr>w_account = 1, w_currency = ''VND'', w_available = 60, w_held = 0\<rparr>],
    d_ledger = [\<lparr>m_account = 1, m_currency = ''VND'', m_seq = 1, m_kind = WalletKindTopup,
      m_available_delta = 60, m_held_delta = 0, m_available_after = 60, m_held_after = 0,
      m_group = Some 1, m_ref_type = Some ''payment-session'', m_ref_id = Some 1,
      m_key = Some ''session:1:topup'', m_note = ''n''\<rparr>],
    d_sessions = [1 \<mapsto> \<lparr>s_id = 1, s_kind = KindBuyerCheckout, s_status = StatusSuccess,
      s_from = 1, s_to = 2, s_note = ''n'', s_currency = ''VND'', s_total = 60, s_data = ''{}'',
      s_paid_at = Some 1, s_expired_at = 900000000000\<rparr>],
    d_txns = [\<lparr>x_id = 1, x_session = 1, x_status = StatusSuccess, x_note = ''charge'', x_error = None,
      x_option = ''qr'', x_provider_ref = Some ''g1'', x_checkout_url = None, x_data = ''{}'',
      x_amount = 60, x_currency = ''VND'', x_reverses = None, x_settled_at = Some 1, x_expired_at = None\<rparr>],
    d_banks = [], d_session_seq = 1, d_txn_seq = 1, d_ledger_seq = 2, d_bank_seq = 0,
    d_bus = [SessionPaid 1 KindBuyerCheckout 1 2 ''VND'' 60 ''{}'']\<rparr>"
  by (simp add: paid_def id_String_1 opened_eq demo_start_def session_defs run_defs dec_nat.simps)

lemma paid_run: "StartPayment demo_env 1 demo_start opened = (paid, Inr (hd (d_txns paid)))"
  unfolding paid_def
  by (rule run_ok) (simp add: id_String_1 opened_eq demo_start_def session_defs run_defs dec_nat.simps)

lemma paid_reach: "fin_reach demo_env paid"
  by (rule fin_reach.by_call [OF opened_reach, of 1 "OpStartPayment demo_start" _ "Inr ()"])
    (simp add: act_bind_step paid_run)

lemma parse_1:
  "Parse (Some (\<lambda>_. replicate 16 0)) (\<lambda>_. replicate 32 0) K_Transaction ''txn_0000000000001'' = Inr 1"
  by code_simp

definition demo_notice :: "rail_status \<Rightarrow> notification" where
  "demo_notice st = \<lparr>n_ref = ''txn_0000000000001'', n_status = st, n_status_text = [], n_provider_txn = ''g1''\<rparr>"

lemma notice_run: "Settle demo_env 2 (demo_notice RailSuccess) paid = (paid, Inr ())"
  by (simp add: Settle_def demo_notice_def demo_env_def parse_1 FindTransactionByID_def paid_eq act_defs
      settle_def txn_Settle_def)

text \<open>C21: A gateway that delivers its notice again changes nothing: once a notice for a leg has been
  accepted, any later notice for the same leg, whatever it reports, is accepted and leaves the store as it
  is, after any calls in between.\<close>

theorem settle_redelivery:
  assumes "Settle E now n db = (db1, Inr ())" and "fin_steps E db1 db2" and "n_ref n2 = n_ref n"
  shows "Settle E now2 n2 db2 = (db2, Inr ())"
proof -
  from assms(1) obtain tid leg where p: "Parse (e_cipher E) (e_sha E) K_Transaction (n_ref n) = Inr tid"
    and find: "find (\<lambda>t. x_id t = tid) (d_txns db) = Some leg"
    and run: "\<exists>st. settle E now leg st (n_provider_txn n) (n_status_text n) db = (db1, Inr ())"
    by (auto simp: Settle_def act_runs FindTransactionByID_def split: sum.splits)
  from settle_settles [OF find] run obtain row where "leg_at tid row db1" by blast
  then have "leg_at tid row db2" using fin_steps_keep [OF settled_leg.keeps_call assms(2)] by blast
  then show ?thesis
    by (simp add: Settle_def p assms(3) FindTransactionByID_def leg_at_def act_runs settle_def txn_Settle_def)
qed

theorem settle_redelivery_witness:
  "Settle demo_env 3 (demo_notice RailFailed) paid = (paid, Inr ())"
  using settle_redelivery [OF notice_run fin_steps.no_call, of "demo_notice RailFailed" 3]
  by (simp add: demo_notice_def)

text \<open>C22: A settled session is final: no call, whatever it answers, writes the row of a session that is
  paid, cancelled or failed.\<close>

theorem settled_session_final:
  assumes "d_sessions db sid = Some row" and "session_Settled row" and "fin_steps E db db'"
  shows "d_sessions db' sid = Some row"
  using fin_steps_keep [OF settled_session.keeps_call assms(3), of sid row] assms(1,2)
  by (simp add: session_at_def)

theorem settled_session_final_witness:
  "d_sessions (fst (Settle demo_env 2 (demo_notice RailFailed) paid)) 1 = d_sessions paid 1"
proof -
  obtain db r where run: "Settle demo_env 2 (demo_notice RailFailed) paid = (db, r)" by fastforce
  then have "fin_steps demo_env paid db"
    using fin_steps.one_more [OF fin_steps.no_call, of demo_env 2 "OpSettle (demo_notice RailFailed)" paid] by simp
  moreover obtain row where row: "d_sessions paid 1 = Some row" "session_Settled row"
    by (simp add: paid_eq session_Settled_def)
  ultimately show ?thesis using settled_session_final [of paid 1 row demo_env db] run by simp
qed

section \<open>Money and sessions together\<close>

definition paid_inv :: "fin_db \<Rightarrow> bool" where
  "paid_inv db \<longleftrightarrow> ledger_inv db \<and>
    (\<forall>sid row. d_sessions db sid = Some row \<longrightarrow>
       s_id row = sid \<and>
       (s_status row = StatusSuccess \<and> RailPayable row \<and> s_from row \<noteq> 0 \<longrightarrow> topup_key sid \<in> posted db))"

lemma paid_inv_mono:
  assumes "paid_inv db" and "ledger_inv db'" and "posted db \<subseteq> posted db'" and "d_sessions db' = d_sessions db"
  shows "paid_inv db'"
  using assms by (auto simp: paid_inv_def)

lemma paid_same: "paid_inv db \<Longrightarrow> d_wallets db' = d_wallets db \<Longrightarrow> d_ledger db' = d_ledger db \<Longrightarrow>
    d_sessions db' = d_sessions db \<Longrightarrow> paid_inv db'"
  using same_money [of db' db] by (auto simp: paid_inv_def)

lemma paid_move: "paid_inv db \<Longrightarrow> move V legs db = (db', Inr ms) \<Longrightarrow> paid_inv db'"
  using move_effect [of db V legs db' ms] move_rows [of V legs db db' "Inr ms"]
  by (auto intro!: paid_inv_mono simp: posted_def paid_inv_def)

lemma paid_row:
  assumes "paid_inv db" and "s_id row = sid"
    and "s_status row = StatusSuccess \<Longrightarrow> RailPayable row \<Longrightarrow> s_from row \<noteq> 0 \<Longrightarrow> topup_key sid \<in> posted db"
  shows "paid_inv (db\<lparr>d_sessions := (d_sessions db)(sid \<mapsto> row)\<rparr>)"
  using assms same_money [of "db\<lparr>d_sessions := (d_sessions db)(sid \<mapsto> row)\<rparr>" db] by (auto simp: paid_inv_def)

named_theorems paid_intros \<open>what keeps the link between a paid checkout and its credit\<close>

lemma paid_statements [paid_intros]:
  "keeps paid_inv NextSessionID" "keeps paid_inv NextTransactionID"
  "keeps paid_inv (InsertTransaction t)" "keeps paid_inv (SaveTransaction t)" "keeps paid_inv (publish ev)"
  by (rule keepsI, erule paid_same;
      auto simp: NextSessionID_def NextTransactionID_def nextval_def InsertTransaction_def SaveTransaction_def
        publish_def act_defs split: if_splits option.splits)+

lemma paid_Move [paid_intros]: "keeps paid_inv (Move V legs)"
proof (rule keepsI)
  fix db db' :: fin_db and r
  assume "paid_inv db" "Move V legs db = (db', r)"
  then show "paid_inv db'"
    by (cases r) (auto simp: Move_def InTx_def in_tx_Inl split: if_splits intro: paid_move paid_same)
qed

lemma paid_insertSession: "paid_inv db \<Longrightarrow> s_status s \<noteq> StatusSuccess \<Longrightarrow> insertSession s db = (db', r) \<Longrightarrow> paid_inv db'"
  by (auto simp: insertSession_def act_defs split: if_splits intro!: paid_row)

lemma paid_InsertSession [paid_intros]: "s_status s \<noteq> StatusSuccess \<Longrightarrow> keeps paid_inv (InsertSession s)"
  by (rule keepsI) (auto simp: InsertSession_def intro: paid_insertSession)

lemma paid_InsertWithdrawal [paid_intros]:
  "s_status s \<noteq> StatusSuccess \<Longrightarrow> keeps paid_inv (InsertWithdrawal V s debit)"
proof (rule keepsI)
  fix db db' :: fin_db and r :: "finance_err + unit"
  assume s: "s_status s \<noteq> StatusSuccess" and I: "paid_inv db" and run: "InsertWithdrawal V s debit db = (db', r)"
  show "paid_inv db'"
  proof (cases r)
    case (Inl e)
    with run InsertWithdrawal_runs(2) obtain t where "db' = keep_seqs db t" by blast
    with I show ?thesis by (auto intro: paid_same)
  next
    case (Inr u)
    with run obtain db1 ms where "insertSession s db = (db1, Inr ())" "move V [debit] db1 = (db', Inr ms)"
      by (auto simp: InsertWithdrawal_runs)
    with I s show ?thesis by (blast intro: paid_move paid_insertSession)
  qed
qed

lemma paid_SaveSession:
  assumes "paid_inv db" and "SaveSession s live db = (db', r)"
    and "\<And>row. d_sessions db (s_id s) = Some row \<Longrightarrow> s_status s = StatusSuccess \<Longrightarrow> RailPayable row
      \<Longrightarrow> s_from row \<noteq> 0 \<Longrightarrow> topup_key (s_id s) \<in> posted db"
  shows "paid_inv db'"
proof (cases "d_sessions db (s_id s)")
  case None
  with assms(1,2) show ?thesis by (simp add: SaveSession_def)
next
  case (Some row)
  moreover from this have "s_id row = s_id s" using assms(1) by (simp add: paid_inv_def)
  ultimately show ?thesis
    using assms(1,2) assms(3) [OF Some]
    by (auto simp: SaveSession_def RailPayable_def split: if_splits intro!: paid_row [OF assms(1)])
qed

lemma paid_SaveSession_unpaid [paid_intros]: "s_status s \<noteq> StatusSuccess \<Longrightarrow> keeps paid_inv (SaveSession s live)"
  by (rule keepsI) (auto intro: paid_SaveSession)

text \<open>A transition of the domain is known to have been made by what follows it.\<close>

lemma keeps_bind_of_sum: "(\<And>x. r = Inr x \<Longrightarrow> keeps I (f x)) \<Longrightarrow> keeps I (act_bind (of_sum r) f)"
  by (cases r) (auto simp: keeps_def act_defs)

lemma domain_unpaid:
  "NewSession V now sid k a b n c t d ttl = Inr s \<Longrightarrow> s_status s \<noteq> StatusSuccess"
  "session_Charge now s0 = Inr s \<Longrightarrow> s_status s \<noteq> StatusSuccess"
  "ReopenForRetry now s0 = Inr s \<Longrightarrow> s_status s \<noteq> StatusSuccess"
  "MarkFailed s0 = Inr s \<Longrightarrow> s_status s \<noteq> StatusSuccess"
  "session_Cancel s0 = Inr s \<Longrightarrow> s_status s \<noteq> StatusSuccess"
  by (auto simp: NewSession_def session_Charge_def ReopenForRetry_def MarkFailed_def session_Cancel_def Let_def
      split: if_splits)


lemma paid_creditRail: "keeps paid_inv (creditRail E s)"
  unfolding creditRail_def tolerate_def by (intro keeps_intros paid_intros)

lemma creditRail_posts:
  assumes "ledger_inv db" and "creditRail E s db = (db', Inr ())"
  shows "d_sessions db' = d_sessions db \<and> (RailPayable s \<and> s_from s \<noteq> 0 \<longrightarrow> topup_key (s_id s) \<in> posted db')"
proof (cases "RailPayable s \<and> s_from s \<noteq> 0")
  case True
  define l where "l = mk_leg (s_from s) (s_currency s)
    (Credit WalletKindTopup (s_total s) (SessionRef (s_id s)) (topup_key (s_id s)) (s_note s))"
  have key: "t_key (l_transfer l) = Some (topup_key (s_id s))"
    by (simp add: l_def mk_leg_def transfer_defs keyOf_def topup_key_def)
  from assms(2) True obtain r where run: "Move (e_V E) [l] db = (db', r)"
    and r: "r = Inl ErrMovementAlreadyPosted \<or> (\<exists>ms. r = Inr ms)"
    by (auto simp: creditRail_def l_def [symmetric] tolerate_runs act_runs)
  from r have "topup_key (s_id s) \<in> posted db'"
  proof
    assume "r = Inl ErrMovementAlreadyPosted"
    with run have run: "Move (e_V E) [l] db = (db', Inl ErrMovementAlreadyPosted)" by simp
    have "topup_key (s_id s) \<in> posted db" using Move_single_already_posted [OF assms(1) run] key by simp
    with fin.mover_refused [OF assms(1) run] show ?thesis by simp
  next
    assume "\<exists>ms. r = Inr ms"
    with run obtain ms where "Move (e_V E) [l] db = (db', Inr ms)" by auto
    with fin.mover_ok [OF assms(1) this] key show ?thesis by (simp add: leg_keys_def)
  qed
  with Move_rows [OF run] show ?thesis by simp
qed (use assms(2) in \<open>auto simp: creditRail_def\<close>)

lemma paid_reopen: "keeps paid_inv (case ReopenForRetry now s of Inl _ \<Rightarrow> ret ()
    | Inr s' \<Rightarrow> tolerate ErrSessionSettled (SaveSession s' [StatusProcessing]) (ret ()))"
  unfolding tolerate_def by (intro keeps_intros paid_intros) (simp add: domain_unpaid(3))

lemma paid_mark:
  assumes I: "paid_inv db" and c: "creditRail E s db = (db1, Inr ())" and s: "d_sessions db (s_id s) = Some s"
    and m: "(case MarkPaid now s of Inl e \<Rightarrow> if e = ErrSessionSettled then ret () else fail e
        | Inr s' \<Rightarrow> tolerate ErrSessionSettled (SaveSession s' [StatusPending, StatusProcessing]) (publishPaid s')) db1
        = (db2, r2)"
  shows "paid_inv db2"
proof -
  have I1: "paid_inv db1" using keepsD [OF paid_creditRail I c] .
  have "ledger_inv db" using I by (simp add: paid_inv_def)
  note post = creditRail_posts [OF this c]
  show ?thesis
  proof (cases "MarkPaid now s")
    case (Inl e)
    with m I1 show ?thesis by (auto split: if_splits)
  next
    case (Inr s')
    then have same: "s_id s' = s_id s" by (auto simp: MarkPaid_def split: if_splits)
    obtain db3 r3 where sv: "SaveSession s' [StatusPending, StatusProcessing] db1 = (db3, r3)" by fastforce
    have I3: "paid_inv db3" using I1 sv by (rule paid_SaveSession) (use post s same in auto)
    have "keeps paid_inv (publishPaid s')" unfolding publishPaid_def by (rule paid_intros)
    note pub = keepsD [OF this I3]
    from m Inr sv I3 show ?thesis
      by (cases r3) (auto simp: tolerate_def act_defs split: if_splits intro: pub)
  qed
qed

lemma paid_settle_session: "keeps paid_inv (settle_session E now ds leg)"
proof (rule keepsI)
  fix db db' :: fin_db and r :: "finance_err + unit"
  assume I: "paid_inv db" and run: "settle_session E now ds leg db = (db', r)"
  show "paid_inv db'"
  proof (cases "d_sessions db (x_session leg)")
    case None
    with run I show ?thesis by (auto simp: settle_session_def FindSessionByID_def act_defs)
  next
    case (Some s)
    then have sid: "d_sessions db (s_id s) = Some s" using I by (simp add: paid_inv_def)
    have f: "FindSessionByID (x_session leg) db = (db, Inr s)"
      by (simp add: FindSessionByID_def act_defs Some)
    show ?thesis
    proof (cases "ds = StatusFailed")
      case True
      with run show ?thesis using keepsD [OF paid_reopen I] by (simp add: settle_session_def f act_bind_step)
    next
      case False
      obtain t where t: "tenderOf now s db = (db, Inr t)"
        by (simp add: tenderOf_def ListTransactions_def act_defs)
      obtain db1 r1 where c: "creditRail E s db = (db1, r1)" by fastforce
      show ?thesis
      proof (cases r1)
        case (Inl e)
        with run False I c keepsD [OF paid_creditRail I c] show ?thesis
          by (simp add: settle_session_def f t act_bind_step act_bind_stop split: if_splits)
      next
        case (Inr u)
        with run False I c show ?thesis
          using paid_mark [OF I _ sid, of E db1 now db' r]
          by (simp add: settle_session_def f t act_bind_step split: if_splits)
      qed
    qed
  qed
qed

lemma paid_settle: "keeps paid_inv (settle E now leg st ref note)"
  unfolding settle_def tolerate_def Let_def by (intro keeps_intros paid_intros paid_settle_session)

lemmas paid_rules = keeps_bind_of_sum paid_settle paid_intros keeps_intros

lemmas unpaid_handlers =
  OpenCheckout_def StartPayment_def open_leg_def CancelSession_def Settle_def
  HoldEscrow_def ReleaseEscrow_def RefundEscrow_def AdminAdjustWallet_def
  CreateWithdrawal_def CancelWithdrawal_def AdminRejectWithdrawal_def
  party_def requireAdmin_def paymentOption_def checkReturnURL_def resumable_def tenderOf_def
  publishCancelled_def withdrawal_def decodeWithdrawal_def saveWithdrawalData_def returnWithdrawal_def
  FindBankAccount_def FindSessionByID_def FindTransactionByID_def FindWallet_def ListTransactions_def

text \<open>An approval saves a session as paid, and only a withdrawal's: no credit is owed for it.\<close>

lemma withdrawal_Inr:
  "withdrawal E a sid admin db = (db', Inr s) \<longleftrightarrow>
    db' = db \<and> d_sessions db sid = Some s \<and> s_kind s = KindWithdrawal
    \<and> (if admin then e_is_admin E a = Inr True else s_from s = a)"
  by (auto simp: withdrawal_def FindSessionByID_def requireAdmin_def act_runs split: sum.splits)

lemma withdrawal_Inl: "withdrawal E a sid admin db = (db', Inl e) \<Longrightarrow> db' = db"
  by (auto simp: withdrawal_def FindSessionByID_def requireAdmin_def act_runs split: sum.splits if_splits)

lemma decodeWithdrawal_same: "decodeWithdrawal E s db = (db', r) \<Longrightarrow> db' = db"
  by (auto simp: decodeWithdrawal_def act_defs split: if_splits option.splits)

lemma paid_approve: "keeps paid_inv (AdminApproveWithdrawal E now r)"
proof (rule keepsI)
  fix db db' :: fin_db and res
  assume I: "paid_inv db" and run: "AdminApproveWithdrawal E now r db = (db', res)"
  have save: "paid_inv db'" if s: "d_sessions db (rr_session r) = Some s" "s_kind s = KindWithdrawal"
    and m: "Inr s' = MarkPaid now s" and sv: "SaveSession (s'\<lparr>s_data := d\<rparr>) liveWithdrawal db = (db', x)" for s s' d x
    using I sv
  proof (rule paid_SaveSession)
    fix row assume "d_sessions db (s_id (s'\<lparr>s_data := d\<rparr>)) = Some row" "RailPayable row"
    moreover have "s_id s' = rr_session r" using I s m by (auto simp: paid_inv_def MarkPaid_def split: if_splits)
    ultimately show "topup_key (s_id (s'\<lparr>s_data := d\<rparr>)) \<in> posted db" using s by (simp add: RailPayable_def)
  qed
  show "paid_inv db'"
    using run I
    by (cases res)
      (auto simp: AdminApproveWithdrawal_def saveWithdrawalData_def Let_def act_runs withdrawal_Inr
        dest: withdrawal_Inl dest!: decodeWithdrawal_same intro: save)
qed

lemma paid_call: "keeps paid_inv (fin_call E now op)"
  by (cases op; simp only: fin_call.simps unpaid_handlers Let_def; intro paid_rules paid_approve;
      simp add: domain_unpaid)


lemma reachable_paid: "fin_reach E db \<Longrightarrow> paid_inv db"
  by (rule fin_reach_invariant [OF _ paid_call])
    (simp_all add: paid_inv_def empty_fin_def ledger_inv_def avail_def held_def ledger_of_def)



section \<open>Paying in parts\<close>

text \<open>A session that is being processed takes no further payment: with no leg of it pending, every
  payment started on it is refused and changes no row and no balance, whatever was paid before and whatever is
  still outstanding.\<close>

theorem processing_session_takes_no_payment:
  assumes "d_sessions db (sr_session r) = Some s" and "s_status s = StatusProcessing" and "s_id s = sr_session r"
    and "\<forall>t \<in> set (d_txns db). x_session t = sr_session r \<longrightarrow> x_status t \<noteq> StatusPending"
  shows "\<exists>e. StartPayment E now r db = (db, Inl e)"
proof -
  have "resumable now s (sr_option r) db = (db, Inr None)"
    using assms(3,4) by (auto simp: resumable_def ListTransactions_def act_defs find_None_iff txn_Resumable_def)
  moreover have "\<exists>e. open_leg E now r s rail db = (db, Inl e)" for rail
  proof -
    obtain t where t: "tenderOf now s db = (db, Inr t)"
      by (simp add: tenderOf_def ListTransactions_def act_defs)
    obtain e where "session_Charge now s = Inl e" using assms(2) by (cases "RailPayable s") (auto simp: session_Charge_def)
    with t show ?thesis by (simp add: open_leg_def act_defs)
  qed
  ultimately have open_: "\<exists>e. (act_bind (resumable now s (sr_option r)) (\<lambda>resumed. case resumed of
      Some leg \<Rightarrow> ret leg | None \<Rightarrow> open_leg E now r s rail)) db = (db, Inl e)" for rail
    by (simp add: act_bind_step)
  show ?thesis
    using assms(1) open_
    by (auto simp: StartPayment_def party_def FindSessionByID_def paymentOption_def checkReturnURL_def act_defs
        split: option.splits)
qed

text \<open>The checkout of 60 once more, with 20 of it paid.\<close>

definition demo_part :: start_req where
  "demo_part = demo_start\<lparr>sr_amount := Some 20\<rparr>"

definition parted :: fin_db where
  "parted = fst (StartPayment demo_env 1 demo_part opened)"

lemma parted_eq: "parted = opened\<lparr>
    d_sessions := (d_sessions opened)(1 \<mapsto> (the (d_sessions opened 1))\<lparr>s_status := StatusProcessing\<rparr>),
    d_txns := [\<lparr>x_id = 1, x_session = 1, x_status = StatusSuccess, x_note = ''charge'', x_error = None,
      x_option = ''qr'', x_provider_ref = Some ''g1'', x_checkout_url = None, x_data = ''{}'',
      x_amount = 20, x_currency = ''VND'', x_reverses = None, x_settled_at = Some 1, x_expired_at = None\<rparr>],
    d_txn_seq := 1\<rparr>"
  by (simp add: parted_def id_String_1 opened_eq demo_start_def demo_part_def session_defs run_defs)

theorem processing_session_takes_no_payment_witness:
  "\<exists>e. StartPayment demo_env 2 demo_start parted = (parted, Inl e)"
  by (rule processing_session_takes_no_payment [where s = "the (d_sessions parted 1)"])
    (simp_all add: parted_eq opened_eq demo_start_def)


end
