(* ===== verification/FinanceWithdrawals.thy ===== *)
theory FinanceWithdrawals
  imports FinanceSessions
begin

text \<open>
  What the finance service guarantees of a withdrawal: the debit, its return, that it is resolved
  once, and what a return that fails leaves behind.
\<close>

section \<open>Withdrawals\<close>

text \<open>The fields of a session that no save writes.\<close>

definition session_core :: "i64 \<Rightarrow> session \<Rightarrow> fin_db \<Rightarrow> bool" where
  "session_core sid s db \<longleftrightarrow> (\<exists>row. d_sessions db sid = Some row
    \<and> s_id row = s_id s \<and> s_kind row = s_kind s \<and> s_from row = s_from s \<and> s_to row = s_to s
    \<and> s_currency row = s_currency s \<and> s_total row = s_total s)"

interpretation session_core: row_invariant "session_core sid s" for sid s
  by unfold_locales
    (auto simp: session_core_def insertSession_def SaveSession_def InsertTransaction_def SaveTransaction_def act_defs
      split: if_splits option.splits)

lemma create_withdrawal_effect:
  assumes "ledger_inv db" and "CreateWithdrawal E now r db = (db1, Inr s)"
  shows "ledger_inv db1 \<and> d_sessions db1 (s_id s) = Some s
    \<and> s_kind s = KindWithdrawal \<and> s_from s = wr_actor r \<and> s_currency s = wr_currency r \<and> s_total s = wr_amount r
    \<and> s_status s = StatusPending \<and> 0 < sint (wr_amount r)
    \<and> avail db1 k = avail db k - (if k = (wr_actor r, wr_currency r) then sint (wr_amount r) else 0)
    \<and> held db1 k = held db k"
proof -
  define d where "d = mk_leg (wr_actor r) (wr_currency r)
        (Debit WalletKindWithdrawal (wr_amount r) (SessionRef (s_id s)) (withdrawal_key (s_id s)) ''withdrawal requested'')"
  define db0 where "db0 = db\<lparr>d_session_seq := d_session_seq db + 1\<rparr>"
  from assms(2) obtain sid data where
      new: "NewSession (e_V E) now sid KindWithdrawal (wr_actor r) 0 ''withdrawal''
        (wr_currency r) (wr_amount r) data withdrawalTTL = Inr s"
    and ins: "InsertWithdrawal (e_V E) s d db0 = (db1, Inr ())"
    by (auto simp: CreateWithdrawal_def d_def db0_def FindBankAccount_def act_runs NextSessionID_def nextval_def
        split: sum.splits if_splits dest!: sym [of "Inr _"])
  from new have s: "s_kind s = KindWithdrawal" "s_from s = wr_actor r" "s_currency s = wr_currency r"
    "s_total s = wr_amount r" "s_status s = StatusPending" "s\<lparr>s_paid_at := None\<rparr> = s"
    by (auto simp: NewSession_def Let_def split: if_splits)
  from ins obtain db2 ms where row: "insertSession s db0 = (db2, Inr ())" and mv: "move (e_V E) [d] db2 = (db1, Inr ms)"
    by (auto simp: InsertWithdrawal_runs)
  have money: "d_wallets db2 = d_wallets db" "d_ledger db2 = d_ledger db" and pos: "0 < sint (wr_amount r)"
    and at: "d_sessions db2 (s_id s) = Some s"
    using row s by (auto simp: insertSession_Inr db0_def)
  note same = same_money [OF money]
  have "sint (- wr_amount r) = - sint (wr_amount r)" using pos by (simp add: sint_uminus)
  with move_effect [OF _ mv, of k] assms(1) move_rows [OF mv] at s pos show ?thesis
    by (simp add: same d_def mk_leg_def transfer_defs)
qed

lemma cancel_withdrawal_effect:
  assumes "ledger_inv db" and "session_core sid s db" and "s_id s = sid" and "0 < sint (s_total s)"
    and "CancelWithdrawal E a sid db = (db', Inr ())"
  shows "avail db' k = avail db k + (if k = (s_from s, s_currency s) then sint (s_total s) else 0)
    \<and> held db' k = held db k"
proof -
  from assms(5) obtain row row' db1 ms where row: "d_sessions db sid = Some row"
    and c: "session_Cancel row = Inr row'" and sv: "SaveSession row' liveWithdrawal db = (db1, Inr ())"
    and mv: "Move (e_V E) [return_leg row' ''withdrawal cancelled''] db1 = (db', Inr ms)"
    by (auto simp: CancelWithdrawal_def act_runs withdrawal_Inr returnWithdrawal_def dest!: sym [of "Inr _"])
  have same: "s_from row' = s_from s" "s_currency row' = s_currency s" "s_total row' = s_total s"
    using assms(2) row c by (auto simp: session_core_def session_Cancel_def split: if_splits)
  have "d_wallets db1 = d_wallets db" "d_ledger db1 = d_ledger db"
    using sv by (auto simp: SaveSession_def split: option.splits if_splits)
  note money = same_money [OF this]
  from fin.mover_ok [OF _ mv, of k] assms(1) show ?thesis
    by (simp add: money return_leg_def mk_leg_def transfer_defs same)
qed

text \<open>C24: A withdrawal debits exactly its amount when it is requested, and cancelling it later gives exactly
  that amount back to the same wallet, whatever happened in between.\<close>

theorem withdrawal_cancel_restores:
  assumes "ledger_inv db"
    and "CreateWithdrawal E now r db = (db1, Inr s)" and "fin_steps E db1 db2"
    and "CancelWithdrawal E actor (s_id s) db2 = (db3, Inr ())"
  shows "avail db3 k - avail db2 k = avail db k - avail db1 k
    \<and> avail db1 (wr_actor r, wr_currency r) = avail db (wr_actor r, wr_currency r) - sint (wr_amount r)"
proof -
  note create = create_withdrawal_effect [OF assms(1,2)]
  have "session_core (s_id s) s db1" using create by (simp add: session_core_def)
  then have core: "session_core (s_id s) s db2" using fin_steps_keep [OF session_core.keeps_call assms(3)] by blast
  have "ledger_inv db2" using fin_steps_keep [OF ledger.keeps_call assms(3)] create by blast
  from cancel_withdrawal_effect [OF this core refl _ assms(4), of k] create [of k]
    create [of "(wr_actor r, wr_currency r)"]
  show ?thesis by simp
qed

text \<open>A payee of account 1, a wallet of 100, and a withdrawal of 40 of it.\<close>

definition demo_bank :: bank where
  "demo_bank = \<lparr>b_id = 5, b_account = 1, b_code = ''970436'', b_number = ''0123456789'', b_holder = ''A'',
    b_default = True, b_created = 0, b_deleted = None\<rparr>"

definition demo_withdraw :: withdraw_req where
  "demo_withdraw = \<lparr>wr_actor = 1, wr_bank = 5, wr_currency = ''VND'', wr_amount = 40\<rparr>"

definition banked :: "i64 \<Rightarrow> fin_db" where
  "banked amount = fst (AdminAdjustWallet demo_env (demo_adjust 1 amount ''a'') (empty_fin\<lparr>d_banks := [demo_bank]\<rparr>))"

definition withdrawn :: "i64 \<Rightarrow> fin_db" where
  "withdrawn amount = fst (CreateWithdrawal demo_env 0 demo_withdraw (banked amount))"

lemmas withdrawal_defs =
  CreateWithdrawal_def FindBankAccount_def NextSessionID_def NewSession_def session_fields_def InsertWithdrawal_def
  insertSession_def withdrawalTTL_def withdrawal_key_def dec_i64_def digit_def dec_nat.simps
  CancelWithdrawal_def withdrawal_def FindSessionByID_def session_Cancel_def session_Settled_def SaveSession_def
  liveWithdrawal_def returnWithdrawal_def return_leg_def

abbreviation max_word :: i64 where "max_word \<equiv> 9223372036854775807"

lemma banked_eq: "banked 100 = \<lparr>d_wallets = [(1, ''VND'') \<mapsto>
      \<lparr>w_account = 1, w_currency = ''VND'', w_available = 100, w_held = 0\<rparr>],
    d_ledger = [\<lparr>m_account = 1, m_currency = ''VND'', m_seq = 1, m_kind = WalletKindAdjustment,
      m_available_delta = 100, m_held_delta = 0, m_available_after = 100, m_held_after = 0,
      m_group = Some 1, m_ref_type = None, m_ref_id = None, m_key = Some ''adjustment:a'', m_note = ''why''\<rparr>],
    d_sessions = Map.empty, d_txns = [], d_banks = [demo_bank], d_session_seq = 0, d_txn_seq = 0,
    d_ledger_seq = 2, d_bank_seq = 0, d_bus = []\<rparr>"
  by (simp add: banked_def run_defs)

lemma banked_reach: "fin_reach demo_env (banked 100)"
proof -
  have "AdminAdjustWallet demo_env (demo_adjust 1 100 ''a'') (empty_fin\<lparr>d_banks := [demo_bank]\<rparr>)
      = (banked 100, Inr \<lparr>w_account = 1, w_currency = ''VND'', w_available = 100, w_held = 0\<rparr>)"
    unfolding banked_def by (rule run_ok) (simp add: run_defs)
  then show ?thesis
    by (intro fin_reach.by_call [OF fin_reach.from_empty, of demo_env 0 "OpAdjust (demo_adjust 1 100 ''a'')" "[demo_bank]"])
      (simp add: act_bind_step)
qed

definition pending_withdrawal :: session where
  "pending_withdrawal = \<lparr>s_id = 1, s_kind = KindWithdrawal, s_status = StatusPending, s_from = 1, s_to = 0,
    s_note = ''withdrawal'', s_currency = ''VND'', s_total = 40, s_data = ''{}'', s_paid_at = None,
    s_expired_at = 2592000000000000\<rparr>"

lemma withdrawn_run: "CreateWithdrawal demo_env 0 demo_withdraw (banked 100) = (withdrawn 100, Inr pending_withdrawal)"
  unfolding withdrawn_def
  by (rule run_ok) (simp add: banked_eq demo_bank_def demo_withdraw_def pending_withdrawal_def withdrawal_defs run_defs)

lemma cancelled_run: "\<exists>db. CancelWithdrawal demo_env 1 1 (withdrawn 100) = (db, Inr ())"
  by (simp add: withdrawn_def banked_eq demo_bank_def demo_withdraw_def withdrawal_defs run_defs)

theorem withdrawal_cancel_restores_witness:
  "\<exists>db. CancelWithdrawal demo_env 1 1 (withdrawn 100) = (db, Inr ()) \<and> avail db (1, ''VND'') = 100"
proof -
  obtain db where c: "CancelWithdrawal demo_env 1 1 (withdrawn 100) = (db, Inr ())" using cancelled_run by blast
  have "s_id pending_withdrawal = 1" by (simp add: pending_withdrawal_def)
  with withdrawal_cancel_restores [OF reachable_inv [OF banked_reach] withdrawn_run fin_steps.no_call, of 1 db "(1, ''VND'')"] c
  have "avail db (1, ''VND'') = avail (banked 100) (1, ''VND'')" by simp
  with c show ?thesis by (simp add: banked_eq avail_def)
qed

text \<open>C25: A withdrawal is resolved once: when it has been approved, rejected or cancelled, each of the three is
  refused from then on and the store stays exactly as it is, so neither the payout nor the return can be made
  twice.\<close>

theorem withdrawal_resolved_once:
  assumes "d_sessions db sid = Some row" and "session_Settled row"
    and "op = OpCancelWithdrawal actor sid \<or> op = OpApproveWithdrawal r \<or> op = OpRejectWithdrawal r"
    and "rr_session r = sid"
  shows "\<exists>e. fin_call E now op db = (db, Inl e)"
proof -
  have w: "(\<exists>e. withdrawal E a sid adm db = (db, Inl e)) \<or> withdrawal E a sid adm db = (db, Inr row)" for a adm
    using assms(1) by (auto simp: withdrawal_def FindSessionByID_def requireAdmin_def act_defs split: sum.splits)
  have "session_Cancel row = Inl ErrSessionSettled" "MarkPaid now row = Inl ErrSessionSettled"
    "MarkFailed row = Inl ErrSessionSettled"
    using assms(2) by (simp_all add: session_Cancel_def MarkPaid_def MarkFailed_def)
  then show ?thesis
    using assms(3,4) w [of actor False] w [of "rr_actor r" True]
    by (auto simp: CancelWithdrawal_def AdminApproveWithdrawal_def AdminRejectWithdrawal_def act_defs)
qed

theorem withdrawal_resolved_once_witness:
  "\<exists>e. fin_call demo_env 9 (OpApproveWithdrawal \<lparr>rr_actor = 99, rr_session = 1, rr_reason = [], rr_provider_ref = ''x''\<rparr>)
      (fst (CancelWithdrawal demo_env 1 1 (withdrawn 100)))
    = (fst (CancelWithdrawal demo_env 1 1 (withdrawn 100)), Inl e)"
proof -
  have "d_sessions (fst (CancelWithdrawal demo_env 1 1 (withdrawn 100))) 1
      = Some (pending_withdrawal\<lparr>s_status := StatusCancelled\<rparr>)"
    by (simp add: withdrawn_def banked_eq demo_bank_def demo_withdraw_def pending_withdrawal_def withdrawal_defs run_defs)
  then show ?thesis
    by (rule withdrawal_resolved_once [where actor = 1 and
        r = "\<lparr>rr_actor = 99, rr_session = 1, rr_reason = [], rr_provider_ref = ''x''\<rparr>"])
      (simp_all add: session_Settled_def)
qed

text \<open>C26: Cancelling a withdrawal settles its session before it returns the money, in two transactions. Where
  the return fails, the caller is told so, the balance has not come back, and it cannot be asked for again:
  every later cancellation is refused because the session is settled.\<close>

theorem failed_return_is_stranded:
  assumes "withdrawal E actor sid False db = (db, Inr s)" and "s_id s = sid"
    and "session_Cancel s = Inr s'" and "SaveSession s' liveWithdrawal db = (db1, Inr ())"
    and "Move (e_V E) [return_leg s' ''withdrawal cancelled''] db1 = (db2, Inl e)"
    and "fin_steps E db2 db3"
  shows "CancelWithdrawal E actor sid db = (db2, Inl e) \<and> d_wallets db2 = d_wallets db
    \<and> CancelWithdrawal E actor sid db3 = (db3, Inl ErrSessionSettled)"
proof -
  have s: "s_kind s = KindWithdrawal" "s_from s = actor" "d_sessions db sid = Some s"
    using assms(1) by (auto simp: withdrawal_Inr)
  obtain row where row: "d_sessions db1 sid = Some row" "s_status row = StatusCancelled"
      "s_kind row = KindWithdrawal" "s_from row = actor" and w: "d_wallets db1 = d_wallets db"
    using assms(2-4) s
    by (auto simp: SaveSession_def session_Cancel_def split: if_splits)
  note m = Move_Inl [OF assms(5)]
  have "session_at sid row db2" using m row by (simp add: session_at_def session_Settled_def)
  then have "session_at sid row db3" using fin_steps_keep [OF settled_session.keeps_call assms(6)] by blast
  then have "CancelWithdrawal E actor sid db3 = (db3, Inl ErrSessionSettled)"
    using row by (simp add: CancelWithdrawal_def withdrawal_def FindSessionByID_def session_at_def session_Cancel_def act_defs)
  moreover have "CancelWithdrawal E actor sid db = (db2, Inl e)"
    using assms(1,3-5) by (simp add: CancelWithdrawal_def returnWithdrawal_def act_defs)
  ultimately show ?thesis using m w by simp
qed

text \<open>The return that cannot land: by the time of the cancellation the wallet has been credited up to the
  largest balance an int64 holds.\<close>

definition full :: fin_db where
  "full = fst (AdminAdjustWallet demo_env (demo_adjust 1 40 ''c'') (withdrawn max_word))"

lemma full_eq: "full = \<lparr>d_wallets = [(1, ''VND'') \<mapsto>
      \<lparr>w_account = 1, w_currency = ''VND'', w_available = max_word, w_held = 0\<rparr>],
    d_ledger = [\<lparr>m_account = 1, m_currency = ''VND'', m_seq = 1, m_kind = WalletKindAdjustment,
      m_available_delta = max_word, m_held_delta = 0, m_available_after = max_word, m_held_after = 0,
      m_group = Some 1, m_ref_type = None, m_ref_id = None, m_key = Some ''adjustment:a'', m_note = ''why''\<rparr>,
     \<lparr>m_account = 1, m_currency = ''VND'', m_seq = 2, m_kind = WalletKindWithdrawal,
      m_available_delta = - 40, m_held_delta = 0, m_available_after = 9223372036854775767, m_held_after = 0,
      m_group = Some 3, m_ref_type = Some ''payment-session'', m_ref_id = Some 1,
      m_key = Some ''withdrawal:1'', m_note = ''withdrawal requested''\<rparr>,
     \<lparr>m_account = 1, m_currency = ''VND'', m_seq = 3, m_kind = WalletKindAdjustment,
      m_available_delta = 40, m_held_delta = 0, m_available_after = max_word, m_held_after = 0,
      m_group = Some 5, m_ref_type = None, m_ref_id = None, m_key = Some ''adjustment:c'', m_note = ''why''\<rparr>],
    d_sessions = [1 \<mapsto> pending_withdrawal], d_txns = [], d_banks = [demo_bank], d_session_seq = 1,
    d_txn_seq = 0, d_ledger_seq = 6, d_bank_seq = 0, d_bus = []\<rparr>"
  by (simp add: full_def withdrawn_def banked_def demo_bank_def demo_withdraw_def pending_withdrawal_def
      withdrawal_defs run_defs)

theorem failed_return_is_stranded_witness:
  "\<exists>db. CancelWithdrawal demo_env 1 1 full = (db, Inl ErrInsufficientBalance)
    \<and> CancelWithdrawal demo_env 1 1 db = (db, Inl ErrSessionSettled)"
proof -
  let ?s = "pending_withdrawal\<lparr>s_status := StatusCancelled\<rparr>"
  let ?db1 = "full\<lparr>d_sessions := [1 \<mapsto> ?s]\<rparr>"
  have a: "withdrawal demo_env 1 1 False full = (full, Inr pending_withdrawal)"
    by (simp add: withdrawal_Inr full_eq pending_withdrawal_def)
  have b: "s_id pending_withdrawal = 1" "session_Cancel pending_withdrawal = Inr ?s"
    by (simp_all add: pending_withdrawal_def session_Cancel_def session_Settled_def)
  have c: "SaveSession ?s liveWithdrawal full = (?db1, Inr ())"
    by (simp add: SaveSession_def full_eq pending_withdrawal_def liveWithdrawal_def)
  have d: "Move (e_V demo_env) [return_leg ?s ''withdrawal cancelled''] ?db1
      = (fst (Move (e_V demo_env) [return_leg ?s ''withdrawal cancelled''] ?db1), Inl ErrInsufficientBalance)"
    by (rule run_err) (simp add: full_eq pending_withdrawal_def withdrawal_defs run_defs)
  from failed_return_is_stranded [OF a b c d fin_steps.no_call] show ?thesis by blast
qed

end
