(* ===== verification/CatalogStock.thy ===== *)
theory CatalogStock
  imports Prelude
begin

text \<open>
  The stock of a variant (\<open>catalog/domain/stock.go\<close>, \<open>catalog/adapter/postgres/stock.go\<close>,
  \<open>catalog/service_stock.go\<close>): what a seller has, what unpaid checkouts hold of it and what is
  sold, moved by guarded statements. A commit and its reversal carry a key that the movement table
  takes once; a reservation and its release carry none. The arithmetic of a statement is
  Postgres's, which refuses a sum outside of a bigint.
\<close>

section \<open>The row\<close>

datatype stock_err =
    ErrInsufficientStock | ErrStockMovementKeyRequired | ErrVariantNotFound | ErrQuantityBelowCommitted
  | StockDatabase

record stock =
  st_quantity :: i64
  st_reserved :: i64
  st_sold :: i64

definition Available :: "stock \<Rightarrow> i64" where
  "Available s = st_quantity s - st_reserved s - st_sold s"

definition Committed :: "stock \<Rightarrow> i64" where
  "Committed s = st_reserved s + st_sold s"

definition stock_SetQuantity :: "i64 \<Rightarrow> stock \<Rightarrow> stock_err + stock" where
  "stock_SetQuantity quantity s =
    (if sint quantity < 0 \<or> sint quantity < sint (Committed s) then Inl ErrQuantityBelowCommitted
     else Inr (s\<lparr>st_quantity := quantity\<rparr>))"

section \<open>The statements\<close>

record stock_db =
  k_stock :: "i64 \<rightharpoonup> stock"
  k_moves :: "string list"
  k_cached_sold :: "i64 \<Rightarrow> i64"
  k_listing_of :: "i64 \<rightharpoonup> i64"

type_synonym 'a stock_act = "(stock_db, stock_err, 'a) act"

definition in_bigint :: "int \<Rightarrow> bool" where
  "in_bigint n \<longleftrightarrow> min_i64 \<le> n \<and> n \<le> max_i64"

definition FindStock :: "i64 \<Rightarrow> stock stock_act" where
  "FindStock variant = act_bind (gets (\<lambda>db. k_stock db variant)) (of_option ErrVariantNotFound)"

text \<open>An \<open>UPDATE stock SET \<dots> WHERE variant_id = \<dots> AND guard\<close>: the number of rows, and a bigint that overflows is the driver's error.\<close>

definition update_stock :: "i64 \<Rightarrow> (stock \<Rightarrow> int \<times> bool) \<Rightarrow> (stock \<Rightarrow> stock) \<Rightarrow> nat stock_act" where
  "update_stock variant guard change db =
    (case k_stock db variant of
       None \<Rightarrow> (db, Inr 0)
     | Some s \<Rightarrow>
         (case guard s of (n, ok) \<Rightarrow>
            if \<not> in_bigint n then (db, Inl StockDatabase)
            else if ok then (db\<lparr>k_stock := (k_stock db)(variant \<mapsto> change s)\<rparr>, Inr 1)
            else (db, Inr 0)))"

definition moveStock :: "i64 \<Rightarrow> i64 \<Rightarrow> nat stock_act \<Rightarrow> unit stock_act" where
  "moveStock variant units stmt =
    (if sint units \<le> 0 then fail ErrInsufficientStock
     else act_bind stmt (\<lambda>n. ensure (n \<noteq> 0) ErrInsufficientStock))"

definition ReserveStock :: "i64 \<Rightarrow> i64 \<Rightarrow> unit stock_act" where
  "ReserveStock variant units = moveStock variant units
    (update_stock variant
      (\<lambda>s. (sint (st_reserved s) + sint (st_sold s) + sint units,
            sint (st_reserved s) + sint (st_sold s) + sint units \<le> sint (st_quantity s)))
      (\<lambda>s. s\<lparr>st_reserved := st_reserved s + units\<rparr>))"

definition ReleaseStock :: "i64 \<Rightarrow> i64 \<Rightarrow> unit stock_act" where
  "ReleaseStock variant units = moveStock variant units
    (update_stock variant (\<lambda>s. (0, sint units \<le> sint (st_reserved s)))
      (\<lambda>s. s\<lparr>st_reserved := st_reserved s - units\<rparr>))"

text \<open>
  \<open>recordedMove\<close>: the key is claimed first, a key that is there already is success without a
  second move, and a refused move rolls the claim back. \<open>counter\<close> is the listing's cached number.
\<close>

definition recordedMove ::
  "string \<Rightarrow> i64 \<Rightarrow> i64 \<Rightarrow> nat stock_act \<Rightarrow> (i64 \<Rightarrow> i64) \<Rightarrow> unit stock_act" where
  "recordedMove key variant units stmt counter =
    (if sint units \<le> 0 then fail ErrInsufficientStock
     else if key = [] then fail ErrStockMovementKeyRequired
     else in_tx (\<lambda>old new. old)
       (act_bind (gets (\<lambda>db. key \<in> set (k_moves db))) (\<lambda>claimed.
        if claimed then ret ()
        else
          act_bind (modify (\<lambda>db. db\<lparr>k_moves := k_moves db @ [key]\<rparr>)) (\<lambda>_.
          act_bind stmt (\<lambda>n.
          act_bind (ensure (n \<noteq> 0) ErrInsufficientStock) (\<lambda>_.
          modify (\<lambda>db. case k_listing_of db variant of
              None \<Rightarrow> db
            | Some l \<Rightarrow> db\<lparr>k_cached_sold := (k_cached_sold db)(l := counter (k_cached_sold db l))\<rparr>)))))))"

definition CommitStock :: "i64 \<Rightarrow> i64 \<Rightarrow> string \<Rightarrow> unit stock_act" where
  "CommitStock variant units key = recordedMove key variant units
    (update_stock variant
      (\<lambda>s. (sint (st_sold s) + sint units, sint units \<le> sint (st_reserved s)))
      (\<lambda>s. s\<lparr>st_reserved := st_reserved s - units, st_sold := st_sold s + units\<rparr>))
    (\<lambda>n. n + units)"

definition UncommitStock :: "i64 \<Rightarrow> i64 \<Rightarrow> string \<Rightarrow> unit stock_act" where
  "UncommitStock variant units key = recordedMove key variant units
    (update_stock variant (\<lambda>s. (0, sint units \<le> sint (st_sold s)))
      (\<lambda>s. s\<lparr>st_sold := st_sold s - units\<rparr>))
    (\<lambda>n. if sint (n - units) < 0 then 0 else n - units)"

lemmas stock_defs = ReserveStock_def ReleaseStock_def CommitStock_def UncommitStock_def moveStock_def
  recordedMove_def update_stock_def in_bigint_def

section \<open>Nothing is sold twice\<close>

definition stock_ok :: "stock \<Rightarrow> bool" where
  "stock_ok s \<longleftrightarrow> 0 \<le> sint (st_reserved s) \<and> 0 \<le> sint (st_sold s)
    \<and> sint (st_reserved s) + sint (st_sold s) \<le> sint (st_quantity s)"

definition shelf_ok :: "stock_db \<Rightarrow> bool" where
  "shelf_ok db \<longleftrightarrow> (\<forall>v s. k_stock db v = Some s \<longrightarrow> stock_ok s) \<and> distinct (k_moves db)"

lemma sint_minus_in_range:
  assumes "0 \<le> sint b" "sint b \<le> sint (a :: i64)"
  shows "sint (a - b) = sint a - sint b"
proof -
  have "sint (- b) = - sint b" using assms(1) by (intro sint_uminus) simp
  moreover have "sint (a + - b) = sint a + sint (- b)"
    using assms sint_i64_bounds [of a] calculation by (intro sint_add_in_range) linarith+
  ultimately show ?thesis by simp
qed

lemma stock_changes_ok:
  assumes "stock_ok s" and "0 < sint units"
  shows "sint (st_reserved s) + sint (st_sold s) + sint units \<le> sint (st_quantity s) \<Longrightarrow>
      stock_ok (s\<lparr>st_reserved := st_reserved s + units\<rparr>)"
    and "sint units \<le> sint (st_reserved s) \<Longrightarrow> stock_ok (s\<lparr>st_reserved := st_reserved s - units\<rparr>)"
    and "sint units \<le> sint (st_reserved s) \<Longrightarrow>
      stock_ok (s\<lparr>st_reserved := st_reserved s - units, st_sold := st_sold s + units\<rparr>)"
    and "sint units \<le> sint (st_sold s) \<Longrightarrow> stock_ok (s\<lparr>st_sold := st_sold s - units\<rparr>)"
  using assms sint_add_in_range [of "st_reserved s" units] sint_add_in_range [of "st_sold s" units]
    sint_minus_in_range [of units "st_reserved s"] sint_minus_in_range [of units "st_sold s"]
    sint_i64_bounds [of "st_quantity s"]
  by (auto simp: stock_ok_def)

lemma keeps_update_stock:
  assumes "\<And>s. stock_ok s \<Longrightarrow> snd (guard s) \<Longrightarrow> stock_ok (change s)"
  shows "keeps shelf_ok (update_stock variant guard change)"
  using assms by (fastforce simp: keeps_def update_stock_def shelf_ok_def split: option.splits prod.splits)

lemma keeps_recordedMove:
  assumes "0 < sint units \<Longrightarrow> keeps shelf_ok stmt"
  shows "keeps shelf_ok (recordedMove key variant units stmt counter)"
proof (rule keepsI)
  fix db db' :: stock_db and r :: "stock_err + unit"
  assume ok: "shelf_ok db" and run: "recordedMove key variant units stmt counter db = (db', r)"
  show "shelf_ok db'"
  proof (cases "db' = db")
    case False
    with run obtain db1 n where units: "0 < sint units" and key: "key \<notin> set (k_moves db)"
      and st: "stmt (db\<lparr>k_moves := k_moves db @ [key]\<rparr>) = (db1, Inr n)"
      and same: "k_stock db' = k_stock db1" "k_moves db' = k_moves db1"
      by (cases r) (auto simp: recordedMove_def act_runs split: if_splits option.splits)
    have "shelf_ok (db\<lparr>k_moves := k_moves db @ [key]\<rparr>)" using ok key by (simp add: shelf_ok_def)
    with st assms [OF units] have "shelf_ok db1" by (blast dest: keepsD)
    with same show ?thesis by (simp add: shelf_ok_def)
  qed (use ok in simp)
qed

lemma keeps_moveStock:
  assumes "0 < sint units \<Longrightarrow> keeps shelf_ok stmt"
  shows "keeps shelf_ok (moveStock variant units stmt)"
  using assms unfolding moveStock_def by (auto intro!: keeps_intros)

lemma keeps_shelf_moves:
  "keeps shelf_ok (ReserveStock variant units)" "keeps shelf_ok (ReleaseStock variant units)"
  "keeps shelf_ok (CommitStock variant units key)" "keeps shelf_ok (UncommitStock variant units key)"
  unfolding ReserveStock_def ReleaseStock_def CommitStock_def UncommitStock_def
  by (intro keeps_moveStock keeps_recordedMove keeps_update_stock stock_changes_ok; simp)+

text \<open>C27: No sequence of reservations, releases, sales and reversals oversells: starting from a shelf where
  what is held and sold fits what there is, every movement of every variant, whatever it answers, leaves it
  so, counts nothing below zero, and takes no movement key twice.\<close>

theorem stock_never_oversold:
  assumes "shelf_ok db"
    and "f = ReserveStock variant units \<or> f = ReleaseStock variant units
      \<or> f = CommitStock variant units key \<or> f = UncommitStock variant units key"
    and "f db = (db', r)"
  shows "shelf_ok db'"
proof -
  have "keeps shelf_ok f" using assms(2) keeps_shelf_moves [of variant units] by auto
  then show ?thesis using assms(1,3) by (rule keepsD)
qed

definition demo_shelf :: stock_db where
  "demo_shelf = \<lparr>k_stock = [4 \<mapsto> \<lparr>st_quantity = 10, st_reserved = 3, st_sold = 5\<rparr>], k_moves = [],
    k_cached_sold = (\<lambda>_. 5), k_listing_of = [4 \<mapsto> 3]\<rparr>"

lemma demo_shelf_ok: "shelf_ok demo_shelf"
  by (simp add: shelf_ok_def demo_shelf_def stock_ok_def)

theorem stock_never_oversold_witness:
  "shelf_ok (fst (ReserveStock 4 3 demo_shelf)) \<and> snd (ReserveStock 4 3 demo_shelf) = Inl ErrInsufficientStock"
  using stock_never_oversold [OF demo_shelf_ok, of "ReserveStock 4 3" 4 3 _ "fst (ReserveStock 4 3 demo_shelf)"
      "snd (ReserveStock 4 3 demo_shelf)"]
  by (simp add: stock_defs act_defs demo_shelf_def)

text \<open>Selling is idempotent by its key: once a commit or its reversal has been made under a key, the same
  request is answered as done and moves nothing, however often and on whatever variant it is repeated.\<close>

theorem keyed_stock_move_once:
  assumes "CommitStock variant units key db = (db1, Inr ()) \<or> UncommitStock variant units key db = (db1, Inr ())"
    and "0 < sint units'"
  shows "CommitStock variant' units' key db1 = (db1, Inr ()) \<and> UncommitStock variant' units' key db1 = (db1, Inr ())"
proof -
  have "key \<noteq> [] \<and> key \<in> set (k_moves db1)"
    using assms(1) by (auto simp: stock_defs act_runs split: if_splits option.splits)
  then show ?thesis using assms(2) by (simp add: stock_defs act_defs in_tx_def)
qed

theorem keyed_stock_move_once_witness:
  "\<exists>db. CommitStock 4 2 ''k'' demo_shelf = (db, Inr ()) \<and> CommitStock 4 2 ''k'' db = (db, Inr ())"
proof -
  obtain db where c: "CommitStock 4 2 ''k'' demo_shelf = (db, Inr ())"
    by (simp add: stock_defs act_defs in_tx_def demo_shelf_def)
  with keyed_stock_move_once [of 4 2 "''k''" demo_shelf db 2 4] show ?thesis by simp
qed



end
