(* ===== verification/OrderDomain.thy ===== *)
theory OrderDomain
  imports Prelude
begin

text \<open>
  The order module's entities and rules (\<open>internal/module/order/domain\<close>): the order and the
  outcome timestamps its state is read from, the refund case and its clocks, the shipment, the
  purchased line, the purchase session, the negotiation and the cart line. A method with a pointer
  receiver answers the changed entity or its error; none of them writes before it refuses.
  \<open>time.Now()\<close> is the argument \<open>now\<close>.
\<close>

section \<open>Errors and facts\<close>

datatype order_err =
    ErrCartItemNotFound
  | ErrDraftNotFound | ErrDraftExpired | ErrDraftSettled | ErrPriceMoved | ErrCurrencyMismatch
  | ErrSelfPurchase | ErrListingNotForSale | ErrVariantNotInDraft
  | ErrItemNotFound | ErrItemNotCancellable
  | ErrOfferNotFound | ErrOfferSettled | ErrOfferExpired | ErrOfferAlreadyOpen | ErrNotYourTurn
  | ErrOfferNotAccepted | ErrSellerCannotOffer | ErrOnlyBuyerCheckout | ErrFixedPriceListing
  | ErrOfferAboveAsking
  | ErrOrderNotFound | ErrOrderSettled | ErrReceiptAlreadyConfirmed | ErrReceiptNeedsEvidence
  | ErrOrderNotCancellable | ErrAttachmentNotFound
  | ErrTransportSettled | ErrShipmentNotReportable | ErrTransportStatusUnknown | ErrTransportNotFound
  | ErrNoReturnLeg
  | ErrRefundNotFound | ErrRefundSettled | ErrRefundAlreadyOpen | ErrRefundNotDue | ErrNotAwaitingSeller
  | ErrOrderNotConfirmed | ErrOrderAlreadyConfirmed | ErrDeclineNeedsReason
  | ErrConfirmationAlreadyEscalated | ErrSessionPaid | ErrRefundNotEscalatable | ErrRefundNotDisputed
  | ErrTooMuchEvidence
  | ErrNotTheBuyer | ErrNotTheSeller | ErrModeratorRequired
  | ErrQuoteSourceInvalid | ErrCheckoutEmpty | ErrShippingQuoteInvalid | ErrCarrierUnknown | ErrOptionProviderUnknown
  | errQuantityPositive
  | OrdValidation
  | OrdDatabase string
  | OrdOutside string

datatype order_event =
    Placed | Confirmed | Declined string | ConfirmationEscalated | ShipmentAdvanced string
  | Received nat | Cancelled | Completed | PayoutReleased

fun event_code :: "order_event \<Rightarrow> string" where
  "event_code Placed = ''order.placed''"
| "event_code Confirmed = ''order.confirmed''"
| "event_code (Declined _) = ''order.declined''"
| "event_code ConfirmationEscalated = ''order.confirmation_escalated''"
| "event_code (ShipmentAdvanced _) = ''order.shipment_advanced''"
| "event_code (Received _) = ''order.received''"
| "event_code Cancelled = ''order.cancelled''"
| "event_code Completed = ''order.completed''"
| "event_code PayoutReleased = ''order.payout_released''"

definition hours :: "int \<Rightarrow> duration" where
  "hours n = n * 3600000000000"

section \<open>Where a sale comes from\<close>

record origin =
  og_draft :: "i64 option"
  og_offer :: "i64 option"

definition FromDraft :: "i64 \<Rightarrow> origin" where
  "FromDraft d = \<lparr>og_draft = Some d, og_offer = None\<rparr>"

definition FromOffer :: "i64 \<Rightarrow> origin" where
  "FromOffer d = \<lparr>og_draft = None, og_offer = Some d\<rparr>"

definition origin_Valid :: "origin \<Rightarrow> bool" where
  "origin_Valid g \<longleftrightarrow> (og_draft g = None) \<noteq> (og_offer g = None)"

record address =
  ad_name :: string
  ad_phone :: string
  ad_country :: string
  ad_province :: string
  ad_district :: "string option"
  ad_ward :: string
  ad_detail :: "string option"

section \<open>The order\<close>

datatype order_state = StateAwaitingConfirmation | StateOpen | StateCompleted | StateCancelled

definition PayoutWindow :: duration where "PayoutWindow = hours 72"
definition SellerConfirmWindow :: duration where "SellerConfirmWindow = hours 48"

record order =
  o_events :: "order_event list"
  o_id :: i64
  o_draft :: "i64 option"
  o_offer :: "i64 option"
  o_buyer :: i64
  o_seller :: i64
  o_transport :: i64
  o_address :: address
  o_pickup :: address
  o_confirmed_at :: "time option"
  o_escalated_at :: "time option"
  o_decline_reason :: "string option"
  o_received_at :: "time option"
  o_receipt :: "i64 list"
  o_released_at :: "time option"
  o_created_at :: time
  o_completed_at :: "time option"
  o_cancelled_at :: "time option"

definition order_fields :: "order \<Rightarrow> vfield list" where
  "order_fields ord = [([Required], VInt (o_buyer ord)), ([Required], VInt (o_seller ord)),
     ([Required], VInt (o_transport ord))]"

definition NewOrder ::
  "validator \<Rightarrow> origin \<Rightarrow> i64 \<Rightarrow> i64 \<Rightarrow> i64 \<Rightarrow> address \<Rightarrow> address \<Rightarrow> order_err + order" where
  "NewOrder V g buyer seller transport addr pickup =
    (if \<not> origin_Valid g then Inl ErrVariantNotInDraft
     else
       let ord = \<lparr>o_events = [], o_id = 0, o_draft = og_draft g, o_offer = og_offer g,
                  o_buyer = buyer, o_seller = seller, o_transport = transport,
                  o_address = addr, o_pickup = pickup,
                  o_confirmed_at = None, o_escalated_at = None, o_decline_reason = None,
                  o_received_at = None, o_receipt = [], o_released_at = None,
                  o_created_at = 0, o_completed_at = None, o_cancelled_at = None\<rparr>
       in if struct_ok V (order_fields ord) then Inr ord else Inl OrdValidation)"

definition order_State :: "order \<Rightarrow> order_state" where
  "order_State ord =
    (if o_cancelled_at ord \<noteq> None then StateCancelled
     else if o_completed_at ord \<noteq> None \<or> o_received_at ord \<noteq> None then StateCompleted
     else if o_confirmed_at ord = None then StateAwaitingConfirmation
     else StateOpen)"

definition order_Settled :: "order \<Rightarrow> bool" where
  "order_Settled ord \<longleftrightarrow> o_cancelled_at ord \<noteq> None \<or> o_completed_at ord \<noteq> None"

definition record_event :: "order_event \<Rightarrow> order \<Rightarrow> order" where
  "record_event e ord = ord\<lparr>o_events := o_events ord @ [e]\<rparr>"

definition Confirm :: "time \<Rightarrow> order \<Rightarrow> order_err + order" where
  "Confirm now ord =
    (if order_Settled ord then Inl ErrOrderSettled
     else if o_confirmed_at ord \<noteq> None then Inl ErrOrderAlreadyConfirmed
     else Inr (record_event Confirmed (ord\<lparr>o_confirmed_at := Some now\<rparr>)))"

definition Decline :: "time \<Rightarrow> string \<Rightarrow> order \<Rightarrow> order_err + order" where
  "Decline now reason ord =
    (if order_Settled ord then Inl ErrOrderSettled
     else if o_confirmed_at ord \<noteq> None then Inl ErrOrderAlreadyConfirmed
     else if reason = [] then Inl ErrDeclineNeedsReason
     else Inr (record_event (Declined reason)
                 (ord\<lparr>o_cancelled_at := Some now, o_decline_reason := Some reason\<rparr>)))"

definition EscalateConfirmation :: "time \<Rightarrow> order \<Rightarrow> order_err + order" where
  "EscalateConfirmation now ord =
    (if order_Settled ord then Inl ErrOrderSettled
     else if o_confirmed_at ord \<noteq> None then Inl ErrOrderAlreadyConfirmed
     else if o_escalated_at ord \<noteq> None then Inl ErrConfirmationAlreadyEscalated
     else Inr (record_event ConfirmationEscalated (ord\<lparr>o_escalated_at := Some now\<rparr>)))"

definition order_Confirmed :: "order \<Rightarrow> bool" where
  "order_Confirmed ord \<longleftrightarrow> o_confirmed_at ord \<noteq> None"

definition ConfirmationDue :: "order \<Rightarrow> time option" where
  "ConfirmationDue ord =
    (if o_confirmed_at ord \<noteq> None \<or> order_Settled ord then None
     else Some (o_created_at ord + SellerConfirmWindow))"

definition order_ConfirmReceipt :: "time \<Rightarrow> i64 list \<Rightarrow> order \<Rightarrow> order_err + order" where
  "order_ConfirmReceipt now attachments ord =
    (if order_Settled ord then Inl ErrOrderSettled
     else if o_confirmed_at ord = None then Inl ErrOrderNotConfirmed
     else if o_received_at ord \<noteq> None then Inl ErrReceiptAlreadyConfirmed
     else if attachments = [] then Inl ErrReceiptNeedsEvidence
     else Inr (record_event (Received (length attachments))
                 (ord\<lparr>o_received_at := Some now, o_receipt := attachments\<rparr>)))"

definition PayoutDue :: "order \<Rightarrow> time option" where
  "PayoutDue ord = map_option (\<lambda>t. t + PayoutWindow) (o_received_at ord)"

definition order_MarkPayoutReleased :: "time \<Rightarrow> order \<Rightarrow> order" where
  "order_MarkPayoutReleased now ord =
    (if o_released_at ord = None then ord\<lparr>o_released_at := Some now\<rparr> else ord)"

definition order_Cancel :: "time \<Rightarrow> bool \<Rightarrow> order \<Rightarrow> order_err + order" where
  "order_Cancel now shipped ord =
    (if order_Settled ord then Inl ErrOrderSettled
     else if shipped then Inl ErrOrderNotCancellable
     else Inr (record_event Cancelled (ord\<lparr>o_cancelled_at := Some now\<rparr>)))"

definition order_Involves :: "order \<Rightarrow> i64 \<Rightarrow> bool" where
  "order_Involves ord account \<longleftrightarrow> account \<noteq> 0 \<and> (o_buyer ord = account \<or> o_seller ord = account)"

definition ClearEvents :: "order \<Rightarrow> order" where
  "ClearEvents ord = ord\<lparr>o_events := []\<rparr>"

section \<open>The refund case\<close>

datatype refund_status =
    RefundAwaitingSeller | RefundDisputed | RefundReturning | RefundReturned
  | RefundAccepted | RefundRejected | RefundCancelled

fun refund_status_str :: "refund_status \<Rightarrow> string" where
  "refund_status_str RefundAwaitingSeller = ''awaiting-seller-review''"
| "refund_status_str RefundDisputed = ''disputed''"
| "refund_status_str RefundReturning = ''returning''"
| "refund_status_str RefundReturned = ''returned''"
| "refund_status_str RefundAccepted = ''accepted''"
| "refund_status_str RefundRejected = ''rejected''"
| "refund_status_str RefundCancelled = ''cancelled''"

definition SellerReviewWindow :: duration where "SellerReviewWindow = hours 48"
definition SellerInspectionWindow :: duration where "SellerInspectionWindow = hours 48"
definition MaxEvidence :: nat where "MaxEvidence = 10"

record refund =
  r_id :: i64
  r_buyer :: i64
  r_order :: i64
  r_reason :: string
  r_attachments :: "i64 list"
  r_created_at :: time
  r_status :: refund_status
  r_deadline :: "time option"
  r_seller_decided_at :: "time option"
  r_return_transport :: "i64 option"
  r_returned_at :: "time option"

definition refund_fields :: "refund \<Rightarrow> vfield list" where
  "refund_fields r =
    [([Required], VInt (r_buyer r)), ([Required], VInt (r_order r)),
     ([Required, Max 2000], VStr (r_reason r)), ([Required], VStr (refund_status_str (r_status r)))]"

definition addEvidence :: "i64 list \<Rightarrow> i64 list \<Rightarrow> i64 list" where
  "addEvidence have add = foldl (\<lambda>acc key. if key \<in> set acc then acc else acc @ [key]) have add"

definition NewRefund ::
  "validator \<Rightarrow> time \<Rightarrow> i64 \<Rightarrow> i64 \<Rightarrow> string \<Rightarrow> i64 list \<Rightarrow> order_err + refund" where
  "NewRefund V now ord buyer reason attachments =
    (let r = \<lparr>r_id = 0, r_buyer = buyer, r_order = ord, r_reason = reason,
              r_attachments = addEvidence [] attachments, r_created_at = 0,
              r_status = RefundAwaitingSeller, r_deadline = Some (now + SellerReviewWindow),
              r_seller_decided_at = None, r_return_transport = None, r_returned_at = None\<rparr>
     in if MaxEvidence < length (r_attachments r) then Inl ErrTooMuchEvidence
        else if struct_ok V (refund_fields r) then Inr r else Inl OrdValidation)"

definition refund_Settled :: "refund \<Rightarrow> bool" where
  "refund_Settled r \<longleftrightarrow>
    r_status r = RefundAccepted \<or> r_status r = RefundRejected \<or> r_status r = RefundCancelled"

definition Withdraw :: "refund \<Rightarrow> order_err + refund" where
  "Withdraw r =
    (if r_status r \<noteq> RefundAwaitingSeller then Inl ErrRefundSettled
     else Inr (r\<lparr>r_status := RefundCancelled, r_deadline := None\<rparr>))"

definition grantReturn :: "refund \<Rightarrow> refund" where
  "grantReturn r = r\<lparr>r_status := RefundReturning, r_deadline := None\<rparr>"

definition Accept :: "time \<Rightarrow> refund \<Rightarrow> order_err + refund" where
  "Accept now r =
    (if r_status r \<noteq> RefundAwaitingSeller then Inl ErrNotAwaitingSeller
     else Inr (grantReturn (r\<lparr>r_seller_decided_at := Some now\<rparr>)))"

definition EscalateUnanswered :: "refund \<Rightarrow> order_err + refund" where
  "EscalateUnanswered r =
    (if r_status r \<noteq> RefundAwaitingSeller then Inl ErrNotAwaitingSeller
     else Inr (r\<lparr>r_status := RefundDisputed, r_deadline := None\<rparr>))"

definition Escalate :: "time \<Rightarrow> refund \<Rightarrow> order_err + refund" where
  "Escalate now r =
    (if r_status r \<noteq> RefundAwaitingSeller \<and> r_status r \<noteq> RefundReturned then Inl ErrRefundNotEscalatable
     else
       let r1 = (if r_status r = RefundAwaitingSeller then r\<lparr>r_seller_decided_at := Some now\<rparr> else r)
       in Inr (r1\<lparr>r_status := RefundDisputed, r_deadline := None\<rparr>))"

definition MarkReturned :: "time \<Rightarrow> refund \<Rightarrow> order_err + refund" where
  "MarkReturned now r =
    (if r_status r \<noteq> RefundReturning then Inl ErrRefundSettled
     else Inr (r\<lparr>r_returned_at := Some now, r_status := RefundReturned,
                 r_deadline := Some (now + SellerInspectionWindow)\<rparr>))"

definition ClaimReturned :: "time \<Rightarrow> refund \<Rightarrow> order_err + refund" where
  "ClaimReturned now r =
    (if r_status r \<noteq> RefundReturning then Inl ErrRefundSettled
     else Inr (r\<lparr>r_returned_at := Some now, r_status := RefundDisputed, r_deadline := None\<rparr>))"

definition refund_Settle :: "refund \<Rightarrow> order_err + refund" where
  "refund_Settle r =
    (if refund_Settled r then Inl ErrRefundSettled
     else Inr (r\<lparr>r_status := RefundAccepted, r_deadline := None\<rparr>))"

definition Resolve :: "bool \<Rightarrow> refund \<Rightarrow> order_err + refund" where
  "Resolve buyerWins r =
    (if r_status r \<noteq> RefundDisputed then Inl ErrRefundNotDisputed
     else if buyerWins then
       (if r_returned_at r \<noteq> None then refund_Settle r else Inr (grantReturn r))
     else Inr (r\<lparr>r_status := RefundRejected, r_deadline := None\<rparr>))"

definition StartReturn :: "i64 \<Rightarrow> refund \<Rightarrow> order_err + refund" where
  "StartReturn transport r =
    (if r_status r \<noteq> RefundReturning then Inl ErrRefundSettled
     else Inr (r\<lparr>r_return_transport := Some transport\<rparr>))"

definition AddAttachments :: "i64 list \<Rightarrow> refund \<Rightarrow> order_err + refund" where
  "AddAttachments attachments r =
    (if refund_Settled r then Inl ErrRefundSettled
     else
       let nxt = addEvidence (r_attachments r) attachments
       in if MaxEvidence < length nxt then Inl ErrTooMuchEvidence
          else Inr (r\<lparr>r_attachments := nxt\<rparr>))"

section \<open>The shipment\<close>

datatype transport_status =
    TransportPending | TransportPickedUp | TransportInTransit
  | TransportDelivered | TransportReturned | TransportFailed

text \<open>\<open>tr_data\<close> is the JSON column; the reading of its \<open>provider_ref\<close> is the decoder \<open>ref_of\<close>.\<close>

record transport =
  tr_id :: i64
  tr_option :: string
  tr_status :: transport_status
  tr_fee :: i64
  tr_data :: string
  tr_created_at :: time

definition Booked :: "(string \<Rightarrow> string option) \<Rightarrow> transport \<Rightarrow> bool" where
  "Booked ref_of t =
    (if tr_data t = [] then False
     else case ref_of (tr_data t) of None \<Rightarrow> False | Some ref \<Rightarrow> ref \<noteq> [])"

definition Shipped :: "transport \<Rightarrow> bool" where
  "Shipped t = (case tr_status t of
      TransportPickedUp \<Rightarrow> True | TransportInTransit \<Rightarrow> True | TransportDelivered \<Rightarrow> True
    | TransportReturned \<Rightarrow> True | TransportFailed \<Rightarrow> True | _ \<Rightarrow> False)"

definition Delivered :: "transport \<Rightarrow> bool" where
  "Delivered t \<longleftrightarrow> tr_status t = TransportDelivered"

definition transport_Settled :: "transport \<Rightarrow> bool" where
  "transport_Settled t \<longleftrightarrow>
    tr_status t = TransportDelivered \<or> tr_status t = TransportReturned \<or> tr_status t = TransportFailed"

text \<open>A status that is not in the table of ranks reads as zero, as a missing key of a Go map does.\<close>

fun transportOrder :: "transport_status \<Rightarrow> nat" where
  "transportOrder TransportPickedUp = 1"
| "transportOrder TransportInTransit = 2"
| "transportOrder _ = 0"

text \<open>The status a caller names: one of the module's, or any other word.\<close>

fun transport_status_of :: "string \<Rightarrow> transport_status option" where
  "transport_status_of s =
    (if s = ''pending'' then Some TransportPending
     else if s = ''picked-up'' then Some TransportPickedUp
     else if s = ''in-transit'' then Some TransportInTransit
     else if s = ''delivered'' then Some TransportDelivered
     else if s = ''returned'' then Some TransportReturned
     else if s = ''failed'' then Some TransportFailed
     else None)"

definition Advance :: "transport_status option \<Rightarrow> transport \<Rightarrow> order_err + transport" where
  "Advance status t =
    (if transport_Settled t then Inl ErrTransportSettled
     else case status of
       Some TransportDelivered \<Rightarrow> Inr (t\<lparr>tr_status := TransportDelivered\<rparr>)
     | Some TransportReturned \<Rightarrow> Inr (t\<lparr>tr_status := TransportReturned\<rparr>)
     | Some TransportFailed \<Rightarrow> Inr (t\<lparr>tr_status := TransportFailed\<rparr>)
     | Some TransportPickedUp \<Rightarrow>
         if transportOrder TransportPickedUp \<le> transportOrder (tr_status t) then Inl ErrTransportSettled
         else Inr (t\<lparr>tr_status := TransportPickedUp\<rparr>)
     | Some TransportInTransit \<Rightarrow>
         if transportOrder TransportInTransit \<le> transportOrder (tr_status t) then Inl ErrTransportSettled
         else Inr (t\<lparr>tr_status := TransportInTransit\<rparr>)
     | _ \<Rightarrow> Inl ErrTransportStatusUnknown)"

section \<open>The purchased line\<close>

record item =
  i_id :: i64
  i_draft :: "i64 option"
  i_offer :: "i64 option"
  i_order :: "i64 option"
  i_buyer :: i64
  i_seller :: i64
  i_listing :: i64
  i_variant :: i64
  i_address :: address
  i_note :: string
  i_currency :: string
  i_quantity :: i64
  i_option :: string
  i_total :: i64
  i_session :: i64
  i_cancelled_at :: "time option"
  i_cancelled_by :: "i64 option"
  i_created_at :: time

record new_line =
  nl_origin :: origin
  nl_buyer :: i64
  nl_seller :: i64
  nl_listing :: i64
  nl_variant :: i64
  nl_address :: address
  nl_note :: string
  nl_currency :: string
  nl_quantity :: i64
  nl_option :: string
  nl_total :: i64

definition item_fields :: "item \<Rightarrow> vfield list" where
  "item_fields i =
    [([Required], VInt (i_buyer i)), ([Required], VInt (i_seller i)), ([Required], VInt (i_listing i)),
     ([Required], VInt (i_variant i)), ([Required, Len 3], VStr (i_currency i)),
     ([Required, Gt 0], VInt (i_quantity i)), ([Required], VStr (i_option i)), ([Gte 0], VInt (i_total i))]"

definition NewItem :: "validator \<Rightarrow> new_line \<Rightarrow> order_err + item" where
  "NewItem V l =
    (if \<not> origin_Valid (nl_origin l) then Inl ErrVariantNotInDraft
     else
       let i = \<lparr>i_id = 0, i_draft = og_draft (nl_origin l), i_offer = og_offer (nl_origin l), i_order = None,
                i_buyer = nl_buyer l, i_seller = nl_seller l, i_listing = nl_listing l,
                i_variant = nl_variant l, i_address = nl_address l, i_note = nl_note l,
                i_currency = nl_currency l, i_quantity = nl_quantity l, i_option = nl_option l,
                i_total = nl_total l, i_session = 0, i_cancelled_at = None, i_cancelled_by = None,
                i_created_at = 0\<rparr>
       in if struct_ok V (item_fields i) then Inr i else Inl OrdValidation)"

definition item_Live :: "item \<Rightarrow> bool" where
  "item_Live i \<longleftrightarrow> i_cancelled_at i = None"

definition item_Cancel :: "time \<Rightarrow> i64 \<Rightarrow> item \<Rightarrow> order_err + item" where
  "item_Cancel now actor i =
    (if i_order i \<noteq> None then Inl ErrItemNotCancellable
     else if \<not> item_Live i then Inl ErrItemNotCancellable
     else let i1 = i\<lparr>i_cancelled_at := Some now\<rparr>
          in Inr (if actor \<noteq> 0 then i1\<lparr>i_cancelled_by := Some actor\<rparr> else i1))"

section \<open>The purchase session and the cart\<close>

text \<open>The attribute and package maps are the JSON they are stored as.\<close>

record variant_snapshot =
  vs_variant :: i64
  vs_price :: i64
  vs_attributes :: string
  vs_package :: string

record listing_snapshot =
  ls_listing :: i64
  ls_seller :: i64
  ls_name :: string
  ls_currency :: string
  ls_price_mode :: string
  ls_variants :: "variant_snapshot list"

record draft =
  dr_id :: i64
  dr_buyer :: i64
  dr_listing :: i64
  dr_snapshot :: listing_snapshot
  dr_created_at :: time
  dr_cancelled_at :: "time option"
  dr_valid_until :: time

definition draft_fields :: "draft \<Rightarrow> vfield list" where
  "draft_fields d = [([Required], VInt (dr_buyer d)), ([Required], VInt (dr_listing d)),
     ([Required], VTime (dr_valid_until d))]"

definition NewDraft :: "validator \<Rightarrow> time \<Rightarrow> i64 \<Rightarrow> listing_snapshot \<Rightarrow> duration \<Rightarrow> order_err + draft" where
  "NewDraft V now buyer snapshot window =
    (let d = \<lparr>dr_id = 0, dr_buyer = buyer, dr_listing = ls_listing snapshot, dr_snapshot = snapshot,
              dr_created_at = 0, dr_cancelled_at = None, dr_valid_until = now + window\<rparr>
     in if buyer = ls_seller snapshot then Inl ErrSelfPurchase
        else if ls_variants snapshot = [] then Inl ErrVariantNotInDraft
        else if struct_ok V (draft_fields d) then Inr d else Inl OrdValidation)"

definition draft_Live :: "draft \<Rightarrow> time \<Rightarrow> bool" where
  "draft_Live d now \<longleftrightarrow> dr_cancelled_at d = None \<and> now < dr_valid_until d"

definition draft_Cancel :: "time \<Rightarrow> draft \<Rightarrow> order_err + draft" where
  "draft_Cancel now d =
    (if dr_cancelled_at d \<noteq> None then Inl ErrDraftSettled
     else Inr (d\<lparr>dr_cancelled_at := Some now\<rparr>))"

definition draft_Variant :: "draft \<Rightarrow> i64 \<Rightarrow> order_err + variant_snapshot" where
  "draft_Variant d variant =
    (case find (\<lambda>v. vs_variant v = variant) (ls_variants (dr_snapshot d)) of
       Some v \<Rightarrow> Inr v | None \<Rightarrow> Inl ErrVariantNotInDraft)"

record cart_item =
  ct_id :: i64
  ct_account :: i64
  ct_listing :: i64
  ct_variant :: i64
  ct_quantity :: i64
  ct_created_at :: time

definition cart_fields :: "cart_item \<Rightarrow> vfield list" where
  "cart_fields c = [([Required], VInt (ct_account c)), ([Required], VInt (ct_listing c)),
     ([Required], VInt (ct_variant c)), ([Required, Gt 0], VInt (ct_quantity c))]"

definition NewCartItem :: "validator \<Rightarrow> i64 \<Rightarrow> i64 \<Rightarrow> i64 \<Rightarrow> i64 \<Rightarrow> order_err + cart_item" where
  "NewCartItem V account listing variant quantity =
    (let c = \<lparr>ct_id = 0, ct_account = account, ct_listing = listing, ct_variant = variant,
              ct_quantity = quantity, ct_created_at = 0\<rparr>
     in if struct_ok V (cart_fields c) then Inr c else Inl OrdValidation)"

definition SetQuantity :: "i64 \<Rightarrow> cart_item \<Rightarrow> order_err + cart_item" where
  "SetQuantity quantity c =
    (if sint quantity \<le> 0 then Inl errQuantityPositive else Inr (c\<lparr>ct_quantity := quantity\<rparr>))"

section \<open>The negotiation\<close>

datatype offer_status = OfferActive | OfferAccepted | OfferCheckedOut | OfferCancelled

fun offer_status_str :: "offer_status \<Rightarrow> string" where
  "offer_status_str OfferActive = ''active''"
| "offer_status_str OfferAccepted = ''accepted''"
| "offer_status_str OfferCheckedOut = ''checked-out''"
| "offer_status_str OfferCancelled = ''cancelled''"

record offer =
  f_id :: i64
  f_listing :: i64
  f_variant :: i64
  f_author :: i64
  f_buyer :: i64
  f_seller :: i64
  f_status :: offer_status
  f_quantity :: i64
  f_total :: i64
  f_reason :: string
  f_session :: "i64 option"
  f_created_at :: time
  f_expires_at :: time

record new_terms =
  nt_listing :: i64
  nt_variant :: i64
  nt_buyer :: i64
  nt_seller :: i64
  nt_quantity :: i64
  nt_total :: i64
  nt_reason :: string
  nt_unit_price :: i64

definition offer_fields :: "offer \<Rightarrow> vfield list" where
  "offer_fields f =
    [([Required], VInt (f_listing f)), ([Required], VInt (f_variant f)), ([Required], VInt (f_author f)),
     ([Required], VInt (f_buyer f)), ([Required], VInt (f_seller f)),
     ([Required, OneOf [''active'', ''accepted'', ''checked-out'', ''cancelled'']],
        VStr (offer_status_str (f_status f))),
     ([Required, Gt 0], VInt (f_quantity f)), ([Required, Gt 0], VInt (f_total f)),
     ([Required], VTime (f_expires_at f))]"

text \<open>\<open>BelowAsking\<close>: the product is Go's, so it wraps.\<close>

definition BelowAsking :: "i64 \<Rightarrow> i64 \<Rightarrow> i64 \<Rightarrow> bool" where
  "BelowAsking quantity amount unitPrice =
    (if sint unitPrice \<le> 0 \<or> sint quantity \<le> 0 then True
     else sint amount < sint (unitPrice * quantity))"

definition NewOffer :: "validator \<Rightarrow> time \<Rightarrow> new_terms \<Rightarrow> duration \<Rightarrow> order_err + offer" where
  "NewOffer V now t window =
    (let f = \<lparr>f_id = 0, f_listing = nt_listing t, f_variant = nt_variant t, f_author = nt_buyer t,
              f_buyer = nt_buyer t, f_seller = nt_seller t, f_status = OfferActive,
              f_quantity = nt_quantity t, f_total = nt_total t, f_reason = nt_reason t,
              f_session = None, f_created_at = 0, f_expires_at = now + window\<rparr>
     in if nt_buyer t = nt_seller t then Inl ErrSellerCannotOffer
        else if \<not> BelowAsking (nt_quantity t) (nt_total t) (nt_unit_price t) then Inl ErrOfferAboveAsking
        else if struct_ok V (offer_fields f) then Inr f else Inl OrdValidation)"

definition offer_Live :: "offer \<Rightarrow> time \<Rightarrow> bool" where
  "offer_Live f now \<longleftrightarrow> f_status f = OfferActive \<and> now < f_expires_at f"

definition offer_Involves :: "offer \<Rightarrow> i64 \<Rightarrow> bool" where
  "offer_Involves f account \<longleftrightarrow> account \<noteq> 0 \<and> (f_buyer f = account \<or> f_seller f = account)"

definition movable :: "i64 \<Rightarrow> time \<Rightarrow> offer \<Rightarrow> order_err option" where
  "movable actor now f =
    (if \<not> offer_Involves f actor then Some ErrOfferNotFound
     else if f_status f \<noteq> OfferActive then Some ErrOfferSettled
     else if \<not> now < f_expires_at f then Some ErrOfferExpired
     else None)"

definition Counter ::
  "i64 \<Rightarrow> i64 \<Rightarrow> i64 \<Rightarrow> i64 \<Rightarrow> string \<Rightarrow> time \<Rightarrow> duration \<Rightarrow> offer \<Rightarrow> order_err + offer" where
  "Counter actor quantity amount unitPrice reason now window f =
    (case movable actor now f of
       Some e \<Rightarrow> Inl e
     | None \<Rightarrow>
         if f_author f = actor then Inl ErrNotYourTurn
         else if sint quantity \<le> 0 \<or> sint amount \<le> 0 then Inl errQuantityPositive
         else if \<not> BelowAsking quantity amount unitPrice then Inl ErrOfferAboveAsking
         else Inr (let f1 = f\<lparr>f_author := actor, f_quantity := quantity, f_total := amount\<rparr>;
                       f2 = (if reason \<noteq> [] then f1\<lparr>f_reason := reason\<rparr> else f1)
                   in f2\<lparr>f_expires_at := now + window\<rparr>))"

definition offer_Accept :: "i64 \<Rightarrow> time \<Rightarrow> duration \<Rightarrow> offer \<Rightarrow> order_err + offer" where
  "offer_Accept actor now window f =
    (case movable actor now f of
       Some e \<Rightarrow> Inl e
     | None \<Rightarrow>
         if f_author f = actor then Inl ErrNotYourTurn
         else Inr (f\<lparr>f_status := OfferAccepted, f_expires_at := now + window\<rparr>))"

definition CheckoutBy :: "i64 \<Rightarrow> time \<Rightarrow> offer \<Rightarrow> order_err option" where
  "CheckoutBy actor now f =
    (if \<not> offer_Involves f actor then Some ErrOfferNotFound
     else if f_status f = OfferCheckedOut then Some ErrOfferSettled
     else if f_status f \<noteq> OfferAccepted then Some ErrOfferNotAccepted
     else if actor \<noteq> f_buyer f then Some ErrOnlyBuyerCheckout
     else if \<not> now < f_expires_at f then Some ErrOfferExpired
     else None)"

definition offer_Cancel :: "i64 \<Rightarrow> offer \<Rightarrow> order_err + offer" where
  "offer_Cancel actor f =
    (if \<not> offer_Involves f actor then Inl ErrOfferNotFound
     else if f_status f \<noteq> OfferActive then Inl ErrOfferSettled
     else Inr (f\<lparr>f_status := OfferCancelled\<rparr>))"

definition Expire :: "offer \<Rightarrow> order_err + offer" where
  "Expire f =
    (if f_status f = OfferCancelled \<or> f_status f = OfferCheckedOut then Inl ErrOfferSettled
     else Inr (f\<lparr>f_status := OfferCancelled\<rparr>))"

definition CheckOut :: "offer \<Rightarrow> offer" where
  "CheckOut f = f\<lparr>f_status := OfferCheckedOut\<rparr>"

end
