(* ===== verification/OrderRules.thy ===== *)
theory OrderRules
  imports OrderDomain
begin

text \<open>
  The order module's entities as state machines: the steps each offers, as inductive relations over
  the operations of OrderDomain, with what every reachable entity satisfies. The constraints the
  schema states as \<open>CHECK\<close>s are here proved of the operations themselves.
\<close>

section \<open>The order\<close>

text \<open>
  The steps of an order: the five methods, and the claim of the payout, which the repository
  writes on an open order whose receipt is confirmed.
\<close>

inductive order_step :: "order \<Rightarrow> order \<Rightarrow> bool" where
  "Confirm now ord = Inr ord' \<Longrightarrow> order_step ord ord'"
| "Decline now reason ord = Inr ord' \<Longrightarrow> order_step ord ord'"
| "EscalateConfirmation now ord = Inr ord' \<Longrightarrow> order_step ord ord'"
| "order_ConfirmReceipt now atts ord = Inr ord' \<Longrightarrow> order_step ord ord'"
| "order_Cancel now shipped ord = Inr ord' \<Longrightarrow> order_step ord ord'"
| "\<not> order_Settled ord \<Longrightarrow> o_received_at ord \<noteq> None \<Longrightarrow> order_step ord (ord\<lparr>o_completed_at := Some now\<rparr>)"
| "o_completed_at ord \<noteq> None \<Longrightarrow> order_step ord (order_MarkPayoutReleased now ord)"
| "order_step ord (ClearEvents ord)"

inductive order_life :: "order \<Rightarrow> bool" where
  "NewOrder V g buyer seller transport addr pickup = Inr ord \<Longrightarrow>
     order_life (ord\<lparr>o_id := oid, o_created_at := now\<rparr>)"
| "order_life ord \<Longrightarrow> order_step ord ord' \<Longrightarrow> order_life ord'"

lemmas order_ops =
  Confirm_def Decline_def EscalateConfirmation_def order_ConfirmReceipt_def order_Cancel_def
  order_MarkPayoutReleased_def ClearEvents_def record_event_def order_Settled_def

definition order_ok :: "order \<Rightarrow> bool" where
  "order_ok ord \<longleftrightarrow>
    (o_draft ord = None) \<noteq> (o_offer ord = None)
    \<and> \<not> (o_completed_at ord \<noteq> None \<and> o_cancelled_at ord \<noteq> None)
    \<and> (o_received_at ord \<noteq> None \<longleftrightarrow> o_receipt ord \<noteq> [])
    \<and> (o_received_at ord \<noteq> None \<longrightarrow> o_confirmed_at ord \<noteq> None)
    \<and> (o_completed_at ord \<noteq> None \<longrightarrow> o_received_at ord \<noteq> None)
    \<and> (o_released_at ord \<noteq> None \<longrightarrow> o_completed_at ord \<noteq> None)
    \<and> (o_decline_reason ord \<noteq> None \<longrightarrow> o_cancelled_at ord \<noteq> None \<and> o_confirmed_at ord = None)"

lemma order_step_ok: "order_step ord ord' \<Longrightarrow> order_ok ord \<Longrightarrow> order_ok ord'"
  by (erule order_step.cases; simp add: order_ok_def order_ops split: if_splits; auto)

lemma order_life_inv: "order_life ord \<Longrightarrow> order_ok ord"
proof (induction rule: order_life.induct)
  case 1
  then show ?case by (auto simp: NewOrder_def order_ok_def origin_Valid_def Let_def split: if_splits)
qed (rule order_step_ok)


definition demo_address :: address where
  "demo_address = \<lparr>ad_name = ''A'', ad_phone = ''1'', ad_country = ''VN'', ad_province = [], ad_district = None,
    ad_ward = [], ad_detail = None\<rparr>"

definition demo_order :: order where
  "demo_order = \<lparr>o_events = [], o_id = 1, o_draft = Some 3, o_offer = None, o_buyer = 1, o_seller = 2,
    o_transport = 4, o_address = demo_address, o_pickup = demo_address, o_confirmed_at = None,
    o_escalated_at = None, o_decline_reason = None, o_received_at = None, o_receipt = [], o_released_at = None,
    o_created_at = 0, o_completed_at = None, o_cancelled_at = None\<rparr>"

lemma demo_order_life: "order_life demo_order"
proof -
  have "NewOrder doc_validator (FromDraft 3) 1 2 4 demo_address demo_address = Inr (demo_order\<lparr>o_id := 0, o_created_at := 0\<rparr>)"
    by (simp add: NewOrder_def FromDraft_def origin_Valid_def order_fields_def demo_order_def Let_def)
  from order_life.intros(1) [OF this, of 0 1] show ?thesis by (simp add: demo_order_def)
qed


fun state_rank :: "order_state \<Rightarrow> nat" where
  "state_rank StateAwaitingConfirmation = 0"
| "state_rank StateOpen = 1"
| "state_rank StateCompleted = 2"
| "state_rank StateCancelled = 3"

text \<open>C30: The state of an order is read from its timestamps, and a step moves it forward only: a cancelled
  order stays cancelled, an order that is completed never goes back to being open or awaiting confirmation,
  and an open one never goes back to awaiting confirmation.\<close>

theorem order_state_moves_forward:
  assumes "order_life ord" and "order_step ord ord'"
  shows "state_rank (order_State ord) \<le> state_rank (order_State ord')
    \<and> (o_completed_at ord \<noteq> None \<longrightarrow> order_State ord' = StateCompleted)"
proof -
  have "order_ok ord" using assms(1) by (rule order_life_inv)
  with assms(2) show ?thesis
    by cases (auto simp: order_State_def order_ok_def order_ops split: if_splits)
qed

theorem order_state_moves_forward_witness:
  "\<exists>ord. Confirm 5 demo_order = Inr ord \<and> state_rank (order_State demo_order) \<le> state_rank (order_State ord)"
proof -
  obtain ord where c: "Confirm 5 demo_order = Inr ord"
    by (simp add: Confirm_def demo_order_def order_Settled_def)
  with order_state_moves_forward [OF demo_order_life order_step.intros(1) [OF c]] show ?thesis by blast
qed

section \<open>The refund case\<close>

inductive refund_step :: "refund \<Rightarrow> refund \<Rightarrow> bool" where
  "Withdraw r = Inr r' \<Longrightarrow> refund_step r r'"
| "Accept now r = Inr r' \<Longrightarrow> refund_step r r'"
| "EscalateUnanswered r = Inr r' \<Longrightarrow> refund_step r r'"
| "Escalate now r = Inr r' \<Longrightarrow> refund_step r r'"
| "MarkReturned now r = Inr r' \<Longrightarrow> refund_step r r'"
| "ClaimReturned now r = Inr r' \<Longrightarrow> refund_step r r'"
| "refund_Settle r = Inr r' \<Longrightarrow> refund_step r r'"
| "Resolve buyerWins r = Inr r' \<Longrightarrow> refund_step r r'"
| "StartReturn transport r = Inr r' \<Longrightarrow> refund_step r r'"
| "AddAttachments atts r = Inr r' \<Longrightarrow> refund_step r r'"

inductive refund_life :: "refund \<Rightarrow> bool" where
  "NewRefund V now ord buyer reason atts = Inr r \<Longrightarrow> refund_life (r\<lparr>r_id := rid, r_created_at := created\<rparr>)"
| "refund_life r \<Longrightarrow> refund_step r r' \<Longrightarrow> refund_life r'"

lemmas refund_ops =
  Withdraw_def Accept_def EscalateUnanswered_def Escalate_def MarkReturned_def ClaimReturned_def
  refund_Settle_def Resolve_def StartReturn_def AddAttachments_def grantReturn_def refund_Settled_def

lemma addEvidence_spec:
  assumes "distinct h0"
  shows "distinct (addEvidence h0 add) \<and> set (addEvidence h0 add) = set h0 \<union> set add
    \<and> (\<exists>new. addEvidence h0 add = h0 @ new)"
  using assms unfolding addEvidence_def
proof (induction add arbitrary: h0)
  case (Cons k add)
  show ?case
  proof (cases "k \<in> set h0")
    case True
    with Cons show ?thesis by auto
  next
    case False
    with Cons.prems have "distinct (h0 @ [k])" by simp
    from Cons.IH [OF this] False show ?thesis by auto
  qed
qed simp

definition refund_ok :: "refund \<Rightarrow> bool" where
  "refund_ok r \<longleftrightarrow>
    distinct (r_attachments r) \<and> length (r_attachments r) \<le> MaxEvidence
    \<and> (r_deadline r \<noteq> None \<longleftrightarrow> r_status r = RefundAwaitingSeller \<or> r_status r = RefundReturned)
    \<and> (r_status r = RefundReturned \<longrightarrow> r_returned_at r \<noteq> None)
    \<and> (r_returned_at r \<noteq> None \<longrightarrow> r_status r \<notin> {RefundAwaitingSeller, RefundReturning, RefundCancelled})"

lemma refund_step_ok: "refund_step r r' \<Longrightarrow> refund_ok r \<Longrightarrow> refund_ok r'"
proof (erule refund_step.cases)
  fix atts s s'
  assume "AddAttachments atts s = Inr s'" "r = s" "r' = s'" "refund_ok r"
  then show "refund_ok r'"
    using addEvidence_spec [of "r_attachments r" atts]
    by (auto simp: AddAttachments_def refund_ok_def Let_def split: if_splits)
qed (auto simp: refund_ok_def refund_ops Let_def split: if_splits)

lemma refund_life_inv: "refund_life r \<Longrightarrow> refund_ok r"
proof (induction rule: refund_life.induct)
  case (1 V now ord buyer reason atts r rid created)
  then show ?case
    using addEvidence_spec [of "[]" atts]
    by (auto simp: NewRefund_def refund_ok_def Let_def split: if_splits)
qed (rule refund_step_ok)

text \<open>C31: Every reachable case of a refund carries at most ten pieces of evidence and none twice; somebody is
  on a clock exactly while the case waits on the seller, to review it or to inspect what came back; and a case
  whose goods are back is never one that still waits for the goods or was withdrawn.\<close>

theorem refund_life_ok:
  assumes "refund_life r"
  shows "distinct (r_attachments r) \<and> length (r_attachments r) \<le> 10
    \<and> (r_deadline r \<noteq> None \<longleftrightarrow> r_status r = RefundAwaitingSeller \<or> r_status r = RefundReturned)
    \<and> (r_returned_at r \<noteq> None \<longrightarrow> r_status r \<notin> {RefundAwaitingSeller, RefundReturning, RefundCancelled})"
  using refund_life_inv [OF assms] unfolding refund_ok_def MaxEvidence_def by blast

definition demo_refund :: refund where
  "demo_refund = \<lparr>r_id = 1, r_buyer = 1, r_order = 7, r_reason = ''broken'', r_attachments = [5, 6],
    r_created_at = 0, r_status = RefundAwaitingSeller, r_deadline = Some SellerReviewWindow,
    r_seller_decided_at = None, r_return_transport = None, r_returned_at = None\<rparr>"

lemma demo_refund_life: "refund_life demo_refund"
proof -
  have "NewRefund doc_validator 0 7 1 ''broken'' [5, 6, 5] = Inr (demo_refund\<lparr>r_id := 0, r_created_at := 0\<rparr>)"
    by (simp add: NewRefund_def refund_fields_def demo_refund_def addEvidence_def MaxEvidence_def Let_def)
  from refund_life.intros(1) [OF this, of 0 1] show ?thesis by (simp add: demo_refund_def)
qed

theorem refund_life_ok_witness:
  "\<exists>r. Accept 9 demo_refund = Inr r \<and> r_status r = RefundReturning \<and> r_deadline r = None
    \<and> distinct (r_attachments r)"
proof -
  obtain r where a: "Accept 9 demo_refund = Inr r" "r_status r = RefundReturning"
    by (simp add: Accept_def demo_refund_def grantReturn_def)
  from refund_life_ok [OF refund_life.intros(2) [OF demo_refund_life refund_step.intros(2) [OF a(1)]]] a
  show ?thesis by auto
qed

text \<open>A closed case is closed: from accepted, rejected or withdrawn no step of a refund is possible, so
  neither its verdict nor its evidence changes any more.\<close>

theorem refund_closed_final:
  assumes "refund_Settled r"
  shows "\<not> refund_step r r'"
proof
  assume "refund_step r r'"
  then show False using assms by cases (auto simp: refund_ops Let_def split: if_splits)
qed

theorem refund_closed_final_witness:
  "\<not> refund_step (demo_refund\<lparr>r_status := RefundRejected, r_deadline := None\<rparr>) demo_refund"
  by (rule refund_closed_final) (simp add: refund_Settled_def)



section \<open>The shipment\<close>

text \<open>A carrier's reports, in the order they arrive; a refused one changes nothing.\<close>

definition report :: "transport_status option \<Rightarrow> transport \<Rightarrow> transport" where
  "report st t = (case Advance st t of Inl _ \<Rightarrow> t | Inr t' \<Rightarrow> t')"

lemma report_forward:
  "Shipped t \<Longrightarrow> Shipped (report st t)" "transport_Settled t \<Longrightarrow> report st t = t"
  by (cases st; cases "the st"; cases "tr_status t"; simp add: report_def Advance_def Shipped_def transport_Settled_def)+

text \<open>C33: Whatever a carrier reports and in whatever order, a parcel that has left never reads as not having
  left, so no late report gives a cancellation back; and a leg that has ended never changes again.\<close>

theorem shipped_is_never_undone:
  "(Shipped t \<longrightarrow> Shipped (fold report reports t)) \<and> (transport_Settled t \<longrightarrow> fold report reports t = t)"
  by (induction reports arbitrary: t) (auto simp: report_forward)

theorem shipped_is_never_undone_witness:
  "Shipped (fold report [Some TransportPickedUp, Some TransportInTransit]
    \<lparr>tr_id = 4, tr_option = ''ghn'', tr_status = TransportInTransit, tr_fee = 0, tr_data = [], tr_created_at = 0\<rparr>)"
  using shipped_is_never_undone [of "\<lparr>tr_id = 4, tr_option = ''ghn'', tr_status = TransportInTransit, tr_fee = 0,
      tr_data = [], tr_created_at = 0\<rparr>" "[Some TransportPickedUp, Some TransportInTransit]"]
  by (simp add: Shipped_def)

section \<open>The negotiation\<close>

lemma wrap_le: "0 \<le> n \<Longrightarrow> (n + 9223372036854775808) mod 18446744073709551616 - 9223372036854775808 \<le> (n :: int)"
  using zmod_le_nonneg_dividend [of "n + 9223372036854775808" 18446744073709551616] by linarith

lemma wrap_times:
  "sint (a * b :: i64) = (sint a * sint b + 9223372036854775808) mod 18446744073709551616 - 9223372036854775808"
  using sint_word_ariths(3) [of a b]
  by (simp add: signed_take_bit_eq_take_bit_shift take_bit_eq_mod)

text \<open>C34: Terms that pass the asking-price rule really are below the asking price as integers, although the
  product the code compares with wraps: an overflow can only refuse an offer, never let one through. Where the
  product fits, the rule is exact.\<close>

theorem BelowAsking_sound:
  assumes "0 < sint unitPrice" and "0 < sint quantity"
  shows "(BelowAsking quantity amount unitPrice \<longrightarrow> sint amount < sint unitPrice * sint quantity)
    \<and> (sint unitPrice * sint quantity \<le> max_i64 \<longrightarrow>
         (BelowAsking quantity amount unitPrice \<longleftrightarrow> sint amount < sint unitPrice * sint quantity))"
proof -
  have nonneg: "0 \<le> sint unitPrice * sint quantity" using assms by simp
  have le: "sint (unitPrice * quantity) \<le> sint unitPrice * sint quantity"
    unfolding wrap_times using nonneg by (rule wrap_le)
  have eq: "sint (unitPrice * quantity) = sint unitPrice * sint quantity"
    if "sint unitPrice * sint quantity \<le> max_i64"
    unfolding wrap_times using nonneg that by (intro wrap_range) auto
  show ?thesis using assms le eq by (auto simp: BelowAsking_def)
qed

theorem BelowAsking_sound_witness:
  "BelowAsking 3 29 10 \<and> \<not> BelowAsking 3 30 10"
  using BelowAsking_sound [of 10 3 29] BelowAsking_sound [of 10 3 30] by simp

text \<open>The moves of a negotiation and the claim of a checkout, by whom they are made.\<close>

inductive offer_step :: "i64 \<Rightarrow> time \<Rightarrow> offer \<Rightarrow> offer \<Rightarrow> bool" where
  "Counter actor quantity amount unitPrice reason now window f = Inr f' \<Longrightarrow> offer_step actor now f f'"
| "offer_Accept actor now window f = Inr f' \<Longrightarrow> offer_step actor now f f'"
| "offer_Cancel actor f = Inr f' \<Longrightarrow> offer_step actor now f f'"
| "CheckoutBy actor now f = None \<Longrightarrow> offer_step actor now f (CheckOut f)"

lemmas offer_ops = Counter_def offer_Accept_def offer_Cancel_def CheckoutBy_def CheckOut_def movable_def
  offer_Involves_def

inductive_cases offer_stepE: "offer_step actor now f f'"

text \<open>C35: In a negotiation the two sides alternate: the party whose proposal stands can neither revise nor
  accept it; terms are agreed only on a live proposal and become a purchase only when the buyer takes
  agreed terms in time; the parties, the listing and the variant never change.\<close>

theorem offer_moves:
  assumes "offer_step actor now f f'"
  shows "(actor = f_buyer f \<or> actor = f_seller f)
    \<and> (f_status f' = OfferActive \<longrightarrow> actor \<noteq> f_author f \<and> f_author f' = actor \<and> offer_Live f now)
    \<and> (f_status f' = OfferAccepted \<longrightarrow> actor \<noteq> f_author f \<and> offer_Live f now
          \<and> f_total f' = f_total f \<and> f_quantity f' = f_quantity f)
    \<and> (f_status f' = OfferCheckedOut \<longrightarrow> actor = f_buyer f \<and> f_status f = OfferAccepted \<and> now < f_expires_at f)
    \<and> f_buyer f' = f_buyer f \<and> f_seller f' = f_seller f \<and> f_listing f' = f_listing f \<and> f_variant f' = f_variant f"
  using assms by (rule offer_stepE) (auto simp: offer_ops offer_Live_def Let_def split: if_splits)

definition demo_offer :: offer where
  "demo_offer = \<lparr>f_id = 1, f_listing = 3, f_variant = 4, f_author = 1, f_buyer = 1, f_seller = 2,
    f_status = OfferActive, f_quantity = 2, f_total = 90, f_reason = [], f_session = None,
    f_created_at = 0, f_expires_at = 100\<rparr>"

theorem offer_moves_witness:
  "\<exists>f. offer_Accept 2 50 30 demo_offer = Inr f \<and> f_status f = OfferAccepted \<and> f_total f = 90"
proof -
  obtain f where a: "offer_Accept 2 50 30 demo_offer = Inr f" "f_status f = OfferAccepted"
    by (simp add: demo_offer_def offer_ops)
  from offer_moves [OF offer_step.intros(2) [OF a(1)]] a show ?thesis by (simp add: demo_offer_def)
qed

end
