(* ===== verification/OrderStore.thy ===== *)
theory OrderStore
  imports OrderDomain FinanceStore "HOL-Library.Product_Lexorder"
begin

text \<open>
  The order module's tables and the adapter's statements (\<open>order/adapter/postgres/order.go\<close> and
  \<open>refund.go\<close>, constraints from \<open>order/migrations/001_init.sql\<close>). A table is the list of its rows in
  the order of insertion; an \<open>UPDATE \<dots> WHERE\<close> that matches no row is the error the adapter makes of
  it, a \<open>CHECK\<close> that a row would break is the driver's error \<open>OrdDatabase\<close> (\<open>currency_format\<close> and
  \<open>slug_format\<close> are the two regular expressions the finance tables carry too). The foreign keys to the
  draft and offer tables are not modelled, nor is an error of the connection. The advisory lock on
  an order makes a locked statement one step, which it is here anyway.
\<close>

record ord_db =
  q_orders :: "order list"
  q_items :: "item list"
  q_transports :: "transport list"
  q_refunds :: "refund list"
  q_audit :: "(i64 \<times> order_event) list"
  q_order_seq :: int
  q_item_seq :: int
  q_transport_seq :: int
  q_refund_seq :: int

type_synonym 'a ord_act = "(ord_db, order_err, 'a) act"

definition keep_ids :: "ord_db \<Rightarrow> ord_db \<Rightarrow> ord_db" where
  "keep_ids old new = old\<lparr>q_order_seq := q_order_seq new, q_item_seq := q_item_seq new,
     q_transport_seq := q_transport_seq new, q_refund_seq := q_refund_seq new\<rparr>"

definition OrdTx :: "'a ord_act \<Rightarrow> 'a ord_act" where
  "OrdTx = in_tx keep_ids"

definition identity :: "(ord_db \<Rightarrow> int) \<Rightarrow> (int \<Rightarrow> ord_db \<Rightarrow> ord_db) \<Rightarrow> i64 ord_act" where
  "identity get put db =
    (if get db \<ge> max_i64 then (db, Inl (OrdDatabase ''nextval''))
     else (put (get db + 1) db, Inr (word_of_int (get db + 1))))"

definition update_where :: "('a \<Rightarrow> bool) \<Rightarrow> ('a \<Rightarrow> 'a) \<Rightarrow> 'a list \<Rightarrow> 'a list" where
  "update_where P f = map (\<lambda>x. if P x then f x else x)"

section \<open>The trail\<close>

definition recordOrderFact :: "i64 \<Rightarrow> order_event \<Rightarrow> unit ord_act" where
  "recordOrderFact oid e = modify (\<lambda>db. db\<lparr>q_audit := q_audit db @ [(oid, e)]\<rparr>)"

definition writeOrderEvents :: "i64 \<Rightarrow> order_event list \<Rightarrow> unit ord_act" where
  "writeOrderEvents oid es = modify (\<lambda>db. db\<lparr>q_audit := q_audit db @ map (\<lambda>e. (oid, e)) es\<rparr>)"

section \<open>Lines\<close>

definition item_row_ok :: "item \<Rightarrow> bool" where
  "item_row_ok i \<longleftrightarrow> 0 < sint (i_quantity i) \<and> 0 \<le> sint (i_total i)
    \<and> currency_format (i_currency i) \<and> slug_format (i_option i)
    \<and> (i_draft i = None) \<noteq> (i_offer i = None)"

fun insert_items :: "time \<Rightarrow> item list \<Rightarrow> item list ord_act" where
  "insert_items now [] = ret []"
| "insert_items now (i # is) =
    act_bind (identity q_item_seq (\<lambda>n db. db\<lparr>q_item_seq := n\<rparr>)) (\<lambda>iid.
    act_bind (gets id) (\<lambda>db.
    act_bind (ensure (item_row_ok i
        \<and> \<not> (i_offer i \<noteq> None \<and> (\<exists>j \<in> set (q_items db). i_offer j = i_offer i))) (OrdDatabase ''db insert item'')) (\<lambda>_.
    (let row = i\<lparr>i_id := iid, i_order := None, i_cancelled_at := None, i_cancelled_by := None, i_created_at := now\<rparr>
     in act_bind (modify (\<lambda>db. db\<lparr>q_items := q_items db @ [row]\<rparr>)) (\<lambda>_.
        act_bind (insert_items now is) (\<lambda>rows. ret (row # rows)))))))"

definition InsertItems :: "time \<Rightarrow> item list \<Rightarrow> item list ord_act" where
  "InsertItems now items = (if items = [] then ret [] else OrdTx (insert_items now items))"

definition FindItem :: "i64 \<Rightarrow> item ord_act" where
  "FindItem iid = act_bind (gets (\<lambda>db. find (\<lambda>i. i_id i = iid) (q_items db))) (of_option ErrItemNotFound)"

definition ItemsByPaymentSession :: "i64 \<Rightarrow> item list ord_act" where
  "ItemsByPaymentSession sid =
    gets (\<lambda>db. sort_key (\<lambda>i. sint (i_id i)) (filter (\<lambda>i. i_session i = sid) (q_items db)))"

definition OrderItems :: "i64 \<Rightarrow> item list ord_act" where
  "OrderItems oid =
    gets (\<lambda>db. sort_key (\<lambda>i. sint (i_id i)) (filter (\<lambda>i. i_order i = Some oid) (q_items db)))"

definition UnpaidItems :: "time \<Rightarrow> nat \<Rightarrow> item list ord_act" where
  "UnpaidItems before limit =
    gets (\<lambda>db. take limit (sort_key i_created_at
      (filter (\<lambda>i. i_order i = None \<and> i_cancelled_at i = None \<and> i_created_at i < before) (q_items db))))"

definition SaveItem :: "item \<Rightarrow> unit ord_act" where
  "SaveItem i =
    (let open_row = (\<lambda>row. i_id row = i_id i \<and> i_order row = None \<and> i_cancelled_at row = None)
     in act_bind (gets (\<lambda>db. \<exists>row \<in> set (q_items db). open_row row)) (\<lambda>hit.
        act_bind (ensure hit ErrItemNotCancellable) (\<lambda>_.
        modify (\<lambda>db. db\<lparr>q_items := update_where open_row
          (\<lambda>row. row\<lparr>i_cancelled_at := i_cancelled_at i, i_cancelled_by := i_cancelled_by i\<rparr>) (q_items db)\<rparr>))))"

section \<open>Shipments\<close>

definition InsertTransport :: "time \<Rightarrow> string \<Rightarrow> i64 \<Rightarrow> i64 ord_act" where
  "InsertTransport now opt fee =
    act_bind (identity q_transport_seq (\<lambda>n db. db\<lparr>q_transport_seq := n\<rparr>)) (\<lambda>tid.
    act_bind (ensure (0 \<le> sint fee \<and> slug_format opt) (OrdDatabase ''db insert transport'')) (\<lambda>_.
    act_bind (modify (\<lambda>db. db\<lparr>q_transports := q_transports db @
        [\<lparr>tr_id = tid, tr_option = opt, tr_status = TransportPending, tr_fee = fee, tr_data = ''{}'',
          tr_created_at = now\<rparr>]\<rparr>)) (\<lambda>_. ret tid)))"

definition FindTransport :: "i64 \<Rightarrow> transport ord_act" where
  "FindTransport tid =
    act_bind (gets (\<lambda>db. find (\<lambda>t. tr_id t = tid) (q_transports db))) (of_option ErrTransportNotFound)"

definition SaveTransport :: "transport \<Rightarrow> transport_status \<Rightarrow> unit ord_act" where
  "SaveTransport t from =
    (let row_ok = (\<lambda>row. tr_id row = tr_id t \<and> tr_status row = from)
     in OrdTx (
        act_bind (gets (\<lambda>db. \<exists>row \<in> set (q_transports db). row_ok row)) (\<lambda>hit.
        act_bind (ensure hit ErrTransportSettled) (\<lambda>_.
        act_bind (modify (\<lambda>db. db\<lparr>q_transports := update_where row_ok
          (\<lambda>row. row\<lparr>tr_status := tr_status t, tr_data := tr_data t\<rparr>) (q_transports db)\<rparr>)) (\<lambda>_.
        act_bind (gets (\<lambda>db. find (\<lambda>ord. o_transport ord = tr_id t) (q_orders db))) (\<lambda>owner.
        case owner of
          None \<Rightarrow> ret ()
        | Some ord \<Rightarrow> recordOrderFact (o_id ord) (ShipmentAdvanced (case tr_status t of
              TransportPending \<Rightarrow> ''pending'' | TransportPickedUp \<Rightarrow> ''picked-up''
            | TransportInTransit \<Rightarrow> ''in-transit'' | TransportDelivered \<Rightarrow> ''delivered''
            | TransportReturned \<Rightarrow> ''returned'' | TransportFailed \<Rightarrow> ''failed''))))))))"

text \<open>\<open>ref_of\<close> is \<open>data->>'provider_ref'\<close>, \<open>None\<close> where it is absent.\<close>

definition BookTransport :: "(string \<Rightarrow> string option) \<Rightarrow> i64 \<Rightarrow> string \<Rightarrow> unit ord_act" where
  "BookTransport ref_of tid data =
    (let row_ok = (\<lambda>row. tr_id row = tid \<and> tr_status row = TransportPending \<and> ref_of (tr_data row) = None)
     in act_bind (gets (\<lambda>db. \<exists>row \<in> set (q_transports db). row_ok row)) (\<lambda>hit.
        act_bind (ensure hit ErrTransportSettled) (\<lambda>_.
        modify (\<lambda>db. db\<lparr>q_transports := update_where row_ok (\<lambda>row. row\<lparr>tr_data := data\<rparr>) (q_transports db)\<rparr>))))"

definition FindTransportByRef :: "(string \<Rightarrow> string option) \<Rightarrow> string \<Rightarrow> transport ord_act" where
  "FindTransportByRef ref_of ref =
    act_bind (gets (\<lambda>db. find (\<lambda>t. ref_of (tr_data t) = Some ref) (q_transports db))) (of_option ErrTransportNotFound)"

section \<open>Orders\<close>

definition order_row_ok :: "order \<Rightarrow> bool" where
  "order_row_ok ord \<longleftrightarrow>
    (o_draft ord = None) \<noteq> (o_offer ord = None)
    \<and> (o_received_at ord \<noteq> None) = (o_receipt ord \<noteq> [])
    \<and> (o_released_at ord \<noteq> None \<longrightarrow> o_received_at ord \<noteq> None)
    \<and> (o_received_at ord \<noteq> None \<longrightarrow> o_confirmed_at ord \<noteq> None)
    \<and> (o_decline_reason ord \<noteq> None \<longrightarrow> o_cancelled_at ord \<noteq> None \<and> o_confirmed_at ord = None)"

definition link_items :: "i64 \<Rightarrow> i64 list \<Rightarrow> item list \<Rightarrow> item list" where
  "link_items oid ids = update_where
     (\<lambda>i. i_id i \<in> set ids \<and> i_order i = None \<and> i_cancelled_at i = None) (\<lambda>i. i\<lparr>i_order := Some oid\<rparr>)"

definition CreateOrder :: "time \<Rightarrow> order \<Rightarrow> i64 list \<Rightarrow> order ord_act" where
  "CreateOrder now ord ids =
    OrdTx (
      act_bind (identity q_order_seq (\<lambda>n db. db\<lparr>q_order_seq := n\<rparr>)) (\<lambda>oid.
      act_bind (gets id) (\<lambda>db.
      act_bind (ensure ((o_draft ord = None) \<noteq> (o_offer ord = None)) (OrdDatabase ''db insert order'')) (\<lambda>_.
      act_bind (ensure (\<not> (\<exists>row \<in> set (q_orders db).
          o_transport row = o_transport ord
          \<or> o_draft ord \<noteq> None \<and> o_draft row = o_draft ord
          \<or> o_offer ord \<noteq> None \<and> o_offer row = o_offer ord)) ErrOrderSettled) (\<lambda>_.
      act_bind (gets (\<lambda>db. \<exists>t \<in> set (q_transports db). tr_id t = o_transport ord)) (\<lambda>fk.
      act_bind (ensure fk (OrdDatabase ''db insert order'')) (\<lambda>_.
      (let row = ord\<lparr>o_events := [], o_id := oid, o_confirmed_at := None, o_escalated_at := None,
                     o_decline_reason := None, o_received_at := None, o_receipt := [], o_released_at := None,
                     o_created_at := now, o_completed_at := None, o_cancelled_at := None\<rparr>
       in act_bind (modify (\<lambda>db. db\<lparr>q_orders := q_orders db @ [row], q_items := link_items oid ids (q_items db)\<rparr>)) (\<lambda>_.
          act_bind (recordOrderFact oid Placed) (\<lambda>_.
          ret (ord\<lparr>o_id := oid, o_created_at := now\<rparr>)))))))))))"

definition LinkItems :: "i64 \<Rightarrow> i64 list \<Rightarrow> unit ord_act" where
  "LinkItems oid ids =
    (if ids = [] then ret () else modify (\<lambda>db. db\<lparr>q_items := link_items oid ids (q_items db)\<rparr>))"

definition FindOrder :: "i64 \<Rightarrow> order ord_act" where
  "FindOrder oid =
    act_bind (gets (\<lambda>db. find (\<lambda>ord. o_id ord = oid) (q_orders db))) (of_option ErrOrderNotFound)"

definition FindOrderByOrigin :: "origin \<Rightarrow> order ord_act" where
  "FindOrderByOrigin g =
    act_bind (gets (\<lambda>db. find (\<lambda>ord. og_draft g \<noteq> None \<and> o_draft ord = og_draft g
      \<or> og_offer g \<noteq> None \<and> o_offer ord = og_offer g) (q_orders db))) (of_option ErrOrderNotFound)"

definition FindOrderByTransport :: "i64 \<Rightarrow> order ord_act" where
  "FindOrderByTransport tid =
    act_bind (gets (\<lambda>db. find (\<lambda>ord. o_transport ord = tid) (q_orders db))) (of_option ErrOrderNotFound)"

definition UnbookedTransports :: "(string \<Rightarrow> string option) \<Rightarrow> time \<Rightarrow> nat \<Rightarrow> i64 list ord_act" where
  "UnbookedTransports ref_of before limit =
    gets (\<lambda>db. map snd (take limit (sort_key fst (concat (map (\<lambda>ord.
      map (\<lambda>t. (tr_created_at t, o_id ord)) (filter (\<lambda>t. tr_id t = o_transport ord
        \<and> tr_status t = TransportPending \<and> ref_of (tr_data t) = None \<and> o_confirmed_at ord \<noteq> None
        \<and> o_cancelled_at ord = None \<and> o_completed_at ord = None \<and> tr_created_at t < before)
        (q_transports db))) (q_orders db))))))"

definition UnconfirmedOrders :: "time \<Rightarrow> nat \<Rightarrow> order list ord_act" where
  "UnconfirmedOrders before limit =
    gets (\<lambda>db. take limit (sort_key o_created_at (filter (\<lambda>ord. o_confirmed_at ord = None
      \<and> o_completed_at ord = None \<and> o_cancelled_at ord = None \<and> o_escalated_at ord = None
      \<and> o_created_at ord < before) (q_orders db))))"

text \<open>The columns \<open>saveOrder\<close> writes, all of them and only on an open row.\<close>

definition order_columns :: "order \<Rightarrow> order \<Rightarrow> order" where
  "order_columns ord row = row\<lparr>o_confirmed_at := o_confirmed_at ord, o_escalated_at := o_escalated_at ord,
     o_decline_reason := o_decline_reason ord, o_received_at := o_received_at ord, o_receipt := o_receipt ord,
     o_released_at := o_released_at ord, o_completed_at := o_completed_at ord, o_cancelled_at := o_cancelled_at ord\<rparr>"

definition save_order :: "order \<Rightarrow> unit ord_act" where
  "save_order ord =
    (let open_row = (\<lambda>row. o_id row = o_id ord \<and> o_completed_at row = None \<and> o_cancelled_at row = None)
     in act_bind (gets (\<lambda>db. filter open_row (q_orders db))) (\<lambda>hits.
        act_bind (ensure (list_all (\<lambda>row. order_row_ok (order_columns ord row)) hits) (OrdDatabase ''db update order'')) (\<lambda>_.
        act_bind (ensure (hits \<noteq> []) ErrOrderSettled) (\<lambda>_.
        modify (\<lambda>db. db\<lparr>q_orders := update_where open_row (order_columns ord) (q_orders db)\<rparr>)))))"

definition SaveOrder :: "order \<Rightarrow> unit ord_act" where
  "SaveOrder ord = OrdTx (act_bind (save_order ord) (\<lambda>_. writeOrderEvents (o_id ord) (o_events ord)))"

text \<open>A refund that still has a claim on the escrow.\<close>

definition liveRefund :: "ord_db \<Rightarrow> i64 \<Rightarrow> bool" where
  "liveRefund db oid \<longleftrightarrow> (\<exists>r \<in> set (q_refunds db). r_order r = oid
     \<and> r_status r \<noteq> RefundRejected \<and> r_status r \<noteq> RefundCancelled)"

definition repo_PayoutDue :: "time \<Rightarrow> nat \<Rightarrow> order list ord_act" where
  "repo_PayoutDue now limit =
    gets (\<lambda>db. take limit (sort_key (\<lambda>ord. case o_received_at ord of None \<Rightarrow> 0 | Some t \<Rightarrow> t)
      (filter (\<lambda>ord. o_completed_at ord = None \<and> o_cancelled_at ord = None
        \<and> (case o_received_at ord of None \<Rightarrow> False | Some t \<Rightarrow> t + PayoutWindow < now)
        \<and> \<not> liveRefund db (o_id ord)) (q_orders db))))"

definition ClaimPayout :: "time \<Rightarrow> order \<Rightarrow> order ord_act" where
  "ClaimPayout now ord =
    OrdTx (
      act_bind (gets (\<lambda>db. liveRefund db (o_id ord))) (\<lambda>live.
      let due = (\<lambda>row. o_id row = o_id ord \<and> o_completed_at row = None \<and> o_cancelled_at row = None
                   \<and> o_received_at row \<noteq> None \<and> \<not> live)
      in act_bind (gets (\<lambda>db. \<exists>row \<in> set (q_orders db). due row)) (\<lambda>hit.
         act_bind (ensure hit ErrOrderSettled) (\<lambda>_.
         act_bind (modify (\<lambda>db. db\<lparr>q_orders := update_where due (\<lambda>row. row\<lparr>o_completed_at := Some now\<rparr>) (q_orders db)\<rparr>)) (\<lambda>_.
         act_bind (recordOrderFact (o_id ord) Completed) (\<lambda>_.
         ret (ord\<lparr>o_completed_at := Some now\<rparr>)))))))"

definition MarkPayoutReleased :: "order \<Rightarrow> unit ord_act" where
  "MarkPayoutReleased ord =
    (let unpaid = (\<lambda>row. o_id row = o_id ord \<and> o_released_at row = None)
     in OrdTx (
        act_bind (gets (\<lambda>db. filter unpaid (q_orders db))) (\<lambda>hits.
        act_bind (ensure (list_all (\<lambda>row. order_row_ok (row\<lparr>o_released_at := o_released_at ord\<rparr>)) hits)
          (OrdDatabase ''db mark payout released'')) (\<lambda>_.
        if hits = [] then ret ()
        else
          act_bind (modify (\<lambda>db. db\<lparr>q_orders := update_where unpaid
            (\<lambda>row. row\<lparr>o_released_at := o_released_at ord\<rparr>) (q_orders db)\<rparr>)) (\<lambda>_.
          recordOrderFact (o_id ord) PayoutReleased)))))"

definition ClaimedPayouts :: "nat \<Rightarrow> order list ord_act" where
  "ClaimedPayouts limit =
    gets (\<lambda>db. take limit (sort_key (\<lambda>ord. case o_completed_at ord of None \<Rightarrow> 0 | Some t \<Rightarrow> t)
      (filter (\<lambda>ord. o_completed_at ord \<noteq> None \<and> o_released_at ord = None \<and> o_cancelled_at ord = None)
        (q_orders db))))"

section \<open>Refunds\<close>

definition refund_row_ok :: "refund \<Rightarrow> bool" where
  "refund_row_ok r \<longleftrightarrow>
    (r_returned_at r \<noteq> None \<longrightarrow> r_return_transport r \<noteq> None)
    \<and> (r_deadline r \<noteq> None) = (r_status r = RefundAwaitingSeller \<or> r_status r = RefundReturned)"

definition open_case :: "refund \<Rightarrow> bool" where
  "open_case r \<longleftrightarrow> r_status r \<in> {RefundAwaitingSeller, RefundDisputed, RefundReturning, RefundReturned}"

definition InsertRefund :: "time \<Rightarrow> refund \<Rightarrow> refund ord_act" where
  "InsertRefund now r =
    OrdTx (
      act_bind (gets id) (\<lambda>db.
      act_bind (ensure (\<exists>ord \<in> set (q_orders db). o_id ord = r_order r
          \<and> o_completed_at ord = None \<and> o_cancelled_at ord = None) ErrRefundNotDue) (\<lambda>_.
      act_bind (identity q_refund_seq (\<lambda>n db. db\<lparr>q_refund_seq := n\<rparr>)) (\<lambda>rid.
      (let row = r\<lparr>r_id := rid, r_created_at := now, r_seller_decided_at := None,
                   r_return_transport := None, r_returned_at := None\<rparr>
       in act_bind (ensure (refund_row_ok row) (OrdDatabase ''db insert refund'')) (\<lambda>_.
          act_bind (ensure (\<not> (open_case row \<and> (\<exists>r' \<in> set (q_refunds db). r_order r' = r_order r \<and> open_case r')))
            ErrRefundAlreadyOpen) (\<lambda>_.
          act_bind (modify (\<lambda>db. db\<lparr>q_refunds := q_refunds db @ [row]\<rparr>)) (\<lambda>_.
          ret (r\<lparr>r_id := rid, r_created_at := now\<rparr>)))))))))"

definition FindRefund :: "i64 \<Rightarrow> refund ord_act" where
  "FindRefund rid = act_bind (gets (\<lambda>db. find (\<lambda>r. r_id r = rid) (q_refunds db))) (of_option ErrRefundNotFound)"

definition LiveRefundOnOrder :: "i64 \<Rightarrow> refund ord_act" where
  "LiveRefundOnOrder oid =
    act_bind (gets (\<lambda>db. find (\<lambda>r. r_order r = oid \<and> \<not> refund_Settled r) (q_refunds db))) (of_option ErrRefundNotFound)"

definition OverdueRefunds :: "time \<Rightarrow> nat \<Rightarrow> refund list ord_act" where
  "OverdueRefunds now limit =
    gets (\<lambda>db. take limit (sort_key (\<lambda>r. case r_deadline r of None \<Rightarrow> 0 | Some t \<Rightarrow> t)
      (filter (\<lambda>r. \<not> refund_Settled r \<and> (case r_deadline r of None \<Rightarrow> False | Some t \<Rightarrow> t < now)) (q_refunds db))))"

definition refund_columns :: "refund \<Rightarrow> refund \<Rightarrow> refund" where
  "refund_columns r row = row\<lparr>r_status := r_status r, r_deadline := r_deadline r, r_attachments := r_attachments r,
     r_seller_decided_at := r_seller_decided_at r, r_return_transport := r_return_transport r,
     r_returned_at := r_returned_at r\<rparr>"

definition SaveRefund :: "refund \<Rightarrow> refund_status \<Rightarrow> unit ord_act" where
  "SaveRefund r from =
    (let hit = (\<lambda>row. r_id row = r_id r \<and> r_status row = from)
     in act_bind (gets id) (\<lambda>db.
        act_bind (ensure (list_all (\<lambda>row. refund_row_ok (refund_columns r row)
            \<and> \<not> (r_return_transport r \<noteq> None
                 \<and> (\<exists>r' \<in> set (q_refunds db). r_id r' \<noteq> r_id r \<and> r_return_transport r' = r_return_transport r))
            \<and> \<not> (open_case (refund_columns r row)
                 \<and> (\<exists>r' \<in> set (q_refunds db). r_id r' \<noteq> r_id row \<and> r_order r' = r_order row \<and> open_case r')))
            (filter hit (q_refunds db))) (OrdDatabase ''db update refund'')) (\<lambda>_.
        act_bind (ensure (\<exists>row \<in> set (q_refunds db). hit row) ErrRefundSettled) (\<lambda>_.
        modify (\<lambda>db. db\<lparr>q_refunds := update_where hit (refund_columns r) (q_refunds db)\<rparr>)))))"

definition SaveRefundOutcome :: "refund \<Rightarrow> order option \<Rightarrow> refund_status \<Rightarrow> unit ord_act" where
  "SaveRefundOutcome r ord from =
    OrdTx (
      act_bind (SaveRefund r from) (\<lambda>_.
      case ord of None \<Rightarrow> ret () | Some ord \<Rightarrow> save_order ord))"

definition LatestRefundOnOrder :: "i64 \<Rightarrow> refund ord_act" where
  "LatestRefundOnOrder oid =
    act_bind (gets (\<lambda>db. sort_key (\<lambda>r. (- r_created_at r, - sint (r_id r)))
      (filter (\<lambda>r. r_order r = oid) (q_refunds db)))) (\<lambda>rs.
    of_option ErrRefundNotFound (case rs of [] \<Rightarrow> None | r # _ \<Rightarrow> Some r))"

section \<open>The lists\<close>

text \<open>\<open>port.CursorFilter\<close>: no bound is the first page; the service asks for one row more than a page.\<close>

record page_filter =
  pg_before :: "(time \<times> i64) option"
  pg_limit :: nat

definition before_cursor :: "page_filter \<Rightarrow> time \<Rightarrow> i64 \<Rightarrow> bool" where
  "before_cursor f at rid \<longleftrightarrow>
    (case pg_before f of None \<Rightarrow> True | Some (t, n) \<Rightarrow> at < t \<or> at = t \<and> sint rid < sint n)"

definition newest :: "page_filter \<Rightarrow> ('a \<Rightarrow> time) \<Rightarrow> ('a \<Rightarrow> i64) \<Rightarrow> 'a list \<Rightarrow> 'a list" where
  "newest f at rid rows =
    take (pg_limit f) (sort_key (\<lambda>x. (- at x, - sint (rid x))) (filter (\<lambda>x. before_cursor f (at x) (rid x)) rows))"

record item_filter =
  if_buyer :: i64
  if_seller :: i64
  if_pending :: bool
  if_page :: page_filter

definition repo_ListItems :: "item_filter \<Rightarrow> item list ord_act" where
  "repo_ListItems f =
    gets (\<lambda>db. newest (if_page f) i_created_at i_id (filter (\<lambda>i.
      (if_buyer f = 0 \<or> i_buyer i = if_buyer f) \<and> (if_seller f = 0 \<or> i_seller i = if_seller f)
      \<and> (\<not> if_pending f \<or> i_order i = None \<and> i_cancelled_at i = None)) (q_items db)))"

record order_filter =
  of_buyer :: i64
  of_seller :: i64
  of_party :: i64
  of_state :: "order_state option"
  of_page :: page_filter

text \<open>The predicate of the list's SQL, a disjunct per state.\<close>

definition in_state :: "order_state \<Rightarrow> order \<Rightarrow> bool" where
  "in_state st ord \<longleftrightarrow>
    (st = StateAwaitingConfirmation \<and> o_confirmed_at ord = None
       \<and> o_completed_at ord = None \<and> o_cancelled_at ord = None)
    \<or> (st = StateOpen \<and> o_confirmed_at ord \<noteq> None \<and> o_received_at ord = None
       \<and> o_completed_at ord = None \<and> o_cancelled_at ord = None)
    \<or> (st = StateCompleted \<and> (o_completed_at ord \<noteq> None \<or> o_received_at ord \<noteq> None)
       \<and> o_cancelled_at ord = None)
    \<or> (st = StateCancelled \<and> o_cancelled_at ord \<noteq> None)"

definition repo_ListOrders :: "order_filter \<Rightarrow> order list ord_act" where
  "repo_ListOrders f =
    gets (\<lambda>db. newest (of_page f) o_created_at o_id (filter (\<lambda>ord.
      (of_buyer f = 0 \<or> o_buyer ord = of_buyer f) \<and> (of_seller f = 0 \<or> o_seller ord = of_seller f)
      \<and> (of_party f = 0 \<or> o_buyer ord = of_party f \<or> o_seller ord = of_party f)
      \<and> (case of_state f of None \<Rightarrow> True | Some st \<Rightarrow> in_state st ord)) (q_orders db)))"

definition repo_ListOrderHistory :: "i64 \<Rightarrow> nat \<Rightarrow> nat \<Rightarrow> ((nat \<times> order_event) list \<times> nat) ord_act" where
  "repo_ListOrderHistory oid offset limit =
    gets (\<lambda>db. let trail = map snd (filter (\<lambda>p. fst p = oid) (q_audit db));
                   versions = rev (zip [1..<Suc (length trail)] trail)
               in (take limit (drop offset versions), length trail))"

record summary_filter =
  sf_buyer :: i64
  sf_seller :: i64
  sf_from :: time
  sf_to :: time

record order_counts =
  oc_open :: nat
  oc_completed :: nat
  oc_cancelled :: nat
  oc_totals :: "(string \<times> int) list"

definition in_window :: "summary_filter \<Rightarrow> order \<Rightarrow> bool" where
  "in_window f ord \<longleftrightarrow>
    (sf_buyer f = 0 \<or> o_buyer ord = sf_buyer f) \<and> (sf_seller f = 0 \<or> o_seller ord = sf_seller f)
    \<and> sf_from f \<le> o_created_at ord \<and> o_created_at ord < sf_to f"

definition CountOrders :: "summary_filter \<Rightarrow> order_counts ord_act" where
  "CountOrders f =
    gets (\<lambda>db. let os = filter (in_window f) (q_orders db);
                   done = map o_id (filter (\<lambda>ord. o_completed_at ord \<noteq> None) os);
                   lines = filter (\<lambda>i. i_cancelled_at i = None
                     \<and> (case i_order i of None \<Rightarrow> False | Some oid \<Rightarrow> oid \<in> set done)) (q_items db)
               in \<lparr>oc_open = length (filter (\<lambda>ord. o_completed_at ord = None \<and> o_cancelled_at ord = None) os),
                   oc_completed = length (filter (\<lambda>ord. o_completed_at ord \<noteq> None) os),
                   oc_cancelled = length (filter (\<lambda>ord. o_cancelled_at ord \<noteq> None) os),
                   oc_totals = map (\<lambda>c. (c, sum_list (map (\<lambda>i. sint (i_total i))
                       (filter (\<lambda>i. i_currency i = c) lines)))) (remdups (map i_currency lines))\<rparr>)"

record refund_filter =
  rf_buyer :: i64
  rf_seller :: i64
  rf_party :: i64
  rf_statuses :: "refund_status list"
  rf_page :: page_filter

definition repo_ListRefunds :: "refund_filter \<Rightarrow> refund list ord_act" where
  "repo_ListRefunds f =
    gets (\<lambda>db.
      let sold = (\<lambda>seller r. \<exists>ord \<in> set (q_orders db). o_id ord = r_order r \<and> o_seller ord = seller)
      in newest (rf_page f) r_created_at r_id (filter (\<lambda>r.
        (rf_buyer f = 0 \<or> r_buyer r = rf_buyer f) \<and> (rf_seller f = 0 \<or> sold (rf_seller f) r)
        \<and> (rf_party f = 0 \<or> r_buyer r = rf_party f \<or> sold (rf_party f) r)
        \<and> (rf_statuses f = [] \<or> r_status r \<in> set (rf_statuses f))) (q_refunds db)))"

end
