(* ===== verification/Cursor.thy ===== *)
theory Cursor
  imports Prelude
begin

text \<open>
  The page cursor every list of the program shares (\<open>internal/module/common/cursor.go\<close>): the sort
  key of the last row and its id, printed in decimal around a colon. \<open>parse_int64\<close> is
  \<open>strconv.ParseInt(s, 10, 64)\<close>.
\<close>

section \<open>Reading a decimal\<close>

definition digit_of :: "char \<Rightarrow> nat option" where
  "digit_of c = (if of_char c < (48 :: nat) \<or> 57 < (of_char c :: nat) then None else Some (of_char c - 48))"

fun digits_value :: "nat \<Rightarrow> string \<Rightarrow> nat option" where
  "digits_value acc [] = Some acc"
| "digits_value acc (c # cs) =
    (case digit_of c of None \<Rightarrow> None | Some d \<Rightarrow> digits_value (10 * acc + d) cs)"

definition parse_nat :: "string \<Rightarrow> nat option" where
  "parse_nat s = (if s = [] then None else digits_value 0 s)"

definition signed_int64 :: "bool \<Rightarrow> string \<Rightarrow> i64 option" where
  "signed_int64 neg s =
    (case parse_nat s of
       None \<Rightarrow> None
     | Some n \<Rightarrow>
         if neg then (if n \<le> 9223372036854775808 then Some (word_of_int (- int n)) else None)
         else (if n < 9223372036854775808 then Some (word_of_int (int n)) else None))"

fun parse_int64 :: "string \<Rightarrow> i64 option" where
  "parse_int64 [] = None"
| "parse_int64 (c # cs) =
    (if c = CHR ''-'' then signed_int64 True cs
     else if c = CHR ''+'' then signed_int64 False cs
     else signed_int64 False (c # cs))"

lemma digit_of_digit: "d < 10 \<Longrightarrow> digit_of (digit d) = Some d"
proof -
  assume "d < 10"
  then have "d \<in> {0, 1, 2, 3, 4, 5, 6, 7, 8, 9}" by auto
  then show ?thesis by (auto simp: digit_def digit_of_def)
qed

lemma digit_not_sign: "d < 10 \<Longrightarrow> digit d \<noteq> CHR ''-'' \<and> digit d \<noteq> CHR ''+'' \<and> digit d \<noteq> CHR '':''"
proof -
  assume "d < 10"
  then have "d \<in> {0, 1, 2, 3, 4, 5, 6, 7, 8, 9}" by auto
  then show ?thesis by (auto simp: digit_def)
qed

lemma digits_value_append:
  "digits_value acc (xs @ ys) = (case digits_value acc xs of None \<Rightarrow> None | Some a \<Rightarrow> digits_value a ys)"
  by (induction acc xs rule: digits_value.induct) (auto split: option.splits)

lemma dec_nat_nonempty: "dec_nat n \<noteq> []"
  by (simp add: dec_nat.simps [of n])

lemma digits_value_dec_nat: "digits_value 0 (dec_nat n) = Some n"
proof (induction n rule: dec_nat.induct)
  case (1 n)
  show ?case
  proof (cases "n < 10")
    case True
    then show ?thesis by (simp add: dec_nat.simps [of n] digit_of_digit)
  next
    case False
    with 1 show ?thesis
      by (simp add: dec_nat.simps [of n] digits_value_append digit_of_digit)
  qed
qed

lemma parse_nat_dec_nat: "parse_nat (dec_nat n) = Some n"
  by (simp add: parse_nat_def dec_nat_nonempty digits_value_dec_nat)

lemma dec_nat_chars: "c \<in> set (dec_nat n) \<Longrightarrow> c \<noteq> CHR ''-'' \<and> c \<noteq> CHR ''+'' \<and> c \<noteq> CHR '':''"
proof (induction n rule: dec_nat.induct)
  case (1 n)
  then show ?case
    by (cases "n < 10") (auto simp: dec_nat.simps [of n] digit_not_sign)
qed

lemma parse_int64_dec: "parse_int64 (dec_i64 x) = Some x"
proof (cases "sint x < 0")
  case True
  have "nat (- sint x) \<le> 9223372036854775808" using sint_i64_bounds [of x] by simp
  with True show ?thesis
    by (simp add: dec_i64_def signed_int64_def parse_nat_dec_nat)
next
  case False
  obtain c cs where s: "dec_nat (nat (sint x)) = c # cs" using dec_nat_nonempty by (cases "dec_nat (nat (sint x))") auto
  then have "c \<noteq> CHR ''-'' \<and> c \<noteq> CHR ''+''" using dec_nat_chars [of c "nat (sint x)"] by simp
  moreover have "nat (sint x) < 9223372036854775808" using False sint_i64_bounds [of x] by simp
  ultimately show ?thesis
    using False parse_nat_dec_nat [of "nat (sint x)"] by (simp add: dec_i64_def s signed_int64_def)
qed

lemma dec_i64_inj: "dec_i64 x = dec_i64 y \<longleftrightarrow> x = y"
  by (metis parse_int64_dec option.inject)

lemma dec_i64_no_colon: "CHR '':'' \<notin> set (dec_i64 x)"
  by (auto simp: dec_i64_def dest: dec_nat_chars)

section \<open>The cursor\<close>

definition cursorSeparator :: char where
  "cursorSeparator = CHR '':''"

definition FormatCursor :: "i64 \<Rightarrow> i64 \<Rightarrow> string" where
  "FormatCursor key row = dec_i64 key @ [cursorSeparator] @ dec_i64 row"

text \<open>\<open>None\<close> is \<open>ErrCursorInvalid\<close>.\<close>

definition ParseCursor :: "string \<Rightarrow> (i64 \<times> i64) option" where
  "ParseCursor cursor =
    (if cursor = [] then Some (0, 0)
     else
       let left = takeWhile (\<lambda>c. c \<noteq> cursorSeparator) cursor;
           rest = dropWhile (\<lambda>c. c \<noteq> cursorSeparator) cursor
       in if rest = [] then None
          else case parse_int64 left of
            None \<Rightarrow> None
          | Some key \<Rightarrow> (case parse_int64 (tl rest) of
              None \<Rightarrow> None
            | Some row \<Rightarrow> if sint row \<le> 0 then None else Some (key, row)))"

lemma cut_at_separator:
  assumes "cursorSeparator \<notin> set left"
  shows "takeWhile (\<lambda>c. c \<noteq> cursorSeparator) (left @ cursorSeparator # right) = left"
    and "dropWhile (\<lambda>c. c \<noteq> cursorSeparator) (left @ cursorSeparator # right) = cursorSeparator # right"
  using assms by (induction left) auto

lemma ParseCursor_FormatCursor:
  assumes "0 < sint row"
  shows "ParseCursor (FormatCursor key row) = Some (key, row)"
proof -
  have "cursorSeparator \<notin> set (dec_i64 key)" by (simp add: cursorSeparator_def dec_i64_no_colon)
  with assms show ?thesis
    by (simp add: ParseCursor_def FormatCursor_def cut_at_separator parse_int64_dec)
qed

text \<open>
  C39: A cursor the program prints is read back as the pair it was printed from, for every sort key
  and every row id a table can hold (ids are positive), and the first page is the only cursor read
  as zero: whatever string is accepted otherwise names a positive row.
\<close>

theorem cursor_roundtrip:
  assumes "0 < sint row"
  shows "ParseCursor (FormatCursor key row) = Some (key, row)
    \<and> (\<forall>s k r. ParseCursor s = Some (k, r) \<and> s \<noteq> [] \<longrightarrow> 0 < sint r)"
proof
  show "ParseCursor (FormatCursor key row) = Some (key, row)" using assms by (rule ParseCursor_FormatCursor)
  show "\<forall>s k r. ParseCursor s = Some (k, r) \<and> s \<noteq> [] \<longrightarrow> 0 < sint r"
    by (auto simp: ParseCursor_def Let_def split: if_splits option.splits)
qed

theorem cursor_roundtrip_witness:
  "ParseCursor ''-5:12'' = Some (-5, 12) \<and> FormatCursor (-5) 12 = ''-5:12'' \<and> ParseCursor ''7:'' = None"
proof -
  have f: "FormatCursor (-5) 12 = ''-5:12''"
    by (simp add: FormatCursor_def dec_i64_def dec_nat.simps digit_def cursorSeparator_def)
  have "ParseCursor ''7:'' = None"
    by (simp add: ParseCursor_def cursorSeparator_def split: option.splits)
  with f cursor_roundtrip [of 12 "-5"] show ?thesis by simp
qed

end
