(* ===== verification/OrderPaging.thy ===== *)
theory OrderPaging
  imports OrderStore Cursor
begin

text \<open>
  The pages of the order module's lists (\<open>cursorFilter\<close> and \<open>page\<close> of \<open>order/service.go\<close>): a list is
  read newest first, one row more than the page is asked for, and the last row of a page becomes the
  cursor of the next one. A client that follows the cursors sees every row once.
\<close>

section \<open>The service's half\<close>

record cursor_info =
  ci_next :: string
  ci_more :: bool

definition formatCursor :: "time \<Rightarrow> i64 \<Rightarrow> string" where
  "formatCursor at rid = FormatCursor (word_of_int at) rid"

text \<open>\<open>None\<close> is \<open>ErrCursorInvalid\<close>; a cursor without a row is the zero time, which bounds nothing.\<close>

definition parseCursor :: "string \<Rightarrow> (time \<times> i64) option option" where
  "parseCursor cursor =
    (case ParseCursor cursor of
       None \<Rightarrow> None
     | Some (nanos, rid) \<Rightarrow> Some (if rid = 0 then None else Some (sint nanos, rid)))"

definition cursorFilter :: "string \<Rightarrow> nat \<Rightarrow> page_filter option" where
  "cursorFilter cursor limit =
    map_option (\<lambda>before. \<lparr>pg_before = before, pg_limit = limit + 1\<rparr>) (parseCursor cursor)"

definition page :: "nat \<Rightarrow> ('a \<Rightarrow> time \<times> i64) \<Rightarrow> 'a list \<Rightarrow> 'a list \<times> cursor_info" where
  "page limit key rows =
    (let more = limit < length rows; shown = (if more then take limit rows else rows)
     in (shown, \<lparr>ci_next = (if more \<and> shown \<noteq> [] then case key (last shown) of (at, rid) \<Rightarrow> formatCursor at rid else []),
                 ci_more = more\<rparr>))"

text \<open>A list handler over the rows its filter lets through, and a client that follows the cursors.\<close>

definition list_page :: "('a \<Rightarrow> time) \<Rightarrow> ('a \<Rightarrow> i64) \<Rightarrow> string \<Rightarrow> nat \<Rightarrow> 'a list \<Rightarrow> ('a list \<times> cursor_info) option" where
  "list_page at rid cursor limit rows =
    map_option (\<lambda>f. page limit (\<lambda>x. (at x, rid x)) (newest f at rid rows)) (cursorFilter cursor limit)"

fun walk_pages :: "nat \<Rightarrow> (string \<Rightarrow> ('a list \<times> cursor_info) option) \<Rightarrow> string \<Rightarrow> 'a list option" where
  "walk_pages 0 handler cursor = None"
| "walk_pages (Suc fuel) handler cursor =
    (case handler cursor of
       None \<Rightarrow> None
     | Some (shown, info) \<Rightarrow>
         if ci_more info then map_option (\<lambda>rest. shown @ rest) (walk_pages fuel handler (ci_next info))
         else Some shown)"

section \<open>A page continues where the last one ended\<close>

definition listed_order :: "('a \<Rightarrow> time) \<Rightarrow> ('a \<Rightarrow> i64) \<Rightarrow> 'a \<Rightarrow> int \<times> int" where
  "listed_order at rid x = (- at x, - sint (rid x))"

definition listing :: "('a \<Rightarrow> time) \<Rightarrow> ('a \<Rightarrow> i64) \<Rightarrow> 'a list \<Rightarrow> 'a list" where
  "listing at rid rows = sort_key (listed_order at rid) rows"

lemma newest_listing:
  "newest f at rid rows = take (pg_limit f) (filter (\<lambda>x. before_cursor f (at x) (rid x)) (listing at rid rows))"
  by (simp add: newest_def listing_def filter_sort listed_order_def [abs_def])

lemma before_cursor_order:
  "pg_before f = Some (at x, rid x) \<Longrightarrow> before_cursor f (at y) (rid y) \<longleftrightarrow> listed_order at rid x < listed_order at rid y"
  by (auto simp: before_cursor_def listed_order_def)

lemma listing_strict:
  assumes "distinct (map rid rows)"
  shows "sorted_wrt (\<lambda>x y. listed_order at rid x < listed_order at rid y) (listing at rid rows)"
proof -
  let ?k = "listed_order at rid"
  have "inj_on rid (set rows)" and d: "distinct rows" using assms by (auto simp: distinct_map)
  then have inj: "inj_on ?k (set (listing at rid rows))"
    by (auto simp: inj_on_def listed_order_def listing_def dest!: signed_word_eqI)
  have "distinct (listing at rid rows)" using d by (simp add: listing_def)
  with inj have "distinct (map ?k (listing at rid rows))" by (simp add: distinct_map)
  moreover have "sorted (map ?k (listing at rid rows))" by (simp add: listing_def)
  ultimately have "sorted_wrt (<) (map ?k (listing at rid rows))" by (simp add: strict_sorted_iff)
  then show ?thesis by (simp add: sorted_wrt_map)
qed

lemma rest_of_listing:
  assumes "distinct (map rid rows)" and "listing at rid rows = (xs @ [x]) @ ys" and "pg_before f = Some (at x, rid x)"
  shows "filter (\<lambda>y. before_cursor f (at y) (rid y)) (listing at rid rows) = ys"
proof -
  from listing_strict [OF assms(1), of at] have s: "sorted_wrt (\<lambda>a b. listed_order at rid a < listed_order at rid b) ((xs @ [x]) @ ys)"
    by (simp only: assms(2))
  have "filter (\<lambda>y. before_cursor f (at y) (rid y)) (xs @ [x]) = []"
    using s by (auto simp: sorted_wrt_append before_cursor_order [of f at x rid, OF assms(3)] filter_empty_conv dest: less_asym)
  moreover have "filter (\<lambda>y. before_cursor f (at y) (rid y)) ys = ys"
    using s by (auto simp: sorted_wrt_append before_cursor_order [of f at x rid, OF assms(3)] intro: filter_True)
  ultimately show ?thesis by (simp only: assms(2) filter_append append_Nil)
qed

text \<open>The rows a cursor still leaves to list, and the cursor that leaves them.\<close>

definition leaves :: "('a \<Rightarrow> time) \<Rightarrow> ('a \<Rightarrow> i64) \<Rightarrow> 'a list \<Rightarrow> string \<Rightarrow> 'a list \<Rightarrow> bool" where
  "leaves at rid rows cursor ys \<longleftrightarrow>
    (cursor = [] \<and> ys = listing at rid rows)
    \<or> (\<exists>xs x. cursor = formatCursor (at x) (rid x) \<and> listing at rid rows = (xs @ [x]) @ ys)"

definition listable :: "('a \<Rightarrow> time) \<Rightarrow> ('a \<Rightarrow> i64) \<Rightarrow> 'a list \<Rightarrow> bool" where
  "listable at rid rows \<longleftrightarrow> distinct (map rid rows) \<and>
    (\<forall>x \<in> set rows. 0 < sint (rid x) \<and> min_i64 \<le> at x \<and> at x \<le> max_i64)"

lemma parse_format:
  assumes "0 < sint rid" and "min_i64 \<le> at" "at \<le> max_i64"
  shows "parseCursor (formatCursor at rid) = Some (Some (at, rid))"
proof -
  have "ParseCursor (FormatCursor (word_of_int at) rid) = Some (word_of_int at, rid)"
    by (rule ParseCursor_FormatCursor [OF assms(1)])
  moreover have "rid \<noteq> 0" using assms(1) by auto
  moreover have "sint (word_of_int at :: i64) = at" by (rule sint_word_of_int_i64 [OF assms(2,3)])
  ultimately show ?thesis by (simp add: parseCursor_def formatCursor_def)
qed

lemma one_page:
  assumes ok: "listable at rid rows" and left: "leaves at rid rows cursor ys"
  shows "list_page at rid cursor limit rows = Some (take limit ys,
    \<lparr>ci_next = (if limit < length ys \<and> take limit ys \<noteq> []
        then formatCursor (at (last (take limit ys))) (rid (last (take limit ys))) else []),
     ci_more = limit < length ys\<rparr>)"
proof -
  obtain before where parsed: "parseCursor cursor = Some before"
    and rest: "\<And>f. pg_before f = before \<Longrightarrow> filter (\<lambda>y. before_cursor f (at y) (rid y)) (listing at rid rows) = ys"
    using left unfolding leaves_def
  proof (elim disjE conjE exE)
    assume "cursor = []" "ys = listing at rid rows"
    then show ?thesis by (intro that [of None]) (auto simp: parseCursor_def ParseCursor_def before_cursor_def)
  next
    fix xs x assume c: "cursor = formatCursor (at x) (rid x)" and l: "listing at rid rows = (xs @ [x]) @ ys"
    have "x \<in> set (listing at rid rows)" unfolding l by simp
    then have "x \<in> set rows" by (simp add: listing_def)
    with ok have "parseCursor cursor = Some (Some (at x, rid x))"
      unfolding c by (intro parse_format) (auto simp: listable_def)
    moreover have "distinct (map rid rows)" using ok by (simp add: listable_def)
    ultimately show ?thesis using rest_of_listing [OF _ l] by (intro that) auto
  qed
  have "newest \<lparr>pg_before = before, pg_limit = limit + 1\<rparr> at rid rows = take (limit + 1) ys"
    by (simp only: newest_listing rest page_filter.simps)
  then show ?thesis
    by (simp add: list_page_def cursorFilter_def parsed page_def Let_def min_def)
qed

lemma next_page:
  assumes "leaves at rid rows cursor ys" and "limit < length ys" "0 < limit"
  shows "leaves at rid rows (formatCursor (at (last (take limit ys))) (rid (last (take limit ys)))) (drop limit ys)"
proof -
  have t: "take limit ys \<noteq> []" using assms(2,3) by auto
  have "ys = (butlast (take limit ys) @ [last (take limit ys)]) @ drop limit ys"
    unfolding append_butlast_last_id [OF t] by simp
  moreover obtain zs where "listing at rid rows = zs @ ys" using assms(1) unfolding leaves_def by auto
  ultimately have "listing at rid rows = (zs @ butlast (take limit ys)) @ [last (take limit ys)] @ drop limit ys"
    by (metis append.assoc)
  then show ?thesis unfolding leaves_def by (metis append.assoc)
qed

lemma walk_leaves:
  assumes ok: "listable at rid rows" and limit: "0 < limit"
  shows "leaves at rid rows cursor ys \<Longrightarrow> length ys < fuel \<Longrightarrow> walk_pages fuel (\<lambda>c. list_page at rid c limit rows) cursor = Some ys"
proof (induction fuel arbitrary: cursor ys)
  case (Suc fuel)
  note here = one_page [OF ok Suc.prems(1), of limit]
  show ?case
  proof (cases "limit < length ys")
    case True
    with limit have "take limit ys \<noteq> []" by auto
    with True here Suc.IH [OF next_page [OF Suc.prems(1) True limit]] Suc.prems(2) limit
    show ?thesis by (simp add: append_take_drop_id)
  next
    case False
    with here show ?thesis by simp
  qed
qed simp

section \<open>The lists of the service\<close>

text \<open>A list whose rows carry distinct positive ids and a time an int64 of nanoseconds can hold.\<close>

lemma listable_filter: "listable at rid rows \<Longrightarrow> listable at rid (filter P rows)"
  by (auto simp: listable_def distinct_map_filter)

lemma walk_list:
  assumes "listable at rid rows" and "0 < limit" and "length rows < fuel"
  shows "walk_pages fuel (\<lambda>c. list_page at rid c limit rows) [] = Some (sort_key (\<lambda>x. (- at x, - sint (rid x))) rows)"
proof -
  have "leaves at rid rows [] (listing at rid rows)" by (simp add: leaves_def)
  from walk_leaves [OF assms(1,2) this] assms(3) show ?thesis
    by (simp add: listing_def listed_order_def [abs_def])
qed

datatype list_role = RoleBuyer | RoleSeller | EitherRole

definition ListItems :: "i64 \<Rightarrow> list_role \<Rightarrow> bool \<Rightarrow> string \<Rightarrow> nat \<Rightarrow> ord_db \<Rightarrow> (item list \<times> cursor_info) option" where
  "ListItems actor rl pending cursor limit db =
    (case cursorFilter cursor limit of
       None \<Rightarrow> None
     | Some f \<Rightarrow>
         let flt = \<lparr>if_buyer = (if rl = RoleSeller then 0 else actor), if_seller = (if rl = RoleSeller then actor else 0),
                    if_pending = pending, if_page = f\<rparr>
         in (case repo_ListItems flt db of
               (_, Inl _) \<Rightarrow> None
             | (_, Inr rows) \<Rightarrow> Some (page limit (\<lambda>i. (i_created_at i, i_id i)) rows)))"

definition ListOrders ::
  "i64 \<Rightarrow> list_role \<Rightarrow> order_state option \<Rightarrow> string \<Rightarrow> nat \<Rightarrow> ord_db \<Rightarrow> (order list \<times> cursor_info) option" where
  "ListOrders actor rl st cursor limit db =
    (case cursorFilter cursor limit of
       None \<Rightarrow> None
     | Some f \<Rightarrow>
         let flt = \<lparr>of_buyer = (if rl = RoleBuyer then actor else 0), of_seller = (if rl = RoleSeller then actor else 0),
                    of_party = (if rl = EitherRole then actor else 0), of_state = st, of_page = f\<rparr>
         in (case repo_ListOrders flt db of
               (_, Inl _) \<Rightarrow> None
             | (_, Inr rows) \<Rightarrow> Some (page limit (\<lambda>ord. (o_created_at ord, o_id ord)) rows)))"

text \<open>What the caller asks for, read off the order itself.\<close>

definition asked_for :: "i64 \<Rightarrow> list_role \<Rightarrow> order_state option \<Rightarrow> order \<Rightarrow> bool" where
  "asked_for actor rl st ord \<longleftrightarrow>
    (case rl of RoleBuyer \<Rightarrow> o_buyer ord = actor | RoleSeller \<Rightarrow> o_seller ord = actor
       | EitherRole \<Rightarrow> o_buyer ord = actor \<or> o_seller ord = actor)
    \<and> (case st of None \<Rightarrow> True | Some st \<Rightarrow> order_State ord = st)"

lemma in_state_State:
  "o_received_at ord \<noteq> None \<longrightarrow> o_confirmed_at ord \<noteq> None \<Longrightarrow> in_state st ord \<longleftrightarrow> order_State ord = st"
  by (cases st) (auto simp: in_state_def order_State_def)

lemma ListOrders_page:
  assumes "actor \<noteq> 0" and "\<forall>ord \<in> set (q_orders db). o_received_at ord \<noteq> None \<longrightarrow> o_confirmed_at ord \<noteq> None"
  shows "ListOrders actor rl st cursor limit db =
    list_page o_created_at o_id cursor limit (filter (asked_for actor rl st) (q_orders db))"
proof -
  have rows: "repo_ListOrders \<lparr>of_buyer = (if rl = RoleBuyer then actor else 0), of_seller = (if rl = RoleSeller then actor else 0),
      of_party = (if rl = EitherRole then actor else 0), of_state = st, of_page = f\<rparr> db
    = (db, Inr (newest f o_created_at o_id (filter (asked_for actor rl st) (q_orders db))))" for f
    using assms in_state_State
    by (cases rl; cases st) (auto simp: repo_ListOrders_def gets_def asked_for_def intro!: arg_cong [where f = "newest f _ _"] filter_cong)
  show ?thesis
    unfolding ListOrders_def Let_def rows list_page_def by (cases "cursorFilter cursor limit") simp_all
qed

text \<open>
  C14: A client that follows the cursors sees the whole list. For every page size, role and state, the pages
  of \<open>ListOrders\<close> put together are exactly the caller's orders whose own state reads as the one asked for,
  newest first, each once, however many share a timestamp; and there is an end after as many pages as there are
  orders and one.
\<close>

theorem order_pages_cover_the_list:
  assumes "listable o_created_at o_id (q_orders db)" and "0 < limit" and "actor \<noteq> 0"
    and "\<forall>ord \<in> set (q_orders db). o_received_at ord \<noteq> None \<longrightarrow> o_confirmed_at ord \<noteq> None"
  shows "walk_pages (Suc (length (q_orders db))) (\<lambda>c. ListOrders actor rl st c limit db) []
    = Some (sort_key (\<lambda>ord. (- o_created_at ord, - sint (o_id ord)))
        (filter (\<lambda>ord. (case rl of RoleBuyer \<Rightarrow> o_buyer ord = actor | RoleSeller \<Rightarrow> o_seller ord = actor
               | EitherRole \<Rightarrow> o_buyer ord = actor \<or> o_seller ord = actor)
             \<and> (case st of None \<Rightarrow> True | Some st \<Rightarrow> order_State ord = st)) (q_orders db)))"
  unfolding ListOrders_page [OF assms(3,4)] asked_for_def [symmetric]
  by (rule walk_list [OF listable_filter [OF assms(1)] assms(2)]) (simp add: le_imp_less_Suc)


definition paged_db :: ord_db where
  "paged_db = \<lparr>q_orders = map (\<lambda>n. \<lparr>o_events = [], o_id = n, o_draft = Some n, o_offer = None, o_buyer = 1, o_seller = 2,
      o_transport = n, o_address = \<lparr>ad_name = [], ad_phone = [], ad_country = [], ad_province = [], ad_district = None,
      ad_ward = [], ad_detail = None\<rparr>, o_pickup = \<lparr>ad_name = [], ad_phone = [], ad_country = [], ad_province = [],
      ad_district = None, ad_ward = [], ad_detail = None\<rparr>, o_confirmed_at = None, o_escalated_at = None,
      o_decline_reason = None, o_received_at = None, o_receipt = [], o_released_at = None, o_created_at = 7,
      o_completed_at = None, o_cancelled_at = None\<rparr>) [1, 2, 3],
    q_items = [], q_transports = [], q_refunds = [], q_audit = [], q_order_seq = 3, q_item_seq = 0, q_transport_seq = 0,
    q_refund_seq = 0\<rparr>"

text \<open>Three orders placed in the same instant, two to a page.\<close>

theorem order_pages_cover_the_list_witness:
  "map_option (map o_id) (walk_pages 4 (\<lambda>c. ListOrders 1 RoleBuyer (Some StateAwaitingConfirmation) c 2 paged_db) [])
    = Some [3, 2, 1]"
proof -
  have "listable o_created_at o_id (q_orders paged_db)" by (simp add: listable_def paged_db_def)
  moreover have "\<forall>ord \<in> set (q_orders paged_db). o_received_at ord \<noteq> None \<longrightarrow> o_confirmed_at ord \<noteq> None"
    by (simp add: paged_db_def)
  ultimately show ?thesis
    using order_pages_cover_the_list [of paged_db 2 1 RoleBuyer "Some StateAwaitingConfirmation"]
    by (simp add: paged_db_def order_State_def numeral_eq_Suc)
qed

end
