(* ===== verification/OrderShop.thy ===== *)
theory OrderShop
  imports OrderPaging
begin

text \<open>
  The tables in front of the sale and the adapter's statements over them (\<open>order/adapter/postgres/cart.go\<close>
  and \<open>draft.go\<close>, constraints from \<open>order/migrations/001_init.sql\<close>): saved intentions, purchase sessions that
  freeze a listing's terms, and negotiations. The conventions are those of OrderStore; the snapshot of a draft
  is kept decoded.
\<close>

record shop_db =
  p_carts :: "cart_item list"
  p_drafts :: "draft list"
  p_offers :: "offer list"
  p_cart_seq :: int
  p_draft_seq :: int
  p_offer_seq :: int

type_synonym 'a shop_act = "(shop_db, order_err, 'a) act"

definition shop_identity :: "(shop_db \<Rightarrow> int) \<Rightarrow> (int \<Rightarrow> shop_db \<Rightarrow> shop_db) \<Rightarrow> i64 shop_act" where
  "shop_identity get put db =
    (if get db \<ge> max_i64 then (db, Inl (OrdDatabase ''nextval''))
     else (put (get db + 1) db, Inr (word_of_int (get db + 1))))"

section \<open>The cart\<close>

text \<open>
  The upsert draws its id before it meets the row that is there, and adds in the column's own type: a sum
  beyond an int64 is the database's error.
\<close>

definition UpsertCartItem :: "time \<Rightarrow> cart_item \<Rightarrow> cart_item shop_act" where
  "UpsertCartItem now c =
    act_bind (shop_identity p_cart_seq (\<lambda>n db. db\<lparr>p_cart_seq := n\<rparr>)) (\<lambda>cid.
    act_bind (gets (\<lambda>db. find (\<lambda>row. ct_account row = ct_account c \<and> ct_variant row = ct_variant c) (p_carts db))) (\<lambda>there.
    case there of
      None \<Rightarrow>
        act_bind (ensure (0 < sint (ct_quantity c)) (OrdDatabase ''db upsert cart item'')) (\<lambda>_.
        (let row = c\<lparr>ct_id := cid, ct_created_at := now\<rparr>
         in act_bind (modify (\<lambda>db. db\<lparr>p_carts := p_carts db @ [row]\<rparr>)) (\<lambda>_. ret row)))
    | Some row \<Rightarrow>
        act_bind (ensure (0 < sint (ct_quantity row) + sint (ct_quantity c) \<and> sint (ct_quantity row) + sint (ct_quantity c) \<le> max_i64)
          (OrdDatabase ''db upsert cart item'')) (\<lambda>_.
        (let more = ct_quantity row + ct_quantity c
         in act_bind (modify (\<lambda>db. db\<lparr>p_carts := update_where
              (\<lambda>x. ct_account x = ct_account c \<and> ct_variant x = ct_variant c) (\<lambda>x. x\<lparr>ct_quantity := more\<rparr>) (p_carts db)\<rparr>)) (\<lambda>_.
            ret (c\<lparr>ct_id := ct_id row, ct_quantity := more, ct_created_at := ct_created_at row\<rparr>))))))"

definition FindCartItem :: "i64 \<Rightarrow> i64 \<Rightarrow> cart_item shop_act" where
  "FindCartItem cid account =
    act_bind (gets (\<lambda>db. find (\<lambda>row. ct_id row = cid \<and> ct_account row = account) (p_carts db)))
      (of_option ErrCartItemNotFound)"

definition repo_ListCartItems :: "i64 \<Rightarrow> cart_item list shop_act" where
  "repo_ListCartItems account =
    gets (\<lambda>db. sort_key (\<lambda>row. (- ct_created_at row, - sint (ct_id row)))
      (filter (\<lambda>row. ct_account row = account) (p_carts db)))"

definition SaveCartItem :: "cart_item \<Rightarrow> unit shop_act" where
  "SaveCartItem c =
    (let mine = (\<lambda>row. ct_id row = ct_id c \<and> ct_account row = ct_account c)
     in act_bind (gets (\<lambda>db. \<exists>row \<in> set (p_carts db). mine row)) (\<lambda>hit.
        act_bind (ensure (hit \<longrightarrow> 0 < sint (ct_quantity c)) (OrdDatabase ''db update cart item'')) (\<lambda>_.
        act_bind (ensure hit ErrCartItemNotFound) (\<lambda>_.
        modify (\<lambda>db. db\<lparr>p_carts := update_where mine (\<lambda>row. row\<lparr>ct_quantity := ct_quantity c\<rparr>) (p_carts db)\<rparr>)))))"

definition repo_DeleteCartItem :: "i64 \<Rightarrow> i64 \<Rightarrow> unit shop_act" where
  "repo_DeleteCartItem cid account =
    (let mine = (\<lambda>row. ct_id row = cid \<and> ct_account row = account)
     in act_bind (gets (\<lambda>db. \<exists>row \<in> set (p_carts db). mine row)) (\<lambda>hit.
        act_bind (ensure hit ErrCartItemNotFound) (\<lambda>_.
        modify (\<lambda>db. db\<lparr>p_carts := filter (\<lambda>row. \<not> mine row) (p_carts db)\<rparr>))))"

definition DeleteCartItemsByVariants :: "i64 \<Rightarrow> i64 list \<Rightarrow> unit shop_act" where
  "DeleteCartItemsByVariants account variants =
    (if variants = [] then ret ()
     else modify (\<lambda>db. db\<lparr>p_carts := filter (\<lambda>row. \<not> (ct_account row = account \<and> ct_variant row \<in> set variants)) (p_carts db)\<rparr>))"

section \<open>Purchase sessions\<close>

definition InsertDraft :: "time \<Rightarrow> draft \<Rightarrow> draft shop_act" where
  "InsertDraft now d =
    act_bind (shop_identity p_draft_seq (\<lambda>n db. db\<lparr>p_draft_seq := n\<rparr>)) (\<lambda>did.
    (let row = d\<lparr>dr_id := did, dr_created_at := now, dr_cancelled_at := None\<rparr>
     in act_bind (modify (\<lambda>db. db\<lparr>p_drafts := p_drafts db @ [row]\<rparr>)) (\<lambda>_. ret (d\<lparr>dr_id := did, dr_created_at := now\<rparr>))))"

definition FindDraft :: "i64 \<Rightarrow> i64 \<Rightarrow> draft shop_act" where
  "FindDraft did buyer =
    act_bind (gets (\<lambda>db. find (\<lambda>row. dr_id row = did \<and> dr_buyer row = buyer) (p_drafts db))) (of_option ErrDraftNotFound)"

definition repo_ListDrafts :: "i64 \<Rightarrow> page_filter \<Rightarrow> draft list shop_act" where
  "repo_ListDrafts buyer f = gets (\<lambda>db. newest f dr_created_at dr_id (filter (\<lambda>row. dr_buyer row = buyer) (p_drafts db)))"

definition ExpiredDrafts :: "time \<Rightarrow> nat \<Rightarrow> draft list shop_act" where
  "ExpiredDrafts now limit =
    gets (\<lambda>db. take limit (sort_key dr_valid_until
      (filter (\<lambda>row. dr_cancelled_at row = None \<and> dr_valid_until row < now) (p_drafts db))))"

definition SaveDraft :: "draft \<Rightarrow> unit shop_act" where
  "SaveDraft d =
    (let live = (\<lambda>row. dr_id row = dr_id d \<and> dr_cancelled_at row = None)
     in act_bind (gets (\<lambda>db. \<exists>row \<in> set (p_drafts db). live row)) (\<lambda>hit.
        act_bind (ensure hit ErrDraftSettled) (\<lambda>_.
        modify (\<lambda>db. db\<lparr>p_drafts := update_where live (\<lambda>row. row\<lparr>dr_cancelled_at := dr_cancelled_at d\<rparr>) (p_drafts db)\<rparr>))))"

section \<open>Negotiations\<close>

definition offer_row_ok :: "offer \<Rightarrow> bool" where
  "offer_row_ok f \<longleftrightarrow> 0 < sint (f_total f) \<and> 0 < sint (f_quantity f)"

text \<open>\<open>offer_one_active_per_buyer_sku\<close>.\<close>

definition offer_clash :: "offer \<Rightarrow> offer list \<Rightarrow> bool" where
  "offer_clash f rows \<longleftrightarrow> f_status f = OfferActive
    \<and> (\<exists>g \<in> set rows. f_id g \<noteq> f_id f \<and> f_status g = OfferActive \<and> f_buyer g = f_buyer f \<and> f_variant g = f_variant f)"

definition InsertOffer :: "time \<Rightarrow> offer \<Rightarrow> offer shop_act" where
  "InsertOffer now f =
    act_bind (shop_identity p_offer_seq (\<lambda>n db. db\<lparr>p_offer_seq := n\<rparr>)) (\<lambda>fid.
    (let row = f\<lparr>f_id := fid, f_session := None, f_created_at := now\<rparr>
     in act_bind (ensure (offer_row_ok row) (OrdDatabase ''db insert offer'')) (\<lambda>_.
        act_bind (gets (\<lambda>db. offer_clash row (p_offers db))) (\<lambda>clash.
        act_bind (ensure (\<not> clash) ErrOfferAlreadyOpen) (\<lambda>_.
        act_bind (modify (\<lambda>db. db\<lparr>p_offers := p_offers db @ [row]\<rparr>)) (\<lambda>_.
        ret (f\<lparr>f_id := fid, f_created_at := now\<rparr>)))))))"

definition FindOffer :: "i64 \<Rightarrow> offer shop_act" where
  "FindOffer fid = act_bind (gets (\<lambda>db. find (\<lambda>row. f_id row = fid) (p_offers db))) (of_option ErrOfferNotFound)"

definition repo_ListOffers :: "i64 \<Rightarrow> offer_status option \<Rightarrow> page_filter \<Rightarrow> offer list shop_act" where
  "repo_ListOffers account st f =
    gets (\<lambda>db. newest f f_created_at f_id (filter (\<lambda>row. (f_buyer row = account \<or> f_seller row = account)
      \<and> (case st of None \<Rightarrow> True | Some s \<Rightarrow> f_status row = s)) (p_offers db)))"

definition ExpiredOffers :: "time \<Rightarrow> nat \<Rightarrow> offer list shop_act" where
  "ExpiredOffers now limit =
    gets (\<lambda>db. take limit (sort_key f_expires_at
      (filter (\<lambda>row. (f_status row = OfferActive \<or> f_status row = OfferAccepted) \<and> f_expires_at row < now) (p_offers db))))"

text \<open>The guarded write of the terms; it leaves the checkout's column alone.\<close>

definition offer_columns :: "offer \<Rightarrow> offer \<Rightarrow> offer" where
  "offer_columns f row = row\<lparr>f_status := f_status f, f_author := f_author f, f_quantity := f_quantity f,
     f_total := f_total f, f_reason := f_reason f, f_expires_at := f_expires_at f\<rparr>"

definition SaveOffer :: "offer \<Rightarrow> offer_status list \<Rightarrow> unit shop_act" where
  "SaveOffer f from =
    (let hit = (\<lambda>row. f_id row = f_id f \<and> f_status row \<in> set from)
     in act_bind (gets (\<lambda>db. filter hit (p_offers db))) (\<lambda>rows.
        act_bind (gets p_offers) (\<lambda>offers.
        act_bind (ensure (list_all (\<lambda>row. offer_row_ok (offer_columns f row) \<and> \<not> offer_clash (offer_columns f row) offers) rows)
          (OrdDatabase ''db update offer'')) (\<lambda>_.
        act_bind (ensure (rows \<noteq> []) ErrOfferSettled) (\<lambda>_.
        modify (\<lambda>db. db\<lparr>p_offers := update_where hit (offer_columns f) (p_offers db)\<rparr>))))))"

definition ClaimOfferCheckout :: "i64 \<Rightarrow> time \<Rightarrow> unit shop_act" where
  "ClaimOfferCheckout fid now =
    (let agreed = (\<lambda>row. f_id row = fid \<and> f_status row = OfferAccepted \<and> now < f_expires_at row)
     in act_bind (gets (\<lambda>db. \<exists>row \<in> set (p_offers db). agreed row)) (\<lambda>hit.
        act_bind (ensure hit ErrOfferSettled) (\<lambda>_.
        modify (\<lambda>db. db\<lparr>p_offers := update_where agreed (\<lambda>row. row\<lparr>f_status := OfferCheckedOut\<rparr>) (p_offers db)\<rparr>))))"

definition ReleaseOfferCheckout :: "i64 \<Rightarrow> unit shop_act" where
  "ReleaseOfferCheckout fid =
    modify (\<lambda>db. db\<lparr>p_offers := update_where (\<lambda>row. f_id row = fid \<and> f_status row = OfferCheckedOut \<and> f_session row = None)
      (\<lambda>row. row\<lparr>f_status := OfferAccepted\<rparr>) (p_offers db)\<rparr>)"

definition AttachOfferSession :: "i64 \<Rightarrow> i64 \<Rightarrow> unit shop_act" where
  "AttachOfferSession fid sid =
    (let claimed = (\<lambda>row. f_id row = fid \<and> f_status row = OfferCheckedOut \<and> f_session row = None)
     in act_bind (gets (\<lambda>db. \<exists>row \<in> set (p_offers db). claimed row)) (\<lambda>hit.
        act_bind (ensure hit ErrOfferSettled) (\<lambda>_.
        modify (\<lambda>db. db\<lparr>p_offers := update_where claimed (\<lambda>row. row\<lparr>f_session := Some sid\<rparr>) (p_offers db)\<rparr>))))"

end
