(* ===== verification/OrderService.thy ===== *)
theory OrderService
  imports OrderStore FinanceService CatalogStock Cursor
begin

text \<open>
  The order service's sale (\<open>order/service.go\<close>, \<open>service_order.go\<close>, \<open>service_lifecycle.go\<close>): what
  turns a paid session into an order, confirms, declines or cancels it, moves its parcel, and pays
  its escrow out. A handler works over the whole market: finance's tables, the order tables and the
  stock, each reached through the module's own operations, and the log \<open>m_out\<close> of what left the
  process: facts published, durable timers signalled and parcels handed to a courier.

  The account module's answers, the object store, the option registry with its couriers and the
  JSON codecs are the record \<open>market_env\<close>. A handler reads the clock once and answers the entity;
  the DTO it is copied into, and the reads that fill it, are not modelled. A timer and a published
  fact are best-effort in the program and always logged here.
\<close>

section \<open>The market\<close>

datatype market_err =
    OrderErr order_err
  | FinanceErr finance_err
  | StockErr stock_err

record booking_req =
  bk_items :: "(i64 \<times> i64) list"
  bk_from :: string
  bk_to :: string
  bk_option :: string

record order_line =
  ol_listing :: i64
  ol_variant :: i64
  ol_quantity :: i64

datatype outgoing =
    FactPlaced i64 i64 i64 i64 string "order_line list"
  | FactDelivered i64 i64 i64
  | FactSettled i64 i64 i64 bool
  | FactRefundResolved i64 i64 i64 i64 i64 bool string
  | FactRefundEscalated i64 i64 i64 string
  | FactConfirmationLapsed i64 i64 i64
  | TimerCheckoutPaid i64
  | TimerCheckoutCancelled i64
  | TimerStartOrder i64
  | TimerOrderConfirmed i64
  | TimerOrderReceived i64
  | TimerOrderCancelled i64
  | TimerRefundRaised i64
  | TimerRefundResolved i64 bool
  | TimerRefundWindow i64 refund_status
  | CourierCreate i64 booking_req

record market =
  m_fin :: fin_db
  m_ord :: ord_db
  m_shelf :: stock_db
  m_out :: "outgoing list"

type_synonym 'a market_act = "(market, market_err, 'a) act"

datatype role = RoleUser | RoleModerator | RoleAdmin

record market_env =
  me_fin :: fin_env
  me_V :: validator
  me_role :: "i64 \<Rightarrow> string + role"
  me_pickup :: "i64 \<Rightarrow> string + address"
  me_resources :: "i64 list \<Rightarrow> string + i64 list"
  me_courier :: "string \<Rightarrow> (booking_req \<Rightarrow> (string \<times> string) option) option"
  me_booking_json :: "string \<times> string \<Rightarrow> string option"
  me_ref_of :: "string \<Rightarrow> string option"
  me_fee_json :: "string \<Rightarrow> i64 option"

definition on_fin :: "'a fin_act \<Rightarrow> 'a market_act" where
  "on_fin = zoom m_fin (\<lambda>d m. m\<lparr>m_fin := d\<rparr>) FinanceErr"

definition on_ord :: "'a ord_act \<Rightarrow> 'a market_act" where
  "on_ord = zoom m_ord (\<lambda>d m. m\<lparr>m_ord := d\<rparr>) OrderErr"

definition on_shelf :: "'a stock_act \<Rightarrow> 'a market_act" where
  "on_shelf = zoom m_shelf (\<lambda>d m. m\<lparr>m_shelf := d\<rparr>) StockErr"

definition emit :: "outgoing \<Rightarrow> unit market_act" where
  "emit x = modify (\<lambda>m. m\<lparr>m_out := m_out m @ [x]\<rparr>)"

definition refuse :: "order_err \<Rightarrow> 'a market_act" where
  "refuse e = fail (OrderErr e)"

definition need :: "bool \<Rightarrow> order_err \<Rightarrow> unit market_act" where
  "need c e = ensure c (OrderErr e)"

definition decide :: "order_err + 'a \<Rightarrow> 'a market_act" where
  "decide r = map_err OrderErr (of_sum r)"

text \<open>An error the caller logs and walks past.\<close>

definition best_effort :: "unit market_act \<Rightarrow> unit market_act" where
  "best_effort m = act_bind (attempt m :: (market_err + unit) market_act) (\<lambda>_. ret ())"

text \<open>\<open>err != nil && !errors.Is(err, financeMovementPosted)\<close>: a key that is posted already is success.\<close>

definition unless_posted :: "unit market_act \<Rightarrow> unit market_act" where
  "unless_posted m = act_bind (attempt m :: (market_err + unit) market_act) (\<lambda>r. case r of
     Inr u \<Rightarrow> ret u
   | Inl e \<Rightarrow> if e = FinanceErr ErrMovementAlreadyPosted then ret () else fail e)"

section \<open>What the service asks elsewhere\<close>

definition outside :: "string + 'a \<Rightarrow> 'a market_act" where
  "outside r = (case r of Inl e \<Rightarrow> refuse (OrdOutside e) | Inr x \<Rightarrow> ret x)"

definition requireModerator :: "market_env \<Rightarrow> i64 \<Rightarrow> unit market_act" where
  "requireModerator E actor =
    act_bind (outside (me_role E actor)) (\<lambda>rl. need (rl = RoleModerator \<or> rl = RoleAdmin) ErrModeratorRequired)"

definition requireResources :: "market_env \<Rightarrow> i64 list \<Rightarrow> unit market_act" where
  "requireResources E keys =
    (if keys = [] then ret ()
     else act_bind (outside (me_resources E keys)) (\<lambda>found.
       need (list_all (\<lambda>k. k \<in> set found) keys) ErrAttachmentNotFound))"

definition pickupSnapshot :: "market_env \<Rightarrow> i64 \<Rightarrow> address market_act" where
  "pickupSnapshot E seller = outside (me_pickup E seller)"

fun join :: "string \<Rightarrow> string list \<Rightarrow> string" where
  "join sep [] = []"
| "join sep [s] = s"
| "join sep (s # ss) = s @ sep @ join sep ss"

definition addressLine :: "address \<Rightarrow> string" where
  "addressLine a = join '', '' (filter (\<lambda>p. p \<noteq> [])
    ([ad_country a, ad_province a] @ (case ad_district a of None \<Rightarrow> [] | Some d \<Rightarrow> [d])
     @ [ad_ward a] @ (case ad_detail a of None \<Rightarrow> [] | Some d \<Rightarrow> [d])))"

definition decodeShippingFee :: "market_env \<Rightarrow> string \<Rightarrow> i64" where
  "decodeShippingFee E raw =
    (if raw = [] then 0 else case me_fee_json E raw of None \<Rightarrow> 0 | Some fee \<Rightarrow> fee)"

section \<open>Reading an order\<close>

definition involved :: "i64 \<Rightarrow> i64 \<Rightarrow> order market_act" where
  "involved actor oid =
    act_bind (on_ord (FindOrder oid)) (\<lambda>ord.
    act_bind (need (order_Involves ord actor) ErrOrderNotFound) (\<lambda>_. ret ord))"

text \<open>The sum of the live lines, which wraps, and the currency of the last line.\<close>

definition lines_total :: "item list \<Rightarrow> i64" where
  "lines_total items = foldl (\<lambda>acc i. acc + i_total i) 0 (filter item_Live items)"

definition lines_currency :: "item list \<Rightarrow> string" where
  "lines_currency items = foldl (\<lambda>_ i. i_currency i) [] items"

definition orderTotal :: "i64 \<Rightarrow> (i64 \<times> string \<times> item list) market_act" where
  "orderTotal oid =
    act_bind (on_ord (OrderItems oid)) (\<lambda>items. ret (lines_total items, lines_currency items, items))"

definition GetOrder :: "i64 \<Rightarrow> i64 \<Rightarrow> order market_act" where
  "GetOrder = involved"

definition GetOrderTransport :: "i64 \<Rightarrow> i64 \<Rightarrow> transport market_act" where
  "GetOrderTransport actor oid =
    act_bind (involved actor oid) (\<lambda>ord. on_ord (FindTransport (o_transport ord)))"

definition GetOrderCase :: "market_env \<Rightarrow> i64 \<Rightarrow> i64 \<Rightarrow> (order \<times> refund option) market_act" where
  "GetOrderCase E actor oid =
    act_bind (act_bind (attempt (involved actor oid) :: (market_err + order) market_act) (\<lambda>r. case r of
        Inr ord \<Rightarrow> ret ord
      | Inl e \<Rightarrow>
          if e \<noteq> OrderErr ErrOrderNotFound then fail e
          else act_bind (attempt (requireModerator E actor) :: (market_err + unit) market_act) (\<lambda>md. case md of
              Inl _ \<Rightarrow> fail e
            | Inr _ \<Rightarrow> on_ord (FindOrder oid)))) (\<lambda>ord.
    act_bind (attempt (on_ord (LiveRefundOnOrder (o_id ord))) :: (market_err + refund) market_act) (\<lambda>lr. case lr of
        Inr r \<Rightarrow> ret (ord, Some r)
      | Inl e \<Rightarrow> if e = OrderErr ErrRefundNotFound then ret (ord, None) else fail e))"

section \<open>What leaves the service\<close>

definition publishDelivered :: "order \<Rightarrow> unit market_act" where
  "publishDelivered ord =
    (if o_received_at ord \<noteq> None \<or> order_Settled ord then ret ()
     else emit (FactDelivered (o_id ord) (o_buyer ord) (o_seller ord)))"

definition publishSettled :: "order \<Rightarrow> bool \<Rightarrow> unit market_act" where
  "publishSettled ord completed = emit (FactSettled (o_id ord) (o_buyer ord) (o_seller ord) completed)"

definition publishConfirmationLapsed :: "order \<Rightarrow> unit market_act" where
  "publishConfirmationLapsed ord = emit (FactConfirmationLapsed (o_id ord) (o_buyer ord) (o_seller ord))"

definition publishRefundEscalated :: "refund \<Rightarrow> order \<Rightarrow> string \<Rightarrow> unit market_act" where
  "publishRefundEscalated r ord cause = emit (FactRefundEscalated (r_id r) (o_id ord) (o_buyer ord) cause)"

definition publishPlaced :: "order \<Rightarrow> item list \<Rightarrow> i64 \<Rightarrow> string \<Rightarrow> unit market_act" where
  "publishPlaced ord paid total_paid currency =
    emit (FactPlaced (o_id ord) (o_buyer ord) (o_seller ord) total_paid currency
      (map (\<lambda>i. \<lparr>ol_listing = i_listing i, ol_variant = i_variant i, ol_quantity = i_quantity i\<rparr>) paid))"

section \<open>The escrow and the stock of an order\<close>

definition hold_key :: "i64 \<Rightarrow> string" where
  "hold_key oid = ''order:'' @ dec_i64 oid @ '':hold''"

definition release_key :: "i64 \<Rightarrow> string" where
  "release_key oid = ''order:'' @ dec_i64 oid @ '':release''"

definition refund_key :: "i64 \<Rightarrow> string" where
  "refund_key oid = ''order:'' @ dec_i64 oid @ '':refund''"

definition commit_key :: "i64 \<Rightarrow> i64 \<Rightarrow> string" where
  "commit_key oid iid = ''order:'' @ dec_i64 oid @ '':item:'' @ dec_i64 iid @ '':commit''"

definition uncommit_key :: "i64 \<Rightarrow> i64 \<Rightarrow> string" where
  "uncommit_key oid iid = ''order:'' @ dec_i64 oid @ '':item:'' @ dec_i64 iid @ '':uncommit''"

definition escrow_of :: "order \<Rightarrow> string \<Rightarrow> i64 \<Rightarrow> i64 \<Rightarrow> string \<Rightarrow> escrow_req" where
  "escrow_of ord currency amount fee key =
    \<lparr>er_buyer = o_buyer ord, er_seller = o_seller ord, er_order = o_id ord, er_currency = currency,
     er_amount = amount, er_fee = fee, er_key = key\<rparr>"

definition refundEscrow :: "market_env \<Rightarrow> order \<Rightarrow> i64 \<Rightarrow> unit market_act" where
  "refundEscrow E ord shipping =
    act_bind (orderTotal (o_id ord)) (\<lambda>(amount, currency, _).
    if amount = 0 then ret ()
    else unless_posted (on_fin (RefundEscrow (me_fin E)
      (escrow_of ord currency amount shipping (refund_key (o_id ord))))))"

definition commitItemStock :: "i64 \<Rightarrow> item \<Rightarrow> unit market_act" where
  "commitItemStock oid i = on_shelf (CommitStock (i_variant i) (i_quantity i) (commit_key oid (i_id i)))"

fun uncommit_items :: "i64 \<Rightarrow> item list \<Rightarrow> unit market_act" where
  "uncommit_items oid [] = ret ()"
| "uncommit_items oid (i # is) =
    act_bind (if item_Live i
      then best_effort (on_shelf (UncommitStock (i_variant i) (i_quantity i) (uncommit_key oid (i_id i))))
      else ret ()) (\<lambda>_. uncommit_items oid is)"

definition uncommitOrderStock :: "order \<Rightarrow> unit market_act" where
  "uncommitOrderStock ord =
    best_effort (act_bind (on_ord (OrderItems (o_id ord))) (\<lambda>items. uncommit_items (o_id ord) items))"

section \<open>A paid session becomes an order\<close>

definition paidShippingFee :: "market_env \<Rightarrow> time \<Rightarrow> i64 \<Rightarrow> i64 \<Rightarrow> i64 market_act" where
  "paidShippingFee E now buyer sid =
    act_bind (on_fin (GetSession now buyer sid)) (\<lambda>(s, _). ret (decodeShippingFee E (s_data s)))"

definition createOrder ::
  "market_env \<Rightarrow> time \<Rightarrow> origin \<Rightarrow> item \<Rightarrow> item list \<Rightarrow> i64 \<Rightarrow> order market_act" where
  "createOrder E now g first paid fee =
    act_bind (pickupSnapshot E (i_seller first)) (\<lambda>pickup.
    act_bind (on_ord (InsertTransport now (i_option first) fee)) (\<lambda>tid.
    act_bind (decide (NewOrder (me_V E) g (i_buyer first) (i_seller first) tid (i_address first) pickup)) (\<lambda>ord.
    act_bind (attempt (on_ord (CreateOrder now ord (map i_id paid))) :: (market_err + order) market_act) (\<lambda>r. case r of
        Inr made \<Rightarrow> ret made
      | Inl e \<Rightarrow> if e \<noteq> OrderErr ErrOrderSettled then fail e else on_ord (FindOrderByOrigin g)))))"

fun commit_items :: "i64 \<Rightarrow> item list \<Rightarrow> unit market_act" where
  "commit_items oid [] = ret ()"
| "commit_items oid (i # is) = act_bind (commitItemStock oid i) (\<lambda>_. commit_items oid is)"

definition finishSettlement :: "market_env \<Rightarrow> order \<Rightarrow> item list \<Rightarrow> i64 \<Rightarrow> i64 \<Rightarrow> unit market_act" where
  "finishSettlement E ord paid sid fee =
    (let amount = foldl (\<lambda>acc i. acc + i_total i) 0 paid; currency = lines_currency paid
     in act_bind (on_ord (LinkItems (o_id ord) (map i_id paid))) (\<lambda>_.
        act_bind (unless_posted (on_fin (HoldEscrow (me_fin E)
          (escrow_of ord currency amount fee (hold_key (o_id ord)))))) (\<lambda>_.
        act_bind (commit_items (o_id ord) paid) (\<lambda>_.
        act_bind (publishPlaced ord paid amount currency) (\<lambda>_.
        act_bind (emit (TimerCheckoutPaid sid)) (\<lambda>_.
        emit (TimerStartOrder (o_id ord))))))))"

definition SettlePaidSession :: "market_env \<Rightarrow> time \<Rightarrow> i64 \<Rightarrow> unit market_act" where
  "SettlePaidSession E now sid =
    act_bind (on_ord (ItemsByPaymentSession sid)) (\<lambda>items.
    case filter item_Live items of
      [] \<Rightarrow> ret ()
    | first # others \<Rightarrow>
        (let paid = first # others; g = \<lparr>og_draft = i_draft first, og_offer = i_offer first\<rparr>
         in act_bind (paidShippingFee E now (i_buyer first) sid) (\<lambda>fee.
            act_bind (act_bind (attempt (on_ord (FindOrderByOrigin g)) :: (market_err + order) market_act) (\<lambda>r. case r of
                Inr ord \<Rightarrow> ret ord
              | Inl e \<Rightarrow> if e = OrderErr ErrOrderNotFound then createOrder E now g first paid fee
                         else fail e)) (\<lambda>ord.
            finishSettlement E ord paid sid fee))))"

section \<open>The parcel\<close>

definition bookingData :: "market_env \<Rightarrow> string \<times> string \<Rightarrow> string option" where
  "bookingData E booked = me_booking_json E booked"

definition bookShipment :: "market_env \<Rightarrow> order \<Rightarrow> item list \<Rightarrow> unit market_act" where
  "bookShipment E ord lines =
    (if \<not> order_Confirmed ord then ret ()
     else act_bind (attempt (on_ord (FindTransport (o_transport ord))) :: (market_err + transport) market_act) (\<lambda>r. case r of
       Inl _ \<Rightarrow> ret ()
     | Inr t \<Rightarrow>
         if Booked (me_ref_of E) t then ret ()
         else case me_courier E (tr_option t) of
           None \<Rightarrow> ret ()
         | Some create \<Rightarrow>
             (let req = \<lparr>bk_items = map (\<lambda>i. (i_variant i, i_quantity i)) lines,
                         bk_from = addressLine (o_pickup ord), bk_to = addressLine (o_address ord),
                         bk_option = tr_option t\<rparr>
              in act_bind (emit (CourierCreate (o_id ord) req)) (\<lambda>_.
                 case create req of
                   None \<Rightarrow> ret ()
                 | Some booked \<Rightarrow> (case bookingData E booked of
                     None \<Rightarrow> ret ()
                   | Some data \<Rightarrow> best_effort (on_ord (BookTransport (me_ref_of E) (tr_id t) data)))))))"

definition bookingGrace :: duration where "bookingGrace = 2 * 60 * 1000000000"

fun book_each :: "market_env \<Rightarrow> i64 list \<Rightarrow> nat market_act" where
  "book_each E [] = ret 0"
| "book_each E (oid # oids) =
    act_bind (attempt (on_ord (FindOrder oid)) :: (market_err + order) market_act) (\<lambda>r. case r of
      Inl _ \<Rightarrow> book_each E oids
    | Inr ord \<Rightarrow>
        act_bind (on_ord (OrderItems oid)) (\<lambda>lines.
        act_bind (bookShipment E ord lines) (\<lambda>_.
        act_bind (attempt (on_ord (FindTransport (o_transport ord))) :: (market_err + transport) market_act) (\<lambda>t.
        act_bind (book_each E oids) (\<lambda>n.
        ret ((case t of Inr t \<Rightarrow> (if Booked (me_ref_of E) t then 1 else 0) | Inl _ \<Rightarrow> 0) + n))))))"

definition RetryUnbookedShipments :: "market_env \<Rightarrow> time \<Rightarrow> nat \<Rightarrow> nat market_act" where
  "RetryUnbookedShipments E now limit =
    act_bind (on_ord (UnbookedTransports (me_ref_of E) (now - bookingGrace) limit)) (book_each E)"

definition advanceLeg :: "i64 \<Rightarrow> string \<Rightarrow> transport market_act" where
  "advanceLeg tid status =
    act_bind (on_ord (FindTransport tid)) (\<lambda>t.
    act_bind (decide (Advance (transport_status_of status) t)) (\<lambda>t'.
    act_bind (on_ord (SaveTransport t' (tr_status t))) (\<lambda>_. ret t')))"

definition AdvanceShipment :: "market_env \<Rightarrow> i64 \<Rightarrow> i64 \<Rightarrow> string \<Rightarrow> transport market_act" where
  "AdvanceShipment E actor oid status =
    act_bind (map_err (\<lambda>e. if e = OrderErr ErrModeratorRequired then OrderErr ErrShipmentNotReportable else e)
      (requireModerator E actor)) (\<lambda>_.
    act_bind (on_ord (FindOrder oid)) (\<lambda>ord.
    act_bind (advanceLeg (o_transport ord) status) (\<lambda>t.
    act_bind (if Delivered t then publishDelivered ord else ret ()) (\<lambda>_. ret t))))"

definition carrierCheckpoints :: "string \<Rightarrow> string option" where
  "carrierCheckpoints s =
    (if s = ''processing'' then Some ''in-transit''
     else if s = ''success'' then Some ''delivered''
     else if s = ''failed'' then Some ''failed''
     else None)"

definition RecordCarrierCheckpoint :: "market_env \<Rightarrow> string \<Rightarrow> string \<Rightarrow> unit market_act" where
  "RecordCarrierCheckpoint E ref status =
    act_bind (on_ord (FindTransportByRef (me_ref_of E) ref)) (\<lambda>t.
    case carrierCheckpoints status of
      None \<Rightarrow> ret ()
    | Some nxt \<Rightarrow>
        act_bind (attempt (advanceLeg (tr_id t) nxt) :: (market_err + transport) market_act) (\<lambda>r. case r of
          Inl e \<Rightarrow> if e = OrderErr ErrTransportSettled then ret () else fail e
        | Inr leg \<Rightarrow>
            if Delivered leg then
              act_bind (attempt (on_ord (FindOrderByTransport (tr_id t))) :: (market_err + order) market_act) (\<lambda>found. case found of
                Inl _ \<Rightarrow> ret ()
              | Inr ord \<Rightarrow> publishDelivered ord)
            else ret ()))"

section \<open>The seller's answer and the buyer's receipt\<close>

definition ConfirmOrder :: "market_env \<Rightarrow> time \<Rightarrow> i64 \<Rightarrow> i64 \<Rightarrow> order market_act" where
  "ConfirmOrder E now actor oid =
    act_bind (involved actor oid) (\<lambda>ord.
    act_bind (need (o_seller ord = actor) ErrNotTheSeller) (\<lambda>_.
    act_bind (decide (Confirm now ord)) (\<lambda>ord'.
    act_bind (on_ord (SaveOrder ord')) (\<lambda>_.
    act_bind (on_ord (OrderItems (o_id ord'))) (\<lambda>lines.
    act_bind (bookShipment E ord' lines) (\<lambda>_.
    act_bind (emit (TimerOrderConfirmed (o_id ord'))) (\<lambda>_.
    ret ord')))))))"

definition DeclineOrder :: "market_env \<Rightarrow> time \<Rightarrow> i64 \<Rightarrow> i64 \<Rightarrow> string \<Rightarrow> order market_act" where
  "DeclineOrder E now actor oid reason =
    act_bind (involved actor oid) (\<lambda>ord.
    act_bind (need (o_seller ord = actor) ErrNotTheSeller) (\<lambda>_.
    act_bind (on_ord (FindTransport (o_transport ord))) (\<lambda>t.
    act_bind (decide (Decline now reason ord)) (\<lambda>ord'.
    act_bind (on_ord (SaveOrder ord')) (\<lambda>_.
    act_bind (refundEscrow E ord' (tr_fee t)) (\<lambda>_.
    act_bind (uncommitOrderStock ord') (\<lambda>_.
    act_bind (publishSettled ord' False) (\<lambda>_.
    act_bind (emit (TimerOrderCancelled (o_id ord'))) (\<lambda>_.
    ret ord')))))))))"

definition CancelOrder :: "market_env \<Rightarrow> time \<Rightarrow> i64 \<Rightarrow> i64 \<Rightarrow> order market_act" where
  "CancelOrder E now actor oid =
    act_bind (involved actor oid) (\<lambda>ord.
    act_bind (on_ord (FindTransport (o_transport ord))) (\<lambda>t.
    act_bind (decide (order_Cancel now (Shipped t) ord)) (\<lambda>ord'.
    act_bind (on_ord (SaveOrder ord')) (\<lambda>_.
    act_bind (refundEscrow E ord' (tr_fee t)) (\<lambda>_.
    act_bind (uncommitOrderStock ord') (\<lambda>_.
    act_bind (publishSettled ord' False) (\<lambda>_.
    act_bind (emit (TimerOrderCancelled (o_id ord'))) (\<lambda>_.
    ret ord'))))))))"

definition ConfirmReceipt :: "market_env \<Rightarrow> time \<Rightarrow> i64 \<Rightarrow> i64 \<Rightarrow> i64 list \<Rightarrow> order market_act" where
  "ConfirmReceipt E now actor oid attachments =
    act_bind (involved actor oid) (\<lambda>ord.
    act_bind (need (o_buyer ord = actor) ErrNotTheBuyer) (\<lambda>_.
    act_bind (requireResources E attachments) (\<lambda>_.
    act_bind (decide (order_ConfirmReceipt now attachments ord)) (\<lambda>ord'.
    act_bind (on_ord (SaveOrder ord')) (\<lambda>_.
    act_bind (emit (TimerOrderReceived (o_id ord'))) (\<lambda>_.
    ret ord'))))))"

definition escalateConfirmation :: "time \<Rightarrow> order \<Rightarrow> unit market_act" where
  "escalateConfirmation now ord =
    act_bind (decide (EscalateConfirmation now ord)) (\<lambda>ord'.
    act_bind (on_ord (SaveOrder ord')) (\<lambda>_.
    publishConfirmationLapsed ord'))"

definition EscalateUnconfirmedOrder :: "time \<Rightarrow> i64 \<Rightarrow> unit market_act" where
  "EscalateUnconfirmedOrder now oid =
    act_bind (on_ord (FindOrder oid)) (\<lambda>ord. escalateConfirmation now ord)"

fun escalate_each :: "time \<Rightarrow> order list \<Rightarrow> nat market_act" where
  "escalate_each now [] = ret 0"
| "escalate_each now (ord # ords) =
    act_bind (attempt (escalateConfirmation now ord) :: (market_err + unit) market_act) (\<lambda>r. case r of
      Inl e \<Rightarrow> if e = OrderErr ErrConfirmationAlreadyEscalated \<or> e = OrderErr ErrOrderSettled
               then escalate_each now ords else fail e
    | Inr _ \<Rightarrow> act_bind (escalate_each now ords) (\<lambda>n. ret (Suc n)))"

definition EscalateUnconfirmedOrders :: "time \<Rightarrow> nat \<Rightarrow> nat market_act" where
  "EscalateUnconfirmedOrders now limit =
    act_bind (on_ord (UnconfirmedOrders (now - SellerConfirmWindow) limit)) (escalate_each now)"

section \<open>The payout\<close>

definition recordRelease :: "time \<Rightarrow> order \<Rightarrow> unit market_act" where
  "recordRelease now ord = best_effort (on_ord (MarkPayoutReleased (order_MarkPayoutReleased now ord)))"

definition releasePayout :: "market_env \<Rightarrow> time \<Rightarrow> order \<Rightarrow> bool market_act" where
  "releasePayout E now ord =
    act_bind (orderTotal (o_id ord)) (\<lambda>(amount, currency, _).
    if amount = 0 then ret False
    else act_bind (attempt (on_ord (ClaimPayout now ord)) :: (market_err + order) market_act) (\<lambda>r. case r of
      Inl _ \<Rightarrow> ret False
    | Inr claimed \<Rightarrow>
        act_bind (attempt (unless_posted (on_fin (ReleaseEscrow (me_fin E)
          (escrow_of claimed currency amount 0 (release_key (o_id claimed)))))) :: (market_err + unit) market_act) (\<lambda>paid. case paid of
          Inl _ \<Rightarrow> ret False
        | Inr _ \<Rightarrow>
            act_bind (recordRelease now claimed) (\<lambda>_.
            act_bind (publishSettled claimed True) (\<lambda>_.
            ret True)))))"

definition ReleasePayout :: "market_env \<Rightarrow> time \<Rightarrow> i64 \<Rightarrow> unit market_act" where
  "ReleasePayout E now oid =
    act_bind (on_ord (FindOrder oid)) (\<lambda>ord.
    if order_Settled ord then ret ()
    else case PayoutDue ord of
      None \<Rightarrow> ret ()
    | Some due \<Rightarrow> if now < due then ret () else act_bind (releasePayout E now ord) (\<lambda>_. ret ()))"

fun release_each :: "market_env \<Rightarrow> time \<Rightarrow> order list \<Rightarrow> nat market_act" where
  "release_each E now [] = ret 0"
| "release_each E now (ord # ords) =
    act_bind (releasePayout E now ord) (\<lambda>released.
    act_bind (release_each E now ords) (\<lambda>n. ret (if released then Suc n else n)))"

definition ReleaseDuePayouts :: "market_env \<Rightarrow> time \<Rightarrow> nat \<Rightarrow> nat market_act" where
  "ReleaseDuePayouts E now limit =
    act_bind (on_ord (repo_PayoutDue now limit)) (release_each E now)"

fun retry_each :: "market_env \<Rightarrow> time \<Rightarrow> order list \<Rightarrow> nat market_act" where
  "retry_each E now [] = ret 0"
| "retry_each E now (ord # ords) =
    act_bind (orderTotal (o_id ord)) (\<lambda>(amount, currency, _).
    if amount = 0 then retry_each E now ords
    else act_bind (attempt (unless_posted (on_fin (ReleaseEscrow (me_fin E)
          (escrow_of ord currency amount 0 (release_key (o_id ord)))))) :: (market_err + unit) market_act) (\<lambda>paid. case paid of
      Inl _ \<Rightarrow> retry_each E now ords
    | Inr _ \<Rightarrow>
        act_bind (recordRelease now ord) (\<lambda>_.
        act_bind (retry_each E now ords) (\<lambda>n. ret (Suc n)))))"

definition RetryClaimedPayouts :: "market_env \<Rightarrow> time \<Rightarrow> nat \<Rightarrow> nat market_act" where
  "RetryClaimedPayouts E now limit = act_bind (on_ord (ClaimedPayouts limit)) (retry_each E now)"

section \<open>Lines that were never paid\<close>

definition requireUnpaid :: "time \<Rightarrow> item \<Rightarrow> i64 \<Rightarrow> unit market_act" where
  "requireUnpaid now i actor =
    act_bind (on_fin (GetSession now actor (i_session i))) (\<lambda>(s, _).
    need (\<not> (s_paid_at s \<noteq> None \<or> s_status s = StatusSuccess)) ErrSessionPaid)"

definition sessionAbandoned :: "i64 \<Rightarrow> bool market_act" where
  "sessionAbandoned sid =
    act_bind (on_ord (ItemsByPaymentSession sid)) (\<lambda>lines. ret (list_all (\<lambda>i. \<not> item_Live i) lines))"

definition cancelLine :: "time \<Rightarrow> item \<Rightarrow> i64 \<Rightarrow> item market_act" where
  "cancelLine now i actor =
    act_bind (requireUnpaid now i actor) (\<lambda>_.
    act_bind (decide (item_Cancel now actor i)) (\<lambda>i'.
    act_bind (on_ord (SaveItem i')) (\<lambda>_.
    act_bind (best_effort (on_shelf (ReleaseStock (i_variant i') (i_quantity i')))) (\<lambda>_.
    act_bind (sessionAbandoned (i_session i')) (\<lambda>gone.
    act_bind (if gone then emit (TimerCheckoutCancelled (i_session i')) else ret ()) (\<lambda>_.
    ret i'))))))"

definition CancelItem :: "time \<Rightarrow> i64 \<Rightarrow> i64 \<Rightarrow> item market_act" where
  "CancelItem now actor iid =
    act_bind (on_ord (FindItem iid)) (\<lambda>i.
    act_bind (need (i_buyer i = actor \<or> i_seller i = actor) ErrItemNotFound) (\<lambda>_.
    cancelLine now i actor))"

fun abandon_each :: "time \<Rightarrow> item list \<Rightarrow> unit market_act" where
  "abandon_each now [] = ret ()"
| "abandon_each now (i # is) =
    act_bind (if \<not> item_Live i \<or> i_order i \<noteq> None then ret ()
              else best_effort (act_bind (CancelItem now (i_buyer i) (i_id i)) (\<lambda>_. ret ()))) (\<lambda>_.
    abandon_each now is)"

definition AbandonCheckout :: "time \<Rightarrow> i64 \<Rightarrow> unit market_act" where
  "AbandonCheckout now sid = act_bind (on_ord (ItemsByPaymentSession sid)) (abandon_each now)"

definition checkoutWindow :: duration where "checkoutWindow = 15 * 60 * 1000000000"

fun expire_each :: "time \<Rightarrow> item list \<Rightarrow> nat market_act" where
  "expire_each now [] = ret 0"
| "expire_each now (i # is) =
    act_bind (attempt (cancelLine now i (i_buyer i)) :: (market_err + item) market_act) (\<lambda>r.
    act_bind (expire_each now is) (\<lambda>n. ret (case r of Inr _ \<Rightarrow> Suc n | Inl _ \<Rightarrow> n)))"

definition ExpireCheckouts :: "time \<Rightarrow> nat \<Rightarrow> nat market_act" where
  "ExpireCheckouts now limit =
    act_bind (on_ord (UnpaidItems (now - checkoutWindow) limit)) (expire_each now)"

end
