(* ===== verification/OrderRefunds.thy ===== *)
theory OrderRefunds
  imports OrderService
begin

text \<open>
  The refund case (\<open>order/service_refund.go\<close> and the refund half of \<open>service_lifecycle.go\<close>), the
  bus subscriptions of \<open>order/fx.go\<close>, and the market as a transition system: \<open>market_call\<close> is
  every handler of the order module, \<open>market_steps\<close> any number of them in any order.
\<close>

section \<open>The parties' moves\<close>

definition refundTimers :: "refund \<Rightarrow> unit market_act" where
  "refundTimers r =
    act_bind (if r_deadline r \<noteq> None then emit (TimerRefundWindow (r_id r) (r_status r)) else ret ()) (\<lambda>_.
    if refund_Settled r then emit (TimerRefundResolved (r_order r) (r_status r = RefundAccepted)) else ret ())"

definition saveRefund :: "refund \<Rightarrow> refund_status \<Rightarrow> unit market_act" where
  "saveRefund r from = act_bind (on_ord (SaveRefund r from)) (\<lambda>_. refundTimers r)"

definition refundParty :: "i64 \<Rightarrow> i64 \<Rightarrow> (refund \<times> order) market_act" where
  "refundParty actor rid =
    act_bind (on_ord (FindRefund rid)) (\<lambda>r.
    act_bind (on_ord (FindOrder (r_order r))) (\<lambda>ord.
    act_bind (need (order_Involves ord actor) ErrRefundNotFound) (\<lambda>_.
    ret (r, ord))))"

definition GetRefund :: "i64 \<Rightarrow> i64 \<Rightarrow> refund market_act" where
  "GetRefund actor rid = act_bind (refundParty actor rid) (\<lambda>(r, _). ret r)"

definition CreateRefund ::
  "market_env \<Rightarrow> time \<Rightarrow> i64 \<Rightarrow> i64 \<Rightarrow> string \<Rightarrow> i64 list \<Rightarrow> refund market_act" where
  "CreateRefund E now actor oid reason attachments =
    act_bind (involved actor oid) (\<lambda>ord.
    act_bind (need (o_buyer ord = actor) ErrNotTheBuyer) (\<lambda>_.
    act_bind (need (\<not> order_Settled ord) ErrRefundNotDue) (\<lambda>_.
    act_bind (requireResources E attachments) (\<lambda>_.
    act_bind (decide (NewRefund (me_V E) now (o_id ord) (o_buyer ord) reason attachments)) (\<lambda>r.
    act_bind (on_ord (InsertRefund now r)) (\<lambda>made.
    act_bind (refundTimers made) (\<lambda>_.
    act_bind (emit (TimerRefundRaised (o_id ord))) (\<lambda>_.
    ret made))))))))"

definition WithdrawRefund :: "i64 \<Rightarrow> i64 \<Rightarrow> unit market_act" where
  "WithdrawRefund actor rid =
    act_bind (refundParty actor rid) (\<lambda>(r, ord).
    act_bind (need (r_buyer r = actor) ErrNotTheBuyer) (\<lambda>_.
    act_bind (decide (Withdraw r)) (\<lambda>r'.
    saveRefund r' (r_status r))))"

definition AddRefundAttachments :: "market_env \<Rightarrow> i64 \<Rightarrow> i64 \<Rightarrow> i64 list \<Rightarrow> refund market_act" where
  "AddRefundAttachments E actor rid attachments =
    act_bind (refundParty actor rid) (\<lambda>(r, ord).
    act_bind (need (r_buyer r = actor) ErrNotTheBuyer) (\<lambda>_.
    act_bind (requireResources E attachments) (\<lambda>_.
    act_bind (decide (AddAttachments attachments r)) (\<lambda>r'.
    act_bind (saveRefund r' (r_status r)) (\<lambda>_.
    ret r')))))"

definition openReturnLeg :: "time \<Rightarrow> refund \<Rightarrow> order \<Rightarrow> refund market_act" where
  "openReturnLeg now r ord =
    (if r_return_transport r \<noteq> None then ret r
     else
       act_bind (on_ord (FindTransport (o_transport ord))) (\<lambda>t.
       act_bind (on_ord (InsertTransport now (tr_option t) 0)) (\<lambda>tid.
       decide (StartReturn tid r))))"

definition AcceptRefund :: "time \<Rightarrow> i64 \<Rightarrow> i64 \<Rightarrow> refund market_act" where
  "AcceptRefund now actor rid =
    act_bind (refundParty actor rid) (\<lambda>(r, ord).
    act_bind (need (o_seller ord = actor) ErrNotTheSeller) (\<lambda>_.
    act_bind (need (\<not> order_Settled ord) ErrOrderSettled) (\<lambda>_.
    act_bind (decide (Accept now r)) (\<lambda>r1.
    act_bind (openReturnLeg now r1 ord) (\<lambda>r2.
    act_bind (saveRefund r2 (r_status r)) (\<lambda>_.
    ret r2))))))"

definition EscalationUnanswered :: string where "EscalationUnanswered = ''seller-unanswered''"
definition EscalationReturnClaimed :: string where "EscalationReturnClaimed = ''return-claimed-by-buyer''"

definition AdvanceReturnShipment :: "time \<Rightarrow> i64 \<Rightarrow> i64 \<Rightarrow> string \<Rightarrow> refund market_act" where
  "AdvanceReturnShipment now actor rid status =
    act_bind (refundParty actor rid) (\<lambda>(r, ord).
    act_bind (of_option (OrderErr ErrNoReturnLeg) (r_return_transport r)) (\<lambda>leg_id.
    act_bind (need (\<not> order_Settled ord) ErrOrderSettled) (\<lambda>_.
    act_bind (advanceLeg leg_id status) (\<lambda>leg.
    if \<not> Delivered leg then ret r
    else
      (let byBuyer = (o_buyer ord = actor)
       in act_bind (decide (if byBuyer then ClaimReturned now r else MarkReturned now r)) (\<lambda>r'.
          act_bind (saveRefund r' (r_status r)) (\<lambda>_.
          act_bind (if byBuyer then publishRefundEscalated r' ord EscalationReturnClaimed else ret ()) (\<lambda>_.
          ret r'))))))))"

definition EscalateRefund :: "time \<Rightarrow> i64 \<Rightarrow> i64 \<Rightarrow> refund market_act" where
  "EscalateRefund now actor oid =
    act_bind (involved actor oid) (\<lambda>ord.
    act_bind (on_ord (LiveRefundOnOrder (o_id ord))) (\<lambda>r.
    if r_status r = RefundDisputed then ret r
    else
      act_bind (need (\<not> order_Settled ord) ErrOrderSettled) (\<lambda>_.
      act_bind (if r_status r = RefundAwaitingSeller \<or> r_status r = RefundReturned
                then need (o_seller ord = actor) ErrNotTheSeller
                else refuse ErrRefundNotEscalatable) (\<lambda>_.
      act_bind (decide (Escalate now r)) (\<lambda>r'.
      act_bind (saveRefund r' (r_status r)) (\<lambda>_.
      ret r'))))))"

section \<open>The verdict and the clocks\<close>

definition settleRefund :: "market_env \<Rightarrow> time \<Rightarrow> refund \<Rightarrow> order \<Rightarrow> refund_status \<Rightarrow> unit market_act" where
  "settleRefund E now r ord from =
    act_bind (refundEscrow E ord 0) (\<lambda>_.
    act_bind (decide (order_Cancel now False ord)) (\<lambda>closed.
    act_bind (on_ord (SaveRefundOutcome r (Some closed) from)) (\<lambda>_.
    act_bind (publishSettled closed False) (\<lambda>_.
    act_bind (uncommitOrderStock closed) (\<lambda>_.
    emit (TimerRefundResolved (o_id closed) True))))))"

definition publishResolved :: "refund \<Rightarrow> order \<Rightarrow> i64 \<Rightarrow> bool \<Rightarrow> string \<Rightarrow> unit market_act" where
  "publishResolved r ord moderator buyerWins note =
    emit (FactRefundResolved (r_id r) (o_id ord) (o_buyer ord) (o_seller ord) moderator buyerWins note)"

definition AdminResolveRefund ::
  "market_env \<Rightarrow> time \<Rightarrow> i64 \<Rightarrow> i64 \<Rightarrow> bool \<Rightarrow> string \<Rightarrow> refund market_act" where
  "AdminResolveRefund E now actor rid buyerWins note =
    act_bind (requireModerator E actor) (\<lambda>_.
    act_bind (on_ord (FindRefund rid)) (\<lambda>r.
    act_bind (on_ord (FindOrder (r_order r))) (\<lambda>ord.
    act_bind (need (\<not> order_Settled ord) ErrOrderSettled) (\<lambda>_.
    act_bind (decide (Resolve buyerWins r)) (\<lambda>r1.
    act_bind (if r_status r1 = RefundReturning then openReturnLeg now r1 ord else ret r1) (\<lambda>r2.
    act_bind (if r_status r2 = RefundAccepted then settleRefund E now r2 ord RefundDisputed
              else act_bind (on_ord (SaveRefundOutcome r2 None RefundDisputed)) (\<lambda>_. refundTimers r2)) (\<lambda>_.
    act_bind (publishResolved r2 ord actor buyerWins note) (\<lambda>_.
    ret r2))))))))"

definition advanceRefund :: "market_env \<Rightarrow> time \<Rightarrow> refund \<Rightarrow> bool market_act" where
  "advanceRefund E now r =
    (if refund_Settled r \<or> (case r_deadline r of None \<Rightarrow> True | Some due \<Rightarrow> now < due) then ret False
     else
       act_bind (on_ord (FindOrder (r_order r))) (\<lambda>ord.
       if order_Settled ord then ret False
       else if r_status r = RefundAwaitingSeller then
         (case EscalateUnanswered r of
            Inl _ \<Rightarrow> ret False
          | Inr r' \<Rightarrow>
              act_bind (attempt (saveRefund r' (r_status r)) :: (market_err + unit) market_act) (\<lambda>res. case res of
                Inl _ \<Rightarrow> ret False
              | Inr _ \<Rightarrow> act_bind (publishRefundEscalated r' ord EscalationUnanswered) (\<lambda>_. ret True)))
       else if r_status r = RefundReturned then
         (case refund_Settle r of
            Inl _ \<Rightarrow> ret False
          | Inr r' \<Rightarrow>
              act_bind (attempt (settleRefund E now r' ord (r_status r)) :: (market_err + unit) market_act) (\<lambda>res. case res of
                Inl e \<Rightarrow> if e = OrderErr ErrRefundSettled then ret False else fail e
              | Inr _ \<Rightarrow> ret True))
       else ret False))"

definition AdvanceRefund :: "market_env \<Rightarrow> time \<Rightarrow> i64 \<Rightarrow> unit market_act" where
  "AdvanceRefund E now rid =
    act_bind (on_ord (FindRefund rid)) (\<lambda>r. act_bind (advanceRefund E now r) (\<lambda>_. ret ()))"

fun advance_each :: "market_env \<Rightarrow> time \<Rightarrow> refund list \<Rightarrow> nat market_act" where
  "advance_each E now [] = ret 0"
| "advance_each E now (r # rs) =
    act_bind (on_ord (FindRefund (r_id r))) (\<lambda>fresh.
    act_bind (advanceRefund E now fresh) (\<lambda>moved.
    act_bind (advance_each E now rs) (\<lambda>n. ret (if moved then Suc n else n))))"

definition AdvanceOverdueRefunds :: "market_env \<Rightarrow> time \<Rightarrow> nat \<Rightarrow> nat market_act" where
  "AdvanceOverdueRefunds E now limit = act_bind (on_ord (OverdueRefunds now limit)) (advance_each E now)"

section \<open>The bus\<close>

definition SubscribePaidSessions :: "market_env \<Rightarrow> time \<Rightarrow> fin_event \<Rightarrow> unit market_act" where
  "SubscribePaidSessions E now ev =
    (case ev of
       SessionPaid sid kind _ _ _ _ _ \<Rightarrow>
         if kind \<noteq> KindBuyerCheckout then ret () else SettlePaidSession E now sid
     | _ \<Rightarrow> ret ())"

definition SubscribeCancelledSessions :: "time \<Rightarrow> fin_event \<Rightarrow> unit market_act" where
  "SubscribeCancelledSessions now ev =
    (case ev of
       SessionCancelled sid kind _ _ \<Rightarrow>
         if kind \<noteq> KindBuyerCheckout then ret () else AbandonCheckout now sid
     | _ \<Rightarrow> ret ())"

section \<open>The module as a transition system\<close>

datatype market_op =
    OpPaid fin_event
  | OpCancelled fin_event
  | OpConfirmOrder i64 i64
  | OpDeclineOrder i64 i64 string
  | OpCancelOrder i64 i64
  | OpConfirmReceipt i64 i64 "i64 list"
  | OpAdvanceShipment i64 i64 string
  | OpCheckpoint string string
  | OpRetryBookings nat
  | OpEscalateOrder i64
  | OpEscalateOrders nat
  | OpReleasePayout i64
  | OpReleaseDue nat
  | OpRetryPayouts nat
  | OpCancelItem i64 i64
  | OpExpireCheckouts nat
  | OpCreateRefund i64 i64 string "i64 list"
  | OpWithdrawRefund i64 i64
  | OpAddEvidence i64 i64 "i64 list"
  | OpAcceptRefund i64 i64
  | OpAdvanceReturn i64 i64 string
  | OpEscalateRefund i64 i64
  | OpResolveRefund i64 i64 bool string
  | OpAdvanceRefund i64
  | OpAdvanceOverdue nat

definition void :: "'a market_act \<Rightarrow> unit market_act" where
  "void m = act_bind m (\<lambda>_. ret ())"

fun market_call :: "market_env \<Rightarrow> time \<Rightarrow> market_op \<Rightarrow> unit market_act" where
  "market_call E now (OpPaid ev) = SubscribePaidSessions E now ev"
| "market_call E now (OpCancelled ev) = SubscribeCancelledSessions now ev"
| "market_call E now (OpConfirmOrder a oid) = void (ConfirmOrder E now a oid)"
| "market_call E now (OpDeclineOrder a oid reason) = void (DeclineOrder E now a oid reason)"
| "market_call E now (OpCancelOrder a oid) = void (CancelOrder E now a oid)"
| "market_call E now (OpConfirmReceipt a oid ks) = void (ConfirmReceipt E now a oid ks)"
| "market_call E now (OpAdvanceShipment a oid st) = void (AdvanceShipment E a oid st)"
| "market_call E now (OpCheckpoint ref st) = RecordCarrierCheckpoint E ref st"
| "market_call E now (OpRetryBookings n) = void (RetryUnbookedShipments E now n)"
| "market_call E now (OpEscalateOrder oid) = EscalateUnconfirmedOrder now oid"
| "market_call E now (OpEscalateOrders n) = void (EscalateUnconfirmedOrders now n)"
| "market_call E now (OpReleasePayout oid) = ReleasePayout E now oid"
| "market_call E now (OpReleaseDue n) = void (ReleaseDuePayouts E now n)"
| "market_call E now (OpRetryPayouts n) = void (RetryClaimedPayouts E now n)"
| "market_call E now (OpCancelItem a iid) = void (CancelItem now a iid)"
| "market_call E now (OpExpireCheckouts n) = void (ExpireCheckouts now n)"
| "market_call E now (OpCreateRefund a oid reason ks) = void (CreateRefund E now a oid reason ks)"
| "market_call E now (OpWithdrawRefund a rid) = WithdrawRefund a rid"
| "market_call E now (OpAddEvidence a rid ks) = void (AddRefundAttachments E a rid ks)"
| "market_call E now (OpAcceptRefund a rid) = void (AcceptRefund now a rid)"
| "market_call E now (OpAdvanceReturn a rid st) = void (AdvanceReturnShipment now a rid st)"
| "market_call E now (OpEscalateRefund a oid) = void (EscalateRefund now a oid)"
| "market_call E now (OpResolveRefund a rid wins note) = void (AdminResolveRefund E now a rid wins note)"
| "market_call E now (OpAdvanceRefund rid) = AdvanceRefund E now rid"
| "market_call E now (OpAdvanceOverdue n) = void (AdvanceOverdueRefunds E now n)"

inductive market_steps :: "market_env \<Rightarrow> market \<Rightarrow> market \<Rightarrow> bool" for E where
  no_handler: "market_steps E m m"
| one_handler: "market_steps E m m' \<Longrightarrow> market_call E now op m' = (m'', r) \<Longrightarrow> market_steps E m m''"

inductive_cases market_stepsE: "market_steps E m m'"

end
