(* ===== verification/OrderSale.thy ===== *)
theory OrderSale
  imports OrderShop OrderRefunds
begin

text \<open>
  What comes before the money (\<open>order/service_cart.go\<close>, \<open>service_draft.go\<close>, \<open>service_offer.go\<close>): saved
  intentions, the purchase session that freezes a listing's terms, the negotiation that freezes agreed ones, and
  the checkout either ends in, which reserves stock and opens a payment session. The state is the market with
  the tables of OrderShop beside it and a log of what these handlers send: chat cards, pushes to a party's
  socket, published facts and timers, all best-effort in the program.

  What catalog, account, chat and the couriers answer is the record \<open>sale_env\<close>. A handler answers the entity,
  not the DTO it is copied into; the reads a DTO needs are kept where their failure changes what happens.
\<close>

section \<open>The state\<close>

datatype sale_out =
    CardPosted i64 string
  | OfferPushed i64 i64
  | FactOfferChanged i64 i64 string string i64 string
  | TimerStartOffer i64
  | TimerStartCheckout i64

record sale =
  sa_market :: market
  sa_shop :: shop_db
  sa_out :: "sale_out list"

type_synonym 'a sale_act = "(sale, market_err, 'a) act"

record listing_view =
  lv_id :: i64
  lv_seller :: i64
  lv_name :: string
  lv_currency :: string
  lv_price_mode :: string
  lv_active :: bool
  lv_deleted :: bool
  lv_variants :: "variant_snapshot list"

record quote_req =
  qr_items :: "(i64 \<times> i64 \<times> string) list"
  qr_from :: string
  qr_to :: string
  qr_option :: string

record carrier =
  ca_id :: string
  ca_name :: string
  ca_provider :: string

record sale_env =
  se_market :: market_env
  se_variant_page :: "i64 \<Rightarrow> i64 \<Rightarrow> string + i64 option"
  se_listing :: "i64 \<Rightarrow> i64 \<Rightarrow> string + listing_view"
  se_cards :: "i64 \<Rightarrow> i64 list \<Rightarrow> string + (i64 \<times> string \<times> string) list"
  se_summary :: "i64 \<Rightarrow> string + unit"
  se_contact :: "i64 \<Rightarrow> i64 \<Rightarrow> string + address"
  se_delivery :: "i64 \<Rightarrow> string + address \<times> i64"
  se_carriers :: "string + carrier list"
  se_client :: "string \<Rightarrow> (quote_req \<Rightarrow> string + i64) option"
  se_context :: "origin \<Rightarrow> i64 \<Rightarrow> string"

definition on_market :: "'a market_act \<Rightarrow> 'a sale_act" where
  "on_market = zoom sa_market (\<lambda>d s. s\<lparr>sa_market := d\<rparr>) id"

definition on_shop :: "'a shop_act \<Rightarrow> 'a sale_act" where
  "on_shop = zoom sa_shop (\<lambda>d s. s\<lparr>sa_shop := d\<rparr>) OrderErr"

definition tell :: "sale_out \<Rightarrow> unit sale_act" where
  "tell x = modify (\<lambda>s. s\<lparr>sa_out := sa_out s @ [x]\<rparr>)"

definition asks :: "string + 'a \<Rightarrow> 'a sale_act" where
  "asks r = (case r of Inl e \<Rightarrow> fail (OrderErr (OrdOutside e)) | Inr x \<Rightarrow> ret x)"

definition must :: "bool \<Rightarrow> order_err \<Rightarrow> unit sale_act" where
  "must c e = ensure c (OrderErr e)"

definition deny :: "order_err \<Rightarrow> 'a sale_act" where
  "deny e = fail (OrderErr e)"

definition decides :: "order_err + 'a \<Rightarrow> 'a sale_act" where
  "decides r = map_err OrderErr (of_sum r)"

definition se_V :: "sale_env \<Rightarrow> validator" where
  "se_V E = me_V (se_market E)"

section \<open>What the service asks elsewhere\<close>

definition ForSale :: "listing_view \<Rightarrow> bool" where
  "ForSale l \<longleftrightarrow> lv_active l \<and> \<not> lv_deleted l"

definition variantOf :: "sale_env \<Rightarrow> i64 \<Rightarrow> i64 \<Rightarrow> (listing_view \<times> variant_snapshot) sale_act" where
  "variantOf E viewer variant =
    act_bind (asks (se_variant_page E viewer variant)) (\<lambda>first. case first of
      None \<Rightarrow> deny ErrVariantNotInDraft
    | Some lid \<Rightarrow>
        act_bind (asks (se_listing E viewer lid)) (\<lambda>l.
        act_bind (must (ForSale l) ErrListingNotForSale) (\<lambda>_.
        case find (\<lambda>v. vs_variant v = variant) (lv_variants l) of
          None \<Rightarrow> deny ErrVariantNotInDraft
        | Some v \<Rightarrow> ret (l, v))))"

definition clientFor :: "sale_env \<Rightarrow> carrier \<Rightarrow> (quote_req \<Rightarrow> string + i64) sale_act" where
  "clientFor E c = (case se_client E (ca_provider c) of None \<Rightarrow> deny ErrOptionProviderUnknown | Some q \<Rightarrow> ret q)"

definition courier :: "sale_env \<Rightarrow> string \<Rightarrow> (quote_req \<Rightarrow> string + i64) sale_act" where
  "courier E slug =
    act_bind (asks (se_carriers E)) (\<lambda>options.
    case find (\<lambda>c. ca_id c = slug) options of
      None \<Rightarrow> deny ErrCarrierUnknown
    | Some c \<Rightarrow> clientFor E c)"

definition contactSnapshot :: "sale_env \<Rightarrow> i64 \<Rightarrow> i64 \<Rightarrow> address sale_act" where
  "contactSnapshot E actor contact = asks (se_contact E actor contact)"

definition deliverySnapshot :: "sale_env \<Rightarrow> i64 \<Rightarrow> i64 \<Rightarrow> (address \<times> i64) sale_act" where
  "deliverySnapshot E actor contact =
    (if contact \<noteq> 0 then act_bind (contactSnapshot E actor contact) (\<lambda>a. ret (a, contact))
     else asks (se_delivery E actor))"

definition quoteCarrier ::
  "(quote_req \<Rightarrow> string + i64) \<Rightarrow> string \<Rightarrow> address \<Rightarrow> address \<Rightarrow> (i64 \<times> i64 \<times> string) list \<Rightarrow> i64 sale_act" where
  "quoteCarrier client opt from to lines =
    act_bind (asks (client \<lparr>qr_items = lines, qr_from = addressLine from, qr_to = addressLine to, qr_option = opt\<rparr>)) (\<lambda>cost.
    act_bind (must (0 \<le> sint cost) ErrShippingQuoteInvalid) (\<lambda>_. ret cost))"

definition quoteShipping ::
  "sale_env \<Rightarrow> string \<Rightarrow> i64 \<Rightarrow> address \<Rightarrow> (i64 \<times> i64 \<times> string) list \<Rightarrow> i64 sale_act" where
  "quoteShipping E opt seller to lines =
    act_bind (on_market (pickupSnapshot (se_market E) seller)) (\<lambda>pickup.
    act_bind (courier E opt) (\<lambda>client.
    quoteCarrier client opt pickup to lines))"

section \<open>The cart\<close>

definition AddCartItem :: "sale_env \<Rightarrow> time \<Rightarrow> i64 \<Rightarrow> i64 \<Rightarrow> i64 \<Rightarrow> cart_item sale_act" where
  "AddCartItem E now actor variant quantity =
    act_bind (variantOf E actor variant) (\<lambda>(l, _).
    act_bind (must (lv_seller l \<noteq> actor) ErrSelfPurchase) (\<lambda>_.
    act_bind (decides (NewCartItem (se_V E) actor (lv_id l) variant quantity)) (\<lambda>c.
    on_shop (UpsertCartItem now c))))"

definition UpdateCartItem :: "i64 \<Rightarrow> i64 \<Rightarrow> i64 \<Rightarrow> cart_item sale_act" where
  "UpdateCartItem actor cid quantity =
    act_bind (on_shop (FindCartItem cid actor)) (\<lambda>c.
    act_bind (decides (SetQuantity quantity c)) (\<lambda>c'.
    act_bind (on_shop (SaveCartItem c')) (\<lambda>_. ret c')))"

definition DeleteCartItem :: "i64 \<Rightarrow> i64 \<Rightarrow> unit sale_act" where
  "DeleteCartItem actor cid = on_shop (repo_DeleteCartItem cid actor)"

definition ListCartItems :: "i64 \<Rightarrow> cart_item list sale_act" where
  "ListCartItems actor = on_shop (repo_ListCartItems actor)"

section \<open>Purchase sessions\<close>

definition draftWindow :: duration where "draftWindow = 30 * 60 * 1000000000"
definition offerWindow :: duration where "offerWindow = hours 12"
definition acceptedWindow :: duration where "acceptedWindow = 30 * 60 * 1000000000"

definition CreateDraft :: "sale_env \<Rightarrow> time \<Rightarrow> i64 \<Rightarrow> i64 \<Rightarrow> draft sale_act" where
  "CreateDraft E now actor lid =
    act_bind (asks (se_listing E actor lid)) (\<lambda>l.
    act_bind (must (ForSale l) ErrListingNotForSale) (\<lambda>_.
    (let snapshot = \<lparr>ls_listing = lv_id l, ls_seller = lv_seller l, ls_name = lv_name l, ls_currency = lv_currency l,
                     ls_price_mode = lv_price_mode l, ls_variants = lv_variants l\<rparr>
     in act_bind (decides (NewDraft (se_V E) now actor snapshot draftWindow)) (\<lambda>d.
        on_shop (InsertDraft now d)))))"

definition ListDrafts :: "i64 \<Rightarrow> string \<Rightarrow> nat \<Rightarrow> shop_db \<Rightarrow> (draft list \<times> cursor_info) option" where
  "ListDrafts actor cursor limit db =
    (case cursorFilter cursor limit of
       None \<Rightarrow> None
     | Some f \<Rightarrow> (case repo_ListDrafts actor f db of
           (_, Inl _) \<Rightarrow> None
         | (_, Inr rows) \<Rightarrow> Some (page limit (\<lambda>d. (dr_created_at d, dr_id d)) rows)))"

definition GetDraft :: "i64 \<Rightarrow> i64 \<Rightarrow> draft sale_act" where
  "GetDraft actor did = on_shop (FindDraft did actor)"

definition CancelDraft :: "time \<Rightarrow> i64 \<Rightarrow> i64 \<Rightarrow> unit sale_act" where
  "CancelDraft now actor did =
    act_bind (on_shop (FindDraft did actor)) (\<lambda>d.
    act_bind (decides (draft_Cancel now d)) (\<lambda>d'.
    on_shop (SaveDraft d')))"

section \<open>Checkout\<close>

text \<open>A reservation handed back: a release that fails is logged and the next one tried.\<close>

fun release_reserved :: "(i64 \<times> i64) list \<Rightarrow> unit sale_act" where
  "release_reserved [] = ret ()"
| "release_reserved ((v, n) # rest) =
    act_bind (attempt (on_market (on_shelf (ReleaseStock v n))) :: (market_err + unit) sale_act) (\<lambda>_. release_reserved rest)"

text \<open>\<open>release(); return err\<close>, with \<open>undo\<close> for what the handler gives back.\<close>

definition or_undo :: "unit sale_act \<Rightarrow> 'a sale_act \<Rightarrow> 'a sale_act" where
  "or_undo undo m = act_bind (attempt m :: (market_err + 'a) sale_act) (\<lambda>r. case r of
     Inr x \<Rightarrow> ret x
   | Inl e \<Rightarrow> act_bind undo (\<lambda>_. fail e))"

record checkout_out =
  co_lines :: "item list"
  co_session :: session
  co_fee :: i64

definition GoodsTotal :: "checkout_out \<Rightarrow> i64" where
  "GoodsTotal c = s_total (co_session c) - co_fee c"

text \<open>
  The loop over the asked lines: a frozen price, a reservation, an item; the amounts multiply and add as
  int64s do.
\<close>

fun checkout_lines ::
  "sale_env \<Rightarrow> (i64 \<Rightarrow> i64 \<Rightarrow> i64 \<Rightarrow> new_line) \<Rightarrow> draft \<Rightarrow> (i64 \<times> i64) list \<Rightarrow> item list \<Rightarrow> i64
    \<Rightarrow> (i64 \<times> i64) list \<Rightarrow> ((i64 \<times> i64) list \<times> item list \<times> i64) sale_act" where
  "checkout_lines E line d reserved items amounts [] = ret (reserved, items, amounts)"
| "checkout_lines E line d reserved items amounts ((v, n) # rest) =
    act_bind (or_undo (release_reserved reserved) (decides (draft_Variant d v))) (\<lambda>frozen.
    act_bind (or_undo (release_reserved reserved) (on_market (on_shelf (ReserveStock v n)))) (\<lambda>_.
    (let reserved' = reserved @ [(v, n)]; amount = vs_price frozen * n
     in act_bind (or_undo (release_reserved reserved') (decides (NewItem (se_V E) (line v n amount)))) (\<lambda>i.
        checkout_lines E line d reserved' (items @ [i]) (amounts + amount) rest))))"

definition shippingLines :: "draft \<Rightarrow> (i64 \<times> i64) list \<Rightarrow> (i64 \<times> i64 \<times> string) list" where
  "shippingLines d lines =
    List.map_filter (\<lambda>(v, n). case draft_Variant d v of Inl _ \<Rightarrow> None | Inr frozen \<Rightarrow> Some (v, n, vs_package frozen)) lines"

text \<open>
  The end both checkouts share: delivery is priced, the session is opened for goods and delivery, and the lines are
  written under it; whatever fails is answered after \<open>undo\<close>.
\<close>

definition collect ::
  "sale_env \<Rightarrow> time \<Rightarrow> unit sale_act \<Rightarrow> i64 sale_act \<Rightarrow> (i64 \<Rightarrow> checkout_req) \<Rightarrow> item list \<Rightarrow> checkout_out sale_act" where
  "collect E now undo quote req lines =
    act_bind (or_undo undo quote) (\<lambda>fee.
    act_bind (or_undo undo (on_market (on_fin (OpenCheckout (me_fin (se_market E)) now (req fee))))) (\<lambda>(session, _).
    act_bind (or_undo undo (on_market (on_ord (InsertItems now (map (\<lambda>i. i\<lparr>i_session := s_id session\<rparr>) lines))))) (\<lambda>rows.
    ret \<lparr>co_lines = rows, co_session = session, co_fee = fee\<rparr>)))"

definition Checkout ::
  "sale_env \<Rightarrow> time \<Rightarrow> i64 \<Rightarrow> i64 \<Rightarrow> (i64 \<times> i64) list \<Rightarrow> i64 \<Rightarrow> string \<Rightarrow> string \<Rightarrow> string \<Rightarrow> checkout_out sale_act" where
  "Checkout E now actor did lines contact opt currency note =
    act_bind (on_shop (FindDraft did actor)) (\<lambda>d.
    act_bind (if draft_Live d now then ret () else deny (if dr_cancelled_at d \<noteq> None then ErrDraftSettled else ErrDraftExpired)) (\<lambda>_.
    act_bind (must (ls_currency (dr_snapshot d) = currency) ErrCurrencyMismatch) (\<lambda>_.
    act_bind (must (dr_buyer d \<noteq> ls_seller (dr_snapshot d)) ErrSelfPurchase) (\<lambda>_.
    act_bind (asks (se_listing E actor (dr_listing d))) (\<lambda>l.
    act_bind (must (ForSale l) ErrListingNotForSale) (\<lambda>_.
    act_bind (courier E opt) (\<lambda>_.
    act_bind (contactSnapshot E actor contact) (\<lambda>addr.
    act_bind (decides (draft_Cancel now d)) (\<lambda>d'.
    act_bind (on_shop (SaveDraft d')) (\<lambda>_.
    (let line = (\<lambda>v n amount. \<lparr>nl_origin = FromDraft (dr_id d), nl_buyer = actor, nl_seller = ls_seller (dr_snapshot d),
                   nl_listing = dr_listing d, nl_variant = v, nl_address = addr, nl_note = note,
                   nl_currency = currency, nl_quantity = n, nl_option = opt, nl_total = amount\<rparr>)
     in act_bind (checkout_lines E line d' [] [] 0 lines) (\<lambda>(reserved, items, goods).
        act_bind (collect E now (release_reserved reserved)
          (quoteShipping E opt (ls_seller (dr_snapshot d)) addr (shippingLines d lines))
          (\<lambda>fee. \<lparr>cq_buyer = actor, cq_seller = ls_seller (dr_snapshot d), cq_currency = currency, cq_total = goods + fee,
             cq_note = ls_name (dr_snapshot d), cq_data = se_context E (FromDraft (dr_id d)) fee\<rparr>) items) (\<lambda>out.
        act_bind (tell (TimerStartCheckout (s_id (co_session out)))) (\<lambda>_.
        act_bind (on_shop (DeleteCartItemsByVariants actor (map fst lines))) (\<lambda>_.
        ret out)))))))))))))))"

section \<open>Negotiations\<close>

definition cardOfferOpened :: string where "cardOfferOpened = ''offer opened''"
definition cardOfferRevised :: string where "cardOfferRevised = ''offer revised''"
definition cardOfferWithdrawn :: string where "cardOfferWithdrawn = ''offer withdrawn''"
definition cardOfferAccepted :: string where "cardOfferAccepted = ''offer accepted''"
definition cardOfferExpired :: string where "cardOfferExpired = ''offer expired''"

definition offer_party :: "i64 \<Rightarrow> i64 \<Rightarrow> offer sale_act" where
  "offer_party actor fid =
    act_bind (on_shop (FindOffer fid)) (\<lambda>f.
    act_bind (must (offer_Involves f actor) ErrOfferNotFound) (\<lambda>_. ret f))"

definition postOfferCard :: "offer \<Rightarrow> string \<Rightarrow> unit sale_act" where
  "postOfferCard f body = tell (CardPosted (f_id f) body)"

definition notifyOfferUpdated :: "offer \<Rightarrow> unit sale_act" where
  "notifyOfferUpdated f =
    act_bind (tell (OfferPushed (f_buyer f) (f_id f))) (\<lambda>_. tell (OfferPushed (f_seller f) (f_id f)))"

text \<open>The listing's name and currency, empty where the catalog page lacks the row, and the other side's account.\<close>

definition offerDTO :: "sale_env \<Rightarrow> i64 \<Rightarrow> offer \<Rightarrow> (string \<times> string) sale_act" where
  "offerDTO E viewer f =
    act_bind (asks (se_cards E viewer [f_listing f])) (\<lambda>cards.
    act_bind (asks (se_summary E (if f_seller f = viewer then f_buyer f else f_seller f))) (\<lambda>_.
    ret (case map_of (rev cards) (f_listing f) of None \<Rightarrow> ([], []) | Some shown \<Rightarrow> shown)))"

definition announceOfferChanged :: "offer \<Rightarrow> string \<times> string \<Rightarrow> i64 \<Rightarrow> string \<Rightarrow> unit sale_act" where
  "announceOfferChanged f dto actor change =
    tell (FactOfferChanged (f_id f) actor change (fst dto) (f_total f) (snd dto))"

definition CreateOffer :: "sale_env \<Rightarrow> time \<Rightarrow> i64 \<Rightarrow> i64 \<Rightarrow> i64 \<Rightarrow> i64 \<Rightarrow> string \<Rightarrow> offer sale_act" where
  "CreateOffer E now actor variant quantity amount reason =
    act_bind (variantOf E actor variant) (\<lambda>(l, v).
    act_bind (must (lv_price_mode l = ''negotiable'') ErrFixedPriceListing) (\<lambda>_.
    act_bind (must (actor \<noteq> lv_seller l) ErrSellerCannotOffer) (\<lambda>_.
    act_bind (decides (NewOffer (se_V E) now
      \<lparr>nt_listing = lv_id l, nt_variant = variant, nt_buyer = actor, nt_seller = lv_seller l, nt_quantity = quantity,
       nt_total = amount, nt_reason = reason, nt_unit_price = vs_price v\<rparr> offerWindow)) (\<lambda>f.
    act_bind (on_shop (InsertOffer now f)) (\<lambda>f'.
    act_bind (postOfferCard f' cardOfferOpened) (\<lambda>_.
    act_bind (tell (TimerStartOffer (f_id f'))) (\<lambda>_.
    act_bind (offerDTO E actor f') (\<lambda>_. ret f'))))))))"

definition GetOffer :: "sale_env \<Rightarrow> i64 \<Rightarrow> i64 \<Rightarrow> offer sale_act" where
  "GetOffer E actor fid = act_bind (offer_party actor fid) (\<lambda>f. act_bind (offerDTO E actor f) (\<lambda>_. ret f))"

definition CounterOffer :: "sale_env \<Rightarrow> time \<Rightarrow> i64 \<Rightarrow> i64 \<Rightarrow> i64 \<Rightarrow> i64 \<Rightarrow> string \<Rightarrow> offer sale_act" where
  "CounterOffer E now actor fid quantity amount reason =
    act_bind (offer_party actor fid) (\<lambda>f.
    act_bind (variantOf E actor (f_variant f)) (\<lambda>(_, v).
    act_bind (decides (Counter actor quantity amount (vs_price v) reason now offerWindow f)) (\<lambda>f'.
    act_bind (on_shop (SaveOffer f' [OfferActive])) (\<lambda>_.
    act_bind (postOfferCard f' cardOfferRevised) (\<lambda>_.
    act_bind (offerDTO E actor f') (\<lambda>dto.
    act_bind (notifyOfferUpdated f') (\<lambda>_.
    act_bind (announceOfferChanged f' dto actor ''countered'') (\<lambda>_. ret f'))))))))"

definition CancelOffer :: "sale_env \<Rightarrow> i64 \<Rightarrow> i64 \<Rightarrow> unit sale_act" where
  "CancelOffer E actor fid =
    act_bind (offer_party actor fid) (\<lambda>f.
    act_bind (decides (offer_Cancel actor f)) (\<lambda>f'.
    act_bind (on_shop (SaveOffer f' [OfferActive])) (\<lambda>_.
    act_bind (postOfferCard f' cardOfferWithdrawn) (\<lambda>_.
    act_bind (attempt (offerDTO E actor f') :: (market_err + string \<times> string) sale_act) (\<lambda>r. case r of
      Inl _ \<Rightarrow> ret ()
    | Inr dto \<Rightarrow> act_bind (notifyOfferUpdated f') (\<lambda>_. announceOfferChanged f' dto actor ''withdrawn''))))))"

definition AcceptOffer :: "sale_env \<Rightarrow> time \<Rightarrow> i64 \<Rightarrow> i64 \<Rightarrow> offer sale_act" where
  "AcceptOffer E now actor fid =
    act_bind (offer_party actor fid) (\<lambda>f.
    act_bind (decides (offer_Accept actor now acceptedWindow f)) (\<lambda>f'.
    act_bind (on_shop (SaveOffer f' [OfferActive])) (\<lambda>_.
    act_bind (postOfferCard f' cardOfferAccepted) (\<lambda>_.
    act_bind (tell (TimerStartOffer (f_id f'))) (\<lambda>_.
    act_bind (offerDTO E actor f') (\<lambda>dto.
    act_bind (notifyOfferUpdated f') (\<lambda>_.
    act_bind (announceOfferChanged f' dto actor ''accepted'') (\<lambda>_. ret f'))))))))"

definition ListOffers :: "i64 \<Rightarrow> offer_status option \<Rightarrow> string \<Rightarrow> nat \<Rightarrow> shop_db \<Rightarrow> (offer list \<times> cursor_info) option" where
  "ListOffers actor st cursor limit db =
    (case cursorFilter cursor limit of
       None \<Rightarrow> None
     | Some flt \<Rightarrow> (case repo_ListOffers actor st flt db of
           (_, Inl _) \<Rightarrow> None
         | (_, Inr rows) \<Rightarrow> Some (page limit (\<lambda>f. (f_created_at f, f_id f)) rows)))"

definition checkout_offer_fields :: "i64 \<Rightarrow> i64 \<Rightarrow> i64 \<Rightarrow> string \<Rightarrow> string \<Rightarrow> vfield list" where
  "checkout_offer_fields actor fid contact opt note =
    [([Required], VInt actor), ([Required], VInt fid), ([Required], VInt contact),
     ([Required, Max 100], VStr opt), ([Max 500], VStr note)]"

definition CheckoutOffer :: "sale_env \<Rightarrow> time \<Rightarrow> i64 \<Rightarrow> i64 \<Rightarrow> i64 \<Rightarrow> string \<Rightarrow> string \<Rightarrow> checkout_out sale_act" where
  "CheckoutOffer E now actor fid contact opt note =
    act_bind (must (struct_ok (se_V E) (checkout_offer_fields actor fid contact opt note)) OrdValidation) (\<lambda>_.
    act_bind (offer_party actor fid) (\<lambda>f.
    act_bind (case CheckoutBy actor now f of Some e \<Rightarrow> deny e | None \<Rightarrow> ret ()) (\<lambda>_.
    act_bind (variantOf E actor (f_variant f)) (\<lambda>(l, _).
    act_bind (courier E opt) (\<lambda>_.
    act_bind (contactSnapshot E actor contact) (\<lambda>addr.
    act_bind (on_shop (ClaimOfferCheckout (f_id f) now)) (\<lambda>_.
    (let unclaim = on_shop (ReleaseOfferCheckout (f_id f));
         release = act_bind unclaim (\<lambda>_. release_reserved [(f_variant f, f_quantity f)])
     in act_bind (or_undo unclaim (on_market (on_shelf (ReserveStock (f_variant f) (f_quantity f))))) (\<lambda>_.
        act_bind (or_undo release (decides (NewItem (se_V E)
          \<lparr>nl_origin = FromOffer (f_id f), nl_buyer = f_buyer f, nl_seller = f_seller f, nl_listing = f_listing f,
           nl_variant = f_variant f, nl_address = addr, nl_note = note, nl_currency = lv_currency l,
           nl_quantity = f_quantity f, nl_option = opt, nl_total = f_total f\<rparr>))) (\<lambda>i.
        act_bind (collect E now release
          (quoteShipping E opt (f_seller f) addr [(f_variant f, f_quantity f, [])])
          (\<lambda>fee. \<lparr>cq_buyer = f_buyer f, cq_seller = f_seller f, cq_currency = lv_currency l, cq_total = f_total f + fee,
             cq_note = lv_name l, cq_data = se_context E (FromOffer (f_id f)) fee\<rparr>) [i]) (\<lambda>out.
        act_bind (on_shop (AttachOfferSession (f_id f) (s_id (co_session out)))) (\<lambda>_.
        act_bind (tell (TimerStartCheckout (s_id (co_session out)))) (\<lambda>_.
        act_bind (on_shop (DeleteCartItemsByVariants actor [f_variant f])) (\<lambda>_.
        ret out))))))))))))))"

section \<open>What delivery would cost\<close>

record shipping_quotes =
  sq_currency :: string
  sq_contact :: i64
  sq_options :: "(string \<times> string \<times> i64) list"

text \<open>A carrier that has no provider, or that declines, is left out of the list.\<close>

fun quote_each :: "sale_env \<Rightarrow> address \<Rightarrow> address \<Rightarrow> (i64 \<times> i64 \<times> string) list \<Rightarrow> carrier list \<Rightarrow> (string \<times> string \<times> i64) list sale_act" where
  "quote_each E from to lines [] = ret []"
| "quote_each E from to lines (c # cs) =
    act_bind (attempt (act_bind (clientFor E c) (\<lambda>client. quoteCarrier client (ca_id c) from to lines)) :: (market_err + i64) sale_act) (\<lambda>r.
    act_bind (quote_each E from to lines cs) (\<lambda>rest.
    ret (case r of Inl _ \<Rightarrow> rest | Inr fee \<Rightarrow> (ca_id c, ca_name c, fee) # rest)))"

definition quote_source ::
  "sale_env \<Rightarrow> time \<Rightarrow> i64 \<Rightarrow> i64 \<Rightarrow> i64 \<Rightarrow> i64 \<Rightarrow> i64 \<Rightarrow> (i64 \<times> i64) list
    \<Rightarrow> (i64 \<times> string \<times> (i64 \<times> i64 \<times> string) list) sale_act" where
  "quote_source E now actor variant did fid quantity lines =
    (if variant \<noteq> 0 then
       act_bind (variantOf E actor variant) (\<lambda>(l, _).
       ret (lv_seller l, lv_currency l, [(variant, if quantity = 0 then 1 else quantity, [])]))
     else if did \<noteq> 0 then
       act_bind (on_shop (FindDraft did actor)) (\<lambda>d.
       act_bind (must (draft_Live d now) ErrDraftExpired) (\<lambda>_.
       ret (ls_seller (dr_snapshot d), ls_currency (dr_snapshot d), shippingLines d lines)))
     else
       act_bind (offer_party actor fid) (\<lambda>f.
       act_bind (case CheckoutBy actor now f of Some e \<Rightarrow> deny e | None \<Rightarrow> ret ()) (\<lambda>_.
       act_bind (variantOf E actor (f_variant f)) (\<lambda>(l, _).
       ret (f_seller f, lv_currency l, [(f_variant f, f_quantity f, [])])))))"

definition shipping_quotes_ok :: "validator \<Rightarrow> i64 \<Rightarrow> i64 \<Rightarrow> (i64 \<times> i64) list \<Rightarrow> bool" where
  "shipping_quotes_ok V actor quantity lines \<longleftrightarrow>
    struct_ok V (([Required], VInt actor) # (if quantity = 0 then [] else [([Gt 0], VInt quantity)]))
    \<and> length lines \<le> 50
    \<and> list_all (\<lambda>(v, n). struct_ok V [([Required], VInt v), ([Required, Gt 0], VInt n)]) lines"

definition ShippingQuotes ::
  "sale_env \<Rightarrow> time \<Rightarrow> i64 \<Rightarrow> i64 \<Rightarrow> i64 \<Rightarrow> i64 \<Rightarrow> i64 \<Rightarrow> i64 \<Rightarrow> (i64 \<times> i64) list \<Rightarrow> shipping_quotes sale_act" where
  "ShippingQuotes E now actor variant did fid quantity contact lines =
    act_bind (must (shipping_quotes_ok (se_V E) actor quantity lines) OrdValidation) (\<lambda>_.
    act_bind (must (length (filter (\<lambda>x. x \<noteq> 0) [variant, did, fid]) = 1) ErrQuoteSourceInvalid) (\<lambda>_.
    act_bind (deliverySnapshot E actor contact) (\<lambda>(addr, contact').
    act_bind (quote_source E now actor variant did fid quantity lines) (\<lambda>(seller, currency, parcel).
    act_bind (must (parcel \<noteq> []) ErrCheckoutEmpty) (\<lambda>_.
    act_bind (asks (se_carriers E)) (\<lambda>carriers.
    act_bind (on_market (pickupSnapshot (se_market E) seller)) (\<lambda>pickup.
    act_bind (quote_each E pickup addr parcel carriers) (\<lambda>options.
    ret \<lparr>sq_currency = currency, sq_contact = contact', sq_options = options\<rparr>))))))))"

section \<open>The clocks\<close>

fun close_drafts :: "time \<Rightarrow> draft list \<Rightarrow> nat sale_act" where
  "close_drafts now [] = ret 0"
| "close_drafts now (d # ds) =
    act_bind (attempt (act_bind (decides (draft_Cancel now d)) (\<lambda>d'. on_shop (SaveDraft d'))) :: (market_err + unit) sale_act) (\<lambda>r.
    act_bind (close_drafts now ds) (\<lambda>n. ret (case r of Inr _ \<Rightarrow> Suc n | Inl _ \<Rightarrow> n)))"

definition ExpireDrafts :: "time \<Rightarrow> nat \<Rightarrow> nat sale_act" where
  "ExpireDrafts now limit = act_bind (on_shop (ExpiredDrafts now limit)) (close_drafts now)"

definition expirableOffer :: "offer_status list" where
  "expirableOffer = [OfferActive, OfferAccepted]"

definition notifyOfferExpired :: "sale_env \<Rightarrow> offer \<Rightarrow> unit sale_act" where
  "notifyOfferExpired E f =
    act_bind (attempt (offerDTO E (f_buyer f) f) :: (market_err + string \<times> string) sale_act) (\<lambda>r. case r of
      Inl _ \<Rightarrow> ret () | Inr _ \<Rightarrow> notifyOfferUpdated f)"

definition closeOffer :: "sale_env \<Rightarrow> offer \<Rightarrow> bool sale_act" where
  "closeOffer E f =
    (case Expire f of
       Inl _ \<Rightarrow> ret False
     | Inr f' \<Rightarrow>
         act_bind (attempt (on_shop (SaveOffer f' expirableOffer)) :: (market_err + unit) sale_act) (\<lambda>r. case r of
           Inl _ \<Rightarrow> ret False
         | Inr _ \<Rightarrow>
             act_bind (postOfferCard f' cardOfferExpired) (\<lambda>_.
             act_bind (notifyOfferExpired E f') (\<lambda>_. ret True))))"

fun close_offers :: "sale_env \<Rightarrow> offer list \<Rightarrow> nat sale_act" where
  "close_offers E [] = ret 0"
| "close_offers E (f # fs) =
    act_bind (closeOffer E f) (\<lambda>closed.
    act_bind (close_offers E fs) (\<lambda>n. ret (if closed then Suc n else n)))"

definition ExpireOffers :: "sale_env \<Rightarrow> time \<Rightarrow> nat \<Rightarrow> nat sale_act" where
  "ExpireOffers E now limit = act_bind (on_shop (ExpiredOffers now limit)) (close_offers E)"

definition ExpireOffer :: "sale_env \<Rightarrow> time \<Rightarrow> i64 \<Rightarrow> unit sale_act" where
  "ExpireOffer E now fid =
    act_bind (on_shop (FindOffer fid)) (\<lambda>f.
    if now < f_expires_at f then ret () else act_bind (closeOffer E f) (\<lambda>_. ret ()))"

text \<open>The sweep: every timed transition of the module, each pass on its own, a batch of each.\<close>

definition sweepBatch :: nat where "sweepBatch = 100"

definition sweep_pass :: "nat sale_act \<Rightarrow> unit sale_act" where
  "sweep_pass m = act_bind (attempt m :: (market_err + nat) sale_act) (\<lambda>_. ret ())"

definition Sweep :: "sale_env \<Rightarrow> time \<Rightarrow> unit sale_act" where
  "Sweep E now = foldr (\<lambda>pass rest. act_bind (sweep_pass pass) (\<lambda>_. rest))
    [ExpireDrafts now sweepBatch,
     on_market (ExpireCheckouts now sweepBatch),
     ExpireOffers E now sweepBatch,
     on_market (ReleaseDuePayouts (se_market E) now sweepBatch),
     on_market (RetryClaimedPayouts (se_market E) now sweepBatch),
     on_market (RetryUnbookedShipments (se_market E) now sweepBatch),
     on_market (AdvanceOverdueRefunds (se_market E) now sweepBatch),
     on_market (EscalateUnconfirmedOrders now sweepBatch)] (ret ())"

section \<open>The module as a transition system\<close>

datatype sale_op =
    OpMarket market_op
  | OpAddCart i64 i64 i64
  | OpUpdateCart i64 i64 i64
  | OpDeleteCart i64 i64
  | OpCreateDraft i64 i64
  | OpCancelDraft i64 i64
  | OpCheckout i64 i64 "(i64 \<times> i64) list" i64 string string string
  | OpCreateOffer i64 i64 i64 i64 string
  | OpCounterOffer i64 i64 i64 i64 string
  | OpCancelOffer i64 i64
  | OpAcceptOffer i64 i64
  | OpCheckoutOffer i64 i64 i64 string string
  | OpShippingQuotes i64 i64 i64 i64 i64 i64 "(i64 \<times> i64) list"
  | OpExpireDrafts nat
  | OpExpireOffers nat
  | OpExpireOffer i64
  | OpSweep

definition done_with :: "'a sale_act \<Rightarrow> unit sale_act" where
  "done_with m = act_bind m (\<lambda>_. ret ())"

fun sale_call :: "sale_env \<Rightarrow> time \<Rightarrow> sale_op \<Rightarrow> unit sale_act" where
  "sale_call E now (OpMarket op) = on_market (market_call (se_market E) now op)"
| "sale_call E now (OpAddCart a v n) = done_with (AddCartItem E now a v n)"
| "sale_call E now (OpUpdateCart a cid n) = done_with (UpdateCartItem a cid n)"
| "sale_call E now (OpDeleteCart a cid) = DeleteCartItem a cid"
| "sale_call E now (OpCreateDraft a lid) = done_with (CreateDraft E now a lid)"
| "sale_call E now (OpCancelDraft a did) = CancelDraft now a did"
| "sale_call E now (OpCheckout a did ls contact opt currency note) =
    done_with (Checkout E now a did ls contact opt currency note)"
| "sale_call E now (OpCreateOffer a v n amount reason) = done_with (CreateOffer E now a v n amount reason)"
| "sale_call E now (OpCounterOffer a fid n amount reason) = done_with (CounterOffer E now a fid n amount reason)"
| "sale_call E now (OpCancelOffer a fid) = CancelOffer E a fid"
| "sale_call E now (OpAcceptOffer a fid) = done_with (AcceptOffer E now a fid)"
| "sale_call E now (OpCheckoutOffer a fid contact opt note) = done_with (CheckoutOffer E now a fid contact opt note)"
| "sale_call E now (OpShippingQuotes a v did fid n contact ls) = done_with (ShippingQuotes E now a v did fid n contact ls)"
| "sale_call E now (OpExpireDrafts n) = done_with (ExpireDrafts now n)"
| "sale_call E now (OpExpireOffers n) = done_with (ExpireOffers E now n)"
| "sale_call E now (OpExpireOffer fid) = ExpireOffer E now fid"
| "sale_call E now OpSweep = Sweep E now"

text \<open>Any handlers in any order; what the other modules answer may change from call to call.\<close>

inductive sale_steps :: "sale \<Rightarrow> sale \<Rightarrow> bool" where
  no_call: "sale_steps s s"
| one_call: "sale_steps s s' \<Longrightarrow> sale_call E now op s' = (s'', r) \<Longrightarrow> sale_steps s s''"

end
