(* ===== verification/OrderTables.thy ===== *)
theory OrderTables
  imports OrderStore
begin

text \<open>
  What the order tables keep: a predicate of the rows that every write statement of the adapter
  keeps (\<open>row_law\<close>), with three interpretations, the constraints of the schema, the outcome
  of an order once it has one, and the existence of an order.
\<close>

section \<open>Rows under an update\<close>

lemma set_update_where: "set (update_where P f xs) = f ` {x \<in> set xs. P x} \<union> {x \<in> set xs. \<not> P x}"
  by (auto simp: update_where_def)

lemma map_update_where: "(\<And>x. g (f x) = g x) \<Longrightarrow> map g (update_where P f xs) = map g xs"
  by (simp add: update_where_def)

lemma update_where_none: "\<not> (\<exists>x \<in> set xs. P x) \<Longrightarrow> update_where P f xs = xs"
  by (auto simp: update_where_def map_idI)

definition unique_by :: "('a \<Rightarrow> 'b option) \<Rightarrow> ('a \<Rightarrow> i64) \<Rightarrow> 'a list \<Rightarrow> bool" where
  "unique_by key ident xs \<longleftrightarrow>
    (\<forall>a \<in> set xs. \<forall>b \<in> set xs. key a \<noteq> None \<and> key a = key b \<longrightarrow> ident a = ident b)"

lemma unique_by_Nil [simp]: "unique_by key ident []"
  by (simp add: unique_by_def)

lemma unique_by_insert:
  "unique_by key ident xs \<Longrightarrow> key x = None \<or> (\<forall>a \<in> set xs. key a \<noteq> key x) \<Longrightarrow> unique_by key ident (xs @ [x])"
proof (unfold unique_by_def, intro ballI impI)
  fix a b
  assume u: "\<forall>a \<in> set xs. \<forall>b \<in> set xs. key a \<noteq> None \<and> key a = key b \<longrightarrow> ident a = ident b"
    and x: "key x = None \<or> (\<forall>a \<in> set xs. key a \<noteq> key x)"
    and ab: "a \<in> set (xs @ [x])" "b \<in> set (xs @ [x])" and k: "key a \<noteq> None \<and> key a = key b"
  from ab consider "a = b" | "a \<in> set xs" "b \<in> set xs" | "a = x" "b \<in> set xs" | "b = x" "a \<in> set xs" by auto
  then show "ident a = ident b"
  proof cases
    case 3
    with x k show ?thesis by metis
  next
    case 4
    with x k show ?thesis by metis
  next
    case 2
    with u k show ?thesis by blast
  qed simp
qed

lemma unique_by_update:
  assumes "unique_by key ident xs" and "\<And>x. key (f x) = key x" and "\<And>x. ident (f x) = ident x"
  shows "unique_by key ident (update_where P f xs)"
proof -
  have "\<exists>a' \<in> set xs. key a = key a' \<and> ident a = ident a'" if "a \<in> set (update_where P f xs)" for a
    using that assms(2,3) unfolding set_update_where by blast
  with assms(1) show ?thesis unfolding unique_by_def by metis
qed

lemma unique_byD: "unique_by key ident xs \<Longrightarrow> a \<in> set xs \<Longrightarrow> b \<in> set xs \<Longrightarrow> key a \<noteq> None \<Longrightarrow> key a = key b \<Longrightarrow> ident a = ident b"
  unfolding unique_by_def by blast

lemma unique_by_checked:
  assumes u: "unique_by key ident xs" and f: "\<And>x. ident (f x) = ident x" and P: "\<And>x. P x \<Longrightarrow> ident x = n"
    and check: "\<And>x b. x \<in> set xs \<Longrightarrow> P x \<Longrightarrow> key (f x) \<noteq> None \<Longrightarrow> b \<in> set xs \<Longrightarrow> ident b \<noteq> n \<Longrightarrow> key b \<noteq> key (f x)"
  shows "unique_by key ident (update_where P f xs)"
proof -
  have case_of: "(\<exists>x \<in> set xs. P x \<and> a = f x \<and> ident a = n) \<or> a \<in> set xs" if "a \<in> set (update_where P f xs)" for a
  proof -
    from that consider x where "x \<in> set xs" "P x" "a = f x" | "a \<in> set xs"
      unfolding set_update_where by blast
    then show ?thesis
    proof cases
      case (1 x)
      then have "ident a = n" by (simp add: f P)
      with 1 show ?thesis by blast
    qed simp
  qed
  show ?thesis
    unfolding unique_by_def
  proof (intro ballI impI)
    fix a b
    assume a: "a \<in> set (update_where P f xs)" and b: "b \<in> set (update_where P f xs)"
      and k: "key a \<noteq> None \<and> key a = key b"
    from case_of [OF a] case_of [OF b] show "ident a = ident b"
    proof (elim disjE bexE conjE)
      fix x y
      assume "ident a = n" "ident b = n"
      then show ?thesis by simp
    next
      fix x
      assume "x \<in> set xs" "P x" "a = f x" "ident a = n" "b \<in> set xs"
      with check [of x b] k show ?thesis by metis
    next
      fix y
      assume "a \<in> set xs" "y \<in> set xs" "P y" "b = f y" "ident b = n"
      with check [of y a] k show ?thesis by metis
    next
      assume "a \<in> set xs" "b \<in> set xs"
      with unique_byD [OF u] k show ?thesis by blast
    qed
  qed
qed

section \<open>The constraints of the schema\<close>

definition fresh_above :: "int \<Rightarrow> ('a \<Rightarrow> i64) \<Rightarrow> 'a list \<Rightarrow> bool" where
  "fresh_above n ident xs \<longleftrightarrow> 0 \<le> n \<and> distinct (map ident xs) \<and> (\<forall>x \<in> set xs. sint (ident x) \<le> n)"

definition orders_ok :: "ord_db \<Rightarrow> bool" where
  "orders_ok db \<longleftrightarrow> fresh_above (q_order_seq db) o_id (q_orders db)
    \<and> list_all order_row_ok (q_orders db)
    \<and> unique_by (\<lambda>ord. Some (o_transport ord)) o_id (q_orders db)
    \<and> unique_by o_draft o_id (q_orders db) \<and> unique_by o_offer o_id (q_orders db)"

definition refunds_ok :: "ord_db \<Rightarrow> bool" where
  "refunds_ok db \<longleftrightarrow> fresh_above (q_refund_seq db) r_id (q_refunds db)
    \<and> list_all refund_row_ok (q_refunds db)
    \<and> unique_by (\<lambda>r. if open_case r then Some (r_order r) else None) r_id (q_refunds db)
    \<and> unique_by r_return_transport r_id (q_refunds db)"

definition tables_ok :: "ord_db \<Rightarrow> bool" where
  "tables_ok db \<longleftrightarrow> orders_ok db \<and> refunds_ok db"

lemma tables_same:
  "q_orders db' = q_orders db \<Longrightarrow> q_refunds db' = q_refunds db \<Longrightarrow>
    q_order_seq db \<le> q_order_seq db' \<Longrightarrow> q_refund_seq db \<le> q_refund_seq db' \<Longrightarrow> tables_ok db \<Longrightarrow> tables_ok db'"
  by (fastforce simp: tables_ok_def orders_ok_def refunds_ok_def fresh_above_def)

lemma identity_Inr:
  "identity get put db = (db', Inr x) \<longleftrightarrow> get db < max_i64 \<and> db' = put (get db + 1) db \<and> x = word_of_int (get db + 1)"
  by (auto simp: identity_def)

lemma identity_Inl: "identity get put db = (db', Inl e) \<longleftrightarrow> max_i64 \<le> get db \<and> db' = db \<and> e = OrdDatabase ''nextval''"
  by (auto simp: identity_def)

lemma sint_identity: "0 \<le> n \<Longrightarrow> n < max_i64 \<Longrightarrow> sint (word_of_int (n + 1) :: i64) = n + 1"
  by (rule sint_word_of_int_i64) linarith+

lemma fresh_above_insert:
  assumes "fresh_above n ident xs" and "n < max_i64" and "ident x = word_of_int (n + 1)"
  shows "fresh_above (n + 1) ident (xs @ [x])"
proof -
  have n: "0 \<le> n" and le: "\<And>y. y \<in> set xs \<Longrightarrow> sint (ident y) \<le> n" using assms(1) by (auto simp: fresh_above_def)
  note new = sint_identity [OF n assms(2)]
  with assms(3) have x: "sint (ident x) = n + 1" by simp
  have "ident x \<notin> set (map ident xs)"
  proof
    assume "ident x \<in> set (map ident xs)"
    then obtain y where "y \<in> set xs" "ident y = ident x" by auto
    with le [of y] x show False by simp
  qed
  moreover have "sint (ident y) \<le> n + 1" if "y \<in> set (xs @ [x])" for y using that le [of y] x by auto
  ultimately show ?thesis using assms(1) n by (simp add: fresh_above_def)
qed

lemma fresh_above_update: "(\<And>x. ident (f x) = ident x) \<Longrightarrow> fresh_above n ident xs \<Longrightarrow> fresh_above n ident (update_where P f xs)"
  by (auto simp: fresh_above_def map_update_where set_update_where)

lemma keep_ids_fields [simp]:
  "q_orders (keep_ids db t) = q_orders db" "q_refunds (keep_ids db t) = q_refunds db"
  "q_items (keep_ids db t) = q_items db" "q_transports (keep_ids db t) = q_transports db"
  "q_order_seq (keep_ids db t) = q_order_seq t" "q_refund_seq (keep_ids db t) = q_refund_seq t"
  by (simp_all add: keep_ids_def)

lemma order_columns_fields [simp]:
  "o_id (order_columns ord row) = o_id row" "o_transport (order_columns ord row) = o_transport row"
  "o_draft (order_columns ord row) = o_draft row" "o_offer (order_columns ord row) = o_offer row"
  "o_completed_at (order_columns ord row) = o_completed_at ord" "o_cancelled_at (order_columns ord row) = o_cancelled_at ord"
  by (simp_all add: order_columns_def)

lemma refund_columns_fields [simp]:
  "r_id (refund_columns r row) = r_id row" "r_order (refund_columns r row) = r_order row"
  "r_status (refund_columns r row) = r_status r" "r_return_transport (refund_columns r row) = r_return_transport r"
  by (simp_all add: refund_columns_def)

section \<open>The contract\<close>

locale row_law =
  fixes I :: "ord_db \<Rightarrow> bool"
  assumes lines: "keeps I (SaveItem i)" "keeps I (LinkItems oid iids)"
    and parcels: "keeps I (InsertTransport now opt fee)" "keeps I (SaveTransport t st0)"
      "keeps I (BookTransport ro tid data)"
    and orders: "keeps I (CreateOrder now ord iids)" "keeps I (SaveOrder ord)" "keeps I (ClaimPayout now ord)"
      "keeps I (MarkPayoutReleased ord)"
    and cases: "keeps I (InsertRefund now rf)" "keeps I (SaveRefund rf st)" "keeps I (SaveRefundOutcome rf cl st)"

text \<open>The statements that write neither an order nor a refund.\<close>

lemmas side_statements = SaveItem_def LinkItems_def InsertTransport_def SaveTransport_def BookTransport_def

lemma side_statement_rows:
  assumes "s = SaveItem i \<or> s = LinkItems oid iids \<or> s = SaveTransport t st0 \<or> s = BookTransport ro tid data"
    and "s db = (db', r)"
  shows "q_orders db' = q_orders db \<and> q_refunds db' = q_refunds db
    \<and> q_order_seq db' = q_order_seq db \<and> q_refund_seq db' = q_refund_seq db"
  using assms(1)
proof (elim disjE)
  assume "s = SaveTransport t st0"
  with assms(2) show ?thesis
    by (cases r; auto simp: SaveTransport_def OrdTx_def recordOrderFact_def act_runs Let_def split: option.splits)
qed (use assms(2) in \<open>auto simp: SaveItem_def LinkItems_def BookTransport_def act_defs Let_def split: if_splits\<close>)

lemma insert_transport_rows:
  "InsertTransport now opt fee db = (db', r) \<Longrightarrow> q_orders db' = q_orders db \<and> q_refunds db' = q_refunds db
    \<and> q_order_seq db' = q_order_seq db \<and> q_refund_seq db' = q_refund_seq db"
  by (auto simp: InsertTransport_def identity_def act_defs split: if_splits)

lemma keeps_side:
  assumes "\<And>db db'. q_orders db' = q_orders db \<Longrightarrow> q_refunds db' = q_refunds db \<Longrightarrow>
      q_order_seq db' = q_order_seq db \<Longrightarrow> q_refund_seq db' = q_refund_seq db \<Longrightarrow> I db \<Longrightarrow> I db'"
  shows "keeps I (SaveItem i)" "keeps I (LinkItems oid iids)" "keeps I (InsertTransport now opt fee)"
    "keeps I (SaveTransport t st0)" "keeps I (BookTransport ro tid data)"
proof -
  show "keeps I (SaveItem i)" by (rule keepsI) (metis assms side_statement_rows [of "SaveItem i" i])
  show "keeps I (LinkItems oid iids)" by (rule keepsI) (metis assms side_statement_rows [of "LinkItems oid iids" _ oid iids])
  show "keeps I (InsertTransport now opt fee)" by (rule keepsI) (metis assms insert_transport_rows)
  show "keeps I (SaveTransport t st0)" by (rule keepsI) (metis assms side_statement_rows [of "SaveTransport t st0" _ _ _ t st0])
  show "keeps I (BookTransport ro tid data)" by (rule keepsI) (metis assms side_statement_rows [of "BookTransport ro tid data" _ _ _ _ _ ro tid data])
qed

section \<open>What each order and refund statement does\<close>

definition new_order :: "time \<Rightarrow> order \<Rightarrow> i64 \<Rightarrow> order" where
  "new_order now ord oid =
    ord\<lparr>o_events := [], o_id := oid, o_confirmed_at := None, o_escalated_at := None,
        o_decline_reason := None, o_received_at := None, o_receipt := [], o_released_at := None,
        o_created_at := now, o_completed_at := None, o_cancelled_at := None\<rparr>"

lemma CreateOrder_Inr:
  assumes "CreateOrder now ord iids db = (db', Inr made)"
  shows "q_order_seq db < max_i64 \<and> q_order_seq db' = q_order_seq db + 1
    \<and> q_orders db' = q_orders db @ [new_order now ord (word_of_int (q_order_seq db + 1))]
    \<and> q_refunds db' = q_refunds db \<and> q_refund_seq db' = q_refund_seq db
    \<and> (o_draft ord = None) \<noteq> (o_offer ord = None)
    \<and> \<not> (\<exists>row \<in> set (q_orders db). o_transport row = o_transport ord
          \<or> o_draft ord \<noteq> None \<and> o_draft row = o_draft ord \<or> o_offer ord \<noteq> None \<and> o_offer row = o_offer ord)
    \<and> made = ord\<lparr>o_id := word_of_int (q_order_seq db + 1), o_created_at := now\<rparr>"
  using assms
  by (auto simp: CreateOrder_def OrdTx_def act_runs identity_Inr recordOrderFact_def Let_def new_order_def)

lemma CreateOrder_Inl:
  assumes "CreateOrder now ord iids db = (db', Inl e)"
  shows "q_orders db' = q_orders db \<and> q_refunds db' = q_refunds db
    \<and> q_order_seq db \<le> q_order_seq db' \<and> q_refund_seq db' = q_refund_seq db"
  using assms
  by (auto simp: CreateOrder_def OrdTx_def act_runs identity_Inr identity_Inl recordOrderFact_def Let_def)

definition open_order :: "i64 \<Rightarrow> order \<Rightarrow> bool" where
  "open_order oid row \<longleftrightarrow> o_id row = oid \<and> o_completed_at row = None \<and> o_cancelled_at row = None"

lemma save_order_Inr:
  "save_order ord db = (db', Inr u) \<longleftrightarrow>
    (\<exists>row \<in> set (q_orders db). open_order (o_id ord) row)
    \<and> (\<forall>row \<in> set (q_orders db). open_order (o_id ord) row \<longrightarrow> order_row_ok (order_columns ord row))
    \<and> db' = db\<lparr>q_orders := update_where (open_order (o_id ord)) (order_columns ord) (q_orders db)\<rparr>"
  by (auto simp: save_order_def act_runs Let_def open_order_def [abs_def] list_all_iff filter_empty_conv)

lemma save_order_Inl: "save_order ord db = (db', Inl e) \<Longrightarrow> db' = db"
  by (auto simp: save_order_def act_runs Let_def)

lemma SaveOrder_Inr:
  "SaveOrder ord db = (db', Inr u) \<longleftrightarrow> (\<exists>db1. save_order ord db = (db1, Inr ())
     \<and> db' = db1\<lparr>q_audit := q_audit db1 @ map (\<lambda>e. (o_id ord, e)) (o_events ord)\<rparr>)"
  by (auto simp: SaveOrder_def OrdTx_def act_runs writeOrderEvents_def)

lemma SaveOrder_Inl: "SaveOrder ord db = (db', Inl e) \<Longrightarrow> db' = db"
  by (auto simp: SaveOrder_def OrdTx_def act_runs writeOrderEvents_def keep_ids_def dest!: save_order_Inl)

definition due_row :: "i64 \<Rightarrow> bool \<Rightarrow> order \<Rightarrow> bool" where
  "due_row oid live row \<longleftrightarrow> open_order oid row \<and> o_received_at row \<noteq> None \<and> \<not> live"

lemma ClaimPayout_Inr:
  assumes "ClaimPayout now ord db = (db', Inr made)"
  shows "\<not> liveRefund db (o_id ord)
    \<and> (\<exists>row \<in> set (q_orders db). open_order (o_id ord) row \<and> o_received_at row \<noteq> None)
    \<and> q_orders db' = update_where (due_row (o_id ord) False) (\<lambda>row. row\<lparr>o_completed_at := Some now\<rparr>) (q_orders db)
    \<and> q_refunds db' = q_refunds db \<and> q_order_seq db' = q_order_seq db \<and> q_refund_seq db' = q_refund_seq db
    \<and> made = ord\<lparr>o_completed_at := Some now\<rparr>"
  using assms
  by (auto simp: ClaimPayout_def OrdTx_def act_runs Let_def recordOrderFact_def open_order_def due_row_def [abs_def])

lemma ClaimPayout_Inl: "ClaimPayout now ord db = (db', Inl e) \<Longrightarrow> db' = db"
  by (auto simp: ClaimPayout_def OrdTx_def act_runs Let_def recordOrderFact_def keep_ids_def)

lemma MarkPayoutReleased_rows:
  assumes "MarkPayoutReleased ord db = (db', r)"
  shows "(q_orders db' = q_orders db
      \<or> (\<forall>row \<in> set (q_orders db). o_id row = o_id ord \<and> o_released_at row = None
            \<longrightarrow> order_row_ok (row\<lparr>o_released_at := o_released_at ord\<rparr>))
        \<and> q_orders db' = update_where (\<lambda>row. o_id row = o_id ord \<and> o_released_at row = None)
            (\<lambda>row. row\<lparr>o_released_at := o_released_at ord\<rparr>) (q_orders db))
    \<and> q_refunds db' = q_refunds db \<and> q_order_seq db' = q_order_seq db \<and> q_refund_seq db' = q_refund_seq db"
proof (cases r)
  case (Inl e)
  with assms show ?thesis
    by (auto simp: MarkPayoutReleased_def OrdTx_def act_runs Let_def recordOrderFact_def keep_ids_def split: if_splits)
next
  case (Inr u)
  with assms show ?thesis
    by (auto simp: MarkPayoutReleased_def OrdTx_def act_runs Let_def recordOrderFact_def list_all_iff split: if_splits)
qed

definition new_refund :: "time \<Rightarrow> refund \<Rightarrow> i64 \<Rightarrow> refund" where
  "new_refund now rf rid = rf\<lparr>r_id := rid, r_created_at := now, r_seller_decided_at := None,
     r_return_transport := None, r_returned_at := None\<rparr>"

lemma InsertRefund_Inr:
  assumes "InsertRefund now rf db = (db', Inr made)"
  shows "q_refund_seq db < max_i64 \<and> q_refund_seq db' = q_refund_seq db + 1
    \<and> q_refunds db' = q_refunds db @ [new_refund now rf (word_of_int (q_refund_seq db + 1))]
    \<and> q_orders db' = q_orders db \<and> q_order_seq db' = q_order_seq db
    \<and> (\<exists>row \<in> set (q_orders db). open_order (r_order rf) row)
    \<and> refund_row_ok (new_refund now rf (word_of_int (q_refund_seq db + 1)))
    \<and> \<not> (open_case (new_refund now rf (word_of_int (q_refund_seq db + 1)))
         \<and> (\<exists>r' \<in> set (q_refunds db). r_order r' = r_order rf \<and> open_case r'))"
  using assms
  by (auto simp: InsertRefund_def OrdTx_def act_runs identity_Inr Let_def new_refund_def open_order_def)

lemma InsertRefund_Inl:
  assumes "InsertRefund now rf db = (db', Inl e)"
  shows "q_orders db' = q_orders db \<and> q_refunds db' = q_refunds db
    \<and> q_order_seq db' = q_order_seq db \<and> q_refund_seq db \<le> q_refund_seq db'"
  using assms
  by (auto simp: InsertRefund_def OrdTx_def act_runs identity_Inr identity_Inl Let_def)

definition refund_from :: "i64 \<Rightarrow> refund_status \<Rightarrow> refund \<Rightarrow> bool" where
  "refund_from rid st row \<longleftrightarrow> r_id row = rid \<and> r_status row = st"

definition refund_write_ok :: "ord_db \<Rightarrow> refund \<Rightarrow> refund \<Rightarrow> bool" where
  "refund_write_ok db rf row \<longleftrightarrow> refund_row_ok (refund_columns rf row)
    \<and> \<not> (r_return_transport rf \<noteq> None
         \<and> (\<exists>r' \<in> set (q_refunds db). r_id r' \<noteq> r_id rf \<and> r_return_transport r' = r_return_transport rf))
    \<and> \<not> (open_case (refund_columns rf row)
         \<and> (\<exists>r' \<in> set (q_refunds db). r_id r' \<noteq> r_id row \<and> r_order r' = r_order row \<and> open_case r'))"

lemma SaveRefund_Inr:
  "SaveRefund rf st db = (db', Inr u) \<longleftrightarrow>
    (\<exists>row \<in> set (q_refunds db). refund_from (r_id rf) st row)
    \<and> (\<forall>row \<in> set (q_refunds db). refund_from (r_id rf) st row \<longrightarrow> refund_write_ok db rf row)
    \<and> db' = db\<lparr>q_refunds := update_where (refund_from (r_id rf) st) (refund_columns rf) (q_refunds db)\<rparr>"
  by (auto simp: SaveRefund_def act_runs Let_def refund_from_def [abs_def] refund_write_ok_def list_all_iff)

lemma SaveRefund_Inl: "SaveRefund rf st db = (db', Inl e) \<Longrightarrow> db' = db"
  by (auto simp: SaveRefund_def act_runs Let_def)

lemma SaveRefundOutcome_Inr:
  "SaveRefundOutcome rf cl st db = (db', Inr u) \<longleftrightarrow> (\<exists>db1. SaveRefund rf st db = (db1, Inr ())
    \<and> (case cl of None \<Rightarrow> db' = db1 | Some ord \<Rightarrow> save_order ord db1 = (db', Inr ())))"
  by (auto simp: SaveRefundOutcome_def OrdTx_def act_runs split: option.splits)

lemma SaveRefundOutcome_Inl: "SaveRefundOutcome rf cl st db = (db', Inl e) \<Longrightarrow> db' = db"
  by (auto simp: SaveRefundOutcome_def OrdTx_def act_runs keep_ids_def SaveRefund_Inr
      dest!: SaveRefund_Inl save_order_Inl split: option.splits)

section \<open>The constraints are kept\<close>

lemma new_order_fields [simp]:
  "o_id (new_order now ord oid) = oid" "o_transport (new_order now ord oid) = o_transport ord"
  "o_draft (new_order now ord oid) = o_draft ord" "o_offer (new_order now ord oid) = o_offer ord"
  "order_row_ok (new_order now ord oid) \<longleftrightarrow> (o_draft ord = None) \<noteq> (o_offer ord = None)"
  by (simp_all add: new_order_def order_row_ok_def)

lemma new_refund_fields [simp]:
  "r_id (new_refund now rf rid) = rid" "r_order (new_refund now rf rid) = r_order rf"
  "r_return_transport (new_refund now rf rid) = None" "r_status (new_refund now rf rid) = r_status rf"
  by (simp_all add: new_refund_def)

lemma orders_ok_update:
  assumes "orders_ok db" and "q_orders db' = update_where P f (q_orders db)" and "q_order_seq db' = q_order_seq db"
    and "\<And>x. o_id (f x) = o_id x" "\<And>x. o_transport (f x) = o_transport x"
      "\<And>x. o_draft (f x) = o_draft x" "\<And>x. o_offer (f x) = o_offer x"
    and "\<And>x. x \<in> set (q_orders db) \<Longrightarrow> P x \<Longrightarrow> order_row_ok x \<Longrightarrow> order_row_ok (f x)"
  shows "orders_ok db'"
proof -
  have "list_all order_row_ok (update_where P f (q_orders db))"
    using assms(1,8) by (auto simp: orders_ok_def list_all_iff set_update_where)
  then show ?thesis
    using assms(1-3) by (simp add: orders_ok_def fresh_above_update unique_by_update assms(4-7))
qed

lemma refunds_ok_update:
  assumes ok: "refunds_ok db" and w: "\<And>row. row \<in> set (q_refunds db) \<Longrightarrow> refund_from (r_id rf) st row \<Longrightarrow> refund_write_ok db rf row"
    and eq: "q_refunds db' = update_where (refund_from (r_id rf) st) (refund_columns rf) (q_refunds db)"
      "q_refund_seq db' = q_refund_seq db"
  shows "refunds_ok db'"
proof -
  let ?P = "refund_from (r_id rf) st"
  note u = ok [unfolded refunds_ok_def]
  have "list_all refund_row_ok (update_where ?P (refund_columns rf) (q_refunds db))"
    using u w by (auto simp: list_all_iff set_update_where refund_write_ok_def)
  moreover have "unique_by (\<lambda>r. if open_case r then Some (r_order r) else None) r_id (update_where ?P (refund_columns rf) (q_refunds db))"
  proof (rule unique_by_checked [where n = "r_id rf"])
    show "unique_by (\<lambda>r. if open_case r then Some (r_order r) else None) r_id (q_refunds db)" using u by blast
  next
    fix x b
    assume x: "x \<in> set (q_refunds db)" "?P x" and k: "(if open_case (refund_columns rf x) then Some (r_order (refund_columns rf x)) else None) \<noteq> None"
      and b: "b \<in> set (q_refunds db)" "r_id b \<noteq> r_id rf"
    have "r_id x = r_id rf" using x(2) by (simp add: refund_from_def)
    with w [OF x] k b show "(if open_case b then Some (r_order b) else None)
        \<noteq> (if open_case (refund_columns rf x) then Some (r_order (refund_columns rf x)) else None)"
      by (auto simp: refund_write_ok_def split: if_splits)
  qed (simp_all add: refund_from_def)
  moreover have "unique_by r_return_transport r_id (update_where ?P (refund_columns rf) (q_refunds db))"
  proof (rule unique_by_checked [where n = "r_id rf"])
    show "unique_by r_return_transport r_id (q_refunds db)" using u by blast
  next
    fix x b
    assume x: "x \<in> set (q_refunds db)" "?P x" and k: "r_return_transport (refund_columns rf x) \<noteq> None"
      and b: "b \<in> set (q_refunds db)" "r_id b \<noteq> r_id rf"
    with w [OF x] show "r_return_transport b \<noteq> r_return_transport (refund_columns rf x)"
      by (auto simp: refund_write_ok_def)
  qed (simp_all add: refund_from_def)
  ultimately show ?thesis
    using u by (simp add: refunds_ok_def eq fresh_above_update)
qed

lemma SaveRefund_tables: "tables_ok db \<Longrightarrow> SaveRefund rf st db = (db', Inr u) \<Longrightarrow> tables_ok db'"
  by (auto simp: tables_ok_def SaveRefund_Inr orders_ok_def intro: refunds_ok_update)

lemma save_order_tables: "tables_ok db \<Longrightarrow> save_order ord db = (db', Inr u) \<Longrightarrow> tables_ok db'"
  by (auto simp: tables_ok_def save_order_Inr refunds_ok_def intro: orders_ok_update)

lemma SaveOrder_tables:
  assumes "tables_ok db" and "SaveOrder ord db = (db', Inr u)"
  shows "tables_ok db'"
proof -
  from assms(2) obtain db1 where s: "save_order ord db = (db1, Inr ())"
    and db': "db' = db1\<lparr>q_audit := q_audit db1 @ map (\<lambda>e. (o_id ord, e)) (o_events ord)\<rparr>"
    by (auto simp: SaveOrder_Inr)
  show ?thesis
    by (rule tables_same [OF _ _ _ _ save_order_tables [OF assms(1) s]]) (simp_all add: db')
qed

lemma CreateOrder_tables: "tables_ok db \<Longrightarrow> CreateOrder now ord iids db = (db', Inr made) \<Longrightarrow> tables_ok db'"
  by (drule CreateOrder_Inr)
     (auto simp: tables_ok_def orders_ok_def refunds_ok_def intro!: fresh_above_insert unique_by_insert)

lemma orders_ok_same: "q_orders db' = q_orders db \<Longrightarrow> q_order_seq db' = q_order_seq db \<Longrightarrow> orders_ok db' = orders_ok db"
  by (simp add: orders_ok_def)

lemma refunds_ok_same: "q_refunds db' = q_refunds db \<Longrightarrow> q_refund_seq db' = q_refund_seq db \<Longrightarrow> refunds_ok db' = refunds_ok db"
  by (simp add: refunds_ok_def)

lemma CreateOrder_refused: "tables_ok db \<Longrightarrow> CreateOrder now ord iids db = (db', Inl e) \<Longrightarrow> tables_ok db'"
  by (drule CreateOrder_Inl) (simp add: tables_same [of db' db])

lemma InsertRefund_refused: "tables_ok db \<Longrightarrow> InsertRefund now rf db = (db', Inl e) \<Longrightarrow> tables_ok db'"
  by (drule InsertRefund_Inl) (simp add: tables_same [of db' db])

lemma InsertRefund_tables:
  assumes "tables_ok db" and "InsertRefund now rf db = (db', Inr made)"
  shows "tables_ok db'"
proof -
  note row = InsertRefund_Inr [OF assms(2)]
  let ?new = "new_refund now rf (word_of_int (q_refund_seq db + 1))"
  have r: "refunds_ok db" using assms(1) by (simp add: tables_ok_def)
  have key: "(\<lambda>r. if open_case r then Some (r_order r) else None) ?new = None
      \<or> (\<forall>a \<in> set (q_refunds db). (\<lambda>r. if open_case r then Some (r_order r) else None) a
            \<noteq> (\<lambda>r. if open_case r then Some (r_order r) else None) ?new)"
    using row by (cases "open_case ?new") auto
  have "refunds_ok db'"
    using row r unique_by_insert [OF _ key, of r_id] by (simp add: refunds_ok_def fresh_above_insert unique_by_insert)
  then show ?thesis using assms(1) row by (simp add: tables_ok_def orders_ok_same [of db' db])
qed

lemma ClaimPayout_tables:
  assumes "tables_ok db" and "ClaimPayout now ord db = (db', Inr made)"
  shows "tables_ok db'"
proof -
  note rows = ClaimPayout_Inr [OF assms(2)]
  have "orders_ok db'"
    by (rule orders_ok_update [of db _ "due_row (o_id ord) False" "\<lambda>row. row\<lparr>o_completed_at := Some now\<rparr>"])
       (use assms(1) rows in \<open>auto simp: tables_ok_def order_row_ok_def\<close>)
  with rows assms(1) show ?thesis by (simp add: tables_ok_def refunds_ok_same [of db' db])
qed

lemma MarkPayoutReleased_tables:
  assumes "tables_ok db" and "MarkPayoutReleased ord db = (db', r)"
  shows "tables_ok db'"
proof -
  have o: "orders_ok db" and r: "refunds_ok db" using assms(1) by (auto simp: tables_ok_def)
  note rows = MarkPayoutReleased_rows [OF assms(2)]
  have "orders_ok db'"
  proof (cases "q_orders db' = q_orders db")
    case True
    with o rows show ?thesis by (simp add: orders_ok_same [of db' db])
  next
    case False
    with rows show ?thesis
      by (intro orders_ok_update [OF o, of _ "\<lambda>row. o_id row = o_id ord \<and> o_released_at row = None"
            "\<lambda>row. row\<lparr>o_released_at := o_released_at ord\<rparr>"]) auto
  qed
  with rows r show ?thesis by (simp add: tables_ok_def refunds_ok_same [of db' db])
qed

interpretation tables: row_law tables_ok
proof
  show "keeps tables_ok (SaveItem i)" "keeps tables_ok (LinkItems oid iids)" "keeps tables_ok (InsertTransport now opt fee)"
    "keeps tables_ok (SaveTransport t st0)" "keeps tables_ok (BookTransport ro tid data)" for i oid iids now opt fee t st0 ro tid data
    by (rule keeps_side, rule tables_same; simp)+
  show "keeps tables_ok (CreateOrder now ord iids)" for now ord iids
    by (rule keepsI, case_tac r) (auto intro: CreateOrder_tables CreateOrder_refused)
  show "keeps tables_ok (SaveOrder ord)" for ord
    by (rule keepsI, case_tac r) (auto dest: SaveOrder_Inl intro: SaveOrder_tables)
  show "keeps tables_ok (ClaimPayout now ord)" for now ord
    by (rule keepsI, case_tac r) (auto dest: ClaimPayout_Inl intro: ClaimPayout_tables)
  show "keeps tables_ok (MarkPayoutReleased ord)" for ord
    by (rule keepsI) (rule MarkPayoutReleased_tables)
  show "keeps tables_ok (InsertRefund now rf)" for now rf
    by (rule keepsI, case_tac r) (auto intro: InsertRefund_tables InsertRefund_refused)
  show "keeps tables_ok (SaveRefund rf st)" for rf st
    by (rule keepsI, case_tac r) (auto dest: SaveRefund_Inl intro: SaveRefund_tables)
  show "keeps tables_ok (SaveRefundOutcome rf cl st)" for rf cl st
    by (rule keepsI, case_tac r)
       (auto simp: SaveRefundOutcome_Inr dest: SaveRefundOutcome_Inl SaveRefund_tables save_order_tables split: option.splits)
qed

end
