(* ===== verification/OrderLaws.thy ===== *)
theory OrderLaws
  imports OrderRefunds OrderTables
begin

text \<open>
  What every handler of the order module keeps. The contract is a locale in three layers: a predicate of
  the market that the stock movements, the inserts and an escrow hold keep and that does not look at the log
  (\<open>market_base\<close>), that the writes over an order and over a refund keep (\<open>market_quiet\<close>), and that the two
  transfers keep which pay an escrow out (\<open>market_loud\<close>). Each layer gives its handlers, the last gives all of
  them, so an invariant of the module is an interpretation. \<open>ends\<close> is for the handlers whose writes depend on the
  rows they have just read.
\<close>

section \<open>Statements that only read\<close>

named_theorems reads_intros \<open>statements that leave the tables alone\<close>

definition reads :: "'a ord_act \<Rightarrow> bool" where
  "reads s \<longleftrightarrow> (\<forall>db. fst (s db) = db)"

lemma reads_gets [reads_intros]: "reads (gets f)"
  by (simp add: reads_def gets_def)

lemma reads_bind_option [reads_intros]: "reads (act_bind (gets f) (\<lambda>x. of_option e (g x)))"
  by (simp add: reads_def act_defs split: option.splits)

lemma reads_bind_option' [reads_intros]: "reads (act_bind (gets f) (of_option e))"
  using reads_bind_option [of f e "\<lambda>x. x"] by simp

lemmas read_defs = FindItem_def ItemsByPaymentSession_def OrderItems_def UnpaidItems_def FindTransport_def
  FindTransportByRef_def FindOrder_def FindOrderByOrigin_def FindOrderByTransport_def UnbookedTransports_def
  UnconfirmedOrders_def repo_PayoutDue_def ClaimedPayouts_def FindRefund_def LiveRefundOnOrder_def
  LatestRefundOnOrder_def OverdueRefunds_def

lemma reads_statements [reads_intros]:
  "reads (FindItem iid)" "reads (ItemsByPaymentSession sid)" "reads (OrderItems oid)"
  "reads (UnpaidItems t n)" "reads (FindTransport tid)" "reads (FindTransportByRef ro ref)"
  "reads (FindOrder oid)" "reads (FindOrderByOrigin g)" "reads (FindOrderByTransport tid)"
  "reads (UnbookedTransports ro t n)" "reads (UnconfirmedOrders t n)" "reads (repo_PayoutDue t n)"
  "reads (ClaimedPayouts n)" "reads (FindRefund rid)" "reads (LiveRefundOnOrder oid)"
  "reads (LatestRefundOnOrder oid)" "reads (OverdueRefunds t n)"
  by (simp only: read_defs, rule reads_intros)+

lemma on_ord_reads: "reads s \<Longrightarrow> on_ord s m = (m', r) \<Longrightarrow> m' = m"
  by (cases "s (m_ord m)"; cases r)
     (auto simp: on_ord_def zoom_Inr zoom_Inl reads_def dest: spec [of _ "m_ord m"])

lemma keeps_reads: "reads s \<Longrightarrow> keeps J (on_ord s)"
  by (rule keepsI) (auto dest: on_ord_reads)

lemma keeps_read_statements [keeps_intros]:
  "keeps J (on_ord (FindItem iid))" "keeps J (on_ord (ItemsByPaymentSession sid))" "keeps J (on_ord (OrderItems oid))"
  "keeps J (on_ord (UnpaidItems t n))" "keeps J (on_ord (FindTransport tid))" "keeps J (on_ord (FindTransportByRef ro ref))"
  "keeps J (on_ord (FindOrder oid))" "keeps J (on_ord (FindOrderByOrigin g))" "keeps J (on_ord (FindOrderByTransport tid))"
  "keeps J (on_ord (UnbookedTransports ro t n))" "keeps J (on_ord (UnconfirmedOrders t n))" "keeps J (on_ord (repo_PayoutDue t n))"
  "keeps J (on_ord (ClaimedPayouts n))" "keeps J (on_ord (FindRefund rid))" "keeps J (on_ord (LiveRefundOnOrder oid))"
  "keeps J (on_ord (LatestRefundOnOrder oid))" "keeps J (on_ord (OverdueRefunds t n))"
  by (rule keeps_reads, rule reads_intros)+

lemma GetSession_reads: "GetSession now actor sid db = (db', r) \<Longrightarrow> db' = db"
  by (auto simp: GetSession_def party_def FindSessionByID_def tenderOf_def ListTransactions_def act_defs
      split: option.splits if_splits)

lemma keeps_GetSession [keeps_intros]: "keeps J (on_fin (GetSession now actor sid))"
proof (rule keepsI)
  fix m m' :: market and r
  assume "J m" "on_fin (GetSession now actor sid) m = (m', r)"
  then show "J m'"
    by (cases r) (auto simp: on_fin_def zoom_Inr zoom_Inl dest!: GetSession_reads)
qed

lemma keeps_need [keeps_intros]: "keeps J (need c e)"
  and keeps_refuse [keeps_intros]: "keeps J (refuse e)"
  and keeps_decide [keeps_intros]: "keeps J (decide r)"
  and keeps_outside [keeps_intros]: "keeps J (outside r')"
  by (auto simp: need_def refuse_def decide_def outside_def intro!: keeps_intros)

lemma keeps_best_effort [keeps_intros]: "keeps J m \<Longrightarrow> keeps J (best_effort m)"
  by (auto simp: best_effort_def intro!: keeps_intros)

lemma keeps_unless_posted [keeps_intros]: "keeps J m \<Longrightarrow> keeps J (unless_posted m)"
  by (auto simp: unless_posted_def intro!: keeps_intros)

text \<open>A run that gets past its first half brings its own fact for the second.\<close>

lemma keeps_bind_then:
  assumes "keeps J m" and "\<And>s s' x. J s \<Longrightarrow> m s = (s', Inr x) \<Longrightarrow> K x s'"
    and "\<And>x s. K x s \<Longrightarrow> J s" and "\<And>x. keeps (K x) (f x)"
  shows "keeps J (act_bind m f)"
proof (rule keepsI)
  fix s s' r
  assume J: "J s" and run: "act_bind m f s = (s', r)"
  obtain t y where m: "m s = (t, y)" by fastforce
  show "J s'"
  proof (cases y)
    case (Inl e)
    with m run keepsD [OF assms(1) J m] show ?thesis by (simp add: act_bind_stop)
  next
    case (Inr x)
    with m run have "f x t = (s', r)" by (simp add: act_bind_step)
    with assms(2) [OF J] m Inr show ?thesis using keepsD [OF assms(4), of x] assms(3) by blast
  qed
qed

lemma keeps_bind_decide: "(\<And>x. r = Inr x \<Longrightarrow> keeps J (f x)) \<Longrightarrow> keeps J (act_bind (decide r) f)"
  by (cases r) (auto simp: keeps_def decide_def act_defs)

lemma ret_bind: "act_bind (ret x) f = f x"
  by (simp add: fun_eq_iff act_defs)

lemma fail_bind: "act_bind (fail e) f = fail e"
  by (simp add: fun_eq_iff act_defs)

text \<open>A run that starts with more than it has to end with.\<close>

definition ends :: "('s \<Rightarrow> bool) \<Rightarrow> ('s \<Rightarrow> bool) \<Rightarrow> ('s, 'e, 'a) act \<Rightarrow> bool" where
  "ends K J c \<longleftrightarrow> (\<forall>s. K s \<longrightarrow> J (fst (c s)))"

lemma ends_keeps: "keeps J c \<Longrightarrow> (\<And>s. K s \<Longrightarrow> J s) \<Longrightarrow> ends K J c"
  by (simp add: ends_def keeps_def)

lemma keeps_ends: "ends J J c = keeps J c"
  by (simp add: ends_def keeps_def)

lemma ends_if: "(b \<Longrightarrow> ends K J c) \<Longrightarrow> (\<not> b \<Longrightarrow> ends K J d) \<Longrightarrow> ends K J (if b then c else d)"
  by simp

lemma ends_sum:
  "(\<And>e. x = Inl e \<Longrightarrow> ends K J (f e)) \<Longrightarrow> (\<And>y. x = Inr y \<Longrightarrow> ends K J (g y))
    \<Longrightarrow> ends K J (case x of Inl e \<Rightarrow> f e | Inr y \<Rightarrow> g y)"
  by (simp split: sum.split)

lemma ends_bind:
  assumes "\<And>s s' r. K s \<Longrightarrow> c s = (s', r) \<Longrightarrow> (case r of Inl e \<Rightarrow> J s' | Inr x \<Rightarrow> K' x s')" and "\<And>x. ends (K' x) J (f x)"
  shows "ends K J (act_bind c f)"
proof -
  have "J (fst (act_bind c f s))" if "K s" for s
    using assms(1) [OF that prod.collapse [symmetric]] assms(2)
    by (auto simp: ends_def act_bind_def split: prod.splits sum.splits)
  then show ?thesis by (simp add: ends_def)
qed

lemma ends_then_keeps: "ends K J c \<Longrightarrow> (\<And>x. keeps J (f x)) \<Longrightarrow> ends K J (act_bind c f)"
  by (rule ends_bind [where K' = "\<lambda>_. J"]; auto simp: keeps_ends; auto simp: ends_def split: sum.split dest: spec)

lemma ends_bind_same:
  assumes "\<And>s. fst (c s) = s" and "\<And>s. K s \<Longrightarrow> J s" and "\<And>x. ends K J (f x)"
  shows "ends K J (act_bind c f)"
proof (rule ends_bind [where K' = "\<lambda>_. K"])
  fix s s' r assume "K s" "c s = (s', r)"
  then show "case r of Inl e \<Rightarrow> J s' | Inr x \<Rightarrow> K s'" using assms(1) [of s] assms(2) by (auto split: sum.split)
qed (rule assms(3))

lemma ends_bind_decide:
  "(\<And>s. K s \<Longrightarrow> J s) \<Longrightarrow> (\<And>x. r = Inr x \<Longrightarrow> ends K J (f x)) \<Longrightarrow> ends K J (act_bind (decide r) f)"
  by (cases r) (auto simp: ends_def decide_def act_defs)

lemma FindOrder_Inr: "FindOrder oid db = (db', Inr ord) \<Longrightarrow> db' = db \<and> ord \<in> set (q_orders db) \<and> o_id ord = oid"
  by (auto simp: FindOrder_def act_runs find_Some_iff)

lemma ends_FindOrder:
  assumes "\<And>m. K m \<Longrightarrow> J m" and "\<And>ord. ends (\<lambda>m. K m \<and> ord \<in> set (q_orders (m_ord m))) J (f ord)"
  shows "ends K J (act_bind (on_ord (FindOrder oid)) f)"
proof (rule ends_bind)
  fix m m' r assume K: "K m" and run: "on_ord (FindOrder oid) m = (m', r)"
  have "m' = m" by (rule on_ord_reads [OF reads_statements(7) run])
  with K run assms(1) show "case r of Inl e \<Rightarrow> J m' | Inr ord \<Rightarrow> K m' \<and> ord \<in> set (q_orders (m_ord m'))"
    by (cases r) (auto simp: on_ord_def zoom_Inr dest: FindOrder_Inr)
qed (rule assms(2))

lemma ends_FindRefund:
  assumes "\<And>m. K m \<Longrightarrow> J m" and "\<And>r. ends (\<lambda>m. K m \<and> r \<in> set (q_refunds (m_ord m))) J (f r)"
  shows "ends K J (act_bind (on_ord (FindRefund rid)) f)"
proof (rule ends_bind)
  fix m m' x assume K: "K m" and run: "on_ord (FindRefund rid) m = (m', x)"
  have "m' = m" by (rule on_ord_reads [OF reads_statements(14) run])
  with K run assms(1) show "case x of Inl e \<Rightarrow> J m' | Inr r \<Rightarrow> K m' \<and> r \<in> set (q_refunds (m_ord m'))"
    by (cases x) (auto simp: on_ord_def zoom_Inr FindRefund_def act_runs find_Some_iff)
qed (rule assms(2))

text \<open>The handlers that pay no escrow out.\<close>

fun quiet_op :: "market_op \<Rightarrow> bool" where
  "quiet_op (OpDeclineOrder _ _ _) = False"
| "quiet_op (OpCancelOrder _ _) = False"
| "quiet_op (OpReleasePayout _) = False"
| "quiet_op (OpReleaseDue _) = False"
| "quiet_op (OpRetryPayouts _) = False"
| "quiet_op (OpResolveRefund _ _ _ _) = False"
| "quiet_op (OpAdvanceRefund _) = False"
| "quiet_op (OpAdvanceOverdue _) = False"
| "quiet_op _ = True"

lemma keeps_event [keeps_intros]:
  "(\<And>sid kind a b c d e. ev = SessionPaid sid kind a b c d e \<Longrightarrow> keeps J (f sid kind a b c d e))
    \<Longrightarrow> (\<And>sid kind a b. ev = SessionCancelled sid kind a b \<Longrightarrow> keeps J (g sid kind a b))
    \<Longrightarrow> keeps J (case ev of SessionPaid sid kind a b c d e \<Rightarrow> f sid kind a b c d e
        | SessionCancelled sid kind a b \<Rightarrow> g sid kind a b)"
  by (cases ev) auto

text \<open>The handlers that write neither an order nor a refund that is there already.\<close>

fun base_op :: "market_op \<Rightarrow> bool" where
  "base_op (OpPaid _) = True"
| "base_op (OpCancelled _) = True"
| "base_op (OpAdvanceShipment _ _ _) = True"
| "base_op (OpCheckpoint _ _) = True"
| "base_op (OpRetryBookings _) = True"
| "base_op (OpCancelItem _ _) = True"
| "base_op (OpExpireCheckouts _) = True"
| "base_op (OpCreateRefund _ _ _ _) = True"
| "base_op _ = False"

lemma keeps_list [keeps_intros]:
  "(xs = [] \<Longrightarrow> keeps J m) \<Longrightarrow> (\<And>y ys. xs = y # ys \<Longrightarrow> keeps J (g y ys))
    \<Longrightarrow> keeps J (case xs of [] \<Rightarrow> m | y # ys \<Rightarrow> g y ys)"
  by (cases xs) auto


section \<open>The contract\<close>

locale market_base =
  fixes J :: "market \<Rightarrow> bool"
  assumes log: "J m \<Longrightarrow> J (m\<lparr>m_out := out\<rparr>)"
    and shelf: "keeps J (on_shelf (ReleaseStock v n))" "keeps J (on_shelf (CommitStock v n key))"
      "keeps J (on_shelf (UncommitStock v n key))"
    and lines: "keeps J (on_ord (SaveItem i))" "keeps J (on_ord (LinkItems oid iids))"
    and parcels: "keeps J (on_ord (InsertTransport now opt fee))" "keeps J (on_ord (SaveTransport t from_status))"
      "keeps J (on_ord (BookTransport ro tid data))"
    and rows: "keeps J (on_ord (CreateOrder now ord iids))" "keeps J (on_ord (ClaimPayout now ord))"
      "keeps J (on_ord (InsertRefund now rf))"
    and hold: "keeps J (on_fin (HoldEscrow F (escrow_of ord cur amount fee (hold_key (o_id ord)))))"
begin

lemma keeps_emit [keeps_intros]: "keeps J (emit x)"
  unfolding emit_def by (rule keeps_modify) (rule log)

lemmas statements [keeps_intros] = shelf lines parcels rows hold

lemma keeps_helpers [keeps_intros]:
  "keeps J (requireModerator E a)" "keeps J (requireResources E ks)" "keeps J (pickupSnapshot E seller)"
  "keeps J (involved a oid)" "keeps J (orderTotal oid)" "keeps J (publishDelivered ord)"
  "keeps J (publishSettled ord done)" "keeps J (publishConfirmationLapsed ord)"
  "keeps J (publishRefundEscalated r ord cause)" "keeps J (publishPlaced ord paid n cur)"
  "keeps J (commitItemStock oid i)" "keeps J (paidShippingFee E now b sid)"
  "keeps J (advanceLeg tid st)" "keeps J (refundTimers r)"
  "keeps J (refundParty a rid)" "keeps J (requireUnpaid now i a)" "keeps J (sessionAbandoned sid)"
  "keeps J (openReturnLeg now r ord)" "keeps J (publishResolved r ord a wins note)"
  by (simp only: requireModerator_def requireResources_def pickupSnapshot_def involved_def orderTotal_def
        publishDelivered_def publishSettled_def publishConfirmationLapsed_def publishRefundEscalated_def
        publishPlaced_def commitItemStock_def paidShippingFee_def advanceLeg_def refundTimers_def
        refundParty_def requireUnpaid_def sessionAbandoned_def openReturnLeg_def publishResolved_def,
      (intro keeps_intros)?)+

lemma keeps_uncommit_items [keeps_intros]: "keeps J (uncommit_items oid is)"
  by (induction "is") (auto intro!: keeps_intros)

lemma keeps_commit_items [keeps_intros]: "keeps J (commit_items oid is)"
  by (induction "is") (auto intro!: keeps_intros)

lemma keeps_uncommitOrderStock [keeps_intros]: "keeps J (uncommitOrderStock ord)"
  unfolding uncommitOrderStock_def by (intro keeps_intros)

lemma keeps_cancelLine [keeps_intros]: "keeps J (cancelLine now i a)"
  unfolding cancelLine_def by (intro keeps_intros)

lemma keeps_CancelItem [keeps_intros]: "keeps J (CancelItem now a iid)"
  unfolding CancelItem_def by (intro keeps_intros)

lemma keeps_abandon_each [keeps_intros]: "keeps J (abandon_each now is)"
  by (induction "is") (auto intro!: keeps_intros)

lemma keeps_expire_each [keeps_intros]: "keeps J (expire_each now is)"
  by (induction "is") (auto intro!: keeps_intros)

lemma keeps_bookShipment [keeps_intros]: "keeps J (bookShipment E ord is)"
  unfolding bookShipment_def Let_def by (intro keeps_intros)

lemma keeps_book_each [keeps_intros]: "keeps J (book_each E oids)"
  by (induction oids) (auto intro!: keeps_intros)

lemma keeps_createOrder [keeps_intros]: "keeps J (createOrder E now g first paid fee)"
  unfolding createOrder_def by (intro keeps_intros)

lemma keeps_finishSettlement [keeps_intros]: "keeps J (finishSettlement E ord paid sid fee)"
  unfolding finishSettlement_def Let_def by (intro keeps_intros)

lemma keeps_SettlePaidSession [keeps_intros]: "keeps J (SettlePaidSession E now sid)"
  unfolding SettlePaidSession_def Let_def by (intro keeps_intros)

lemma keeps_base_call: "base_op op \<Longrightarrow> keeps J (market_call E now op)"
  by (cases op; simp only: market_call.simps base_op.simps void_def SubscribePaidSessions_def
      SubscribeCancelledSessions_def AbandonCheckout_def AdvanceShipment_def RecordCarrierCheckpoint_def
      RetryUnbookedShipments_def ExpireCheckouts_def CreateRefund_def Let_def;
      intro keeps_intros)

end

text \<open>With the guarded writes of an order and of a refund, and with them every handler that pays no escrow out.\<close>

locale market_quiet = market_base +
  assumes orders: "keeps J (on_ord (SaveOrder ord))" "keeps J (on_ord (MarkPayoutReleased ord))"
    and cases: "keeps J (on_ord (SaveRefund rf st))" "keeps J (on_ord (SaveRefundOutcome rf cl st))"
begin

lemmas saves [keeps_intros] = orders cases

lemma keeps_saveRefund [keeps_intros]: "keeps J (saveRefund r st')"
  unfolding saveRefund_def by (intro keeps_intros)

lemma keeps_escalateConfirmation [keeps_intros]: "keeps J (escalateConfirmation now ord)"
  unfolding escalateConfirmation_def by (intro keeps_intros)

lemma keeps_escalate_each [keeps_intros]: "keeps J (escalate_each now ords)"
  by (induction ords) (auto intro!: keeps_intros)

lemma keeps_quiet_call: "quiet_op op \<Longrightarrow> keeps J (market_call E now op)"
  by (cases op; simp only: market_call.simps quiet_op.simps void_def SubscribePaidSessions_def
      SubscribeCancelledSessions_def AbandonCheckout_def ConfirmOrder_def ConfirmReceipt_def AdvanceShipment_def
      RecordCarrierCheckpoint_def RetryUnbookedShipments_def EscalateUnconfirmedOrder_def
      EscalateUnconfirmedOrders_def ExpireCheckouts_def CreateRefund_def WithdrawRefund_def
      AddRefundAttachments_def AcceptRefund_def AdvanceReturnShipment_def EscalateRefund_def Let_def;
      intro keeps_intros)

end

text \<open>The two transfers that pay an escrow out, and with them every handler.\<close>

locale market_loud = market_quiet +
  assumes release: "keeps J (on_fin (ReleaseEscrow F (escrow_of ord cur amount fee (release_key (o_id ord)))))"
    and refund: "keeps J (on_fin (RefundEscrow F (escrow_of ord cur amount fee (refund_key (o_id ord)))))"
begin

lemmas transfers [keeps_intros] = release refund

lemma keeps_payouts [keeps_intros]:
  "keeps J (refundEscrow E ord fee)" "keeps J (recordRelease now ord)" "keeps J (settleRefund E now r ord st')"
  by (simp only: refundEscrow_def recordRelease_def settleRefund_def, (intro keeps_intros)?)+

lemma keeps_releasePayout [keeps_intros]: "keeps J (releasePayout E now ord)"
  unfolding releasePayout_def by (intro keeps_intros)

lemma keeps_release_each [keeps_intros]: "keeps J (release_each E now ords)"
  by (induction ords) (auto intro!: keeps_intros)

lemma keeps_retry_each [keeps_intros]: "keeps J (retry_each E now ords)"
  by (induction ords) (auto intro!: keeps_intros)

lemma keeps_advanceRefund [keeps_intros]: "keeps J (advanceRefund E now r)"
  unfolding advanceRefund_def by (intro keeps_intros)

lemma keeps_advance_each [keeps_intros]: "keeps J (advance_each E now rs)"
  by (induction rs) (auto intro!: keeps_intros)

lemma keeps_loud_call: "\<not> quiet_op op \<Longrightarrow> keeps J (market_call E now op)"
  by (cases op; simp only: market_call.simps quiet_op.simps void_def DeclineOrder_def CancelOrder_def
      ReleasePayout_def ReleaseDuePayouts_def RetryClaimedPayouts_def AdminResolveRefund_def AdvanceRefund_def
      AdvanceOverdueRefunds_def Let_def not_True_eq_False; intro keeps_intros)

lemma keeps_call: "keeps J (market_call E now op)"
  by (cases "quiet_op op") (auto intro: keeps_quiet_call keeps_loud_call)

lemma keeps_steps: "market_steps E m m' \<Longrightarrow> J m \<Longrightarrow> J m'"
  by (induction rule: market_steps.induct) (auto dest: keepsD [OF keeps_call])

end

section \<open>The rows of the order tables\<close>

lemma keeps_on_ord: "keeps I s \<Longrightarrow> keeps (\<lambda>m. I (m_ord m)) (on_ord s)"
  by (rule keepsI, case_tac r) (auto simp: on_ord_def zoom_Inr zoom_Inl dest: keepsD)

lemma on_fin_elsewhere: "on_fin s m = (m', r) \<Longrightarrow> m_ord m' = m_ord m \<and> m_shelf m' = m_shelf m \<and> m_out m' = m_out m"
  by (cases r) (auto simp: on_fin_def zoom_Inr zoom_Inl)

lemma on_shelf_elsewhere: "on_shelf s m = (m', r) \<Longrightarrow> m_ord m' = m_ord m \<and> m_fin m' = m_fin m \<and> m_out m' = m_out m"
  by (cases r) (auto simp: on_shelf_def zoom_Inr zoom_Inl)

lemma on_ord_elsewhere: "on_ord s m = (m', r) \<Longrightarrow> m_shelf m' = m_shelf m \<and> m_fin m' = m_fin m \<and> m_out m' = m_out m"
  by (cases r) (auto simp: on_ord_def zoom_Inr zoom_Inl)

lemma keeps_elsewhere:
  "keeps (\<lambda>m. I (m_ord m)) (on_fin s)" "keeps (\<lambda>m. I (m_ord m)) (on_shelf s')"
  "keeps (\<lambda>m. K (m_fin m)) (on_ord t)" "keeps (\<lambda>m. K (m_fin m)) (on_shelf s')"
  "keeps (\<lambda>m. H (m_shelf m)) (on_ord t)" "keeps (\<lambda>m. H (m_shelf m)) (on_fin s)"
  by (rule keepsI; auto dest: on_fin_elsewhere on_shelf_elsewhere on_ord_elsewhere)+

text \<open>A law of the order rows is a law of the market: money and stock are elsewhere.\<close>

sublocale row_law \<subseteq> market: market_loud "\<lambda>m. I (m_ord m)"
proof
  show "keeps (\<lambda>m. I (m_ord m)) (on_ord (SaveItem i))" "keeps (\<lambda>m. I (m_ord m)) (on_ord (LinkItems oid iids))" for i oid iids
    by (intro keeps_on_ord lines)+
  show "keeps (\<lambda>m. I (m_ord m)) (on_ord (InsertTransport now opt fee))"
    "keeps (\<lambda>m. I (m_ord m)) (on_ord (SaveTransport t st))"
    "keeps (\<lambda>m. I (m_ord m)) (on_ord (BookTransport ro tid data))" for now opt fee t st ro tid data
    by (intro keeps_on_ord parcels)+
  show "keeps (\<lambda>m. I (m_ord m)) (on_ord (CreateOrder now ord iids))" "keeps (\<lambda>m. I (m_ord m)) (on_ord (SaveOrder ord))"
    "keeps (\<lambda>m. I (m_ord m)) (on_ord (ClaimPayout now ord))"
    "keeps (\<lambda>m. I (m_ord m)) (on_ord (MarkPayoutReleased ord))" for now ord iids
    by (intro keeps_on_ord orders)+
  show "keeps (\<lambda>m. I (m_ord m)) (on_ord (InsertRefund now rf))" "keeps (\<lambda>m. I (m_ord m)) (on_ord (SaveRefund rf st))"
    "keeps (\<lambda>m. I (m_ord m)) (on_ord (SaveRefundOutcome rf cl st))" for now rf st cl
    by (intro keeps_on_ord cases)+
qed (auto intro: keeps_elsewhere)

text \<open>So is an invariant of the wallets and the ledger.\<close>

lemma keeps_on_fin: "keeps I s \<Longrightarrow> keeps (\<lambda>m. I (m_fin m)) (on_fin s)"
  by (rule keepsI, case_tac r) (auto simp: on_fin_def zoom_Inr zoom_Inl dest: keepsD)

sublocale money_invariant \<subseteq> market: market_loud "\<lambda>m. I (m_fin m)"
proof
  show "keeps (\<lambda>m. I (m_fin m)) (on_fin (HoldEscrow F (escrow_of ord cur amount fee (hold_key (o_id ord)))))"
    "keeps (\<lambda>m. I (m_fin m)) (on_fin (ReleaseEscrow F (escrow_of ord cur amount fee (release_key (o_id ord)))))"
    "keeps (\<lambda>m. I (m_fin m)) (on_fin (RefundEscrow F (escrow_of ord cur amount fee (refund_key (o_id ord)))))"
    for F ord cur amount fee
    using keeps_call [of F _ "OpHoldEscrow (escrow_of ord cur amount fee (hold_key (o_id ord)))"]
      keeps_call [of F _ "OpReleaseEscrow (escrow_of ord cur amount fee (release_key (o_id ord)))"]
      keeps_call [of F _ "OpRefundEscrow (escrow_of ord cur amount fee (refund_key (o_id ord)))"]
    by (auto intro: keeps_on_fin)
qed (auto intro: keeps_elsewhere)

text \<open>And of the shelf.\<close>

lemma keeps_on_shelf: "keeps I s \<Longrightarrow> keeps (\<lambda>m. I (m_shelf m)) (on_shelf s)"
  by (rule keepsI, case_tac r) (auto simp: on_shelf_def zoom_Inr zoom_Inl dest: keepsD)

interpretation shelf: market_loud "\<lambda>m. shelf_ok (m_shelf m)"
proof
  show "keeps (\<lambda>m. shelf_ok (m_shelf m)) (on_shelf (ReleaseStock v n))"
    "keeps (\<lambda>m. shelf_ok (m_shelf m)) (on_shelf (CommitStock v n key))"
    "keeps (\<lambda>m. shelf_ok (m_shelf m)) (on_shelf (UncommitStock v n key))" for v n key
    by (intro keeps_on_shelf keeps_shelf_moves)+
qed (auto intro: keeps_elsewhere)

end
