(* ===== verification/SaleRules.thy ===== *)
theory SaleRules
  imports OrderSale OrderLaws
begin

text \<open>
  What the sale keeps: every line on the books carries the frozen terms of one origin, and that origin is spent.
  The order module's own contract (\<open>row_law\<close>) gives that no market handler rewrites the terms of a line; the
  rest is the statements of the draft and offer tables, and the two checkouts that write lines.
\<close>

section \<open>The terms of a line\<close>

definition line_terms :: "item \<Rightarrow> item" where
  "line_terms i = i\<lparr>i_order := None, i_cancelled_at := None, i_cancelled_by := None\<rparr>"

definition from_draft :: "draft \<Rightarrow> item \<Rightarrow> bool" where
  "from_draft d i \<longleftrightarrow> i_buyer i = dr_buyer d \<and> i_seller i = ls_seller (dr_snapshot d) \<and> i_listing i = dr_listing d
    \<and> i_currency i = ls_currency (dr_snapshot d)
    \<and> (case draft_Variant d (i_variant i) of Inl _ \<Rightarrow> False | Inr v \<Rightarrow> i_total i = vs_price v * i_quantity i)"

definition from_offer :: "offer \<Rightarrow> item \<Rightarrow> bool" where
  "from_offer f i \<longleftrightarrow> i_buyer i = f_buyer f \<and> i_seller i = f_seller f \<and> i_listing i = f_listing f
    \<and> i_variant i = f_variant f \<and> i_quantity i = f_quantity f \<and> i_total i = f_total f"

definition sold_line :: "shop_db \<Rightarrow> item \<Rightarrow> bool" where
  "sold_line p i \<longleftrightarrow>
    (case (i_draft i, i_offer i) of
       (Some did, None) \<Rightarrow> (\<exists>d \<in> set (p_drafts p). dr_id d = did \<and> dr_cancelled_at d \<noteq> None \<and> from_draft d i)
     | (None, Some fid) \<Rightarrow> (\<exists>f \<in> set (p_offers p). f_id f = fid \<and> f_status f = OfferCheckedOut
         \<and> f_session f = Some (i_session i) \<and> from_offer f i)
     | _ \<Rightarrow> False)"

definition shop_ok :: "shop_db \<Rightarrow> bool" where
  "shop_ok p \<longleftrightarrow> fresh_above (p_draft_seq p) dr_id (p_drafts p) \<and> fresh_above (p_offer_seq p) f_id (p_offers p)
    \<and> (\<forall>f \<in> set (p_offers p). f_session f \<noteq> None \<longrightarrow> f_status f = OfferCheckedOut)"

definition one_origin :: "item list \<Rightarrow> bool" where
  "one_origin items \<longleftrightarrow> (\<forall>i \<in> set items. \<forall>j \<in> set items. i_draft i \<noteq> None \<and> i_draft i = i_draft j \<longrightarrow> i_session i = i_session j)
    \<and> distinct (List.map_filter i_offer items)"

definition lines_ok :: "item list \<times> shop_db \<Rightarrow> bool" where
  "lines_ok b \<longleftrightarrow> shop_ok (snd b) \<and> one_origin (fst b) \<and> (\<forall>i \<in> set (fst b). sold_line (snd b) i)"

definition books :: "sale \<Rightarrow> item list \<times> shop_db" where
  "books s = (map line_terms (q_items (m_ord (sa_market s))), sa_shop s)"

abbreviation sale_ok :: "sale \<Rightarrow> bool" where
  "sale_ok s \<equiv> lines_ok (books s)"

lemma line_terms_fields [simp]:
  "i_draft (line_terms i) = i_draft i" "i_offer (line_terms i) = i_offer i" "i_session (line_terms i) = i_session i"
  "i_buyer (line_terms i) = i_buyer i" "i_seller (line_terms i) = i_seller i" "i_listing (line_terms i) = i_listing i"
  "i_variant (line_terms i) = i_variant i" "i_quantity (line_terms i) = i_quantity i" "i_total (line_terms i) = i_total i"
  "i_currency (line_terms i) = i_currency i" "i_id (line_terms i) = i_id i"
  by (simp_all add: line_terms_def)

lemma from_terms [simp]: "from_draft d (line_terms i) = from_draft d i" "from_offer f (line_terms i) = from_offer f i"
  by (simp_all add: from_draft_def from_offer_def cong: sum.case_cong)

lemma sold_line_terms [simp]: "sold_line p (line_terms i) = sold_line p i"
  by (simp add: sold_line_def cong: option.case_cong)

lemma one_origin_terms [simp]: "one_origin (map line_terms items) = one_origin items"
  by (simp add: one_origin_def map_filter_def comp_def filter_map)

section \<open>No market handler rewrites the terms of a line\<close>

lemma keeps_terms:
  assumes "\<And>db db' r. s db = (db', r) \<Longrightarrow> map line_terms (q_items db') = map line_terms (q_items db)"
  shows "keeps (\<lambda>db. map line_terms (q_items db) = X) s"
  by (rule keepsI) (use assms in metis)

lemma link_items_terms: "map line_terms (link_items oid ids items) = map line_terms items"
  unfolding link_items_def by (rule map_update_where) (simp add: line_terms_def)

interpretation terms: row_law "\<lambda>db. map line_terms (q_items db) = X" for X
proof
  show "keeps (\<lambda>db. map line_terms (q_items db) = X) (SaveItem i)" for i
    by (rule keeps_terms) (auto simp: SaveItem_def act_defs Let_def map_update_where line_terms_def split: if_splits)
  show "keeps (\<lambda>db. map line_terms (q_items db) = X) (LinkItems oid iids)" for oid iids
    by (rule keeps_terms) (auto simp: LinkItems_def act_defs link_items_terms split: if_splits)
  show "keeps (\<lambda>db. map line_terms (q_items db) = X) (InsertTransport now opt fee)" for now opt fee
    by (rule keeps_terms) (auto simp: InsertTransport_def identity_def act_defs split: if_splits)
  show "keeps (\<lambda>db. map line_terms (q_items db) = X) (SaveTransport t st0)" for t st0
    by (rule keeps_terms, case_tac r)
      (auto simp: SaveTransport_def OrdTx_def recordOrderFact_def act_runs Let_def split: option.splits)
  show "keeps (\<lambda>db. map line_terms (q_items db) = X) (BookTransport ro tid data)" for ro tid data
    by (rule keeps_terms) (auto simp: BookTransport_def act_defs Let_def split: if_splits)
  show "keeps (\<lambda>db. map line_terms (q_items db) = X) (CreateOrder now ord iids)" for now ord iids
    by (rule keeps_terms, case_tac r)
      (auto simp: CreateOrder_def OrdTx_def recordOrderFact_def identity_Inr identity_Inl act_runs Let_def link_items_terms)
  show "keeps (\<lambda>db. map line_terms (q_items db) = X) (SaveOrder ord)" for ord
    by (rule keeps_terms, case_tac r)
      (auto simp: SaveOrder_def OrdTx_def save_order_def writeOrderEvents_def act_runs Let_def)
  show "keeps (\<lambda>db. map line_terms (q_items db) = X) (ClaimPayout now ord)" for now ord
    by (rule keeps_terms, case_tac r)
      (auto simp: ClaimPayout_def OrdTx_def recordOrderFact_def act_runs Let_def split: if_splits)
  show "keeps (\<lambda>db. map line_terms (q_items db) = X) (MarkPayoutReleased ord)" for ord
    by (rule keeps_terms, case_tac r) (auto simp: MarkPayoutReleased_def OrdTx_def recordOrderFact_def act_runs Let_def split: if_splits)
  show "keeps (\<lambda>db. map line_terms (q_items db) = X) (InsertRefund now rf)" for now rf
    by (rule keeps_terms, case_tac r)
      (auto simp: InsertRefund_def OrdTx_def recordOrderFact_def identity_Inr identity_Inl act_runs Let_def split: if_splits)
  show "keeps (\<lambda>db. map line_terms (q_items db) = X) (SaveRefund rf st)" for rf st
    by (rule keeps_terms, case_tac r) (auto simp: SaveRefund_def act_runs Let_def split: if_splits)
  show "keeps (\<lambda>db. map line_terms (q_items db) = X) (SaveRefundOutcome rf cl st)" for rf cl st
    by (rule keeps_terms, case_tac r)
      (auto simp: SaveRefundOutcome_def OrdTx_def SaveRefund_def save_order_def writeOrderEvents_def recordOrderFact_def
        act_runs Let_def split: if_splits option.splits)
qed


section \<open>What the statements of the shop tables keep\<close>

definition advances :: "shop_db \<Rightarrow> shop_db \<Rightarrow> bool" where
  "advances p p' \<longleftrightarrow> shop_ok p' \<and> (\<forall>d \<in> set (p_drafts p). dr_cancelled_at d \<noteq> None \<longrightarrow> d \<in> set (p_drafts p'))
    \<and> (\<forall>f \<in> set (p_offers p). f_session f \<noteq> None \<longrightarrow> f \<in> set (p_offers p'))"

lemma advances_refl: "shop_ok p \<Longrightarrow> advances p p"
  by (simp add: advances_def)

lemma lines_advance:
  assumes "lines_ok (items, p)" and "advances p p'"
  shows "lines_ok (items, p')"
proof -
  have "sold_line p' i" if "sold_line p i" for i
    using that assms(2) by (fastforce simp: sold_line_def advances_def split: option.splits)
  with assms show ?thesis by (auto simp: lines_ok_def advances_def)
qed

lemma keeps_shop:
  assumes "\<And>p p' r. shop_ok p \<Longrightarrow> st p = (p', r) \<Longrightarrow> advances p p'"
  shows "keeps sale_ok (on_shop st)"
proof (rule keepsI)
  fix s s' r assume ok: "sale_ok s" and run: "on_shop st s = (s', r)"
  obtain p' x where st: "st (sa_shop s) = (p', x)" by fastforce
  with run have b: "books s' = (fst (books s), p')" by (cases x) (auto simp: on_shop_def zoom_def books_def)
  from ok st have "advances (sa_shop s) p'" by (intro assms) (auto simp: lines_ok_def books_def)
  with ok lines_advance [of "fst (books s)" "sa_shop s" p'] b show "sale_ok s'" by (simp add: books_def)
qed

lemma cart_advances:
  "shop_ok p \<Longrightarrow> p_drafts p' = p_drafts p \<Longrightarrow> p_offers p' = p_offers p \<Longrightarrow> p_draft_seq p' = p_draft_seq p
    \<Longrightarrow> p_offer_seq p' = p_offer_seq p \<Longrightarrow> advances p p'"
  by (simp add: advances_def shop_ok_def)

lemma keeps_cart [keeps_intros]:
  "keeps sale_ok (on_shop (UpsertCartItem now c))" "keeps sale_ok (on_shop (FindCartItem cid account))"
  "keeps sale_ok (on_shop (SaveCartItem c))" "keeps sale_ok (on_shop (repo_DeleteCartItem cid account))"
  "keeps sale_ok (on_shop (DeleteCartItemsByVariants account vs))"
  by (rule keeps_shop; auto intro!: cart_advances simp: UpsertCartItem_def FindCartItem_def SaveCartItem_def
      repo_DeleteCartItem_def DeleteCartItemsByVariants_def shop_identity_def act_defs Let_def
      split: if_splits option.splits)+

lemma keeps_shop_reads [keeps_intros]:
  "keeps sale_ok (on_shop (FindDraft did buyer))" "keeps sale_ok (on_shop (FindOffer fid))"
  "keeps sale_ok (on_shop (ExpiredDrafts now n))" "keeps sale_ok (on_shop (ExpiredOffers now n))"
  by (rule keeps_shop; auto intro!: advances_refl simp: FindDraft_def FindOffer_def ExpiredDrafts_def ExpiredOffers_def
      act_defs split: option.splits)+

lemma fresh_above_later: "fresh_above n ident xs \<Longrightarrow> fresh_above (n + 1) ident xs"
  by (fastforce simp: fresh_above_def)

lemma keeps_InsertDraft [keeps_intros]: "keeps sale_ok (on_shop (InsertDraft now d))"
  by (rule keeps_shop)
    (auto simp: InsertDraft_def shop_identity_def act_defs Let_def advances_def shop_ok_def
      intro!: fresh_above_insert split: if_splits)

lemma keeps_SaveDraft [keeps_intros]: "keeps sale_ok (on_shop (SaveDraft d))"
  by (rule keeps_shop)
    (auto simp: SaveDraft_def act_defs Let_def advances_def shop_ok_def set_update_where
      intro!: fresh_above_update split: if_splits)

lemma keeps_InsertOffer [keeps_intros]: "keeps sale_ok (on_shop (InsertOffer now f))"
  by (rule keeps_shop)
    (auto simp: InsertOffer_def shop_identity_def act_defs Let_def advances_def shop_ok_def
      intro!: fresh_above_insert intro: fresh_above_later split: if_splits)

lemma keeps_SaveOffer [keeps_intros]: "OfferCheckedOut \<notin> set from_status \<Longrightarrow> keeps sale_ok (on_shop (SaveOffer f from_status))"
  by (rule keeps_shop)
    (fastforce simp: SaveOffer_def act_defs Let_def advances_def shop_ok_def set_update_where offer_columns_def
      intro!: fresh_above_update split: if_splits)

lemma keeps_claims [keeps_intros]:
  "keeps sale_ok (on_shop (ClaimOfferCheckout fid now))" "keeps sale_ok (on_shop (ReleaseOfferCheckout fid))"
  "keeps sale_ok (on_shop (AttachOfferSession fid sid))"
  by (rule keeps_shop; fastforce simp: ClaimOfferCheckout_def ReleaseOfferCheckout_def AttachOfferSession_def act_defs
      Let_def advances_def shop_ok_def set_update_where intro!: fresh_above_update split: if_splits)+


section \<open>What stays away from the books\<close>

definition desk :: "sale \<Rightarrow> ord_db \<times> shop_db" where
  "desk s = (m_ord (sa_market s), sa_shop s)"

definition aside :: "'a sale_act \<Rightarrow> bool" where
  "aside m \<longleftrightarrow> (\<forall>X. keeps (\<lambda>s. desk s = X) m)"

lemma asideD: "aside m \<Longrightarrow> m s = (s', r) \<Longrightarrow> desk s' = desk s"
  unfolding aside_def by (blast dest: keepsD)

lemma desk_books: "desk s' = desk s \<Longrightarrow> books s' = books s"
  by (simp add: desk_def books_def)

lemma aside_keeps: "aside m \<Longrightarrow> keeps sale_ok m"
  by (rule keepsI) (metis asideD desk_books)

lemma keeps_on_market: "(\<And>X. keeps (\<lambda>m. map line_terms (q_items (m_ord m)) = X) m) \<Longrightarrow> keeps sale_ok (on_market m)"
proof (rule keepsI)
  fix s s' r
  assume m: "\<And>X. keeps (\<lambda>m. map line_terms (q_items (m_ord m)) = X) m" and ok: "sale_ok s" and run: "on_market m s = (s', r)"
  obtain t x where t: "m (sa_market s) = (t, x)" by fastforce
  with run have "sa_market s' = t" "sa_shop s' = sa_shop s" by (cases x; auto simp: on_market_def zoom_def)+
  moreover have "map line_terms (q_items (m_ord t)) = map line_terms (q_items (m_ord (sa_market s)))"
    using keepsD [OF m _ t] by blast
  ultimately show "sale_ok s'" using ok by (simp add: books_def)
qed

lemma aside_on_market: "(\<And>X. keeps (\<lambda>m. m_ord m = X) m) \<Longrightarrow> aside (on_market m)"
  unfolding aside_def
proof (intro allI keepsI)
  fix X s s' r
  assume m: "\<And>X. keeps (\<lambda>m. m_ord m = X) m" and "desk s = X" and run: "on_market m s = (s', r)"
  obtain t x where t: "m (sa_market s) = (t, x)" by fastforce
  with run have "sa_market s' = t" "sa_shop s' = sa_shop s" by (cases x; auto simp: on_market_def zoom_def)+
  with keepsD [OF m _ t] \<open>desk s = X\<close> show "desk s' = X" by (simp add: desk_def)
qed

lemma keeps_outside_books [keeps_intros]:
  "keeps J (asks a)" "keeps J (must c e)" "keeps J (deny e)" "keeps J (decides d)"
  by (auto simp: asks_def must_def deny_def decides_def intro!: keeps_intros)

lemma keeps_or_undo [keeps_intros]: "keeps J m \<Longrightarrow> keeps J u \<Longrightarrow> keeps J (or_undo u m)"
  unfolding or_undo_def by (intro keeps_intros)

lemma keeps_find [keeps_intros]: "keeps J (variantOf E viewer v)" "keeps J (clientFor E c)" "keeps J (courier E opt)"
  "keeps J (contactSnapshot E a n)" "keeps J (deliverySnapshot E a n)" "keeps J (quoteCarrier client opt x y ls)"
  by (simp only: variantOf_def clientFor_def courier_def contactSnapshot_def deliverySnapshot_def quoteCarrier_def,
      intro keeps_intros)+

lemma aside_stock: "aside (on_market (on_shelf m))" "aside (on_market (on_fin n))"
  by (rule aside_on_market, rule keeps_elsewhere)+

lemma keeps_pickup: "keeps J (on_market (pickupSnapshot E seller))"
  by (rule keepsI, case_tac r)
    (auto simp: on_market_def zoom_Inr zoom_Inl pickupSnapshot_def outside_def refuse_def act_defs
      split: sum.splits if_splits prod.splits)

lemma keeps_quote [keeps_intros]: "keeps J (quoteShipping E opt seller addr ls)"
  unfolding quoteShipping_def by (intro keeps_intros keeps_pickup)

lemma aside_release: "aside (release_reserved rs)"
proof (induction rs)
  case (Cons r rs)
  obtain v n where r: "r = (v, n)" by (cases r)
  from Cons aside_stock(1) show ?case by (simp add: r aside_def) (intro allI keeps_intros; blast)
qed (simp add: aside_def keeps_intros)

lemma aside_intros: "aside m \<Longrightarrow> aside u \<Longrightarrow> aside (or_undo u m)" "(\<And>J. keeps J n) \<Longrightarrow> aside n"
  "aside m \<Longrightarrow> (\<And>x. aside (f x)) \<Longrightarrow> aside (act_bind m f)"
  unfolding aside_def by (intro allI keeps_intros; blast)+


section \<open>The handlers that write no line\<close>

lemma keeps_tell [keeps_intros]: "keeps sale_ok (tell x)"
  unfolding tell_def by (rule keeps_modify) (simp add: books_def)

lemma keeps_offer_talk [keeps_intros]: "keeps sale_ok (offer_party a fid)" "keeps sale_ok (postOfferCard f body)"
  "keeps sale_ok (notifyOfferUpdated f)" "keeps sale_ok (offerDTO E a f)" "keeps sale_ok (announceOfferChanged f dto a c)"
  by (simp only: offer_party_def postOfferCard_def notifyOfferUpdated_def offerDTO_def announceOfferChanged_def,
      intro keeps_intros)+

lemma keeps_cart_handlers [keeps_intros]: "keeps sale_ok (AddCartItem E now a v n)" "keeps sale_ok (UpdateCartItem a cid n)"
  "keeps sale_ok (DeleteCartItem a cid)"
  by (simp only: AddCartItem_def UpdateCartItem_def DeleteCartItem_def, intro keeps_intros)+

lemma keeps_draft_handlers [keeps_intros]: "keeps sale_ok (CreateDraft E now a lid)" "keeps sale_ok (CancelDraft now a did)"
  by (simp only: CreateDraft_def CancelDraft_def Let_def, intro keeps_intros)+

lemma keeps_offer_handlers [keeps_intros]:
  "keeps sale_ok (CreateOffer E now a v n t r)" "keeps sale_ok (CounterOffer E now a fid n t r)"
  "keeps sale_ok (CancelOffer E a fid)" "keeps sale_ok (AcceptOffer E now a fid)"
  by (simp only: CreateOffer_def CounterOffer_def CancelOffer_def AcceptOffer_def, intro keeps_intros; simp)+

lemma keeps_close_drafts [keeps_intros]: "keeps sale_ok (close_drafts now ds)"
  by (induction ds) (auto intro!: keeps_intros)

lemma keeps_closeOffer [keeps_intros]: "keeps sale_ok (closeOffer E f)"
  unfolding closeOffer_def notifyOfferExpired_def by (intro keeps_intros) (simp add: expirableOffer_def)

lemma keeps_close_offers [keeps_intros]: "keeps sale_ok (close_offers E fs)"
  by (induction fs) (auto intro!: keeps_intros)

lemma keeps_expiries [keeps_intros]: "keeps sale_ok (ExpireDrafts now n)" "keeps sale_ok (ExpireOffers E now n)"
  "keeps sale_ok (ExpireOffer E now fid)"
  by (simp only: ExpireDrafts_def ExpireOffers_def ExpireOffer_def, intro keeps_intros)+

lemma keeps_quotes [keeps_intros]: "keeps sale_ok (ShippingQuotes E now a v did fid n c ls)"
proof -
  have [keeps_intros]: "keeps sale_ok (quote_each E x y parcel cs)" for x y parcel cs
    by (induction cs) (auto intro!: keeps_intros)
  show ?thesis unfolding ShippingQuotes_def quote_source_def by (intro keeps_intros keeps_pickup)
qed

lemma keeps_void_act: "keeps J (void m) = keeps J m"
  by (simp add: keeps_def void_def act_bind_def act_defs split: prod.split sum.split) (metis fst_conv surj_pair sum.exhaust)

lemma keeps_market_call [keeps_intros]: "keeps sale_ok (on_market (market_call E now op))"
  by (rule keeps_on_market) (rule terms.market.keeps_call)

lemma keeps_void_call: "market_call E now op = void m \<Longrightarrow> keeps sale_ok (on_market m)"
  by (rule keeps_on_market) (metis keeps_void_act terms.market.keeps_call)

lemma keeps_passes:
  "list_all (keeps sale_ok) passes \<Longrightarrow> keeps sale_ok (foldr (\<lambda>pass rest. act_bind (sweep_pass pass) (\<lambda>_. rest)) passes (ret ()))"
proof (induction passes)
  case (Cons m passes)
  then show ?case unfolding sweep_pass_def by (simp only: foldr_Cons o_apply list.pred_inject, intro keeps_intros; simp)
qed (simp add: keeps_ret)

lemma keeps_sweep [keeps_intros]: "keeps sale_ok (Sweep E now)"
proof -
  have "keeps sale_ok (on_market (ExpireCheckouts now n))" "keeps sale_ok (on_market (ReleaseDuePayouts (se_market E) now n))"
    "keeps sale_ok (on_market (RetryClaimedPayouts (se_market E) now n))"
    "keeps sale_ok (on_market (RetryUnbookedShipments (se_market E) now n))"
    "keeps sale_ok (on_market (AdvanceOverdueRefunds (se_market E) now n))"
    "keeps sale_ok (on_market (EscalateUnconfirmedOrders now n))" for n
    by (rule keeps_void_call, rule market_call.simps)+
  then show ?thesis unfolding Sweep_def by (intro keeps_passes) (simp add: keeps_expiries)
qed

section \<open>The two checkouts\<close>

lemma ends_or_undo:
  assumes "\<And>s s' r. K s \<Longrightarrow> m s = (s', r) \<Longrightarrow> (case r of Inl e \<Rightarrow> J s' | Inr x \<Rightarrow> K' x s')" and "keeps J u"
    and "\<And>x. ends (K' x) J (f x)"
  shows "ends K J (act_bind (or_undo u m) f)"
proof (rule ends_bind [where K' = K'])
  fix s s' r assume K: "K s" and run: "or_undo u m s = (s', r)"
  obtain t x where m: "m s = (t, x)" by fastforce
  with assms(1) [OF K m] run show "case r of Inl e \<Rightarrow> J s' | Inr x \<Rightarrow> K' x s'"
    by (cases x; cases r) (auto simp: or_undo_def act_runs dest: keepsD [OF assms(2)])
qed (rule assms(3))

lemma ends_asideK:
  assumes "aside m" and "\<And>s s' x. K s \<Longrightarrow> desk s' = desk s \<Longrightarrow> m s = (s', Inr x) \<Longrightarrow> K' x s'"
    and "\<And>s s'. K s \<Longrightarrow> desk s' = desk s \<Longrightarrow> J s'" and "keeps J u" and "\<And>x. ends (K' x) J (f x)"
  shows "ends K J (act_bind m f)" "ends K J (act_bind (or_undo u m) f)"
proof -
  have "case r of Inl e \<Rightarrow> J s' | Inr x \<Rightarrow> K' x s'" if "K s" "m s = (s', r)" for s s' r
    using that assms(2,3) asideD [OF assms(1)] by (cases r) auto
  note step = this
  show "ends K J (act_bind m f)" by (rule ends_bind [OF step assms(5)])
  show "ends K J (act_bind (or_undo u m) f)" by (rule ends_or_undo [OF step assms(4,5)])
qed

lemma ends_pure: "(Q \<Longrightarrow> ends K J c) \<Longrightarrow> ends (\<lambda>s. K s \<and> Q) J c"
  by (simp add: ends_def)

definition same_terms :: "item \<Rightarrow> item \<Rightarrow> bool" where
  "same_terms i row \<longleftrightarrow> row = i\<lparr>i_id := i_id row, i_order := None, i_cancelled_at := None, i_cancelled_by := None,
     i_created_at := i_created_at row\<rparr>"

lemma same_terms_fields:
  assumes "same_terms i row"
  shows "i_draft row = i_draft i" "i_offer row = i_offer i" "i_session row = i_session i" "i_quantity row = i_quantity i"
    "i_total row = i_total i" "i_variant row = i_variant i" "from_draft d row = from_draft d i" "from_offer f row = from_offer f i"
proof -
  have fields: "i_draft row = i_draft i" "i_offer row = i_offer i" "i_session row = i_session i" "i_quantity row = i_quantity i"
    "i_total row = i_total i" "i_variant row = i_variant i" "i_buyer row = i_buyer i" "i_seller row = i_seller i"
    "i_listing row = i_listing i" "i_currency row = i_currency i"
    by (subst assms [unfolded same_terms_def]; simp)+
  then show "i_draft row = i_draft i" "i_offer row = i_offer i" "i_session row = i_session i" "i_quantity row = i_quantity i"
    "i_total row = i_total i" "i_variant row = i_variant i" "from_draft d row = from_draft d i"
    "from_offer f row = from_offer f i"
    by (simp_all add: from_draft_def from_offer_def cong: sum.case_cong)
qed

lemma map_filter_append: "List.map_filter g (xs @ ys) = List.map_filter g xs @ List.map_filter g ys"
  by (simp add: map_filter_def)

lemma in_map_filter: "y \<in> set (List.map_filter g xs) \<longleftrightarrow> (\<exists>x \<in> set xs. g x = Some y)"
  by (force simp: map_filter_def)

lemma distinct_offers_insert:
  "distinct (List.map_filter g xs) \<Longrightarrow> g x \<noteq> None \<longrightarrow> (\<forall>y \<in> set xs. g y \<noteq> g x) \<Longrightarrow> distinct (List.map_filter g (xs @ [x]))"
  by (cases "g x") (auto simp: map_filter_append in_map_filter map_filter_simps)

lemma insert_items_rows:
  "insert_items now items db = (db', Inr rows) \<Longrightarrow> q_items db' = q_items db @ rows \<and> list_all2 same_terms items rows
    \<and> (distinct (List.map_filter i_offer (q_items db)) \<longrightarrow> distinct (List.map_filter i_offer (q_items db')))"
proof (induction items arbitrary: db db' rows)
  case (Cons i "items")
  define row where "row = i\<lparr>i_id := word_of_int (q_item_seq db + 1), i_order := None, i_cancelled_at := None,
    i_cancelled_by := None, i_created_at := now\<rparr>"
  define db1 where "db1 = db\<lparr>q_item_seq := q_item_seq db + 1, q_items := q_items db @ [row]\<rparr>"
  from Cons.prems obtain rest where rows: "rows = row # rest" and rest: "insert_items now items db1 = (db', Inr rest)"
    and fresh: "i_offer i \<noteq> None \<longrightarrow> (\<forall>j \<in> set (q_items db). i_offer j \<noteq> i_offer i)"
    by (auto simp: act_runs identity_Inr Let_def row_def db1_def)
  have "same_terms i row" "i_offer row = i_offer i" by (simp_all add: row_def same_terms_def)
  moreover from this fresh have "distinct (List.map_filter i_offer (q_items db)) \<longrightarrow> distinct (List.map_filter i_offer (q_items db1))"
    by (auto simp: db1_def intro!: distinct_offers_insert)
  ultimately show ?case using Cons.IH [OF rest] by (auto simp: rows db1_def)
qed simp

lemma InsertItems_run:
  assumes "on_market (on_ord (InsertItems now items)) s = (s', r)"
  shows "sa_shop s' = sa_shop s \<and> (case r of
      Inl e \<Rightarrow> q_items (m_ord (sa_market s')) = q_items (m_ord (sa_market s))
    | Inr rows \<Rightarrow> q_items (m_ord (sa_market s')) = q_items (m_ord (sa_market s)) @ rows \<and> list_all2 same_terms items rows
        \<and> (distinct (List.map_filter i_offer (q_items (m_ord (sa_market s))))
            \<longrightarrow> distinct (List.map_filter i_offer (q_items (m_ord (sa_market s')))) ))"
  using assms
  by (cases r) (auto simp: on_market_def on_ord_def zoom_Inr zoom_Inl InsertItems_def OrdTx_def in_tx_Inl
      dest: insert_items_rows split: if_splits)


lemma or_undo_Inr: "or_undo u m s = (s', Inr x) \<longleftrightarrow> m s = (s', Inr x)"
  by (cases "m s"; cases "snd (m s)") (auto simp: or_undo_def act_runs)

lemma decides_Inr: "decides r s = (s', Inr x) \<longleftrightarrow> s' = s \<and> r = Inr x"
  by (auto simp: decides_def)

lemma ends_read: "(\<And>J. keeps J m) \<Longrightarrow> (\<And>s. K s \<Longrightarrow> J s) \<Longrightarrow> (\<And>x. ends K J (f x)) \<Longrightarrow> ends K J (act_bind m f)"
  by (rule ends_bind [where K' = "\<lambda>_. K"]) (auto split: sum.split dest: keepsD)

lemma ends_must: "(\<And>s. K s \<Longrightarrow> J s) \<Longrightarrow> (c \<Longrightarrow> ends K J (f ())) \<Longrightarrow> ends K J (act_bind (must c e) f)"
  by (cases c) (auto simp: must_def act_defs ends_def)

lemma ends_decides: "(\<And>s. K s \<Longrightarrow> J s) \<Longrightarrow> (\<And>x. r = Inr x \<Longrightarrow> ends K J (f x)) \<Longrightarrow> ends K J (act_bind (decides r) f)"
  by (cases r) (auto simp: decides_def act_defs ends_def)

lemma ends_unless: "(\<And>s. K s \<Longrightarrow> J s) \<Longrightarrow> (c \<Longrightarrow> ends K J (f ())) \<Longrightarrow> ends K J (act_bind (if c then ret () else deny e) f)"
  by (cases c) (auto simp: deny_def act_defs ends_def)

text \<open>A purchase session that has been claimed: its row is closed, and no line is its.\<close>

definition spent :: "draft \<Rightarrow> sale \<Rightarrow> bool" where
  "spent d s \<longleftrightarrow> sale_ok s \<and> (\<forall>i \<in> set (fst (books s)). i_draft i \<noteq> Some (dr_id d))
    \<and> (\<exists>row \<in> set (p_drafts (sa_shop s)). dr_id row = dr_id d \<and> dr_cancelled_at row \<noteq> None \<and> dr_buyer row = dr_buyer d
        \<and> dr_listing row = dr_listing d \<and> dr_snapshot row = dr_snapshot d)"

lemma spent_desk: "spent d s \<Longrightarrow> desk s' = desk s \<Longrightarrow> spent d s'"
  by (auto simp: spent_def desk_books [of s' s] desk_def)

lemma shop_rows_unique:
  assumes "shop_ok p"
  shows "d \<in> set (p_drafts p) \<Longrightarrow> d' \<in> set (p_drafts p) \<Longrightarrow> dr_id d = dr_id d' \<Longrightarrow> d = d'"
    and "f \<in> set (p_offers p) \<Longrightarrow> f' \<in> set (p_offers p) \<Longrightarrow> f_id f = f_id f' \<Longrightarrow> f = f'"
  using assms by (auto simp: shop_ok_def fresh_above_def distinct_map inj_on_def)

lemma SaveDraft_spent:
  assumes "sale_ok s" and "d \<in> set (p_drafts (sa_shop s))" and "dr_cancelled_at d = None"
    and run: "on_shop (SaveDraft (d\<lparr>dr_cancelled_at := Some now\<rparr>)) s = (s', Inr u)"
  shows "spent d s'"
proof -
  have ok': "sale_ok s'" by (rule keepsD [OF keeps_SaveDraft assms(1) run])
  from run have m: "sa_market s' = sa_market s" and rows: "p_drafts (sa_shop s') = update_where
      (\<lambda>row. dr_id row = dr_id d \<and> dr_cancelled_at row = None) (\<lambda>row. row\<lparr>dr_cancelled_at := Some now\<rparr>) (p_drafts (sa_shop s))"
    by (auto simp: on_shop_def zoom_Inr SaveDraft_def act_runs Let_def)
  have "i_draft i \<noteq> Some (dr_id d)" if "i \<in> set (fst (books s'))" for i
  proof
    assume i: "i_draft i = Some (dr_id d)"
    from that m have "i \<in> set (fst (books s))" by (simp add: books_def)
    with assms(1) have "sold_line (sa_shop s) i" and shop: "shop_ok (sa_shop s)"
      unfolding lines_ok_def by (auto simp: books_def)
    with i obtain d' where d': "d' \<in> set (p_drafts (sa_shop s))" "dr_id d' = dr_id d" "dr_cancelled_at d' \<noteq> None"
      by (auto simp: sold_line_def split: option.splits)
    have "d' = d" by (rule shop_rows_unique(1) [OF shop d'(1) assms(2) d'(2)])
    with d'(3) assms(3) show False by simp
  qed
  moreover have "d\<lparr>dr_cancelled_at := Some now\<rparr> \<in> set (p_drafts (sa_shop s'))"
    unfolding rows set_update_where using assms(2,3) by auto
  ultimately show ?thesis using ok' by (auto simp: spent_def intro!: bexI [of _ "d\<lparr>dr_cancelled_at := Some now\<rparr>"])
qed

section \<open>The lines of a purchase session\<close>

lemma aside_checkout_lines: "aside (checkout_lines E line d reserved items amounts ls)"
proof (induction ls arbitrary: reserved "items" amounts)
  case (Cons l ls)
  obtain v n where l: "l = (v, n)" by (cases l)
  show ?case
    unfolding l checkout_lines.simps Let_def
    by (intro aside_intros(3) aside_intros(1) aside_release aside_stock Cons.IH) (auto intro: aside_intros(2) keeps_intros)
qed (simp add: aside_intros(2) keeps_intros)

definition priced_line :: "validator \<Rightarrow> (i64 \<Rightarrow> i64 \<Rightarrow> i64 \<Rightarrow> new_line) \<Rightarrow> draft \<Rightarrow> i64 \<times> i64 \<Rightarrow> item \<Rightarrow> bool" where
  "priced_line V line d l i \<longleftrightarrow> (\<exists>frozen. draft_Variant d (fst l) = Inr frozen
    \<and> NewItem V (line (fst l) (snd l) (vs_price frozen * snd l)) = Inr i)"

lemma checkout_lines_run:
  "checkout_lines E line d r0 items0 goods0 ls s = (s', Inr (r, items, goods)) \<Longrightarrow>
    \<exists>new. items = items0 @ new \<and> r = r0 @ ls \<and> list_all2 (priced_line (se_V E) line d) ls new
      \<and> goods = goods0 + sum_list (map (\<lambda>(v, n). case draft_Variant d v of Inl _ \<Rightarrow> 0 | Inr frozen \<Rightarrow> vs_price frozen * n) ls)"
proof (induction ls arbitrary: r0 items0 goods0 s)
  case (Cons l ls)
  obtain v n where l: "l = (v, n)" by (cases l)
  from Cons.prems obtain frozen i s1 where f: "draft_Variant d v = Inr frozen"
    and i: "NewItem (se_V E) (line v n (vs_price frozen * n)) = Inr i"
    and rest: "checkout_lines E line d (r0 @ [(v, n)]) (items0 @ [i]) (goods0 + vs_price frozen * n) ls s1 = (s', Inr (r, items, goods))"
    by (auto simp: l act_runs or_undo_Inr decides_Inr Let_def)
  from Cons.IH [OF rest] f i show ?case by (auto simp: l priced_line_def)
qed simp


lemma lines_ok_market: "sale_ok s \<longleftrightarrow> lines_ok (q_items (m_ord (sa_market s)), sa_shop s)"
  by (simp add: lines_ok_def books_def)

end
