(* ===== verification/SaleBooks.thy ===== *)
theory SaleBooks
  imports SaleRules
begin

text \<open>
  The two checkouts and the books: what is reserved, quoted, charged and written between the claim of an origin
  and the last line keeps every line at the frozen terms of its own, spent origin, and so does every handler of
  the module in any order.
\<close>

section \<open>Collecting the payment\<close>

text \<open>What collecting the payment does to the lines and to the shop: everything, or what giving back does.\<close>

definition front :: "sale \<Rightarrow> item list \<times> shop_db" where
  "front s = (q_items (m_ord (sa_market s)), sa_shop s)"

lemma front_desk: "desk s' = desk s \<Longrightarrow> front s' = front s"
  by (simp add: desk_def front_def)

lemma sale_ok_front: "sale_ok s \<longleftrightarrow> lines_ok (front s)"
  by (simp add: lines_ok_market front_def)

lemma or_undo_Inl: "or_undo u m s = (s', Inl e) \<longleftrightarrow> (\<exists>t e'. m s = (t, Inl e') \<and> (u t = (s', Inl e) \<or> u t = (s', Inr ()) \<and> e = e'))"
  by (cases "m s"; cases "snd (m s)") (auto simp: or_undo_def act_runs)

lemma collect_Inr:
  assumes run: "collect E now u q req items s = (s', Inr out)" and q: "aside q"
  shows "list_all2 same_terms (map (\<lambda>i. i\<lparr>i_session := s_id (co_session out)\<rparr>) items) (co_lines out)
    \<and> front s' = (fst (front s) @ co_lines out, snd (front s))
    \<and> (distinct (List.map_filter i_offer (fst (front s))) \<longrightarrow> distinct (List.map_filter i_offer (fst (front s'))))"
proof -
  from run obtain fee s1 s2 td where "q s = (s1, Inr fee)"
    and "on_market (on_fin (OpenCheckout (me_fin (se_market E)) now (req fee))) s1 = (s2, Inr (co_session out, td))"
    and ins: "on_market (on_ord (InsertItems now (map (\<lambda>i. i\<lparr>i_session := s_id (co_session out)\<rparr>) items))) s2 = (s', Inr (co_lines out))"
    by (auto simp: collect_def act_runs or_undo_Inr)
  then have "front s2 = front s" using asideD [OF q] asideD [OF aside_stock(2)] by (metis front_desk)
  with InsertItems_run [OF ins] show ?thesis by (auto simp: front_def)
qed

text \<open>A refused collection answers in a state \<open>undo\<close> has left, entered with everything the reads and the refused insert keep.\<close>

lemma collect_Inl:
  assumes run: "collect E now u q req items s = (s', Inl e)" and I: "I s" and q: "keeps I q"
    and fin: "\<And>fee. keeps I (on_market (on_fin (OpenCheckout (me_fin (se_market E)) now (req fee))))"
    and ins: "\<And>t t' ls e. I t \<Longrightarrow> on_market (on_ord (InsertItems now ls)) t = (t', Inl e) \<Longrightarrow> I t'"
  shows "\<exists>t x. I t \<and> u t = (s', x)"
proof -
  let ?open = "\<lambda>fee. on_market (on_fin (OpenCheckout (me_fin (se_market E)) now (req fee)))"
  let ?insert = "\<lambda>session. on_market (on_ord (InsertItems now (map (\<lambda>i. i\<lparr>i_session := s_id session\<rparr>) items)))"
  have at_q: "I t" if "q s = (t, x)" for t x by (rule keepsD [OF q I that])
  have at_open: "I t" if "q s = (s1, Inr fee)" "?open fee s1 = (t, x)" for s1 fee t x
    by (rule keepsD [OF fin at_q [OF that(1)] that(2)])
  have at_insert: "I t" if "q s = (s1, Inr fee)" "?open fee s1 = (s2, Inr (session, td))" "?insert session s2 = (t, Inl e')"
    for s1 fee s2 session td t e'
    by (rule ins [OF at_open [OF that(1,2)] that(3)])
  from run show ?thesis
    unfolding collect_def act_bind_Inl or_undo_Inl or_undo_Inr
    using at_q at_open at_insert by (auto simp: act_runs or_undo_Inl or_undo_Inr) metis+
qed

lemma collect_front:
  assumes "collect E now u q req items s = (s', Inl e)" and "aside q"
  shows "\<exists>t x. front t = front s \<and> u t = (s', x)"
proof (rule collect_Inl [OF assms(1)])
  show "keeps (\<lambda>t. front t = front s) q"
    by (rule keepsI) (metis asideD [OF assms(2)] front_desk)
  show "keeps (\<lambda>t. front t = front s) (on_market (on_fin (OpenCheckout (me_fin (se_market E)) now (req fee))))" for fee
    by (rule keepsI) (metis asideD [OF aside_stock(2)] front_desk)
  show "front t' = front s" if "front t = front s" "on_market (on_ord (InsertItems now ls)) t = (t', Inl e)" for t t' ls e
    using InsertItems_run [OF that(2)] that(1) by (simp add: front_def)
qed simp

lemma rows_like:
  assumes "list_all2 same_terms (map (\<lambda>i. i\<lparr>i_session := sid\<rparr>) items) rows"
    and "\<forall>i \<in> set items. P i" and "\<And>i row. P i \<Longrightarrow> same_terms (i\<lparr>i_session := sid\<rparr>) row \<Longrightarrow> Q row"
  shows "\<forall>row \<in> set rows. Q row"
  using assms by (fastforce simp: list_all2_conv_all_nth in_set_conv_nth)

text \<open>The lines of one purchase session, once it is spent, join the books.\<close>

lemma join_draft_lines:
  assumes old: "lines_ok (items, p)" and apart: "\<And>i. i \<in> set items \<Longrightarrow> i_draft i \<noteq> Some did"
    and spent: "row \<in> set (p_drafts p)" "dr_id row = did" "dr_cancelled_at row \<noteq> None"
    and rows: "\<And>i. i \<in> set rows \<Longrightarrow> from_draft row i \<and> i_draft i = Some did \<and> i_offer i = None \<and> i_session i = sid"
    and offers: "distinct (List.map_filter i_offer (items @ rows))"
  shows "lines_ok (items @ rows, p)"
proof -
  have "sold_line p i" if "i \<in> set rows" for i
    using rows [OF that] spent by (auto simp: sold_line_def)
  moreover have "i_session i = i_session j"
    if "i \<in> set (items @ rows)" "j \<in> set (items @ rows)" "i_draft i \<noteq> None \<and> i_draft i = i_draft j" for i j
  proof (cases "i \<in> set rows \<or> j \<in> set rows")
    case True
    with that(3) rows have "i_draft i = Some did" "i_draft j = Some did" by metis+
    with that(1,2) apart have "i \<in> set rows" "j \<in> set rows" by auto
    with rows show ?thesis by metis
  next
    case False
    with that(1,2) have "i \<in> set items" "j \<in> set items" by auto
    with that(3) old show ?thesis unfolding lines_ok_def one_origin_def fst_conv by blast
  qed
  ultimately show ?thesis
    using old offers unfolding lines_ok_def one_origin_def by auto
qed

lemma join_offer_line:
  assumes old: "lines_ok (items, p)" and row: "sold_line p row" "i_draft row = None"
    and offers: "distinct (List.map_filter i_offer (items @ [row]))"
  shows "lines_ok (items @ [row], p)"
proof -
  have "i_session i = i_session j"
    if "i \<in> set (items @ [row])" "j \<in> set (items @ [row])" "i_draft i \<noteq> None \<and> i_draft i = i_draft j" for i j
  proof -
    from that row(2) have "i \<noteq> row" "j \<noteq> row" by metis+
    with that(1,2) have "i \<in> set items" "j \<in> set items" by auto
    with that(3) old show ?thesis unfolding lines_ok_def one_origin_def fst_conv by blast
  qed
  then have "one_origin (items @ [row])" using offers unfolding one_origin_def by blast
  with old row(1) show ?thesis by (simp add: lines_ok_def)
qed

lemma spent_front:
  assumes "spent d s"
  shows "lines_ok (front s)" and "i \<in> set (fst (front s)) \<Longrightarrow> i_draft i \<noteq> Some (dr_id d)"
    and "\<exists>row \<in> set (p_drafts (snd (front s))). dr_id row = dr_id d \<and> dr_cancelled_at row \<noteq> None
      \<and> (\<forall>i. from_draft row i = from_draft d i)"
proof -
  show "lines_ok (front s)" using assms unfolding spent_def sale_ok_front by blast
  show "i_draft i \<noteq> Some (dr_id d)" if "i \<in> set (fst (front s))"
  proof -
    have "line_terms i \<in> set (fst (books s))" using that by (simp add: books_def front_def)
    with assms have "i_draft (line_terms i) \<noteq> Some (dr_id d)" unfolding spent_def by blast
    then show ?thesis by simp
  qed
  from assms obtain row where "row \<in> set (p_drafts (sa_shop s))" "dr_id row = dr_id d" "dr_cancelled_at row \<noteq> None"
    "dr_buyer row = dr_buyer d" "dr_listing row = dr_listing d" "dr_snapshot row = dr_snapshot d"
    unfolding spent_def by blast
  then show "\<exists>row \<in> set (p_drafts (snd (front s))). dr_id row = dr_id d \<and> dr_cancelled_at row \<noteq> None
      \<and> (\<forall>i. from_draft row i = from_draft d i)"
    by (intro bexI [of _ row]) (simp_all add: front_def from_draft_def draft_Variant_def)
qed

lemma same_terms_from:
  assumes "same_terms (i\<lparr>i_session := sid\<rparr>) row"
  shows "from_draft d row = from_draft d i" "from_offer f row = from_offer f i" "i_draft row = i_draft i"
    "i_offer row = i_offer i" "i_session row = sid"
proof -
  have "from_draft d (i\<lparr>i_session := sid\<rparr>) = from_draft d i" "from_offer f (i\<lparr>i_session := sid\<rparr>) = from_offer f i"
    by (simp_all add: from_draft_def from_offer_def cong: sum.case_cong)
  then show "from_draft d row = from_draft d i" "from_offer f row = from_offer f i" "i_draft row = i_draft i"
    "i_offer row = i_offer i" "i_session row = sid"
    using same_terms_fields [OF assms] by simp_all
qed

lemma collect_draft:
  assumes "spent d s" and "\<forall>i \<in> set items. from_draft d i \<and> i_draft i = Some (dr_id d) \<and> i_offer i = None"
    and run: "collect E now u q req items s = (s', r)" and q: "aside q" and u: "keeps sale_ok u"
  shows "sale_ok s'"
proof (cases r)
  case (Inl e)
  from collect_front [OF run [unfolded Inl] q] obtain t x where "front t = front s" "u t = (s', x)" by blast
  with assms(1) keepsD [OF u] show ?thesis by (metis sale_ok_front spent_def)
next
  case (Inr out)
  note all = collect_Inr [OF run [unfolded Inr] q] and at = spent_front [OF assms(1)]
  obtain row where row: "row \<in> set (p_drafts (snd (front s)))" "dr_id row = dr_id d" "dr_cancelled_at row \<noteq> None"
    "\<And>i. from_draft row i = from_draft d i" using at(3) by blast
  have "\<forall>line \<in> set (co_lines out). from_draft row line \<and> i_draft line = Some (dr_id d) \<and> i_offer line = None
      \<and> i_session line = s_id (co_session out)"
    by (rule rows_like [OF conjunct1 [OF all] assms(2)]) (simp add: same_terms_from row(4))
  moreover have "distinct (List.map_filter i_offer (fst (front s) @ co_lines out))"
    using at(1) all unfolding lines_ok_def one_origin_def by (elim conjE) (auto dest: arg_cong [where f = fst])
  ultimately have "lines_ok (fst (front s) @ co_lines out, snd (front s))"
    using at(1) by (intro join_draft_lines [OF _ at(2) row(1,2,3)]) simp_all
  with all show ?thesis by (simp add: sale_ok_front)
qed

abbreviation draft_line :: "draft \<Rightarrow> address \<Rightarrow> string \<Rightarrow> string \<Rightarrow> i64 \<Rightarrow> i64 \<Rightarrow> i64 \<Rightarrow> new_line" where
  "draft_line d addr note opt v n amount \<equiv>
    \<lparr>nl_origin = FromDraft (dr_id d), nl_buyer = dr_buyer d, nl_seller = ls_seller (dr_snapshot d), nl_listing = dr_listing d,
     nl_variant = v, nl_address = addr, nl_note = note, nl_currency = ls_currency (dr_snapshot d), nl_quantity = n,
     nl_option = opt, nl_total = amount\<rparr>"

lemma priced_from_draft:
  "priced_line V (draft_line d addr note opt) (d\<lparr>dr_cancelled_at := t\<rparr>) l i
    \<Longrightarrow> from_draft d i \<and> i_draft i = Some (dr_id d) \<and> i_offer i = None"
  by (auto simp: priced_line_def NewItem_def FromDraft_def from_draft_def draft_Variant_def Let_def
      split: if_splits option.splits)

lemma checkout_lines_new:
  "checkout_lines E line d [] [] 0 ls s = (s', Inr (r, items, goods)) \<Longrightarrow>
    r = ls \<and> list_all2 (priced_line (se_V E) line d) ls items
    \<and> goods = sum_list (map (\<lambda>(v, n). case draft_Variant d v of Inl _ \<Rightarrow> 0 | Inr frozen \<Rightarrow> vs_price frozen * n) ls)"
  by (drule checkout_lines_run) simp

lemma priced_lines_from_draft:
  "list_all2 (priced_line V (draft_line d addr note opt) (d\<lparr>dr_cancelled_at := t\<rparr>)) ls items
    \<Longrightarrow> \<forall>i \<in> set items. from_draft d i \<and> i_draft i = Some (dr_id d) \<and> i_offer i = None"
  by (induction rule: list_all2_induct) (auto dest: priced_from_draft)

lemma ends_just: "(\<And>s s' r. K s \<Longrightarrow> m s = (s', r) \<Longrightarrow> J s') \<Longrightarrow> ends K J m"
  unfolding ends_def by (metis prod.collapse)

lemma sell_draft_lines:
  assumes "spent d s" and "checkout_lines E (draft_line d addr note opt) (d\<lparr>dr_cancelled_at := t\<rparr>) [] [] 0 lines s = (s', r)"
  shows "case r of Inl e \<Rightarrow> sale_ok s'
    | Inr x \<Rightarrow> spent d s' \<and> (\<forall>i \<in> set (fst (snd x)). from_draft d i \<and> i_draft i = Some (dr_id d) \<and> i_offer i = None)"
proof -
  have s': "spent d s'" by (rule spent_desk [OF assms(1) asideD [OF aside_checkout_lines assms(2)]])
  show ?thesis
  proof (cases r)
    case (Inl e)
    with s' show ?thesis by (simp add: spent_def)
  next
    case (Inr x)
    obtain reserved "items" goods where x: "x = (reserved, items, goods)" by (cases x)
    from priced_lines_from_draft [OF conjunct1 [OF conjunct2 [OF checkout_lines_new [OF assms(2) [unfolded Inr x]]]]] s'
    show ?thesis by (simp add: Inr x)
  qed
qed

lemma ends_sell_draft:
  assumes u: "\<And>reserved. keeps sale_ok (u reserved)" and q: "aside q" and out: "\<And>x. keeps sale_ok (rest x)"
  shows "ends (spent d) sale_ok
    (act_bind (checkout_lines E (draft_line d addr note opt) (d\<lparr>dr_cancelled_at := t\<rparr>) [] [] 0 lines) (\<lambda>(reserved, items, goods).
     act_bind (collect E now (u reserved) q (req goods) items) rest))"
proof (rule ends_bind [where K' = "\<lambda>x s. spent d s
      \<and> (\<forall>i \<in> set (fst (snd x)). from_draft d i \<and> i_draft i = Some (dr_id d) \<and> i_offer i = None)"])
  fix x :: "(i64 \<times> i64) list \<times> item list \<times> i64"
  obtain reserved "items" goods where x: "x = (reserved, items, goods)" by (cases x)
  have "ends (\<lambda>s. spent d s \<and> (\<forall>i \<in> set items. from_draft d i \<and> i_draft i = Some (dr_id d) \<and> i_offer i = None)) sale_ok
    (act_bind (collect E now (u reserved) q (req goods) items) rest)"
    by (intro ends_then_keeps ends_just out) (use collect_draft u q in blast)
  then show "ends (\<lambda>s. spent d s
      \<and> (\<forall>i \<in> set (fst (snd x)). from_draft d i \<and> i_draft i = Some (dr_id d) \<and> i_offer i = None)) sale_ok
    (case x of (reserved, items, goods) \<Rightarrow> act_bind (collect E now (u reserved) q (req goods) items) rest)"
    by (simp add: x)
qed (rule sell_draft_lines)

lemma ends_found:
  assumes "\<And>s. K s \<Longrightarrow> J s"
    and "\<And>d. dr_buyer d = actor \<Longrightarrow> ends (\<lambda>s. K s \<and> d \<in> set (p_drafts (sa_shop s))) J (f d)"
  shows "ends K J (act_bind (on_shop (FindDraft did actor)) f)"
proof (rule ends_bind [where K' = "\<lambda>d s. (K s \<and> d \<in> set (p_drafts (sa_shop s))) \<and> dr_buyer d = actor"])
  fix s s' r assume "K s" "on_shop (FindDraft did actor) s = (s', r)"
  with assms(1) show "case r of Inl e \<Rightarrow> J s' | Inr d \<Rightarrow> (K s' \<and> d \<in> set (p_drafts (sa_shop s'))) \<and> dr_buyer d = actor"
    by (cases r) (auto simp: on_shop_def zoom_Inr zoom_Inl FindDraft_def act_runs find_Some_iff)
qed (rule ends_pure, rule assms(2))

lemma ends_claim_draft:
  assumes "dr_cancelled_at d = None" and "ends (spent d) sale_ok (f ())"
  shows "ends (\<lambda>s. sale_ok s \<and> d \<in> set (p_drafts (sa_shop s))) sale_ok
    (act_bind (on_shop (SaveDraft (d\<lparr>dr_cancelled_at := Some now\<rparr>))) f)"
proof (rule ends_bind [where K' = "\<lambda>_. spent d"])
  fix s s' r
  assume K: "sale_ok s \<and> d \<in> set (p_drafts (sa_shop s))" and run: "on_shop (SaveDraft (d\<lparr>dr_cancelled_at := Some now\<rparr>)) s = (s', r)"
  show "case r of Inl e \<Rightarrow> sale_ok s' | Inr x \<Rightarrow> spent d s'"
    using SaveDraft_spent [of s d now s'] keepsD [OF keeps_SaveDraft _ run] K run assms(1) by (cases r) auto
qed (use assms(2) in simp)

lemma keeps_Checkout [keeps_intros]: "keeps sale_ok (Checkout E now actor did lines contact opt currency note)"
  unfolding Checkout_def Let_def keeps_ends [symmetric]
  apply (rule ends_found, assumption)
  apply (rule ends_unless, simp)
  apply (rule ends_must, simp)
  apply (rule ends_must, simp)
  apply (rule ends_read, intro keeps_intros, simp)
  apply (rule ends_must, simp)
  apply (rule ends_read, intro keeps_intros, simp)
  apply (rule ends_read, intro keeps_intros, simp)
  apply (rule ends_decides, simp)
  subgoal
    by (clarsimp simp: draft_Cancel_def draft_Live_def)
      (intro ends_claim_draft ends_sell_draft aside_release [THEN aside_keeps] aside_intros keeps_intros)
  done

section \<open>The line of a negotiation\<close>

definition claimed :: "offer \<Rightarrow> sale \<Rightarrow> bool" where
  "claimed f s \<longleftrightarrow> sale_ok s \<and> (\<forall>i \<in> set (fst (front s)). i_offer i \<noteq> Some (f_id f))
    \<and> (\<exists>row \<in> set (p_offers (sa_shop s)). f_id row = f_id f \<and> f_status row = OfferCheckedOut \<and> f_session row = None
        \<and> (\<forall>i. from_offer row i = from_offer f i))"

lemma claimed_desk: "claimed f s \<Longrightarrow> desk s' = desk s \<Longrightarrow> claimed f s'"
  by (auto simp: claimed_def desk_books [of s' s] front_desk [of s' s]) (auto simp: desk_def)

lemma lines_ok_offer_free:
  assumes "lines_ok (items, p)" and "f \<in> set (p_offers p)" and "f_session f = None" and "i \<in> set items"
  shows "i_offer i \<noteq> Some (f_id f)"
proof
  assume i: "i_offer i = Some (f_id f)"
  from assms(1,4) have "sold_line p i" and shop: "shop_ok p" by (simp_all add: lines_ok_def)
  with i obtain g where g: "g \<in> set (p_offers p)" "f_id g = f_id f" "f_session g \<noteq> None"
    by (auto simp: sold_line_def split: option.splits)
  have "g = f" by (rule shop_rows_unique(2) [OF shop g(1) assms(2) g(2)])
  with g(3) assms(3) show False by simp
qed

lemma claim_claimed:
  assumes "sale_ok s" and "f \<in> set (p_offers (sa_shop s))" and "f_status f = OfferAccepted"
    and run: "on_shop (ClaimOfferCheckout (f_id f) now) s = (s', Inr u)"
  shows "claimed f s'"
proof -
  have ok': "sale_ok s'" by (rule keepsD [OF keeps_claims(1) assms(1) run])
  have front: "lines_ok (front s)" using assms(1) by (simp only: sale_ok_front)
  then have free: "f_session f = None"
    using assms(2,3) by (auto simp: lines_ok_def shop_ok_def front_def)
  from run have m: "sa_market s' = sa_market s" and rows: "p_offers (sa_shop s') = update_where
      (\<lambda>row. f_id row = f_id f \<and> f_status row = OfferAccepted \<and> now < f_expires_at row)
      (\<lambda>row. row\<lparr>f_status := OfferCheckedOut\<rparr>) (p_offers (sa_shop s))"
    and hit: "\<exists>row \<in> set (p_offers (sa_shop s)). f_id row = f_id f \<and> f_status row = OfferAccepted \<and> now < f_expires_at row"
    by (auto simp: on_shop_def zoom_Inr ClaimOfferCheckout_def act_runs Let_def)
  from front have "shop_ok (sa_shop s)" by (simp add: lines_ok_def front_def)
  with hit assms(2) have "now < f_expires_at f" by (metis shop_rows_unique(2))
  then have "f\<lparr>f_status := OfferCheckedOut\<rparr> \<in> set (p_offers (sa_shop s'))"
    unfolding rows set_update_where using assms(2,3) by auto
  moreover have "\<forall>i \<in> set (fst (front s')). i_offer i \<noteq> Some (f_id f)"
    using lines_ok_offer_free [OF _ assms(2) free, of "fst (front s)"] assms(1) m by (auto simp: sale_ok_front front_def)
  ultimately show ?thesis
    using ok' free by (auto simp: claimed_def from_offer_def intro!: bexI [of _ "f\<lparr>f_status := OfferCheckedOut\<rparr>"])
qed

lemma attach_advances: "shop_ok p \<Longrightarrow> AttachOfferSession fid sid p = (p', r) \<Longrightarrow> advances p p'"
  by (fastforce simp: AttachOfferSession_def act_defs Let_def advances_def shop_ok_def set_update_where
      intro!: fresh_above_update split: if_splits)

definition unattached :: "offer \<Rightarrow> i64 \<Rightarrow> sale \<Rightarrow> bool" where
  "unattached f sid s \<longleftrightarrow> (\<exists>items row. front s = (items @ [row], sa_shop s) \<and> lines_ok (items, sa_shop s)
    \<and> distinct (List.map_filter i_offer (items @ [row])) \<and> i_offer row = Some (f_id f) \<and> i_draft row = None
    \<and> i_session row = sid \<and> from_offer f row
    \<and> (\<exists>r \<in> set (p_offers (sa_shop s)). f_id r = f_id f \<and> f_status r = OfferCheckedOut \<and> f_session r = None
        \<and> (\<forall>i. from_offer r i = from_offer f i)))"

lemma collect_offer:
  assumes "claimed f s" and "i_offer i = Some (f_id f)" "i_draft i = None" "from_offer f i"
    and run: "collect E now u q req [i] s = (s', Inr out)" and q: "aside q"
  shows "unattached f (s_id (co_session out)) s'"
proof -
  note all = collect_Inr [OF run q]
  then obtain row where row: "co_lines out = [row]" "same_terms (i\<lparr>i_session := s_id (co_session out)\<rparr>) row"
    by (auto simp: list_all2_Cons1)
  from assms(1) have ok: "lines_ok (fst (front s), sa_shop s)" by (simp add: claimed_def sale_ok_front) (simp add: front_def)
  from all row have "front s' = (fst (front s) @ [row], sa_shop s)" by (simp add: front_def)
  moreover from this have "sa_shop s' = sa_shop s" by (simp add: front_def)
  moreover have "distinct (List.map_filter i_offer (fst (front s) @ [row]))"
    using ok all row(1) unfolding lines_ok_def one_origin_def by (elim conjE) (auto dest: arg_cong [where f = fst])
  ultimately show ?thesis
    using assms(1-4) ok same_terms_from [OF row(2)] unfolding unattached_def claimed_def by (intro exI [of _ "fst (front s)"] exI [of _ row]) simp
qed

lemma attach_ok:
  assumes un: "unattached f sid s" and run: "on_shop (AttachOfferSession (f_id f) sid) s = (s', r)"
  shows "sale_ok s'"
proof -
  from un obtain "items" row g where front: "front s = (items @ [row], sa_shop s)" and ok: "lines_ok (items, sa_shop s)"
    and dist: "distinct (List.map_filter i_offer (items @ [row]))"
    and row: "i_offer row = Some (f_id f)" "i_draft row = None" "i_session row = sid" "from_offer f row"
    and g: "g \<in> set (p_offers (sa_shop s))" "f_id g = f_id f" "f_status g = OfferCheckedOut" "f_session g = None"
      "\<And>i. from_offer g i = from_offer f i"
    unfolding unattached_def by blast
  obtain p' x where st: "AttachOfferSession (f_id f) sid (sa_shop s) = (p', x)" by fastforce
  with run have s': "sa_market s' = sa_market s" "sa_shop s' = p'" by (cases x; auto simp: on_shop_def zoom_def)+
  from st g have "p_offers p' = update_where (\<lambda>row. f_id row = f_id f \<and> f_status row = OfferCheckedOut \<and> f_session row = None)
      (\<lambda>row. row\<lparr>f_session := Some sid\<rparr>) (p_offers (sa_shop s))"
    by (auto simp: AttachOfferSession_def act_defs Let_def split: if_splits)
  then have "g\<lparr>f_session := Some sid\<rparr> \<in> set (p_offers p')"
    using g(1-4) by (auto simp: set_update_where)
  moreover have "from_offer g row" using g(5) row(4) by simp
  then have "from_offer (g\<lparr>f_session := Some sid\<rparr>) row" by (simp add: from_offer_def)
  ultimately have "sold_line p' row"
    using g(2,3) row(1-3) by (auto simp: sold_line_def intro!: bexI [of _ "g\<lparr>f_session := Some sid\<rparr>"])
  moreover have "lines_ok (items, p')"
    using lines_advance [OF ok] attach_advances [OF _ st] ok by (simp add: lines_ok_def)
  moreover have "front s' = (items @ [row], p')" using front s' by (simp add: front_def)
  ultimately have "lines_ok (front s')" using join_offer_line [OF _ _ row(2) dist] by simp
  then show ?thesis by (simp only: sale_ok_front)
qed


lemma ends_party:
  assumes "\<And>s. K s \<Longrightarrow> J s" and "\<And>f. ends (\<lambda>s. K s \<and> f \<in> set (p_offers (sa_shop s))) J (g f)"
  shows "ends K J (act_bind (offer_party actor fid) g)"
proof (rule ends_bind [where K' = "\<lambda>f s. K s \<and> f \<in> set (p_offers (sa_shop s))"])
  fix s s' r assume "K s" "offer_party actor fid s = (s', r)"
  with assms(1) show "case r of Inl e \<Rightarrow> J s' | Inr f \<Rightarrow> K s' \<and> f \<in> set (p_offers (sa_shop s'))"
    by (cases r) (auto simp: offer_party_def on_shop_def zoom_Inr zoom_Inl FindOffer_def must_def act_runs find_Some_iff)
qed (rule assms(2))

lemma ends_checkable:
  "(\<And>s. K s \<Longrightarrow> J s) \<Longrightarrow> (CheckoutBy a now f = None \<Longrightarrow> ends K J (g ()))
    \<Longrightarrow> ends K J (act_bind (case CheckoutBy a now f of Some e \<Rightarrow> deny e | None \<Rightarrow> ret ()) g)"
  by (cases "CheckoutBy a now f") (auto simp: deny_def act_defs ends_def)

lemma ends_claim_offer:
  assumes "f_status f = OfferAccepted" and "ends (claimed f) sale_ok (g ())"
  shows "ends (\<lambda>s. sale_ok s \<and> f \<in> set (p_offers (sa_shop s))) sale_ok (act_bind (on_shop (ClaimOfferCheckout (f_id f) now)) g)"
proof (rule ends_bind [where K' = "\<lambda>_. claimed f"])
  fix s s' r
  assume K: "sale_ok s \<and> f \<in> set (p_offers (sa_shop s))" and run: "on_shop (ClaimOfferCheckout (f_id f) now) s = (s', r)"
  show "case r of Inl e \<Rightarrow> sale_ok s' | Inr x \<Rightarrow> claimed f s'"
    using claim_claimed [of s f now s'] keepsD [OF keeps_claims(1) _ run] K run assms(1) by (cases r) auto
qed (use assms(2) in simp)

lemma ends_claimed_undo:
  assumes "aside m" and "keeps sale_ok u" and "\<And>x. ends (claimed f) sale_ok (g x)"
  shows "ends (claimed f) sale_ok (act_bind (or_undo u m) g)"
proof (rule ends_asideK(2) [where K' = "\<lambda>_. claimed f", OF assms(1) _ _ assms(2,3)])
  fix s s' assume "claimed f s" and "desk s' = desk s"
  then show "claimed f s'" by (rule claimed_desk)
  then show "sale_ok s'" by (simp only: claimed_def)
qed

lemma ends_claimed_decides:
  assumes "keeps sale_ok u" and "\<And>x. r = Inr x \<Longrightarrow> ends (claimed f) sale_ok (g x)"
  shows "ends (claimed f) sale_ok (act_bind (or_undo u (decides r)) g)"
proof (rule ends_or_undo [where K' = "\<lambda>x s. claimed f s \<and> r = Inr x"])
  fix s s' y assume claimed: "claimed f s" and run: "decides r s = (s', y)"
  then have "s' = s" by (cases y) (auto simp: decides_def)
  with claimed run show "case y of Inl e \<Rightarrow> sale_ok s' | Inr x \<Rightarrow> claimed f s' \<and> r = Inr x"
    by (cases y) (simp_all add: decides_Inr, simp only: claimed_def)
next
  show "ends (\<lambda>s. claimed f s \<and> r = Inr x) sale_ok (g x)" for x by (rule ends_pure) (rule assms(2))
qed (rule assms(1))

lemma ends_sell_offer:
  assumes "aside q" and "keeps sale_ok u" and "\<And>x. keeps sale_ok (rest x)"
    and "i_offer i = Some (f_id f)" "i_draft i = None" "from_offer f i"
  shows "ends (claimed f) sale_ok (act_bind (collect E now u q req [i]) (\<lambda>out.
    act_bind (on_shop (AttachOfferSession (f_id f) (s_id (co_session out)))) (\<lambda>_. rest out)))"
proof (rule ends_bind [where K' = "\<lambda>out. unattached f (s_id (co_session out))"])
  fix s s' r assume claimed: "claimed f s" and run: "collect E now u q req [i] s = (s', r)"
  show "case r of Inl e \<Rightarrow> sale_ok s' | Inr out \<Rightarrow> unattached f (s_id (co_session out)) s'"
  proof (cases r)
    case (Inl e)
    from collect_front [OF run [unfolded Inl] assms(1)] obtain t x where "front t = front s" "u t = (s', x)" by blast
    with claimed keepsD [OF assms(2)] have "sale_ok s'" by (metis sale_ok_front claimed_def)
    with Inl show ?thesis by simp
  qed (use collect_offer [OF claimed assms(4-6) _ assms(1)] run in auto)
qed (intro ends_then_keeps ends_just assms(3), rule attach_ok)

lemma keeps_CheckoutOffer [keeps_intros]: "keeps sale_ok (CheckoutOffer E now actor fid contact opt note)"
  unfolding CheckoutOffer_def Let_def keeps_ends [symmetric]
  apply (rule ends_must, simp)
  apply (rule ends_party, assumption)
  apply (rule ends_checkable, simp)
  apply (rule ends_read, intro keeps_intros, simp)
  apply (clarsimp simp del: release_reserved.simps)
  apply (rule ends_read, intro keeps_intros, simp)
  apply (rule ends_read, intro keeps_intros, simp)
  apply (rule ends_claim_offer)
  subgoal by (simp add: CheckoutBy_def split: if_splits)
  apply (rule ends_claimed_undo, rule aside_stock, intro keeps_intros)
  apply (rule ends_claimed_decides, intro keeps_intros aside_release [THEN aside_keeps])
  apply (rule ends_sell_offer)
  subgoal by (intro aside_intros keeps_intros)
  subgoal by (intro keeps_intros aside_release [THEN aside_keeps])
  subgoal by (intro keeps_intros)
  by (auto simp: NewItem_def FromOffer_def from_offer_def Let_def split: if_splits)

lemma keeps_sale_call: "keeps sale_ok (sale_call E now op)"
  by (cases op; simp only: sale_call.simps done_with_def; intro keeps_intros)

lemma sale_steps_ok: "sale_steps s s' \<Longrightarrow> sale_ok s \<Longrightarrow> sale_ok s'"
  by (induction rule: sale_steps.induct) (auto dest: keepsD [OF keeps_sale_call])

end
