(* ===== verification/SaleCharges.thy ===== *)
theory SaleCharges
  imports SaleBooks
begin

text \<open>
  What a checkout takes and what it gives back. One that goes through charges the frozen prices and the delivery
  quoted for this parcel, and reserves the units; one that is refused, at whatever step, leaves the shelf, the
  lines, the wallets and the negotiation as they were.
\<close>

section \<open>Units on hold\<close>

definition units_of :: "i64 \<Rightarrow> (i64 \<times> i64) list \<Rightarrow> int" where
  "units_of v rs = sum_list (map (\<lambda>(w, n). if w = v then sint n else 0) rs)"

definition on_hold :: "stock option \<Rightarrow> int \<Rightarrow> stock option \<Rightarrow> bool" where
  "on_hold s0 k st \<longleftrightarrow> (case s0 of None \<Rightarrow> st = None
    | Some s \<Rightarrow> (\<exists>r. st = Some (s\<lparr>st_reserved := r\<rparr>) \<and> sint r = sint (st_reserved s) + k))"

definition reserved_over :: "(i64 \<rightharpoonup> stock) \<Rightarrow> (i64 \<times> i64) list \<Rightarrow> (i64 \<rightharpoonup> stock) \<Rightarrow> bool" where
  "reserved_over base rs st \<longleftrightarrow> (\<forall>l \<in> set rs. 0 < sint (snd l)) \<and> (\<forall>v. on_hold (base v) (units_of v rs) (st v))"

lemma on_hold_none: "on_hold s0 0 st \<longleftrightarrow> st = s0"
proof (cases s0)
  case (Some s)
  show ?thesis
  proof
    assume "st = s0"
    with Some show "on_hold s0 0 st" by (simp add: on_hold_def) (rule exI [of _ "st_reserved s"], simp)
  qed (use Some in \<open>auto simp: on_hold_def dest: signed_word_eqI\<close>)
qed (simp add: on_hold_def)

lemma units_nonneg: "\<forall>l \<in> set rs. 0 < sint (snd l) \<Longrightarrow> 0 \<le> units_of v rs"
  by (induction rs) (auto simp: units_of_def)

lemma units_simps [simp]: "units_of v [] = 0" "units_of v (rs @ [(w, n)]) = units_of v rs + (if w = v then sint n else 0)"
  "units_of v ((w, n) # rs) = (if w = v then sint n else 0) + units_of v rs"
  by (simp_all add: units_of_def)

lemma reserved_none: "reserved_over base [] st \<longleftrightarrow> st = base"
  by (auto simp: reserved_over_def on_hold_none fun_eq_iff)

lemma reserved_step:
  assumes "reserved_over base rs st" and "\<forall>l \<in> set rs'. 0 < sint (snd l)"
    and "\<And>w. w \<noteq> v \<Longrightarrow> units_of w rs' = units_of w rs" and "on_hold (base v) (units_of v rs') x"
  shows "reserved_over base rs' (st(v := x))"
  using assms by (auto simp: reserved_over_def)

lemma reserve_more:
  assumes ok: "\<forall>v s. base v = Some s \<longrightarrow> stock_ok s" and res: "reserved_over base rs (k_stock db)"
    and run: "ReserveStock v n db = (db', Inr ())"
  shows "reserved_over base (rs @ [(v, n)]) (k_stock db')"
proof -
  from run obtain s where s: "k_stock db v = Some s" and n: "0 < sint n"
    and fits: "sint (st_reserved s) + sint (st_sold s) + sint n \<le> sint (st_quantity s)"
    and db': "k_stock db' = (k_stock db)(v := Some (s\<lparr>st_reserved := st_reserved s + n\<rparr>))"
    by (auto simp: stock_defs act_runs split: if_splits option.splits)
  from res s have "on_hold (base v) (units_of v rs) (Some s)" and rs: "\<forall>l \<in> set rs. 0 < sint (snd l)"
    by (auto simp: reserved_over_def dest: spec [of _ v])
  then obtain s0 r where s0: "base v = Some s0" "s = s0\<lparr>st_reserved := r\<rparr>" "sint r = sint (st_reserved s0) + units_of v rs"
    by (auto simp: on_hold_def split: option.splits)
  from s0(1) ok have "stock_ok s0" by blast
  with s0(2,3) fits n have "sint (r + n) = sint r + sint n"
    using units_nonneg [OF rs, of v] sint_i64_bounds [of "st_quantity s0"]
    by (intro sint_add_in_range) (auto simp: stock_ok_def)
  then have "on_hold (base v) (units_of v (rs @ [(v, n)])) (Some (s\<lparr>st_reserved := st_reserved s + n\<rparr>))"
    using s0 by (auto simp: on_hold_def intro!: exI [of _ "r + n"])
  with reserved_step [OF res, of "rs @ [(v, n)]" v] rs n show ?thesis unfolding db' by auto
qed

lemma release_less:
  assumes ok: "\<forall>v s. base v = Some s \<longrightarrow> stock_ok s" and res: "reserved_over base ((v, n) # rs) (k_stock db)"
  shows "reserved_over base rs (k_stock (fst (ReleaseStock v n db)))"
proof -
  from res have n: "0 < sint n" and rs: "\<forall>l \<in> set rs. 0 < sint (snd l)"
    and v: "on_hold (base v) (sint n + units_of v rs) (k_stock db v)"
    by (auto simp: reserved_over_def dest: spec [of _ v])
  have "\<exists>x. k_stock (fst (ReleaseStock v n db)) = (k_stock db)(v := x) \<and> on_hold (base v) (units_of v rs) x"
  proof (cases "base v")
    case None
    with v n show ?thesis by (auto simp: on_hold_def stock_defs act_defs fun_eq_iff)
  next
    case (Some s0)
    with v obtain r where r: "k_stock db v = Some (s0\<lparr>st_reserved := r\<rparr>)" "sint r = sint (st_reserved s0) + (sint n + units_of v rs)"
      by (auto simp: on_hold_def)
    from Some ok have "0 \<le> sint (st_reserved s0)" by (auto simp: stock_ok_def)
    with r(2) units_nonneg [OF rs, of v] n have le: "sint n \<le> sint r" by linarith
    with n have "sint (r - n) = sint r - sint n" by (intro sint_minus_in_range) simp_all
    with r le n Some show ?thesis by (auto simp: on_hold_def stock_defs act_defs in_bigint_def)
  qed
  with reserved_step [OF res rs, of v] show ?thesis by auto
qed

lemma ReserveStock_refused: "ReserveStock v n db = (db', Inl e) \<Longrightarrow> db' = db"
  by (auto simp: stock_defs act_runs split: if_splits option.splits)


section \<open>On the way, and back\<close>

definition kept :: "sale \<Rightarrow> item list \<times> (i64 \<times> string \<rightharpoonup> wallet) \<times> movement list" where
  "kept s = (q_items (m_ord (sa_market s)), d_wallets (m_fin (sa_market s)), d_ledger (m_fin (sa_market s)))"

definition shelf_of :: "sale \<Rightarrow> (i64 \<rightharpoonup> stock)" where
  "shelf_of s = k_stock (m_shelf (sa_market s))"

definition on_the_way :: "sale \<Rightarrow> shop_db \<Rightarrow> (i64 \<times> i64) list \<Rightarrow> sale \<Rightarrow> bool" where
  "on_the_way s0 p rs s \<longleftrightarrow> kept s = kept s0 \<and> sa_shop s = p \<and> reserved_over (shelf_of s0) rs (shelf_of s)"

lemma on_shelf_run:
  "on_market (on_shelf st) s = (s', r) \<Longrightarrow> m_shelf (sa_market s') = fst (st (m_shelf (sa_market s))) \<and> kept s' = kept s
    \<and> sa_shop s' = sa_shop s \<and> (case r of Inl e \<Rightarrow> (\<exists>e'. snd (st (m_shelf (sa_market s))) = Inl e') | Inr x \<Rightarrow> snd (st (m_shelf (sa_market s))) = Inr x)"
  by (cases r) (auto simp: on_market_def on_shelf_def zoom_Inr zoom_Inl kept_def)

lemma OpenCheckout_money: "OpenCheckout F now q db = (db', r) \<Longrightarrow> d_wallets db' = d_wallets db \<and> d_ledger db' = d_ledger db"
  by (auto simp: OpenCheckout_def NextSessionID_def nextval_def InsertSession_def insertSession_def act_defs
      split: sum.splits if_splits)

lemma keeps_on_the_way:
  "keeps (on_the_way s0 p rs) (on_market (on_fin (OpenCheckout F now q)))"
proof (rule keepsI)
  fix s s' r assume "on_the_way s0 p rs s" and run: "on_market (on_fin (OpenCheckout F now q)) s = (s', r)"
  moreover obtain db' x where open_run: "OpenCheckout F now q (m_fin (sa_market s)) = (db', x)" by fastforce
  then have "sa_market s' = (sa_market s)\<lparr>m_fin := db'\<rparr>" "sa_shop s' = sa_shop s"
    using run by (cases x; auto simp: on_market_def on_fin_def zoom_def)+
  ultimately show "on_the_way s0 p rs s'"
    using OpenCheckout_money [OF open_run] by (simp add: on_the_way_def kept_def shelf_of_def)
qed

lemma insert_on_the_way:
  assumes "on_the_way s0 p rs s" and run: "on_market (on_ord (InsertItems now ls)) s = (s', Inl e)"
  shows "on_the_way s0 p rs s'"
proof -
  from run have "m_fin (sa_market s') = m_fin (sa_market s)" "m_shelf (sa_market s') = m_shelf (sa_market s)"
    by (auto simp: on_market_def on_ord_def zoom_Inl)
  with assms(1) InsertItems_run [OF run] show ?thesis by (simp add: on_the_way_def kept_def shelf_of_def)
qed

lemma release_on_the_way:
  assumes ok: "\<forall>v st. shelf_of s0 v = Some st \<longrightarrow> stock_ok st"
  shows "on_the_way s0 p rs s \<Longrightarrow> \<exists>s'. release_reserved rs s = (s', Inr ()) \<and> on_the_way s0 p [] s'"
proof (induction rs arbitrary: s)
  case (Cons l rs)
  obtain v n where l: "l = (v, n)" by (cases l)
  obtain s1 r where run: "on_market (on_shelf (ReleaseStock v n)) s = (s1, r)" by fastforce
  from Cons.prems have "reserved_over (shelf_of s0) ((v, n) # rs) (k_stock (m_shelf (sa_market s)))"
    by (simp add: on_the_way_def l shelf_of_def)
  from release_less [OF ok this] on_shelf_run [OF run] Cons.prems have "on_the_way s0 p rs s1"
    by (simp add: on_the_way_def shelf_of_def)
  from Cons.IH [OF this] run show ?case by (simp add: l act_bind_def attempt_def)
qed simp

lemma checkout_lines_on_the_way:
  assumes ok: "\<forall>v st. shelf_of s0 v = Some st \<longrightarrow> stock_ok st"
  shows "on_the_way s0 p rs s \<Longrightarrow> checkout_lines E line d rs items goods ls s = (s', r) \<Longrightarrow>
    (case r of Inl e \<Rightarrow> on_the_way s0 p [] s' | Inr x \<Rightarrow> on_the_way s0 p (fst x) s')"
proof (induction ls arbitrary: rs "items" goods s)
  case (Cons l ls)
  obtain v n where l: "l = (v, n)" by (cases l)
  have home: "on_the_way s0 p [] t'" if "on_the_way s0 p rs' t" "release_reserved rs' t = (t', x)" for rs' t t' x
    using release_on_the_way [OF ok that(1)] that(2) by auto
  have more: "on_the_way s0 p (rs @ [(v, n)]) t" if "on_market (on_shelf (ReserveStock v n)) s = (t, Inr ())" for t
  proof -
    note run = on_shelf_run [OF that]
    then have res: "ReserveStock v n (m_shelf (sa_market s)) = (m_shelf (sa_market t), Inr ())" by (simp add: prod_eq_iff)
    show ?thesis
      using reserve_more [OF ok _ res, of rs] run Cons.prems(1) by (simp add: on_the_way_def shelf_of_def)
  qed
  have same: "on_the_way s0 p rs t" if "on_market (on_shelf (ReserveStock v n)) s = (t, Inl e)" for t e
  proof -
    note run = on_shelf_run [OF that]
    then obtain e' where "ReserveStock v n (m_shelf (sa_market s)) = (m_shelf (sa_market t), Inl e')" by (auto simp: prod_eq_iff)
    with ReserveStock_refused have "m_shelf (sa_market t) = m_shelf (sa_market s)" by blast
    with run Cons.prems(1) show ?thesis by (simp add: on_the_way_def shelf_of_def)
  qed
  have decides_Inl: "decides q t = (t', Inl e) \<Longrightarrow> t' = t" for q :: "order_err + 'b" and t t' e
    by (auto simp: decides_def)
  show ?case
  proof (cases r)
    case (Inl e)
    with Cons.prems(2) show ?thesis
      using Cons.prems(1) home more same Cons.IH
      by (auto simp: l Let_def act_bind_Inl or_undo_Inl or_undo_Inr decides_Inr dest!: decides_Inl)
  next
    case (Inr x)
    with Cons.prems(2) obtain i am s1 where "on_market (on_shelf (ReserveStock v n)) s = (s1, Inr ())"
      "checkout_lines E line d (rs @ [(v, n)]) (items @ [i]) am ls s1 = (s', r)"
      by (auto simp: l Let_def act_bind_Inr or_undo_Inr decides_Inr)
    with Cons.IH more show ?thesis by blast
  qed
qed (auto split: sum.split)


section \<open>A refused run\<close>

definition fails :: "('s \<Rightarrow> bool) \<Rightarrow> ('s \<Rightarrow> bool) \<Rightarrow> ('s, 'e, 'a) act \<Rightarrow> bool" where
  "fails K J c \<longleftrightarrow> (\<forall>s s' e. K s \<longrightarrow> c s = (s', Inl e) \<longrightarrow> J s')"

lemma failsD: "fails K J c \<Longrightarrow> K s \<Longrightarrow> c s = (s', Inl e) \<Longrightarrow> J s'"
  unfolding fails_def by blast

lemma fails_bind:
  assumes "\<And>s s' e. K s \<Longrightarrow> c s = (s', Inl e) \<Longrightarrow> J s'" and "\<And>s s' x. K s \<Longrightarrow> c s = (s', Inr x) \<Longrightarrow> K' x s'"
    and "\<And>x. fails (K' x) J (f x)"
  shows "fails K J (act_bind c f)"
  using assms unfolding fails_def act_bind_Inl by blast

lemma fails_read: "(\<And>I. keeps I m) \<Longrightarrow> (\<And>s. K s \<Longrightarrow> J s) \<Longrightarrow> (\<And>x. fails K J (f x)) \<Longrightarrow> fails K J (act_bind m f)"
  by (rule fails_bind [where K' = "\<lambda>_. K"]) (auto dest: keepsD)

lemma fails_pure: "(Q \<Longrightarrow> fails K J c) \<Longrightarrow> fails (\<lambda>s. K s \<and> Q) J c"
  unfolding fails_def by blast

lemma fails_ex: "(\<And>p. fails (K p) J c) \<Longrightarrow> fails (\<lambda>s. \<exists>p. K p s) J c"
  unfolding fails_def by blast

lemma fails_asks_if:
  assumes "\<And>s. K s \<Longrightarrow> J s"
  shows "(c \<Longrightarrow> fails K J (f ())) \<Longrightarrow> fails K J (act_bind (if c then ret () else deny e) f)"
    and "(c \<Longrightarrow> fails K J (f ())) \<Longrightarrow> fails K J (act_bind (must c e) f)"
    and "(\<And>x. r = Inr x \<Longrightarrow> fails K J (g x)) \<Longrightarrow> fails K J (act_bind (decides r) g)"
    and "(CheckoutBy a now ofr = None \<Longrightarrow> fails K J (f ()))
      \<Longrightarrow> fails K J (act_bind (case CheckoutBy a now ofr of Some e \<Rightarrow> deny e | None \<Rightarrow> ret ()) f)"
  using assms by (cases c; auto simp: fails_def deny_def must_def act_defs)
    (use assms in \<open>cases c; auto simp: fails_def deny_def must_def act_defs\<close>,
     use assms in \<open>cases r; auto simp: fails_def decides_def act_defs\<close>,
     use assms in \<open>cases "CheckoutBy a now ofr"; auto simp: fails_def deny_def act_defs\<close>)

lemma fails_never: "(\<And>s s' e. c s \<noteq> (s', Inl e)) \<Longrightarrow> fails K J c"
  by (simp add: fails_def)

lemma told_and_cleared: "act_bind (tell x) (\<lambda>_. act_bind (on_shop (DeleteCartItemsByVariants a vs)) (\<lambda>_. ret y)) s \<noteq> (s', Inl e)"
  by (auto simp: act_bind_Inl tell_def on_shop_def zoom_Inl DeleteCartItemsByVariants_def split: if_splits)

lemma keeps_quote_on_the_way: "keeps (on_the_way s0 p rs) (quoteShipping E opt seller addr ls)"
  by (intro keeps_intros)

text \<open>The state a refused checkout answers in, up to the purchase session it spent and the sequences it drew from.\<close>

definition given_back :: "i64 option \<Rightarrow> sale \<Rightarrow> sale \<Rightarrow> bool" where
  "given_back did s s' \<longleftrightarrow> kept s' = kept s \<and> shelf_of s' = shelf_of s
    \<and> p_carts (sa_shop s') = p_carts (sa_shop s) \<and> p_offers (sa_shop s') = p_offers (sa_shop s)
    \<and> (\<forall>d \<in> set (p_drafts (sa_shop s)). Some (dr_id d) \<noteq> did \<longrightarrow> d \<in> set (p_drafts (sa_shop s')))"

lemma on_the_way_back:
  "on_the_way s0 p [] s' \<Longrightarrow> p_carts p = p_carts (sa_shop s0) \<Longrightarrow> p_offers p = p_offers (sa_shop s0)
    \<Longrightarrow> \<forall>d \<in> set (p_drafts (sa_shop s0)). Some (dr_id d) \<noteq> did \<longrightarrow> d \<in> set (p_drafts p) \<Longrightarrow> given_back did s0 s'"
  by (simp add: on_the_way_def reserved_none given_back_def)

lemma collect_back:
  assumes "on_the_way s0 p rs s" and "collect E now u (quoteShipping E opt seller addr ls) req items s = (s', Inl e)"
    and "\<And>t. on_the_way s0 p rs t \<Longrightarrow> on_the_way s0 p' [] (fst (u t))"
  shows "on_the_way s0 p' [] s'"
proof -
  have "\<exists>t x. on_the_way s0 p rs t \<and> u t = (s', x)"
    by (rule collect_Inl [OF assms(2,1) keeps_quote_on_the_way keeps_on_the_way]) (erule (1) insert_on_the_way)
  then obtain t x where "on_the_way s0 p rs t" "u t = (s', x)" by blast
  with assms(3) [of t] show ?thesis by simp
qed

lemma keeps_FindDraft: "keeps J (on_shop (FindDraft did actor))" and keeps_FindOffer: "keeps J (on_shop (FindOffer fid))"
  by (rule keepsI, case_tac r; auto simp: on_shop_def zoom_Inr zoom_Inl FindDraft_def FindOffer_def act_runs)+

lemma SaveDraft_on_the_way:
  assumes K: "on_the_way s0 (sa_shop s0) [] s" and run: "on_shop (SaveDraft d) s = (s', r)"
  shows "\<exists>p. on_the_way s0 p [] s' \<and> p_carts p = p_carts (sa_shop s0) \<and> p_offers p = p_offers (sa_shop s0)
    \<and> (\<forall>d' \<in> set (p_drafts (sa_shop s0)). Some (dr_id d') \<noteq> Some (dr_id d) \<longrightarrow> d' \<in> set (p_drafts p))"
proof -
  obtain p x where st: "SaveDraft d (sa_shop s) = (p, x)" by fastforce
  with run have "sa_shop s' = p" "sa_market s' = sa_market s" by (cases x; auto simp: on_shop_def zoom_def)+
  moreover have "p_carts p = p_carts (sa_shop s)" "p_offers p = p_offers (sa_shop s)"
      "\<forall>d' \<in> set (p_drafts (sa_shop s)). dr_id d' \<noteq> dr_id d \<longrightarrow> d' \<in> set (p_drafts p)"
    using st by (auto simp: SaveDraft_def act_defs Let_def set_update_where split: if_splits)
  ultimately show ?thesis using K by (auto simp: on_the_way_def kept_def shelf_of_def)
qed

lemma fails_Checkout:
  assumes ok: "\<forall>v st. shelf_of s0 v = Some st \<longrightarrow> stock_ok st"
  shows "fails (on_the_way s0 (sa_shop s0) []) (given_back (Some did) s0) (Checkout E now actor did lines contact opt currency note)"
proof -
  let ?K = "on_the_way s0 (sa_shop s0) []" and ?J = "given_back (Some did) s0"
  have J: "?K s \<Longrightarrow> ?J s" for s by (rule on_the_way_back) auto
  have sell: "fails (on_the_way s0 p []) ?J (act_bind (checkout_lines E line d [] [] 0 lines) (\<lambda>(reserved, items, goods).
      act_bind (collect E now (release_reserved reserved) (quoteShipping E opt seller addr ls) (req goods) items) (\<lambda>out.
      act_bind (tell (TimerStartCheckout (s_id (co_session out)))) (\<lambda>_.
      act_bind (on_shop (DeleteCartItemsByVariants actor (map fst lines))) (\<lambda>_. ret out)))))"
    if p: "p_carts p = p_carts (sa_shop s0)" "p_offers p = p_offers (sa_shop s0)"
      "\<forall>d' \<in> set (p_drafts (sa_shop s0)). Some (dr_id d') \<noteq> Some did \<longrightarrow> d' \<in> set (p_drafts p)" for p line d seller addr ls req
  proof (rule fails_bind [where K' = "\<lambda>x. on_the_way s0 p (fst x)"])
    fix s s' e assume "on_the_way s0 p [] s" "checkout_lines E line d [] [] 0 lines s = (s', Inl e)"
    from checkout_lines_on_the_way [OF ok this] have "on_the_way s0 p [] s'" by simp
    then show "?J s'" using p by (rule on_the_way_back)
  next
    fix s s' x assume "on_the_way s0 p [] s" "checkout_lines E line d [] [] 0 lines s = (s', Inr x)"
    from checkout_lines_on_the_way [OF ok this] show "on_the_way s0 p (fst x) s'" by simp
  next
    fix x :: "(i64 \<times> i64) list \<times> item list \<times> i64"
    obtain reserved "items" goods where x: "x = (reserved, items, goods)" by (cases x)
    have "?J s'" if "on_the_way s0 p reserved s"
      "collect E now (release_reserved reserved) (quoteShipping E opt seller addr ls) (req goods) items s = (s', Inl e)" for s s' e
    proof -
      have "on_the_way s0 p [] (fst (release_reserved reserved t))" if "on_the_way s0 p reserved t" for t
        using release_on_the_way [OF ok that] by auto
      from collect_back [OF that this] show ?thesis using p by (rule on_the_way_back)
    qed
    then show "fails (on_the_way s0 p (fst x)) ?J (case x of (reserved, items, goods) \<Rightarrow>
        act_bind (collect E now (release_reserved reserved) (quoteShipping E opt seller addr ls) (req goods) items) (\<lambda>out.
        act_bind (tell (TimerStartCheckout (s_id (co_session out)))) (\<lambda>_.
        act_bind (on_shop (DeleteCartItemsByVariants actor (map fst lines))) (\<lambda>_. ret out))))"
      unfolding x by (simp, intro fails_bind [where K' = "\<lambda>_ _. True"] fails_never told_and_cleared) auto
  qed
  show ?thesis
    unfolding Checkout_def Let_def
    apply (rule fails_bind [where K' = "\<lambda>d s. ?K s \<and> dr_id d = did"])
    subgoal by (rule J) (rule keepsD [OF keeps_FindDraft])
    subgoal for s s' d
      using keepsD [OF keeps_FindDraft [of ?K did actor], of s s' "Inr d"]
      by (auto simp: on_shop_def zoom_Inr FindDraft_def act_runs find_Some_iff)
    subgoal for d
      apply (rule fails_pure)
      apply (rule fails_asks_if(1), erule J)
      apply (rule fails_asks_if(2), erule J)
      apply (rule fails_asks_if(2), erule J)
      apply (rule fails_read, intro keeps_intros, erule J)
      apply (rule fails_asks_if(2), erule J)
      apply (rule fails_read, intro keeps_intros, erule J)
      apply (rule fails_read, intro keeps_intros, erule J)
      apply (rule fails_asks_if(3), erule J)
      subgoal for l x addr d'
        apply (rule fails_bind [where K' = "\<lambda>_ s. \<exists>p. on_the_way s0 p [] s \<and> p_carts p = p_carts (sa_shop s0)
          \<and> p_offers p = p_offers (sa_shop s0)
          \<and> (\<forall>d' \<in> set (p_drafts (sa_shop s0)). Some (dr_id d') \<noteq> Some did \<longrightarrow> d' \<in> set (p_drafts p))"])
        subgoal by (drule (1) SaveDraft_on_the_way, elim exE conjE, erule on_the_way_back)
          (auto simp: draft_Cancel_def split: if_splits)
        subgoal by (drule (1) SaveDraft_on_the_way) (auto simp: draft_Cancel_def split: if_splits)
        subgoal by (intro fails_ex fails_pure) (elim conjE, rule sell)
        done
      done
    done
qed


text \<open>The claim on agreed terms, and handing it back.\<close>

definition claim_of :: "offer \<Rightarrow> shop_db \<Rightarrow> shop_db \<Rightarrow> bool" where
  "claim_of f p p' \<longleftrightarrow> ReleaseOfferCheckout (f_id f) p' = (p, Inr ()) \<and> p_carts p' = p_carts p \<and> p_drafts p' = p_drafts p
    \<and> (\<exists>row \<in> set (p_offers p'). f_id row = f_id f \<and> f_status row = OfferCheckedOut \<and> f_session row = None)"

lemma claim_returns:
  assumes ok: "shop_ok p" and f: "f \<in> set (p_offers p)" "f_status f = OfferAccepted"
    and run: "ClaimOfferCheckout (f_id f) now p = (p', Inr u)"
  shows "claim_of f p p'"
proof -
  from ok f have free: "f_session f = None" by (auto simp: shop_ok_def)
  have only: "row = f" if "row \<in> set (p_offers p)" "f_id row = f_id f" for row
    by (rule shop_rows_unique(2) [OF ok that(1) f(1) that(2)])
  from run obtain row where "row \<in> set (p_offers p)" "f_id row = f_id f" "now < f_expires_at row"
    and p': "p' = p\<lparr>p_offers := update_where (\<lambda>row. f_id row = f_id f \<and> f_status row = OfferAccepted \<and> now < f_expires_at row)
      (\<lambda>row. row\<lparr>f_status := OfferCheckedOut\<rparr>) (p_offers p)\<rparr>"
    by (auto simp: ClaimOfferCheckout_def act_runs Let_def)
  with only have now: "now < f_expires_at f" by blast
  let ?row = "f\<lparr>f_status := OfferCheckedOut\<rparr>"
  have rows: "p_offers p' = map (\<lambda>row. if row = f then ?row else row) (p_offers p)"
    using only f now by (auto simp: p' update_where_def intro!: map_cong)
  have "update_where (\<lambda>row. f_id row = f_id f \<and> f_status row = OfferCheckedOut \<and> f_session row = None)
      (\<lambda>row. row\<lparr>f_status := OfferAccepted\<rparr>) (p_offers p') = p_offers p"
    unfolding rows update_where_def map_map o_def using only f(2) free by (intro map_idI) auto
  moreover have "?row \<in> set (p_offers p')" using f(1) by (auto simp: rows)
  ultimately show ?thesis
    using free by (auto simp: claim_of_def ReleaseOfferCheckout_def p' intro!: bexI [of _ ?row])
qed

lemma unclaim_on_the_way:
  assumes "claim_of f (sa_shop s0) p" and "on_the_way s0 p rs s"
  shows "\<exists>s'. on_shop (ReleaseOfferCheckout (f_id f)) s = (s', Inr ()) \<and> on_the_way s0 (sa_shop s0) rs s'"
  using assms by (auto simp: claim_of_def on_the_way_def on_shop_def zoom_def kept_def shelf_of_def)

lemma on_the_way_stock:
  assumes ok: "\<forall>v st. shelf_of s0 v = Some st \<longrightarrow> stock_ok st" and "on_the_way s0 p rs s"
    and run: "on_market (on_shelf (ReserveStock v n)) s = (s', r)"
  shows "case r of Inl e \<Rightarrow> on_the_way s0 p rs s' | Inr x \<Rightarrow> on_the_way s0 p (rs @ [(v, n)]) s'"
proof (cases r)
  case (Inl e)
  with on_shelf_run [OF run] obtain e' where "ReserveStock v n (m_shelf (sa_market s)) = (m_shelf (sa_market s'), Inl e')"
    by (auto simp: prod_eq_iff)
  with ReserveStock_refused have "m_shelf (sa_market s') = m_shelf (sa_market s)" by blast
  with on_shelf_run [OF run] assms(2) Inl show ?thesis by (simp add: on_the_way_def shelf_of_def)
next
  case (Inr x)
  with on_shelf_run [OF run] have res: "ReserveStock v n (m_shelf (sa_market s)) = (m_shelf (sa_market s'), Inr ())"
    by (simp add: prod_eq_iff)
  from reserve_more [OF ok _ res, of rs] on_shelf_run [OF run] assms(2) Inr show ?thesis
    by (simp add: on_the_way_def shelf_of_def)
qed

lemma fails_undo:
  assumes "\<And>s s' e. K s \<Longrightarrow> m s = (s', Inl e) \<Longrightarrow> J (fst (u s'))" and "\<And>s s' x. K s \<Longrightarrow> m s = (s', Inr x) \<Longrightarrow> K' x s'"
    and "\<And>x. fails (K' x) J (f x)"
  shows "fails K J (act_bind (or_undo u m) f)"
proof (rule fails_bind [OF _ _ assms(3)])
  fix s s' e assume "K s" "or_undo u m s = (s', Inl e)"
  then show "J s'" using assms(1) by (fastforce simp: or_undo_Inl)
qed (use assms(2) in \<open>auto simp: or_undo_Inr\<close>)

lemma attach_claimed:
  assumes "claim_of f p (sa_shop s)"
  shows "on_shop (AttachOfferSession (f_id f) sid) s \<noteq> (s', Inl e)"
  using assms by (auto simp: claim_of_def on_shop_def zoom_Inl AttachOfferSession_def act_runs Let_def)

lemma fails_CheckoutOffer:
  assumes ok: "\<forall>v st. shelf_of s0 v = Some st \<longrightarrow> stock_ok st" and shop: "shop_ok (sa_shop s0)"
  shows "fails (on_the_way s0 (sa_shop s0) []) (given_back None s0) (CheckoutOffer E now actor fid contact opt note)"
proof -
  let ?K = "on_the_way s0 (sa_shop s0) []" and ?J = "given_back None s0"
  have J: "?K s \<Longrightarrow> ?J s" for s by (rule on_the_way_back) auto
  have undo: "?J (fst (act_bind (on_shop (ReleaseOfferCheckout (f_id f))) (\<lambda>_. release_reserved rs) t))"
    if "claim_of f (sa_shop s0) p" "on_the_way s0 p rs t" for f p rs t
    using unclaim_on_the_way [OF that] release_on_the_way [OF ok] by (fastforce simp: act_bind_def intro: J)
  have sell: "fails (\<lambda>s. \<exists>p. claim_of f (sa_shop s0) p \<and> on_the_way s0 p [] s) ?J
    (act_bind (or_undo (on_shop (ReleaseOfferCheckout (f_id f))) (on_market (on_shelf (ReserveStock (f_variant f) (f_quantity f))))) (\<lambda>_.
     act_bind (or_undo (act_bind (on_shop (ReleaseOfferCheckout (f_id f))) (\<lambda>_. release_reserved [(f_variant f, f_quantity f)])) (decides x)) (\<lambda>i.
     act_bind (collect E now (act_bind (on_shop (ReleaseOfferCheckout (f_id f))) (\<lambda>_. release_reserved [(f_variant f, f_quantity f)]))
       (quoteShipping E opt seller addr ls) req [i]) (\<lambda>out.
     act_bind (on_shop (AttachOfferSession (f_id f) (s_id (co_session out)))) (\<lambda>_.
     act_bind (tell (TimerStartCheckout (s_id (co_session out)))) (\<lambda>_.
     act_bind (on_shop (DeleteCartItemsByVariants actor [f_variant f])) (\<lambda>_. ret out)))))))"
    (is "fails _ _ (act_bind _ (\<lambda>_. act_bind (or_undo ?u _) _))") for f x seller addr ls req
  proof (rule fails_undo [where K' = "\<lambda>_ s. \<exists>p. claim_of f (sa_shop s0) p \<and> on_the_way s0 p [(f_variant f, f_quantity f)] s"])
    let ?K1 = "\<lambda>s. \<exists>p. claim_of f (sa_shop s0) p \<and> on_the_way s0 p [(f_variant f, f_quantity f)] s"
    show "?J (fst (on_shop (ReleaseOfferCheckout (f_id f)) s'))"
      if "\<exists>p. claim_of f (sa_shop s0) p \<and> on_the_way s0 p [] s" "on_market (on_shelf (ReserveStock (f_variant f) (f_quantity f))) s = (s', Inl e)"
      for s s' e using that(1) on_the_way_stock [OF ok _ that(2)] unclaim_on_the_way J by fastforce
    show "?K1 s'" if "\<exists>p. claim_of f (sa_shop s0) p \<and> on_the_way s0 p [] s"
      "on_market (on_shelf (ReserveStock (f_variant f) (f_quantity f))) s = (s', Inr u)" for s s' u
      using that(1) on_the_way_stock [OF ok _ that(2)] by fastforce
    fix u'
    show "fails ?K1 ?J (act_bind (or_undo ?u (decides x)) (\<lambda>i.
     act_bind (collect E now ?u (quoteShipping E opt seller addr ls) req [i]) (\<lambda>out.
     act_bind (on_shop (AttachOfferSession (f_id f) (s_id (co_session out)))) (\<lambda>_.
     act_bind (tell (TimerStartCheckout (s_id (co_session out)))) (\<lambda>_.
     act_bind (on_shop (DeleteCartItemsByVariants actor [f_variant f])) (\<lambda>_. ret out))))))"
    proof (rule fails_undo [where K' = "\<lambda>_. ?K1"])
      show "?J (fst (?u s'))" if "?K1 s" "decides x s = (s', Inl e)" for s s' e
        using that undo by (auto simp: decides_def simp del: release_reserved.simps)
      show "?K1 s'" if "?K1 s" "decides x s = (s', Inr i)" for s s' i
        using that by (auto simp: decides_Inr)
      fix i
      show "fails ?K1 ?J (act_bind (collect E now ?u (quoteShipping E opt seller addr ls) req [i]) (\<lambda>out.
       act_bind (on_shop (AttachOfferSession (f_id f) (s_id (co_session out)))) (\<lambda>_.
       act_bind (tell (TimerStartCheckout (s_id (co_session out)))) (\<lambda>_.
       act_bind (on_shop (DeleteCartItemsByVariants actor [f_variant f])) (\<lambda>_. ret out)))))"
      proof (rule fails_bind [where K' = "\<lambda>_ s. \<exists>p. claim_of f (sa_shop s0) p \<and> sa_shop s = p"])
        fix s s' e assume "?K1 s" and run: "collect E now ?u (quoteShipping E opt seller addr ls) req [i] s = (s', Inl e)"
        then obtain p where p: "claim_of f (sa_shop s0) p" "on_the_way s0 p [(f_variant f, f_quantity f)] s" by blast
        have "\<exists>t x. on_the_way s0 p [(f_variant f, f_quantity f)] t \<and> ?u t = (s', x)"
          by (rule collect_Inl [OF run p(2) keeps_quote_on_the_way keeps_on_the_way]) (erule (1) insert_on_the_way)
        with undo [OF p(1)] show "?J s'" by fastforce
      next
        fix s s' out assume "?K1 s" and run: "collect E now ?u (quoteShipping E opt seller addr ls) req [i] s = (s', Inr out)"
        from collect_Inr [OF run] have "sa_shop s' = sa_shop s" by (simp add: front_def aside_intros keeps_quote)
        with \<open>?K1 s\<close> show "\<exists>p. claim_of f (sa_shop s0) p \<and> sa_shop s' = p" by (auto simp: on_the_way_def)
      next
        fix out
        show "fails (\<lambda>s. \<exists>p. claim_of f (sa_shop s0) p \<and> sa_shop s = p) ?J
         (act_bind (on_shop (AttachOfferSession (f_id f) (s_id (co_session out)))) (\<lambda>_.
          act_bind (tell (TimerStartCheckout (s_id (co_session out)))) (\<lambda>_.
          act_bind (on_shop (DeleteCartItemsByVariants actor [f_variant f])) (\<lambda>_. ret out))))"
          by (rule fails_bind [where K' = "\<lambda>_ _. True", OF _ _ fails_never [OF told_and_cleared]]) (auto dest: attach_claimed)
      qed
    qed
  qed
  have claim: "case r of Inl e \<Rightarrow> ?J s' | Inr u \<Rightarrow> \<exists>p. claim_of f (sa_shop s0) p \<and> on_the_way s0 p [] s'"
    if "?K s" "f \<in> set (p_offers (sa_shop s0))" "f_status f = OfferAccepted" "on_shop (ClaimOfferCheckout (f_id f) now) s = (s', r)"
    for f s s' r
  proof -
    from that(1) have p: "sa_shop s = sa_shop s0" by (simp add: on_the_way_def)
    obtain p' x where st: "ClaimOfferCheckout (f_id f) now (sa_shop s0) = (p', x)" by fastforce
    with that(4) p have "sa_shop s' = p'" "sa_market s' = sa_market s" "(\<exists>u. r = Inr u) = (\<exists>u. x = Inr u)"
      by (cases x; auto simp: on_shop_def zoom_def)+
    with that(1) have way: "on_the_way s0 p' [] s'" by (simp add: on_the_way_def kept_def shelf_of_def)
    show ?thesis
    proof (cases r)
      case (Inl e)
      with \<open>(\<exists>u. r = Inr u) = (\<exists>u. x = Inr u)\<close> st have "p' = sa_shop s0"
        by (cases x) (auto simp: ClaimOfferCheckout_def act_runs Let_def)
      with way J Inl show ?thesis by simp
    next
      case (Inr u)
      with \<open>(\<exists>u. r = Inr u) = (\<exists>u. x = Inr u)\<close> st obtain u' where "ClaimOfferCheckout (f_id f) now (sa_shop s0) = (p', Inr u')"
        by auto
      from claim_returns [OF shop that(2,3) this] way Inr show ?thesis by auto
    qed
  qed
  show ?thesis
    unfolding CheckoutOffer_def Let_def
    apply (rule fails_asks_if(2), erule J)
    apply (rule fails_bind [where K' = "\<lambda>f s. ?K s \<and> f \<in> set (p_offers (sa_shop s0))"])
    subgoal by (rule J) (auto simp: offer_party_def must_def act_runs dest: keepsD [OF keeps_FindOffer])
    subgoal by (auto simp: offer_party_def must_def act_runs on_the_way_def on_shop_def zoom_Inr FindOffer_def
      find_Some_iff kept_def shelf_of_def)
    subgoal for f
      apply (rule fails_pure)
      apply (rule fails_asks_if(4), erule J)
      apply (rule fails_read, intro keeps_intros, erule J)
      apply (clarsimp simp del: release_reserved.simps)
      apply (rule fails_read, intro keeps_intros, erule J)
      apply (rule fails_read, intro keeps_intros, erule J)
      apply (rule fails_bind [where K' = "\<lambda>_ s. \<exists>p. claim_of f (sa_shop s0) p \<and> on_the_way s0 p [] s"])
      subgoal by (drule claim, assumption) (auto simp: CheckoutBy_def split: if_splits)
      subgoal by (drule claim, assumption) (auto simp: CheckoutBy_def split: if_splits)
      subgoal by (rule sell)
      done
    done
qed


section \<open>What a checkout takes\<close>

definition taken_for :: "draft \<Rightarrow> session \<Rightarrow> i64 \<times> i64 \<Rightarrow> item \<Rightarrow> bool" where
  "taken_for d session l i \<longleftrightarrow> i_variant i = fst l \<and> i_quantity i = snd l \<and> i_session i = s_id session
    \<and> (case draft_Variant d (fst l) of Inl _ \<Rightarrow> False | Inr frozen \<Rightarrow> i_total i = vs_price frozen * snd l)"

lemma quoted_fee: "quoteShipping E opt seller addr ls s = (s', Inr fee) \<Longrightarrow> 0 \<le> sint fee"
  by (auto simp: quoteShipping_def quoteCarrier_def must_def act_runs)

lemma OpenCheckout_session:
  "OpenCheckout F now q db = (db', Inr (session, td)) \<Longrightarrow>
    s_total session = cq_total q \<and> s_from session = cq_buyer q \<and> s_to session = cq_seller q \<and> s_currency session = cq_currency q"
  by (auto simp: OpenCheckout_def NewSession_def act_runs Let_def split: if_splits)

lemma collect_charges:
  assumes "collect E now u (quoteShipping E opt seller addr ls) req items s = (s', Inr out)"
  shows "0 \<le> sint (co_fee out) \<and> s_total (co_session out) = cq_total (req (co_fee out))
    \<and> s_from (co_session out) = cq_buyer (req (co_fee out)) \<and> s_to (co_session out) = cq_seller (req (co_fee out))"
  using assms
  by (auto simp: collect_def act_runs or_undo_Inr on_market_def on_fin_def zoom_Inr dest!: quoted_fee OpenCheckout_session)

lemma priced_taken:
  "priced_line V (draft_line d addr note opt) (d\<lparr>dr_cancelled_at := t\<rparr>) l i
    \<Longrightarrow> same_terms (i\<lparr>i_session := s_id session\<rparr>) row \<Longrightarrow> taken_for d session l row"
  by (auto simp: priced_line_def NewItem_def FromDraft_def draft_Variant_def Let_def taken_for_def same_terms_fields
      split: if_splits option.splits)

lemma priced_total: "priced_line V (draft_line d addr note opt) (d\<lparr>dr_cancelled_at := t\<rparr>) l i
    \<Longrightarrow> i_total i = (case draft_Variant d (fst l) of Inl _ \<Rightarrow> 0 | Inr frozen \<Rightarrow> vs_price frozen * snd l)"
  by (auto simp: priced_line_def NewItem_def draft_Variant_def Let_def split: if_splits option.splits)


lemma on_the_way_desk:
  "on_the_way s0 p rs s \<Longrightarrow> kept s' = kept s \<Longrightarrow> sa_shop s' = sa_shop s \<Longrightarrow> shelf_of s' = shelf_of s \<Longrightarrow> on_the_way s0 p rs s'"
  by (simp add: on_the_way_def)

lemma collect_shelf: "collect E now u (quoteShipping E opt seller addr ls) req items s = (s', Inr out) \<Longrightarrow> shelf_of s' = shelf_of s"
proof -
  assume "collect E now u (quoteShipping E opt seller addr ls) req items s = (s', Inr out)"
  then obtain fee s1 s2 td rows where q: "quoteShipping E opt seller addr ls s = (s1, Inr fee)"
    and "on_market (on_fin (OpenCheckout (me_fin (se_market E)) now (req fee))) s1 = (s2, Inr (co_session out, td))"
    and "on_market (on_ord (InsertItems now (map (\<lambda>i. i\<lparr>i_session := s_id (co_session out)\<rparr>) items))) s2 = (s', Inr rows)"
    by (auto simp: collect_def act_runs or_undo_Inr)
  then have "shelf_of s' = shelf_of s1" by (auto simp: on_market_def on_fin_def on_ord_def zoom_Inr shelf_of_def)
  with keepsD [OF keeps_quote [of "\<lambda>t. shelf_of t = shelf_of s"] _ q] show ?thesis by simp
qed

lemma Checkout_Inr:
  assumes "Checkout E now actor did lines contact opt currency note s = (s', Inr out)"
  obtains d addr s1 s2 s3 reserved "items" goods
  where "d \<in> set (p_drafts (sa_shop s))" "dr_id d = did" "dr_buyer d = actor" "draft_Live d now" "ls_currency (dr_snapshot d) = currency"
    and "on_shop (SaveDraft (d\<lparr>dr_cancelled_at := Some now\<rparr>)) s = (s1, Inr ())"
    and "checkout_lines E (draft_line d addr note opt) (d\<lparr>dr_cancelled_at := Some now\<rparr>) [] [] 0 lines s1 = (s2, Inr (reserved, items, goods))"
    and "collect E now (release_reserved reserved) (quoteShipping E opt (ls_seller (dr_snapshot d)) addr (shippingLines d lines))
      (\<lambda>fee. \<lparr>cq_buyer = actor, cq_seller = ls_seller (dr_snapshot d), cq_currency = currency, cq_total = goods + fee,
         cq_note = ls_name (dr_snapshot d), cq_data = se_context E (FromDraft (dr_id d)) fee\<rparr>) items s2 = (s3, Inr out)"
    and "sa_market s' = sa_market s3" "p_drafts (sa_shop s') = p_drafts (sa_shop s3)"
proof -
  have same: "x = y" if "(\<And>J. keeps J m)" "m x = (y, r)" for m :: "'b sale_act" and x y r
    using keepsD [OF that(1) [of "\<lambda>t. t = x"] _ that(2)] by simp
  from assms obtain d l c addr d' s1 s2 s3 x u u' t t1 t2 where
    find: "on_shop (FindDraft did actor) s = (t, Inr d)" and live: "draft_Live d now"
    and cur: "ls_currency (dr_snapshot d) = currency"
    and t1: "asks (se_listing E actor (dr_listing d)) t = (t, Inr l)" "courier E opt t = (t1, Inr c)"
    and t2: "contactSnapshot E actor contact t1 = (t2, Inr addr)"
    and d': "draft_Cancel now d = Inr d'" and s1: "on_shop (SaveDraft d') t2 = (s1, Inr u)"
    and x: "checkout_lines E (\<lambda>v n amount. \<lparr>nl_origin = FromDraft (dr_id d), nl_buyer = actor, nl_seller = ls_seller (dr_snapshot d),
        nl_listing = dr_listing d, nl_variant = v, nl_address = addr, nl_note = note,
        nl_currency = currency, nl_quantity = n, nl_option = opt, nl_total = amount\<rparr>) d' [] [] 0 lines s1 = (s2, Inr x)"
    and col: "collect E now (release_reserved (fst x)) (quoteShipping E opt (ls_seller (dr_snapshot d)) addr (shippingLines d lines))
      (\<lambda>fee. \<lparr>cq_buyer = actor, cq_seller = ls_seller (dr_snapshot d), cq_currency = currency, cq_total = snd (snd x) + fee,
         cq_note = ls_name (dr_snapshot d), cq_data = se_context E (FromDraft (dr_id d)) fee\<rparr>) (fst (snd x)) s2 = (s3, Inr out)"
    and rest: "act_bind (tell (TimerStartCheckout (s_id (co_session out)))) (\<lambda>_.
        act_bind (on_shop (DeleteCartItemsByVariants actor (map fst lines))) (\<lambda>_. ret out)) s3 = (s', Inr u')"
    unfolding Checkout_def Let_def act_bind_Inr
    by (auto simp: must_def deny_def decides_Inr asks_def act_bind_Inr split: if_splits sum.splits)
  have "t = s" "t1 = t" "t2 = t1"
    using same [OF keeps_FindDraft find] same [OF keeps_find(3) t1(2)] same [OF keeps_find(4) t2] by simp_all
  moreover have "d \<in> set (p_drafts (sa_shop s))" "dr_id d = did" "dr_buyer d = actor"
    using find by (auto simp: on_shop_def zoom_Inr FindDraft_def act_runs find_Some_iff)
  moreover have "d' = d\<lparr>dr_cancelled_at := Some now\<rparr>" using d' by (simp add: draft_Cancel_def split: if_splits)
  moreover have "sa_market s' = sa_market s3" "p_drafts (sa_shop s') = p_drafts (sa_shop s3)"
    using rest by (auto simp: act_runs tell_def on_shop_def zoom_Inr DeleteCartItemsByVariants_def split: if_splits)
  ultimately show ?thesis
    using that [of d s1 addr s2 "fst x" "fst (snd x)" "snd (snd x)" s3] live cur s1 x col by simp
qed


lemma charged_lines:
  assumes "list_all2 (priced_line V (draft_line d addr note opt) (d\<lparr>dr_cancelled_at := t\<rparr>)) ls items"
    and "list_all2 same_terms (map (\<lambda>i. i\<lparr>i_session := s_id session\<rparr>) items) rows"
  shows "list_all2 (taken_for d session) ls rows
    \<and> sum_list (map i_total rows)
      = sum_list (map (\<lambda>(v, n). case draft_Variant d v of Inl _ \<Rightarrow> 0 | Inr frozen \<Rightarrow> vs_price frozen * n) ls)"
  using assms
proof (induction arbitrary: rows rule: list_all2_induct)
  case (Cons l ls i "items")
  then obtain row rest where rows: "rows = row # rest" "same_terms (i\<lparr>i_session := s_id session\<rparr>) row"
    "list_all2 same_terms (map (\<lambda>i. i\<lparr>i_session := s_id session\<rparr>) items) rest"
    by (auto simp: list_all2_Cons1)
  from Cons(1) rows(2) have "taken_for d session l row" "i_total row = i_total i"
    by (auto intro: priced_taken simp: same_terms_fields)
  with priced_total [OF Cons(1)] Cons.IH [OF rows(3)] rows(1) show ?case by (cases l) (simp cong: sum.case_cong)
qed simp

lemma draft_variant_spent: "draft_Variant (d\<lparr>dr_cancelled_at := t\<rparr>) = draft_Variant d"
  by (simp add: draft_Variant_def fun_eq_iff)

end
