(* ===== verification/MarketLaws.thy ===== *)
theory MarketLaws
  imports OrderLaws OrderRules FinanceSessions
begin

text \<open>
  What holds of the whole market under every handler: the interpretations of the market's contract
  on the tables, the ledger, the shelf and on one order's row, and a small market the properties
  are applied to.
\<close>

section \<open>One row of the order table\<close>

lemma bex_update_where:
  "(\<exists>x \<in> set xs. R x) \<Longrightarrow> (\<And>x. R x \<Longrightarrow> P x \<Longrightarrow> R (f x)) \<Longrightarrow> \<exists>x \<in> set (update_where P f xs). R x"
  unfolding set_update_where by blast

text \<open>
  A predicate of one row that survives the columns \<open>saveOrder\<close> writes on an open row, the claim of
  a payout on an open row, and the stamp of its release.
\<close>

lemma row_law_of_row:
  assumes save: "\<And>row ord. R row \<Longrightarrow> open_order (o_id row) row \<Longrightarrow> R (order_columns ord row)"
    and claim: "\<And>row now. R row \<Longrightarrow> open_order (o_id row) row \<Longrightarrow> R (row\<lparr>o_completed_at := Some now\<rparr>)"
    and mark: "\<And>row t. R row \<Longrightarrow> R (row\<lparr>o_released_at := t\<rparr>)"
  shows "row_law (\<lambda>db. \<exists>row \<in> set (q_orders db). R row)"
proof
  let ?I = "\<lambda>db. \<exists>row \<in> set (q_orders db). R row"
  note opened = open_order_def
  have saved: "?I db \<Longrightarrow> save_order ord db = (db', Inr u) \<Longrightarrow> ?I db'" for db db' ord u
    by (auto simp: save_order_Inr opened intro!: bex_update_where save)
  show "keeps ?I (SaveItem i)" "keeps ?I (LinkItems oid iids)" "keeps ?I (InsertTransport now opt fee)"
    "keeps ?I (SaveTransport t st0)" "keeps ?I (BookTransport ro tid data)" for i oid iids now opt fee t st0 ro tid data
    by (rule keeps_side; simp)+
  show "keeps ?I (CreateOrder now ord iids)" for now ord iids
    by (rule keepsI, case_tac r) (auto dest!: CreateOrder_Inr CreateOrder_Inl)
  show "keeps ?I (SaveOrder ord)" for ord
  proof (rule keepsI)
    fix db db' r assume I: "?I db" and run: "SaveOrder ord db = (db', r)"
    show "?I db'"
    proof (cases r)
      case (Inr u)
      with run obtain db1 where "save_order ord db = (db1, Inr ())" and "q_orders db' = q_orders db1"
        by (auto simp: SaveOrder_Inr)
      with saved [OF I] show ?thesis by simp
    qed (use I run in \<open>auto dest: SaveOrder_Inl\<close>)
  qed
  show "keeps ?I (ClaimPayout now ord)" for now ord
  proof (rule keepsI)
    fix db db' r assume I: "?I db" and run: "ClaimPayout now ord db = (db', r)"
    show "?I db'"
    proof (cases r)
      case (Inr made)
      have "\<exists>x \<in> set (update_where (due_row (o_id ord) False) (\<lambda>row. row\<lparr>o_completed_at := Some now\<rparr>) (q_orders db)). R x"
        by (rule bex_update_where [OF I]) (auto simp: due_row_def opened intro!: claim)
      with ClaimPayout_Inr [of now ord db db' made] run Inr show ?thesis by simp
    qed (use I run in \<open>auto dest: ClaimPayout_Inl\<close>)
  qed
  show "keeps ?I (MarkPayoutReleased ord)" for ord
  proof (rule keepsI)
    fix db db' r assume I: "?I db" and run: "MarkPayoutReleased ord db = (db', r)"
    have "\<exists>x \<in> set (update_where (\<lambda>row. o_id row = o_id ord \<and> o_released_at row = None)
        (\<lambda>row. row\<lparr>o_released_at := o_released_at ord\<rparr>) (q_orders db)). R x"
      by (rule bex_update_where [OF I]) (rule mark)
    with MarkPayoutReleased_rows [OF run] I show "?I db'" by (elim conjE disjE) simp_all
  qed
  show "keeps ?I (InsertRefund now rf)" for now rf
    by (rule keepsI, case_tac r) (auto dest!: InsertRefund_Inr InsertRefund_Inl)
  show "keeps ?I (SaveRefund rf st)" for rf st
    by (rule keepsI, case_tac r) (auto simp: SaveRefund_Inr dest: SaveRefund_Inl)
  show "keeps ?I (SaveRefundOutcome rf cl st)" for rf cl st
  proof (rule keepsI)
    fix db db' r assume I: "?I db" and run: "SaveRefundOutcome rf cl st db = (db', r)"
    show "?I db'"
    proof (cases r)
      case (Inr u)
      with run obtain db1 where "SaveRefund rf st db = (db1, Inr ())"
        and rest: "case cl of None \<Rightarrow> db' = db1 | Some ord \<Rightarrow> save_order ord db1 = (db', Inr ())"
        by (auto simp: SaveRefundOutcome_Inr)
      with I have "?I db1" by (auto simp: SaveRefund_Inr)
      then show ?thesis using rest by (cases cl) (use saved in \<open>auto\<close>)
    qed (use I run in \<open>auto dest: SaveRefundOutcome_Inl\<close>)
  qed
qed

text \<open>
  How a row may go on: the columns no statement writes stay, and once the order has an outcome only
  the stamp of the payout may still be set.
\<close>

definition continues :: "order \<Rightarrow> order \<Rightarrow> bool" where
  "continues row0 row \<longleftrightarrow>
    o_id row = o_id row0 \<and> o_draft row = o_draft row0 \<and> o_offer row = o_offer row0
    \<and> o_buyer row = o_buyer row0 \<and> o_seller row = o_seller row0 \<and> o_transport row = o_transport row0
    \<and> o_address row = o_address row0 \<and> o_pickup row = o_pickup row0 \<and> o_created_at row = o_created_at row0
    \<and> (order_Settled row0 \<longrightarrow>
        o_completed_at row = o_completed_at row0 \<and> o_cancelled_at row = o_cancelled_at row0
        \<and> o_confirmed_at row = o_confirmed_at row0 \<and> o_escalated_at row = o_escalated_at row0
        \<and> o_decline_reason row = o_decline_reason row0 \<and> o_received_at row = o_received_at row0
        \<and> o_receipt row = o_receipt row0)"

lemma open_not_settled: "open_order (o_id row) row \<longleftrightarrow> \<not> order_Settled row"
  by (auto simp: open_order_def order_Settled_def)

lemma continues_open: "continues row0 row \<Longrightarrow> open_order (o_id row) row \<Longrightarrow> \<not> order_Settled row0"
proof
  assume "continues row0 row" and o: "open_order (o_id row) row" and s: "order_Settled row0"
  then have "o_completed_at row = o_completed_at row0" "o_cancelled_at row = o_cancelled_at row0"
    by (simp_all add: continues_def)
  with o s show False by (simp add: open_not_settled order_Settled_def)
qed

interpretation one_row: row_law "\<lambda>db. \<exists>row \<in> set (q_orders db). continues row0 row" for row0
proof (rule row_law_of_row)
  fix row ord :: order and now t
  assume c: "continues row0 row"
  then show "continues row0 (row\<lparr>o_released_at := t\<rparr>)" by (simp add: continues_def)
  assume "open_order (o_id row) row"
  with c have "\<not> order_Settled row0" by (rule continues_open)
  with c show "continues row0 (order_columns ord row)" "continues row0 (row\<lparr>o_completed_at := Some now\<rparr>)"
    by (auto simp: continues_def order_columns_def)
qed


section \<open>A market to run on\<close>

definition demo_market_env :: market_env where
  "demo_market_env = \<lparr>me_fin = demo_env, me_V = doc_validator,
    me_role = (\<lambda>a. Inr (if a = 99 then RoleModerator else RoleUser)), me_pickup = (\<lambda>_. Inr demo_address),
    me_resources = (\<lambda>ks. Inr ks), me_courier = (\<lambda>_. None), me_booking_json = (\<lambda>_. None),
    me_ref_of = (\<lambda>_. None), me_fee_json = (\<lambda>_. None)\<rparr>"

text \<open>Account 1 has paid session 1 for two units of variant 4, sold by account 2, and no order exists yet.\<close>

definition demo_line :: item where
  "demo_line = \<lparr>i_id = 1, i_draft = Some 1, i_offer = None, i_order = None, i_buyer = 1, i_seller = 2, i_listing = 3,
    i_variant = 4, i_address = demo_address, i_note = [], i_currency = ''VND'', i_quantity = 2, i_option = ''std'',
    i_total = 60, i_session = 1, i_cancelled_at = None, i_cancelled_by = None, i_created_at = 0\<rparr>"

definition checkout_market :: market where
  "checkout_market = \<lparr>m_fin = paid,
    m_ord = \<lparr>q_orders = [], q_items = [demo_line], q_transports = [], q_refunds = [], q_audit = [], q_order_seq = 0,
      q_item_seq = 1, q_transport_seq = 0, q_refund_seq = 0\<rparr>,
    m_shelf = demo_shelf, m_out = []\<rparr>"

definition demo_paid :: fin_event where
  "demo_paid = SessionPaid 1 KindBuyerCheckout 1 2 ''VND'' 60 ''{}''"

definition placed :: market where
  "placed = fst (market_call demo_market_env 10 (OpPaid demo_paid) checkout_market)"

lemmas market_run_defs = zoom_def on_ord_def on_fin_def on_shelf_def emit_def refuse_def need_def decide_def
  best_effort_def unless_posted_def outside_def involved_def orderTotal_def lines_total_def lines_currency_def
  escrow_of_def hold_key_def release_key_def refund_key_def commit_key_def uncommit_key_def
  FindOrder_def OrderItems_def FindTransport_def OrdTx_def keep_ids_def identity_def update_where_def
  recordOrderFact_def writeOrderEvents_def save_order_def SaveOrder_def order_columns_def order_row_ok_def
  publishSettled_def refundEscrow_def uncommitOrderStock_def demo_address_def demo_market_env_def

lemmas settle_run_defs = SubscribePaidSessions_def SettlePaidSession_def ItemsByPaymentSession_def paidShippingFee_def
  GetSession_def decodeShippingFee_def FindOrderByOrigin_def createOrder_def pickupSnapshot_def InsertTransport_def
  NewOrder_def origin_Valid_def order_fields_def CreateOrder_def finishSettlement_def LinkItems_def
  link_items_def commitItemStock_def publishPlaced_def item_Live_def demo_line_def demo_paid_def checkout_market_def

lemma placed_run: "market_call demo_market_env 10 (OpPaid demo_paid) checkout_market = (placed, Inr ())"
  unfolding placed_def
  by (rule run_ok)
    (simp add: market_run_defs settle_run_defs paid_eq run_defs session_defs stock_defs demo_shelf_def dec_nat.simps)

lemma checkout_market_ok:
  "tables_ok (m_ord checkout_market)" "ledger_inv (m_fin checkout_market)" "shelf_ok (m_shelf checkout_market)"
  using reachable_inv [OF paid_reach] demo_shelf_ok
  by (simp_all add: checkout_market_def tables_ok_def orders_ok_def refunds_ok_def fresh_above_def)

lemma placed_steps: "market_steps demo_market_env checkout_market placed"
  by (rule one_handler [OF no_handler placed_run])

definition placed_order :: order where
  "placed_order = \<lparr>o_events = [], o_id = 1, o_draft = Some 1, o_offer = None, o_buyer = 1, o_seller = 2, o_transport = 1,
    o_address = demo_address, o_pickup = demo_address, o_confirmed_at = None, o_escalated_at = None,
    o_decline_reason = None, o_received_at = None, o_receipt = [], o_released_at = None, o_created_at = 10,
    o_completed_at = None, o_cancelled_at = None\<rparr>"

definition placed_ord :: ord_db where
  "placed_ord = \<lparr>q_orders = [placed_order], q_items = [demo_line\<lparr>i_order := Some 1\<rparr>],
    q_transports = [\<lparr>tr_id = 1, tr_option = ''std'', tr_status = TransportPending, tr_fee = 0, tr_data = ''{}'',
      tr_created_at = 10\<rparr>],
    q_refunds = [], q_audit = [(1, Placed)], q_order_seq = 1, q_item_seq = 1, q_transport_seq = 1, q_refund_seq = 0\<rparr>"

lemma placed_ord_eq: "m_ord placed = placed_ord"
  by (simp add: placed_def placed_ord_def placed_order_def market_run_defs settle_run_defs paid_eq run_defs session_defs
      stock_defs demo_shelf_def dec_nat.simps)

section \<open>What no handler breaks\<close>

text \<open>
  C3: The three stores stay sound together under any sequence of handlers, in any order and whatever they
  answer: the order and refund rows satisfy the constraints of their tables (an order has at most one open refund
  case, no two orders come from one draft, offer or shipment, a receipt always carries its evidence), every wallet
  stands at the sum of its ledger with no key posted twice, and no variant is oversold.
\<close>

theorem market_sound:
  assumes "tables_ok (m_ord m)" and "ledger_inv (m_fin m)" and "shelf_ok (m_shelf m)" and "market_steps E m m'"
  shows "tables_ok (m_ord m') \<and> ledger_inv (m_fin m') \<and> shelf_ok (m_shelf m')"
  using tables.market.keeps_steps [OF assms(4)] ledger.market.keeps_steps [OF assms(4)] shelf.keeps_steps [OF assms(4)]
    assms(1-3)
  by blast

theorem market_sound_witness:
  "tables_ok (m_ord placed) \<and> ledger_inv (m_fin placed) \<and> shelf_ok (m_shelf placed)"
  by (rule market_sound [OF checkout_market_ok placed_steps])

lemma find_unique: "distinct (map f xs) \<Longrightarrow> x \<in> set xs \<Longrightarrow> find (\<lambda>y. f y = f x) xs = Some x"
  by (induction xs) force+

lemma FindOrder_unique: "tables_ok db \<Longrightarrow> row \<in> set (q_orders db) \<Longrightarrow> FindOrder (o_id row) db = (db, Inr row)"
  by (simp add: FindOrder_def act_defs tables_ok_def orders_ok_def fresh_above_def find_unique)

text \<open>
  C4: An order is never lost, never changes hands and never changes its outcome: whatever the parties, the
  moderators, the couriers, the bus and the sweeps do afterwards, in any number of calls, the order is found under
  its id with the same buyer, seller, shipment and origin; and once it is completed or cancelled, its outcome, its
  receipt and its confirmation stay as they are, only the stamp of its payout may still be set.
\<close>

theorem order_outcome_final:
  assumes "tables_ok (m_ord m)" and "FindOrder oid (m_ord m) = (m_ord m, Inr ord)" and "market_steps E m m'"
  shows "\<exists>ord'. FindOrder oid (m_ord m') = (m_ord m', Inr ord') \<and> continues ord ord'"
proof -
  note found = FindOrder_Inr [OF assms(2)]
  then have "\<exists>row \<in> set (q_orders (m_ord m)). continues ord row" by (auto simp: continues_def)
  then obtain row where row: "row \<in> set (q_orders (m_ord m'))" "continues ord row"
    using one_row.market.keeps_steps [OF assms(3)] by blast
  from row(2) found have "o_id row = oid" by (simp add: continues_def)
  with FindOrder_unique [OF tables.market.keeps_steps [OF assms(3,1)] row(1)] row(2) show ?thesis by blast
qed

definition cancelled_market :: market where
  "cancelled_market = fst (market_call demo_market_env 20 (OpCancelOrder 1 1) placed)"

lemma cancel_steps: "market_steps demo_market_env placed cancelled_market"
  unfolding cancelled_market_def by (rule one_handler [OF no_handler prod.collapse [symmetric]])

theorem order_outcome_final_witness:
  "\<exists>ord'. FindOrder 1 (m_ord cancelled_market) = (m_ord cancelled_market, Inr ord') \<and> o_buyer ord' = 1 \<and> o_seller ord' = 2"
proof -
  have "FindOrder 1 (m_ord placed) = (m_ord placed, Inr placed_order)"
    by (simp add: placed_ord_eq FindOrder_def act_defs placed_ord_def placed_order_def)
  from order_outcome_final [OF _ this cancel_steps] tables.market.keeps_steps [OF placed_steps checkout_market_ok(1)]
  show ?thesis by (auto simp: continues_def placed_order_def)
qed

end
