(* ===== verification/SaleTerms.thy ===== *)
theory SaleTerms
  imports SaleCharges MarketLaws
begin

text \<open>
  The promises of the sale: what a line on the books was sold for, what a checkout charges, and that a refused
  checkout takes nothing; with one purchase session of the demonstration market to run them on.
\<close>

section \<open>A purchase session to check out\<close>

text \<open>Account 1 has opened a purchase session on listing 3 of account 2, with two units of variant 4 left, at 30 each.\<close>

definition demo_listing :: listing_view where
  "demo_listing = \<lparr>lv_id = 3, lv_seller = 2, lv_name = ''tea'', lv_currency = ''VND'', lv_price_mode = ''negotiable'',
    lv_active = True, lv_deleted = False, lv_variants = [\<lparr>vs_variant = 4, vs_price = 30, vs_attributes = [], vs_package = []\<rparr>]\<rparr>"

definition demo_sale_env :: sale_env where
  "demo_sale_env = \<lparr>se_market = demo_market_env, se_variant_page = (\<lambda>_ v. Inr (if v = 4 then Some 3 else None)),
    se_listing = (\<lambda>_ _. Inr demo_listing), se_cards = (\<lambda>_ _. Inr []), se_summary = (\<lambda>_. Inr ()),
    se_contact = (\<lambda>_ _. Inr demo_address), se_delivery = (\<lambda>_. Inr (demo_address, 1)),
    se_carriers = Inr [\<lparr>ca_id = ''std'', ca_name = ''Standard'', ca_provider = ''p''\<rparr>],
    se_client = (\<lambda>p. if p = ''p'' then Some (\<lambda>_. Inr 5) else None), se_context = (\<lambda>_ _. ''{}'')\<rparr>"

definition demo_draft :: draft where
  "demo_draft = \<lparr>dr_id = 1, dr_buyer = 1, dr_listing = 3, dr_snapshot = \<lparr>ls_listing = 3, ls_seller = 2, ls_name = ''tea'',
    ls_currency = ''VND'', ls_price_mode = ''negotiable'', ls_variants = lv_variants demo_listing\<rparr>,
    dr_created_at = 0, dr_cancelled_at = None, dr_valid_until = 100\<rparr>"

definition demo_sale :: sale where
  "demo_sale = \<lparr>sa_market = checkout_market\<lparr>m_fin := empty_fin, m_ord := (m_ord checkout_market)\<lparr>q_items := []\<rparr>\<rparr>,
    sa_shop = \<lparr>p_carts = [], p_drafts = [demo_draft], p_offers = [], p_cart_seq = 0, p_draft_seq = 1, p_offer_seq = 0\<rparr>,
    sa_out = []\<rparr>"

lemma demo_sale_ok: "sale_ok demo_sale" "shelf_ok (m_shelf (sa_market demo_sale))"
  using demo_shelf_ok
  by (simp_all add: demo_sale_def checkout_market_def lines_ok_def books_def shop_ok_def fresh_above_def one_origin_def
      map_filter_simps demo_draft_def)

lemmas sale_run_defs = Checkout_def checkout_lines.simps collect_def or_undo_def release_reserved.simps decides_def asks_def
  must_def deny_def tell_def on_market_def on_shop_def courier_def clientFor_def contactSnapshot_def quoteShipping_def
  quoteCarrier_def pickupSnapshot_def shippingLines_def se_V_def ForSale_def FindDraft_def SaveDraft_def
  DeleteCartItemsByVariants_def draft_Live_def draft_Cancel_def draft_Variant_def NewItem_def FromDraft_def
  origin_Valid_def item_fields_def item_row_ok_def InsertItems_def update_where_def map_filter_simps
  demo_sale_def demo_sale_env_def demo_listing_def demo_draft_def checkout_market_def demo_shelf_def demo_address_def
  demo_market_env_def

definition demo_buy :: "i64 \<Rightarrow> sale \<times> (market_err + checkout_out)" where
  "demo_buy n = Checkout demo_sale_env 10 1 1 [(4, n)] 1 ''std'' ''VND'' [] demo_sale"

lemma demo_bought: "\<exists>out. snd (demo_buy 2) = Inr out \<and> s_total (co_session out) = 65"
  by (simp add: demo_buy_def sale_run_defs market_run_defs session_defs stock_defs run_defs)

lemma demo_refused: "snd (demo_buy 3) = Inl (StockErr ErrInsufficientStock)"
  by (simp add: demo_buy_def sale_run_defs market_run_defs session_defs stock_defs run_defs)

section \<open>What a checkout gives back\<close>

text \<open>
  C12: A checkout that is refused takes nothing. Whatever step it fails at, a frozen variant that is gone, stock,
  validation, the delivery quote, the payment session or the insert, every variant holds the units it held before,
  no line has been written, no wallet has moved, and a negotiation that had been claimed is agreed terms again, so
  the buyer can retry; of the purchase sessions at most the one being checked out is spent.
\<close>

theorem refused_checkout_gives_back:
  assumes "shelf_ok (m_shelf (sa_market s))" and "sale_ok s"
    and "Checkout E now actor did lines contact opt currency note s = (s', Inl e)
      \<or> CheckoutOffer E now actor fid contact opt note s = (s', Inl e)"
  shows "q_items (m_ord (sa_market s')) = q_items (m_ord (sa_market s))
    \<and> k_stock (m_shelf (sa_market s')) = k_stock (m_shelf (sa_market s))
    \<and> d_wallets (m_fin (sa_market s')) = d_wallets (m_fin (sa_market s))
    \<and> d_ledger (m_fin (sa_market s')) = d_ledger (m_fin (sa_market s))
    \<and> p_offers (sa_shop s') = p_offers (sa_shop s) \<and> p_carts (sa_shop s') = p_carts (sa_shop s)
    \<and> (\<forall>d \<in> set (p_drafts (sa_shop s)). dr_id d \<noteq> did \<longrightarrow> d \<in> set (p_drafts (sa_shop s')))"
proof -
  have ok: "\<forall>v st. shelf_of s v = Some st \<longrightarrow> stock_ok st" using assms(1) by (simp add: shelf_ok_def shelf_of_def)
  have shop: "shop_ok (sa_shop s)" using assms(2) by (simp add: lines_ok_def books_def)
  have start: "on_the_way s (sa_shop s) [] s" by (simp add: on_the_way_def reserved_none)
  from assms(3) have "given_back (Some did) s s' \<or> given_back None s s'"
    using failsD [OF fails_Checkout [OF ok] start] failsD [OF fails_CheckoutOffer [OF ok shop] start] by blast
  then show ?thesis by (auto simp: given_back_def kept_def shelf_of_def)
qed

theorem refused_checkout_gives_back_witness:
  "q_items (m_ord (sa_market (fst (demo_buy 3)))) = [] \<and> k_stock (m_shelf (sa_market (fst (demo_buy 3)))) = k_stock demo_shelf"
proof -
  have "Checkout demo_sale_env 10 1 1 [(4, 3)] 1 ''std'' ''VND'' [] demo_sale
      = (fst (demo_buy 3), Inl (StockErr ErrInsufficientStock))"
    using demo_refused by (simp add: demo_buy_def prod_eq_iff)
  from refused_checkout_gives_back [OF demo_sale_ok(2,1) disjI1 [OF this]] show ?thesis
    by (simp add: demo_sale_def checkout_market_def)
qed



section \<open>What is on the books\<close>

text \<open>
  C11: No line is ever sold at other than frozen terms. Whatever handlers are called, in any order and whatever the
  other modules answer, every line on the books has exactly one origin: a purchase session that is spent, whose
  parties, listing and currency it carries and whose frozen price times the quantity it charges; or a negotiation
  that is checked out under the very payment session of the line, whose agreed total it charges. A purchase session
  is paid by one payment session only, and a negotiation is sold once.
\<close>

theorem lines_sold_at_frozen_terms:
  assumes "sale_ok s" and "sale_steps s s'" and "i \<in> set (q_items (m_ord (sa_market s')))"
  shows "sold_line (sa_shop s') i
    \<and> (\<forall>j \<in> set (q_items (m_ord (sa_market s'))). i_draft i \<noteq> None \<and> i_draft j = i_draft i \<longrightarrow> i_session j = i_session i)
    \<and> distinct (List.map_filter i_offer (q_items (m_ord (sa_market s'))))"
proof -
  from sale_steps_ok [OF assms(2,1)] have "lines_ok (q_items (m_ord (sa_market s')), sa_shop s')"
    by (simp only: lines_ok_market)
  then have origin: "\<forall>i \<in> set (q_items (m_ord (sa_market s'))). \<forall>j \<in> set (q_items (m_ord (sa_market s'))).
      i_draft i \<noteq> None \<and> i_draft i = i_draft j \<longrightarrow> i_session i = i_session j"
    and once: "distinct (List.map_filter i_offer (q_items (m_ord (sa_market s'))))"
    and sold: "\<forall>i \<in> set (q_items (m_ord (sa_market s'))). sold_line (sa_shop s') i"
    unfolding lines_ok_def one_origin_def fst_conv snd_conv by blast+
  from origin [rule_format, OF assms(3)] have
    "\<forall>j \<in> set (q_items (m_ord (sa_market s'))). i_draft i \<noteq> None \<and> i_draft j = i_draft i \<longrightarrow> i_session j = i_session i"
    by metis
  with once sold assms(3) show ?thesis by blast
qed

lemma demo_buy_steps: "sale_steps demo_sale (fst (demo_buy n))"
proof -
  have "sale_call demo_sale_env 10 (OpCheckout 1 1 [(4, n)] 1 ''std'' ''VND'' []) demo_sale
      = (fst (demo_buy n), snd (done_with (\<lambda>s. demo_buy n) demo_sale))"
    by (cases "demo_buy n"; cases "snd (demo_buy n)") (auto simp: done_with_def act_bind_def ret_def demo_buy_def)
  then show ?thesis by (rule sale_steps.one_call [OF sale_steps.no_call])
qed

theorem lines_sold_at_frozen_terms_witness:
  "list_ex (sold_line (sa_shop (fst (demo_buy 2)))) (q_items (m_ord (sa_market (fst (demo_buy 2)))))"
proof -
  have "q_items (m_ord (sa_market (fst (demo_buy 2)))) \<noteq> []"
    by (simp add: demo_buy_def sale_run_defs market_run_defs session_defs stock_defs run_defs)
  then show ?thesis
    using lines_sold_at_frozen_terms [OF demo_sale_ok(1) demo_buy_steps] by (auto simp: list_ex_iff neq_Nil_conv)
qed

end
