(* ===== verification/MarketEscrow.thy ===== *)
theory MarketEscrow
  imports MarketLaws
begin

text \<open>
  Where the escrow of an order goes. Handlers that run one after the other pay it out at most once,
  to the buyer of a cancelled order or to the seller of a completed one. What two that overlap may do is in
  \<open>MarketRace\<close>.
\<close>

section \<open>The keys of an order\<close>

lemma split_at_colon:
  "CHR '':'' \<notin> set xs \<Longrightarrow> CHR '':'' \<notin> set ys \<Longrightarrow> xs @ CHR '':'' # s = ys @ CHR '':'' # t \<longleftrightarrow> xs = ys \<and> s = t"
  by (induction xs arbitrary: ys) (auto simp: append_eq_Cons_conv Cons_eq_append_conv, (case_tac ys; auto)+)

lemma order_key_inj:
  "''order:'' @ dec_i64 a @ CHR '':'' # s = ''order:'' @ dec_i64 b @ CHR '':'' # t \<longleftrightarrow> a = b \<and> s = t"
  by (simp add: split_at_colon dec_i64_no_colon dec_i64_inj)

lemmas key_defs = hold_key_def release_key_def refund_key_def

lemma key_facts:
  "release_key a = release_key b \<longleftrightarrow> a = b"
  "refund_key a @ s = refund_key b @ t \<longleftrightarrow> a = b \<and> s = t"
  "hold_key a @ s \<noteq> refund_key b @ t" "hold_key a @ s \<noteq> release_key b"
  "release_key a \<noteq> refund_key b @ t" "refund_key b @ t \<noteq> release_key a"
  "release_key a \<noteq> []" "refund_key b @ t \<noteq> hold_key a @ s" "release_key b \<noteq> hold_key a @ s"
  using order_key_inj [of a "''release''" b "''release''"] order_key_inj [of a "''refund'' @ s" b "''refund'' @ t"]
    order_key_inj [of a "''hold'' @ s" b "''refund'' @ t"] order_key_inj [of a "''hold'' @ s" b "''release''"]
    order_key_inj [of a "''release''" b "''refund'' @ t"]
  by (auto simp: key_defs)

section \<open>What a transfer posts\<close>

lemma escrow_posts:
  assumes "ledger_inv db"
  shows "HoldEscrow F r db = (db', Inr ()) \<Longrightarrow> ledger_inv db' \<and> posted db' = posted db \<union> leg_keys (hold_legs r)"
    and "ReleaseEscrow F r db = (db', Inr ()) \<Longrightarrow> ledger_inv db' \<and> posted db' = posted db \<union> leg_keys (release_legs r)"
    and "RefundEscrow F r db = (db', Inr ()) \<Longrightarrow> ledger_inv db' \<and> posted db' = posted db \<union> leg_keys (refund_legs r)"
  unfolding escrow_runs
  by (elim conjE exE, drule fin.mover_ok [OF assms(1)], blast)+


lemma escrow_refused:
  assumes "ledger_inv db"
  shows "HoldEscrow F r db = (db', Inl e) \<Longrightarrow> ledger_inv db' \<and> posted db' = posted db"
    and "ReleaseEscrow F r db = (db', Inl e) \<Longrightarrow> ledger_inv db' \<and> posted db' = posted db"
    and "RefundEscrow F r db = (db', Inl e) \<Longrightarrow> ledger_inv db' \<and> posted db' = posted db"
  using escrow_errors [of F r db db' e] fin.mover_refused [OF assms] assms by blast+

lemma order_escrow_keys:
  "leg_keys (hold_legs (escrow_of ord c n fee (hold_key oid))) \<subseteq> range (\<lambda>s. hold_key oid @ s)"
  "leg_keys (refund_legs (escrow_of ord c n fee (refund_key oid))) \<subseteq> range (\<lambda>s. refund_key oid @ s)"
  "leg_keys (release_legs (escrow_of ord c n fee (release_key oid))) = {release_key oid}"
  by (auto simp: escrow_keys key_facts escrow_of_def)

section \<open>One way out\<close>

definition refunded :: "market \<Rightarrow> i64 \<Rightarrow> bool" where
  "refunded m oid \<longleftrightarrow> refund_key oid @ '':seller'' \<in> posted (m_fin m)"

definition released :: "market \<Rightarrow> i64 \<Rightarrow> bool" where
  "released m oid \<longleftrightarrow> release_key oid \<in> posted (m_fin m)"

definition cancelled_row :: "i64 \<Rightarrow> ord_db \<Rightarrow> bool" where
  "cancelled_row oid db \<longleftrightarrow> (\<exists>row \<in> set (q_orders db). o_id row = oid \<and> o_cancelled_at row \<noteq> None)"

definition completed_row :: "i64 \<Rightarrow> ord_db \<Rightarrow> bool" where
  "completed_row oid db \<longleftrightarrow> (\<exists>row \<in> set (q_orders db). o_id row = oid \<and> o_completed_at row \<noteq> None \<and> o_cancelled_at row = None)"

interpretation cancelled: row_law "cancelled_row oid" for oid
  unfolding cancelled_row_def [abs_def]
  by (rule row_law_of_row) (auto simp: open_order_def order_columns_def)

interpretation completed: row_law "completed_row oid" for oid
  unfolding completed_row_def [abs_def]
  by (rule row_law_of_row) (auto simp: open_order_def order_columns_def)

text \<open>
  The orders of \<open>A\<close> are cancelled and the orders of \<open>B\<close> completed, among them every order whose
  escrow went back to the buyer, and every order whose escrow was released.
\<close>

definition way :: "i64 set \<Rightarrow> i64 set \<Rightarrow> market \<Rightarrow> bool" where
  "way A B m \<longleftrightarrow> tables_ok (m_ord m) \<and> ledger_inv (m_fin m)
    \<and> (\<forall>oid. oid \<in> A \<or> refunded m oid \<longrightarrow> cancelled_row oid (m_ord m))
    \<and> (\<forall>oid. oid \<in> B \<or> released m oid \<longrightarrow> completed_row oid (m_ord m))"

lemma way_mono: "way A B m \<Longrightarrow> A' \<subseteq> A \<Longrightarrow> B' \<subseteq> B \<Longrightarrow> way A' B' m"
  unfolding way_def by blast

lemma way_cancelled: "way A B m \<Longrightarrow> cancelled_row oid (m_ord m) \<Longrightarrow> way (insert oid A) B m"
  unfolding way_def by blast

lemma way_completed: "way A B m \<Longrightarrow> completed_row oid (m_ord m) \<Longrightarrow> way A (insert oid B) m"
  unfolding way_def by blast

lemma way_rows:
  assumes "keeps tables_ok s" and "\<And>oid. keeps (cancelled_row oid) s" and "\<And>oid. keeps (completed_row oid) s"
  shows "keeps (way A B) (on_ord s)"
proof (rule keepsI)
  fix m m' :: market and r
  assume w: "way A B m" and run: "on_ord s m = (m', r)"
  note e = on_ord_elsewhere [OF run]
  have t: "tables_ok (m_ord m')"
    by (rule keepsD [OF keeps_on_ord [OF assms(1)] _ run]) (use w in \<open>simp add: way_def\<close>)
  have c: "cancelled_row oid (m_ord m')" if "cancelled_row oid (m_ord m)" for oid
    by (rule keepsD [OF keeps_on_ord [OF assms(2)] _ run]) (rule that)
  have d: "completed_row oid (m_ord m')" if "completed_row oid (m_ord m)" for oid
    by (rule keepsD [OF keeps_on_ord [OF assms(3)] _ run]) (rule that)
  show "way A B m'"
    using w e t c d unfolding way_def refunded_def released_def by simp
qed

lemma way_same: "way A B m \<Longrightarrow> m_ord m' = m_ord m \<Longrightarrow> m_fin m' = m_fin m \<Longrightarrow> way A B m'"
  by (simp add: way_def refunded_def released_def)

lemma way_money:
  assumes "way A B m" and "m_ord m' = m_ord m" and "ledger_inv (m_fin m')"
    and "posted (m_fin m') \<subseteq> posted (m_fin m) \<union> K"
    and "\<And>oid. refund_key oid @ '':seller'' \<in> K \<Longrightarrow> oid \<in> A" and "\<And>oid. release_key oid \<in> K \<Longrightarrow> oid \<in> B"
  shows "way A B m'"
proof -
  have "oid \<in> A \<or> refunded m oid" if "oid \<in> A \<or> refunded m' oid" for oid
    using that assms(4,5) unfolding refunded_def by blast
  moreover have "oid \<in> B \<or> released m oid" if "oid \<in> B \<or> released m' oid" for oid
    using that assms(4,6) unfolding released_def by blast
  ultimately show ?thesis using assms(1-3) unfolding way_def by metis
qed

lemma way_on_fin:
  assumes ok: "\<And>db db'. ledger_inv db \<Longrightarrow> f db = (db', Inr ()) \<Longrightarrow> ledger_inv db' \<and> posted db' = posted db \<union> K"
    and no: "\<And>db db' e. ledger_inv db \<Longrightarrow> f db = (db', Inl e) \<Longrightarrow> ledger_inv db' \<and> posted db' = posted db"
    and K: "\<And>oid. refund_key oid @ '':seller'' \<in> K \<Longrightarrow> oid \<in> A" "\<And>oid. release_key oid \<in> K \<Longrightarrow> oid \<in> B"
  shows "keeps (way A B) (on_fin f)"
proof (rule keepsI)
  fix m m' :: market and r
  assume w: "way A B m" and run: "on_fin f m = (m', r)"
  have inv: "ledger_inv (m_fin m)" using w by (simp add: way_def)
  have "ledger_inv (m_fin m') \<and> posted (m_fin m') \<subseteq> posted (m_fin m) \<union> K"
    using run ok [OF inv] no [OF inv] by (cases r) (auto simp: on_fin_def zoom_Inr zoom_Inl)
  with way_money [OF w _ _ _ K] on_fin_elsewhere [OF run] show "way A B m'" by blast
qed

interpretation way: market_quiet "way A B" for A B
proof
  show "way A B (m\<lparr>m_out := out\<rparr>)" if "way A B m" for m out using that by (rule way_same) simp_all
  have sh: "keeps (way A B) (on_shelf s)" for s :: "unit stock_act"
    by (rule keepsI) (auto dest: on_shelf_elsewhere intro: way_same)
  show "keeps (way A B) (on_shelf (ReleaseStock v n))" "keeps (way A B) (on_shelf (CommitStock v n key))"
    "keeps (way A B) (on_shelf (UncommitStock v n key))" for v n key
    by (rule sh)+
  show "keeps (way A B) (on_ord (SaveItem i))" "keeps (way A B) (on_ord (LinkItems oid iids))" for i oid iids
    by (intro way_rows tables.lines cancelled.lines completed.lines)+
  show "keeps (way A B) (on_ord (InsertTransport now opt fee))" "keeps (way A B) (on_ord (SaveTransport t st))"
    "keeps (way A B) (on_ord (BookTransport ro tid data))" for now opt fee t st ro tid data
    by (intro way_rows tables.parcels cancelled.parcels completed.parcels)+
  show "keeps (way A B) (on_ord (CreateOrder now ord iids))" "keeps (way A B) (on_ord (SaveOrder ord))"
    "keeps (way A B) (on_ord (ClaimPayout now ord))" "keeps (way A B) (on_ord (MarkPayoutReleased ord))" for now ord iids
    by (intro way_rows tables.orders cancelled.orders completed.orders)+
  show "keeps (way A B) (on_ord (InsertRefund now rf))" "keeps (way A B) (on_ord (SaveRefund rf st))"
    "keeps (way A B) (on_ord (SaveRefundOutcome rf cl st))" for now rf st cl
    by (intro way_rows tables.cases cancelled.cases completed.cases)+
  show "keeps (way A B) (on_fin (HoldEscrow F (escrow_of ord cur amount fee (hold_key (o_id ord)))))" for F ord cur amount fee
    by (rule way_on_fin [OF escrow_posts(1) escrow_refused(1)])
       (use order_escrow_keys(1) [of ord cur amount fee "o_id ord"] in \<open>auto simp: key_facts\<close>)
qed

lemma way_release [keeps_intros]:
  "o_id ord \<in> B \<Longrightarrow> keeps (way A B) (on_fin (ReleaseEscrow F (escrow_of ord cur amount fee (release_key (o_id ord)))))"
  by (rule way_on_fin [OF escrow_posts(2) escrow_refused(2)]) (auto simp: order_escrow_keys key_facts)

lemma way_refund [keeps_intros]:
  "o_id ord \<in> A \<Longrightarrow> keeps (way A B) (on_fin (RefundEscrow F (escrow_of ord cur amount fee (refund_key (o_id ord)))))"
  by (rule way_on_fin [OF escrow_posts(3) escrow_refused(3)])
     (use order_escrow_keys(2) [of ord cur amount fee "o_id ord"] in \<open>auto simp: key_facts\<close>)

lemmas way_intros = way.statements way.saves way.keeps_saveRefund way.keeps_emit way.keeps_helpers way.keeps_uncommitOrderStock keeps_intros

lemma way_refundEscrow: "o_id ord \<in> A \<Longrightarrow> keeps (way A B) (refundEscrow E ord fee)"
  unfolding refundEscrow_def by (intro way_intros; simp)

lemma way_recordRelease: "keeps (way A B) (recordRelease now ord)"
  unfolding recordRelease_def by (intro way_intros)


section \<open>The handlers that pay out\<close>

lemma update_where_hit: "x \<in> set xs \<Longrightarrow> P x \<Longrightarrow> R (f x) \<Longrightarrow> \<exists>y \<in> set (update_where P f xs). R y"
  unfolding set_update_where by blast

lemma way_cancel_tail:
  assumes "o_cancelled_at ord \<noteq> None" and "keeps (way {o_id ord} {}) k"
  shows "keeps (way {} {}) (act_bind (on_ord (SaveOrder ord)) (\<lambda>_. k))"
proof (rule keeps_bind_then [where K = "\<lambda>_. way {o_id ord} {}"])
  fix m m' :: market and u
  assume w: "way {} {} m" and run: "on_ord (SaveOrder ord) m = (m', Inr u)"
  from run obtain row where "row \<in> set (q_orders (m_ord m))" "open_order (o_id ord) row"
    and rows: "q_orders (m_ord m') = update_where (open_order (o_id ord)) (order_columns ord) (q_orders (m_ord m))"
    by (auto simp: on_ord_def zoom_Inr SaveOrder_Inr save_order_Inr)
  then have "cancelled_row (o_id ord) (m_ord m')"
    unfolding cancelled_row_def rows
    by (intro update_where_hit [of row]) (auto simp: assms(1) open_order_def)
  moreover have "way {} {} m'" by (rule keepsD [OF way.orders(1) w run])
  ultimately show "way {o_id ord} {} m'" using way_cancelled [of "{}" "{}"] by blast
qed (use assms(2) in \<open>auto intro: way_intros way_mono\<close>)

lemma way_Decline: "keeps (way {} {}) (DeclineOrder E now a oid reason)"
  unfolding DeclineOrder_def
  by (intro keeps_bind_decide way_cancel_tail way_refundEscrow way_intros)
     (auto simp: Decline_def record_event_def split: if_splits)

lemma way_Cancel: "keeps (way {} {}) (CancelOrder E now a oid)"
  unfolding CancelOrder_def
  by (intro keeps_bind_decide way_cancel_tail way_refundEscrow way_intros)
     (auto simp: order_Cancel_def record_event_def split: if_splits)

lemma ClaimPayout_completed:
  assumes "ClaimPayout now ord db = (db', Inr cl)"
  shows "o_id cl = o_id ord \<and> completed_row (o_id ord) db'"
proof -
  note rows = ClaimPayout_Inr [OF assms]
  then obtain row where row: "row \<in> set (q_orders db)" "due_row (o_id ord) False row"
    by (auto simp: due_row_def)
  have "completed_row (o_id ord) db'"
    unfolding completed_row_def rows [THEN conjunct2, THEN conjunct2, THEN conjunct1]
    by (rule update_where_hit [where P = "due_row (o_id ord) False" and x = row]) (use row in \<open>auto simp: due_row_def open_order_def\<close>)
  with rows show ?thesis by simp
qed

lemma way_releasePayout: "keeps (way {} {}) (releasePayout E now ord)"
proof -
  have rel: "keeps (way {} {o_id cl}) (act_bind (attempt (unless_posted (on_fin (ReleaseEscrow F
        (escrow_of cl cur n 0 (release_key (o_id cl)))))) :: (market_err + unit) market_act)
      (\<lambda>paid. case paid of Inl _ \<Rightarrow> ret False | Inr _ \<Rightarrow>
         act_bind (recordRelease now cl) (\<lambda>_. act_bind (publishSettled cl True) (\<lambda>_. ret True))))" for cl F cur n
    by (intro way_recordRelease way_intros) simp_all
  have claim: "keeps (way {} {}) (act_bind (attempt (on_ord (ClaimPayout now ord)) :: (market_err + order) market_act) f)"
    if f: "\<And>cl. o_id cl = o_id ord \<Longrightarrow> keeps (way {} {o_id cl}) (f (Inr cl))" and g: "\<And>e. keeps (way {} {}) (f (Inl e))"
    for f :: "market_err + order \<Rightarrow> bool market_act"
  proof (rule keeps_bind_then [where K = "\<lambda>r m. case r of Inl _ \<Rightarrow> way {} {} m
      | Inr cl \<Rightarrow> way {} {o_id cl} m \<and> o_id cl = o_id ord"])
    fix m m' :: market and r
    assume w: "way {} {} m" and run: "(attempt (on_ord (ClaimPayout now ord)) :: (market_err + order) market_act) m = (m', Inr r)"
    have w': "way {} {} m'" by (rule keepsD [OF keeps_attempt [OF way.rows(2)] w run])
    show "case r of Inl _ \<Rightarrow> way {} {} m' | Inr cl \<Rightarrow> way {} {o_id cl} m' \<and> o_id cl = o_id ord"
    proof (cases r)
      case (Inr cl)
      with run have c: "ClaimPayout now ord (m_ord m) = (m_ord m', Inr cl)" by (auto simp: on_ord_def zoom_Inr)
      from ClaimPayout_completed [OF c] show ?thesis using Inr way_completed [OF w'] by simp
    qed (use w' in simp)
  next
    fix r
    show "keeps (\<lambda>m. case r of Inl _ \<Rightarrow> way {} {} m | Inr cl \<Rightarrow> way {} {o_id cl} m \<and> o_id cl = o_id ord) (f r)"
      using f g by (cases r) (auto simp: keeps_def)
  qed (auto intro: way_intros way_mono split: sum.splits)
  show ?thesis
    unfolding releasePayout_def
    by (intro keeps_bind [OF way.keeps_helpers(5)] keeps_pair keeps_if keeps_ret claim; unfold sum.case; rule rel keeps_ret)
qed

lemma way_release_each: "keeps (way {} {}) (release_each E now ords)"
  by (induction ords) (auto intro!: keeps_bind keeps_ret way_releasePayout)

lemma way_retry_each: "o_id ` set ords \<subseteq> B \<Longrightarrow> keeps (way {} B) (retry_each E now ords)"
  by (induction ords) (auto intro!: way_intros way_recordRelease)


lemma way_ReleasePayout: "keeps (way {} {}) (ReleasePayout E now oid)"
  unfolding ReleasePayout_def by (intro way_releasePayout way_intros)

lemma way_ReleaseDue: "keeps (way {} {}) (ReleaseDuePayouts E now n)"
  unfolding ReleaseDuePayouts_def by (intro way_release_each way_intros)

lemma way_Retry: "keeps (way {} {}) (RetryClaimedPayouts E now n)"
  unfolding RetryClaimedPayouts_def
proof (rule keeps_bind_then [where K = "\<lambda>ords. way {} (o_id ` set ords)"])
  fix m m' :: market and ords
  assume w: "way {} {} m" and run: "on_ord (ClaimedPayouts n) m = (m', Inr ords)"
  have m': "m' = m" by (rule on_ord_reads [OF reads_statements(13) run])
  from run have "\<forall>ord \<in> set ords. completed_row (o_id ord) (m_ord m)"
    by (auto simp: on_ord_def zoom_Inr ClaimedPayouts_def completed_row_def dest!: in_set_takeD)
  with w show "way {} (o_id ` set ords) m'" unfolding m' way_def by blast
qed (auto intro: way_intros way_retry_each way_mono)

text \<open>From rows as they stand, the verdict's write lands: the refund is closed and the order cancelled together.\<close>

lemma settle_lands:
  assumes t: "tables_ok db" and r0: "r0 \<in> set (q_refunds db)" and ord: "ord \<in> set (q_orders db)" "\<not> order_Settled ord"
  shows "\<exists>db'. SaveRefundOutcome (r0\<lparr>r_status := RefundAccepted, r_deadline := None\<rparr>)
      (Some (record_event Cancelled (ord\<lparr>o_cancelled_at := Some now\<rparr>))) (r_status r0) db = (db', Inr ())
    \<and> cancelled_row (o_id ord) db'"
proof -
  let ?r = "r0\<lparr>r_status := RefundAccepted, r_deadline := None\<rparr>"
  let ?c = "record_event Cancelled (ord\<lparr>o_cancelled_at := Some now\<rparr>)"
  note t' = t [unfolded tables_ok_def orders_ok_def refunds_ok_def fresh_above_def]
  have one: "row = r0" if "row \<in> set (q_refunds db)" "r_id row = r_id r0" for row
    using t' r0 that by (meson eq_key_imp_eq_value inj_onD distinct_map)
  have one': "row = ord" if "row \<in> set (q_orders db)" "o_id row = o_id ord" for row
    using t' ord(1) that by (meson inj_onD distinct_map)
  have rok: "refund_write_ok db ?r r0"
  proof -
    have "refund_row_ok r0" using t' r0 by (auto simp: list_all_iff)
    moreover have "\<forall>r' \<in> set (q_refunds db). r_return_transport r0 \<noteq> None \<and> r_return_transport r' = r_return_transport r0
        \<longrightarrow> r_id r' = r_id r0"
      using t' r0 unfolding unique_by_def by metis
    ultimately show ?thesis
      by (auto simp: refund_write_ok_def refund_row_ok_def refund_columns_def open_case_def)
  qed
  define db1 where "db1 = db\<lparr>q_refunds := update_where (refund_from (r_id r0) (r_status r0)) (refund_columns ?r) (q_refunds db)\<rparr>"
  have s1: "SaveRefund ?r (r_status r0) db = (db1, Inr ())"
    using r0 rok one by (auto simp: SaveRefund_Inr db1_def refund_from_def)
  have ook: "order_row_ok (order_columns ?c ord)"
  proof -
    have "order_row_ok ord" using t' ord by (auto simp: list_all_iff)
    then show ?thesis by (auto simp: order_row_ok_def order_columns_def record_event_def)
  qed
  have op: "open_order (o_id ord) ord" using ord(2) by (simp add: open_not_settled)
  let ?db2 = "db1\<lparr>q_orders := update_where (open_order (o_id ord)) (order_columns ?c) (q_orders db1)\<rparr>"
  have s2: "save_order ?c db1 = (?db2, Inr ())"
    using ord op ook one' by (auto simp: save_order_Inr db1_def record_event_def open_order_def)
  have "cancelled_row (o_id ord) ?db2"
    unfolding cancelled_row_def
    by (simp, rule update_where_hit [of ord]) (use ord op in \<open>auto simp: db1_def record_event_def\<close>)
  with s1 s2 show ?thesis by (auto simp: SaveRefundOutcome_Inr)
qed

lemma unless_posted_runs: "unless_posted a m = (m', r) \<Longrightarrow> \<exists>x. a m = (m', x) \<and> (isl r \<longrightarrow> isl x)"
  by (cases "a m"; cases "snd (a m)") (auto simp: unless_posted_def act_bind_def attempt_def split: if_splits)

lemma refundEscrow_runs:
  assumes "ledger_inv (m_fin m)" and "refundEscrow E ord fee m = (m', r)"
  shows "m_ord m' = m_ord m \<and> ledger_inv (m_fin m')
    \<and> posted (m_fin m') \<subseteq> posted (m_fin m) \<union> (if isl r then {} else range (\<lambda>s. refund_key (o_id ord) @ s))"
proof -
  have money: "m_ord m' = m_ord m \<and> ledger_inv (m_fin m')
      \<and> posted (m_fin m') \<subseteq> posted (m_fin m) \<union> (if isl x then {} else range (\<lambda>s. refund_key (o_id ord) @ s))"
    if "on_fin (RefundEscrow (me_fin E) (escrow_of ord cur n fee (refund_key (o_id ord)))) m = (m', x)" for cur n x
    using that escrow_posts(3) [OF assms(1)] escrow_refused(3) [OF assms(1)] order_escrow_keys(2) [of ord cur n fee "o_id ord"]
    by (cases x) (fastforce simp: on_fin_def zoom_Inr zoom_Inl)+
  obtain n cur ls where m: "orderTotal (o_id ord) m = (m, Inr (n, cur, ls))"
    by (simp add: orderTotal_def OrderItems_def on_ord_def zoom_def act_defs)
  show ?thesis
  proof (cases "n = 0")
    case False
    with assms(2) m have "unless_posted (on_fin (RefundEscrow (me_fin E) (escrow_of ord cur n fee (refund_key (o_id ord))))) m = (m', r)"
      by (simp add: refundEscrow_def act_bind_step)
    from unless_posted_runs [OF this] money [of cur n] show ?thesis by (auto split: if_splits)
  qed (use assms m in \<open>auto simp: refundEscrow_def act_bind_step\<close>)
qed

lemma way_settle:
  assumes w: "way {} {} m" and r0: "r0 \<in> set (q_refunds (m_ord m))" and ord: "ord \<in> set (q_orders (m_ord m))" "\<not> order_Settled ord"
    and r: "r = r0\<lparr>r_status := RefundAccepted, r_deadline := None\<rparr>"
    and run: "settleRefund E now r ord (r_status r0) m = (m', res)"
  shows "way {} {} m'"
proof -
  let ?c = "record_event Cancelled (ord\<lparr>o_cancelled_at := Some now\<rparr>)"
  have inv: "ledger_inv (m_fin m)" and t: "tables_ok (m_ord m)" using w by (auto simp: way_def)
  obtain m1 x where f: "refundEscrow E ord 0 m = (m1, x)" by fastforce
  note paid = refundEscrow_runs [OF inv f]
  show ?thesis
  proof (cases x)
    case (Inl e)
    with run f have "m' = m1" by (simp add: settleRefund_def act_bind_stop)
    with way_money [OF w, of m1 "{}"] paid Inl show ?thesis by simp
  next
    case (Inr u)
    obtain db' where save: "SaveRefundOutcome r (Some ?c) (r_status r0) (m_ord m) = (db', Inr ())"
      and gone: "cancelled_row (o_id ord) db'"
      using settle_lands [OF t r0 ord, of now] r by blast
    then have "on_ord (SaveRefundOutcome r (Some ?c) (r_status r0)) m = (m\<lparr>m_ord := db'\<rparr>, Inr ())"
      by (simp add: on_ord_def zoom_def)
    from keepsD [OF way.cases(2) w this] gone have "way {o_id ord} {} (m\<lparr>m_ord := db'\<rparr>)"
      using way_cancelled [of "{}" "{}" "m\<lparr>m_ord := db'\<rparr>" "o_id ord"] by simp
    from way_money [OF this, of "m1\<lparr>m_ord := db'\<rparr>" "range (\<lambda>s. refund_key (o_id ord) @ s)"] paid Inr
    have w2: "way {o_id ord} {} (m1\<lparr>m_ord := db'\<rparr>)" by (simp add: key_facts image_iff)
    have step: "on_ord (SaveRefundOutcome r (Some ?c) (r_status r0)) m1 = (m1\<lparr>m_ord := db'\<rparr>, Inr ())"
      using save paid by (simp add: on_ord_def zoom_def)
    have close: "decide (order_Cancel now False ord) m1 = (m1, Inr ?c)"
      using ord(2) by (simp add: order_Cancel_def decide_def act_defs)
    let ?tail = "act_bind (publishSettled ?c False) (\<lambda>_. act_bind (uncommitOrderStock ?c) (\<lambda>_.
        emit (TimerRefundResolved (o_id ?c) True)))"
    have tail: "keeps (way {o_id ord} {}) ?tail"
      by (intro keeps_bind way.keeps_helpers way.keeps_uncommitOrderStock way.keeps_emit)
    have "?tail (m1\<lparr>m_ord := db'\<rparr>) = (m', res)"
      using run f Inr close step by (simp add: settleRefund_def act_bind_step)
    from keepsD [OF tail w2 this] way_mono [of "{o_id ord}" "{}" m' "{}" "{}"] show ?thesis by simp
  qed
qed

lemma ends_attempt_settle:
  assumes "\<not> order_Settled ord" and "refund_Settle r = Inr r'" and "st = r_status r" and "\<And>x. keeps (way {} {}) (f x)"
  shows "ends (\<lambda>m. (way {} {} m \<and> r \<in> set (q_refunds (m_ord m))) \<and> ord \<in> set (q_orders (m_ord m))) (way {} {})
    (act_bind (attempt (settleRefund E now r' ord st)) f)"
proof (rule ends_bind [where K' = "\<lambda>_. way {} {}"])
  fix m m' y
  assume K: "(way {} {} m \<and> r \<in> set (q_refunds (m_ord m))) \<and> ord \<in> set (q_orders (m_ord m))"
    and run: "attempt (settleRefund E now r' ord st) m = (m', y)"
  have "r' = r\<lparr>r_status := RefundAccepted, r_deadline := None\<rparr>" using assms(2) by (auto simp: refund_Settle_def split: if_splits)
  with K run assms(1,3) have "way {} {} m'"
    by (cases y) (auto intro: way_settle)
  then show "case y of Inl e \<Rightarrow> way {} {} m' | Inr x \<Rightarrow> way {} {} m'" by (simp split: sum.split)
qed (use assms(4) in \<open>simp add: keeps_ends\<close>)

lemma way_advanceRefund:
  "ends (\<lambda>m. way {} {} m \<and> r \<in> set (q_refunds (m_ord m))) (way {} {}) (advanceRefund E now r)"
  unfolding advanceRefund_def
  by (intro ends_if ends_FindOrder ends_sum ends_attempt_settle) (auto intro!: ends_keeps way_intros)

lemma way_AdvanceRefund: "keeps (way {} {}) (AdvanceRefund E now rid)"
  unfolding AdvanceRefund_def keeps_ends [symmetric]
  by (intro ends_FindRefund ends_then_keeps way_advanceRefund keeps_ret)

lemma way_advance_each: "keeps (way {} {}) (advance_each E now rs)"
proof (induction rs)
  case (Cons r rs)
  then show ?case
    unfolding advance_each.simps keeps_ends [symmetric]
    by (intro ends_FindRefund ends_then_keeps way_advanceRefund)
       (auto simp: keeps_ends intro!: keeps_bind keeps_ret)
qed (simp add: keeps_ret)

lemma way_AdvanceOverdue: "keeps (way {} {}) (AdvanceOverdueRefunds E now n)"
  unfolding AdvanceOverdueRefunds_def by (intro keeps_bind way_advance_each keeps_read_statements)

lemma openReturnLeg_status: "openReturnLeg now r ord m = (m', Inr r') \<Longrightarrow> r_status r = RefundReturning \<Longrightarrow> r_status r' = RefundReturning"
  by (auto simp: openReturnLeg_def act_runs decide_def StartReturn_def split: if_splits)

lemma way_Resolve: "keeps (way {} {}) (AdminResolveRefund E now a rid wins note)"
proof -
  let ?K = "\<lambda>r ord m. (way {} {} m \<and> r \<in> set (q_refunds (m_ord m))) \<and> ord \<in> set (q_orders (m_ord m))"
  let ?pay = "\<lambda>r2 ord. if r_status r2 = RefundAccepted then settleRefund E now r2 ord RefundDisputed
      else act_bind (on_ord (SaveRefundOutcome r2 None RefundDisputed)) (\<lambda>_. refundTimers r2)"
  let ?rest = "\<lambda>r2 ord. act_bind (?pay r2 ord) (\<lambda>_. act_bind (publishResolved r2 ord a wins note) (\<lambda>_. ret r2))"
  have told: "keeps (way {} {}) (act_bind (publishResolved r2 ord a wins note) (\<lambda>_. ret r2))" for r2 ord
    by (intro keeps_bind way.keeps_helpers keeps_ret)
  have unpaid: "keeps (way {} {}) (?rest r2 ord)" if "r_status r2 \<noteq> RefundAccepted" for r2 ord
    using that by (auto intro!: keeps_bind way_intros told)
  have paid: "ends (?K r ord) (way {} {}) (?rest r1 ord)"
    if "\<not> order_Settled ord" "Resolve wins r = Inr r1" "r_status r1 = RefundAccepted" for r ord r1
  proof (rule ends_then_keeps [OF _ told])
    have r1: "r1 = r\<lparr>r_status := RefundAccepted, r_deadline := None\<rparr>" "r_status r = RefundDisputed"
      using that by (auto simp: Resolve_def refund_Settle_def grantReturn_def split: if_splits)
    show "ends (?K r ord) (way {} {}) (?pay r1 ord)"
      unfolding ends_def
    proof (intro allI impI)
      fix m assume K: "?K r ord m"
      have "way {} {} (fst (settleRefund E now r1 ord (r_status r) m))"
        by (rule way_settle [OF _ _ _ that(1) r1(1) prod.collapse [symmetric]]) (use K in auto)
      then show "way {} {} (fst (?pay r1 ord m))" by (simp add: that(3) r1(2))
    qed
  qed
  have legs: "ends (?K r ord) (way {} {}) (act_bind (if r_status r1 = RefundReturning then openReturnLeg now r1 ord else ret r1)
      (\<lambda>r2. ?rest r2 ord))"
    if "\<not> order_Settled ord" "Resolve wins r = Inr r1" for r ord r1
  proof (cases "r_status r1 = RefundAccepted")
    case True
    with paid [OF that True] show ?thesis by (simp add: ret_bind)
  next
    case False
    have "keeps (way {} {}) (act_bind (if r_status r1 = RefundReturning then openReturnLeg now r1 ord else ret r1) (\<lambda>r2. ?rest r2 ord))"
    proof (rule keeps_bind_then [where K = "\<lambda>r2 m. way {} {} m \<and> r_status r2 \<noteq> RefundAccepted"])
      show "keeps (way {} {}) (if r_status r1 = RefundReturning then openReturnLeg now r1 ord else ret r1)"
        by (intro keeps_if way.keeps_helpers keeps_ret)
      fix r2
      show "keeps (\<lambda>m. way {} {} m \<and> r_status r2 \<noteq> RefundAccepted) (?rest r2 ord)"
        using unpaid [of r2 ord] by (auto simp: keeps_def)
    next
      fix m m' r2
      assume w: "way {} {} m" and run: "(if r_status r1 = RefundReturning then openReturnLeg now r1 ord else ret r1) m = (m', Inr r2)"
      have "keeps (way {} {}) (if r_status r1 = RefundReturning then openReturnLeg now r1 ord else ret r1)"
        by (intro keeps_if way.keeps_helpers keeps_ret)
      from keepsD [OF this w run] run False show "way {} {} m' \<and> r_status r2 \<noteq> RefundAccepted"
        by (auto split: if_splits dest: openReturnLeg_status)
    qed simp
    then show ?thesis by (rule ends_keeps) simp
  qed
  show ?thesis
    unfolding AdminResolveRefund_def keeps_ends [symmetric]
  proof (intro ends_bind_same [of "requireModerator E a"] ends_FindRefund ends_FindOrder)
    fix m :: market
    show "fst (requireModerator E a m) = m"
      by (simp add: requireModerator_def outside_def need_def refuse_def act_defs split: sum.splits)
  next
    fix x r ord
    show "ends (?K r ord) (way {} {}) (act_bind (need (\<not> order_Settled ord) ErrOrderSettled) (\<lambda>_.
        act_bind (decide (Resolve wins r)) (\<lambda>r1. act_bind (if r_status r1 = RefundReturning then openReturnLeg now r1 ord else ret r1)
          (\<lambda>r2. ?rest r2 ord))))"
    proof (cases "order_Settled ord")
      case True
      then show ?thesis by (intro ends_keeps) (auto simp: need_def ensure_def fail_bind keeps_fail)
    next
      case False
      then show ?thesis
        using ends_bind_decide [of "?K r ord" "way {} {}" "Resolve wins r", OF _ legs [OF False]]
        by (simp add: need_def ensure_def ret_bind)
    qed
  qed auto
qed


lemma keeps_void: "keeps J c \<Longrightarrow> keeps J (void c)"
  unfolding void_def by (intro keeps_bind keeps_ret)

lemma way_call: "keeps (way {} {}) (market_call E now op)"
proof (cases "quiet_op op")
  case False
  then show ?thesis
    by (cases op) (simp_all add: keeps_void way_Decline way_Cancel way_ReleasePayout way_ReleaseDue way_Retry way_Resolve
        way_AdvanceRefund way_AdvanceOverdue)
qed (rule way.keeps_quiet_call)

lemma way_steps: "market_steps E m m' \<Longrightarrow> way {} {} m \<Longrightarrow> way {} {} m'"
  by (induction rule: market_steps.induct) (auto dest: keepsD [OF way_call])

lemma row_outcome: "tables_ok db \<Longrightarrow> cancelled_row oid db \<Longrightarrow> completed_row oid db \<Longrightarrow> False"
  using FindOrder_unique [of db] unfolding cancelled_row_def completed_row_def by (metis Pair_inject sum.inject(2))

text \<open>
  C2: The escrow of an order leaves one way. As long as the handlers run one after the other, in any order and
  any number, the escrow of an order is never both refunded to the buyer and released to the seller: a refund
  is in the ledger only for an order that is cancelled, and a release only for one that is completed and not cancelled.
\<close>

theorem escrow_leaves_one_way:
  assumes "tables_ok (m_ord m)" and "ledger_inv (m_fin m)" and "\<And>oid. \<not> refunded m oid \<and> \<not> released m oid"
    and "market_steps E m m'"
  shows "\<not> (refunded m' oid \<and> released m' oid)
    \<and> (refunded m' oid \<longrightarrow> cancelled_row oid (m_ord m')) \<and> (released m' oid \<longrightarrow> completed_row oid (m_ord m'))"
proof -
  have "way {} {} m" using assms(1-3) by (simp add: way_def)
  from way_steps [OF assms(4) this] row_outcome show ?thesis unfolding way_def by blast
qed


lemma unpaid_checkout: "\<not> refunded checkout_market oid \<and> \<not> released checkout_market oid"
  by (simp add: refunded_def released_def checkout_market_def paid_eq posted_def keys_of_def key_defs)

lemma cancelled_refunded: "refunded cancelled_market 1"
  apply (simp add: refunded_def cancelled_market_def placed_def posted_def keys_of_def)
  apply (simp add: market_run_defs settle_run_defs paid_eq run_defs session_defs
      stock_defs demo_shelf_def dec_nat.simps CancelOrder_def void_def order_Cancel_def order_Settled_def Shipped_def record_event_def order_Involves_def)
  done

theorem escrow_leaves_one_way_witness:
  "refunded cancelled_market 1 \<and> \<not> released cancelled_market 1 \<and> cancelled_row 1 (m_ord cancelled_market)"
proof -
  have "market_steps demo_market_env checkout_market cancelled_market"
    unfolding cancelled_market_def by (rule one_handler [OF placed_steps prod.collapse [symmetric]])
  from escrow_leaves_one_way [OF checkout_market_ok(1,2) unpaid_checkout this, of 1] cancelled_refunded
  show ?thesis by blast
qed


end
