(* ===== verification/MarketRace.thy ===== *)
theory MarketRace
  imports MarketEscrow
begin

text \<open>
  Two handlers that overlap: a handler reads its rows, and the writes of another land before its own. The
  run of a refund's window takes its copy of the case as an argument, so the overlap is a call on a stale copy.
\<close>

section \<open>Two handlers that overlap\<close>

text \<open>
  Seller 2 has sold to accounts 1 and 3. The buyers' money is in escrow, 60 for order 1 and 80 for order 2,
  both in the one held balance of the seller. The goods of order 1 came back and its inspection window has run out.
\<close>

definition race_funded :: fin_db where
  "race_funded = fst (AdminAdjustWallet demo_env (demo_adjust 3 80 ''b'')
     (fst (AdminAdjustWallet demo_env (demo_adjust 1 60 ''a'') empty_fin)))"

definition race_hold :: "i64 \<Rightarrow> i64 \<Rightarrow> i64 \<Rightarrow> escrow_req" where
  "race_hold buyer oid n = \<lparr>er_buyer = buyer, er_seller = 2, er_order = oid, er_currency = ''VND'', er_amount = n, er_fee = 0,
     er_key = hold_key oid\<rparr>"

definition race_held :: fin_db where
  "race_held = fst (HoldEscrow demo_env (race_hold 1 1 60) race_funded)"

definition race_fin :: fin_db where
  "race_fin = fst (HoldEscrow demo_env (race_hold 3 2 80) race_held)"

definition race_order :: "i64 \<Rightarrow> i64 \<Rightarrow> time option \<Rightarrow> i64 list \<Rightarrow> order" where
  "race_order oid buyer received evidence = placed_order\<lparr>o_id := oid, o_draft := Some oid, o_buyer := buyer, o_transport := oid,
    o_confirmed_at := Some 20, o_received_at := received, o_receipt := evidence\<rparr>"

definition race_line :: "i64 \<Rightarrow> i64 \<Rightarrow> i64 \<Rightarrow> item" where
  "race_line oid buyer n = demo_line\<lparr>i_id := oid, i_draft := Some oid, i_order := Some oid, i_buyer := buyer, i_session := oid,
    i_total := n\<rparr>"

definition race_refund :: refund where
  "race_refund = \<lparr>r_id = 1, r_buyer = 1, r_order = 1, r_reason = ''broken'', r_attachments = [], r_created_at = 40,
    r_status = RefundReturned, r_deadline = Some 100, r_seller_decided_at = Some 50, r_return_transport = Some 3,
    r_returned_at = Some 60\<rparr>"

definition race_market :: market where
  "race_market = \<lparr>m_fin = race_fin,
    m_ord = \<lparr>q_orders = [race_order 1 1 (Some 30) [5], race_order 2 3 None []],
      q_items = [race_line 1 1 60, race_line 2 3 80], q_transports = [], q_refunds = [race_refund], q_audit = [],
      q_order_seq = 2, q_item_seq = 2, q_transport_seq = 3, q_refund_seq = 1\<rparr>,
    m_shelf = demo_shelf, m_out = []\<rparr>"

text \<open>
  The run that watches the window has read the case. Before it settles, the seller escalates; it settles its copy;
  then a moderator rules for the seller, and the seller's payout comes due.
\<close>

definition race_escalated :: market where
  "race_escalated = fst (market_call demo_market_env 110 (OpEscalateRefund 2 1) race_market)"

definition race_settled :: market where
  "race_settled = fst (advanceRefund demo_market_env 110 race_refund race_escalated)"

definition race_ruled :: market where
  "race_ruled = fst (market_call demo_market_env 120 (OpResolveRefund 99 1 False ''no'') race_settled)"

definition race_paid :: market where
  "race_paid = fst (market_call demo_market_env 300000000000000 (OpReleasePayout 1) race_ruled)"

lemma race_market_ok: "tables_ok (m_ord race_market)"
  by (simp add: race_market_def tables_ok_def orders_ok_def refunds_ok_def fresh_above_def unique_by_def
      race_order_def placed_order_def race_refund_def order_row_ok_def refund_row_ok_def)

lemmas race_run_defs = race_market_def race_order_def placed_order_def race_line_def demo_line_def race_refund_def

definition race_row :: "i64 \<Rightarrow> i64 \<Rightarrow> wallet_kind \<Rightarrow> i64 \<Rightarrow> i64 \<Rightarrow> i64 \<Rightarrow> i64 \<Rightarrow> i64 option \<Rightarrow> i64 option \<Rightarrow> string \<Rightarrow> string \<Rightarrow> movement" where
  "race_row a n kind dav dheld av he grp oid key note = \<lparr>m_account = a, m_currency = ''VND'', m_seq = n, m_kind = kind,
    m_available_delta = dav, m_held_delta = dheld, m_available_after = av, m_held_after = he, m_group = grp,
    m_ref_type = map_option (\<lambda>_. ''order'') oid, m_ref_id = oid, m_key = Some key, m_note = note\<rparr>"

lemma race_funded_eq: "race_funded = empty_fin\<lparr>d_wallets := [(1, ''VND'') \<mapsto>
      \<lparr>w_account = 1, w_currency = ''VND'', w_available = 60, w_held = 0\<rparr>, (3, ''VND'') \<mapsto>
      \<lparr>w_account = 3, w_currency = ''VND'', w_available = 80, w_held = 0\<rparr>],
    d_ledger := [race_row 1 1 WalletKindAdjustment 60 0 60 0 (Some 1) None ''adjustment:a'' ''why'',
      race_row 3 1 WalletKindAdjustment 80 0 80 0 (Some 3) None ''adjustment:b'' ''why''], d_ledger_seq := 4\<rparr>"
  by (simp add: race_funded_def run_defs race_row_def)

lemma race_held_eq: "race_held = race_funded\<lparr>d_wallets := [(3, ''VND'') \<mapsto>
      \<lparr>w_account = 3, w_currency = ''VND'', w_available = 80, w_held = 0\<rparr>, (1, ''VND'') \<mapsto>
      \<lparr>w_account = 1, w_currency = ''VND'', w_available = 0, w_held = 0\<rparr>, (2, ''VND'') \<mapsto>
      \<lparr>w_account = 2, w_currency = ''VND'', w_available = 0, w_held = 60\<rparr>],
    d_ledger := d_ledger race_funded @
      [race_row 1 2 WalletKindEscrowHold (- 60) 0 0 0 (Some 5) (Some 1) ''order:1:hold:buyer'' ''checkout debit'',
       race_row 2 1 WalletKindEscrowHold 0 60 0 60 (Some 5) (Some 1) ''order:1:hold:seller'' ''escrow hold''],
    d_ledger_seq := 7\<rparr>"
  by (simp add: race_held_def race_hold_def race_funded_eq run_defs race_row_def key_defs dec_i64_def dec_nat.simps digit_def)


lemma race_fin_eq: "race_fin = race_held\<lparr>d_wallets := [(1, ''VND'') \<mapsto>
      \<lparr>w_account = 1, w_currency = ''VND'', w_available = 0, w_held = 0\<rparr>, (2, ''VND'') \<mapsto>
      \<lparr>w_account = 2, w_currency = ''VND'', w_available = 0, w_held = 140\<rparr>, (3, ''VND'') \<mapsto>
      \<lparr>w_account = 3, w_currency = ''VND'', w_available = 0, w_held = 0\<rparr>],
    d_ledger := d_ledger race_held @
      [race_row 2 2 WalletKindEscrowHold 0 80 0 140 (Some 8) (Some 2) ''order:2:hold:seller'' ''escrow hold'',
       race_row 3 2 WalletKindEscrowHold (- 80) 0 0 0 (Some 8) (Some 2) ''order:2:hold:buyer'' ''checkout debit''],
    d_ledger_seq := 10\<rparr>"
  by (simp add: race_fin_def race_hold_def race_held_eq race_funded_eq run_defs race_row_def key_defs dec_i64_def dec_nat.simps digit_def)

lemmas race_money = race_fin_eq race_held_eq race_funded_eq race_row_def empty_fin_def

lemma race_escalated_eq: "race_escalated = race_market\<lparr>m_ord := (m_ord race_market)\<lparr>q_refunds :=
    [race_refund\<lparr>r_status := RefundDisputed, r_deadline := None\<rparr>]\<rparr>\<rparr>"
  by (simp add: race_escalated_def race_run_defs market_run_defs void_def EscalateRefund_def LiveRefundOnOrder_def
      saveRefund_def SaveRefund_def refundTimers_def Escalate_def refund_Settled_def order_Settled_def order_Involves_def
      refund_columns_def refund_row_ok_def open_case_def act_defs Let_def)


lemmas race_defs = race_run_defs market_run_defs run_defs race_hold_def

definition race_refunded_fin :: fin_db where
  "race_refunded_fin = fst (RefundEscrow demo_env (race_hold 1 1 60\<lparr>er_key := refund_key 1\<rparr>) race_fin)"

lemma race_refunded_fin_eq: "race_refunded_fin = race_fin\<lparr>d_wallets := [(3, ''VND'') \<mapsto>
      \<lparr>w_account = 3, w_currency = ''VND'', w_available = 0, w_held = 0\<rparr>, (1, ''VND'') \<mapsto>
      \<lparr>w_account = 1, w_currency = ''VND'', w_available = 60, w_held = 0\<rparr>, (2, ''VND'') \<mapsto>
      \<lparr>w_account = 2, w_currency = ''VND'', w_available = 0, w_held = 80\<rparr>],
    d_ledger := d_ledger race_fin @
      [race_row 1 3 WalletKindRefund 60 0 60 0 (Some 11) (Some 1) ''order:1:refund:buyer'' ''refund returned'',
       race_row 2 3 WalletKindRefund 0 (- 60) 0 80 (Some 11) (Some 1) ''order:1:refund:seller'' ''refund released from escrow''],
    d_ledger_seq := 13\<rparr>"
  by (simp add: race_refunded_fin_def race_hold_def race_money run_defs key_defs dec_i64_def dec_nat.simps digit_def)


lemma refund_run: "RefundEscrow demo_env (race_hold 1 1 60\<lparr>er_key := refund_key 1\<rparr>) race_fin = (race_refunded_fin, Inr ())"
  unfolding race_refunded_fin_def
  by (rule run_ok) (simp add: race_hold_def race_money run_defs key_defs dec_i64_def dec_nat.simps digit_def)

lemma race_orderTotal: "m_ord m = (m_ord race_market)\<lparr>q_refunds := rs\<rparr> \<Longrightarrow>
    orderTotal 1 m = (m, Inr (60, ''VND'', [race_line 1 1 60]))"
  by (simp add: orderTotal_def OrderItems_def on_ord_def zoom_def act_defs race_run_defs lines_total_def
      lines_currency_def item_Live_def)

lemma race_refundEscrow:
  assumes "m_ord m = (m_ord race_market)\<lparr>q_refunds := rs\<rparr>" and "m_fin m = race_fin" and "o_id ord = 1" "o_buyer ord = 1" "o_seller ord = 2"
  shows "refundEscrow demo_market_env ord 0 m = (m\<lparr>m_fin := race_refunded_fin\<rparr>, Inr ())"
proof -
  have "escrow_of ord ''VND'' 60 0 (refund_key 1) = race_hold 1 1 60\<lparr>er_key := refund_key 1\<rparr>"
    by (simp add: escrow_of_def race_hold_def assms(3-5))
  then show ?thesis
    using refund_run by (simp add: refundEscrow_def assms race_orderTotal [OF assms(1)] unless_posted_def
        on_fin_def zoom_def act_defs demo_market_env_def)
qed

lemma race_settled_run: "advanceRefund demo_market_env 110 race_refund race_escalated
    = (race_escalated\<lparr>m_fin := race_refunded_fin\<rparr>, Inr False)"
proof -
  have f: "on_ord (FindOrder 1) race_escalated = (race_escalated, Inr (race_order 1 1 (Some 30) [5]))"
    by (simp add: on_ord_def zoom_def FindOrder_def act_defs race_escalated_eq race_market_def race_order_def placed_order_def)
  have rf: "refundEscrow demo_market_env (race_order 1 1 (Some 30) [5]) 0 race_escalated
      = (race_escalated\<lparr>m_fin := race_refunded_fin\<rparr>, Inr ())"
    by (rule race_refundEscrow) (auto simp: race_escalated_eq race_market_def race_order_def placed_order_def)
  have "settleRefund demo_market_env 110 (race_refund\<lparr>r_status := RefundAccepted, r_deadline := None\<rparr>)
      (race_order 1 1 (Some 30) [5]) RefundReturned race_escalated
      = (race_escalated\<lparr>m_fin := race_refunded_fin\<rparr>, Inl (OrderErr ErrRefundSettled))"
    unfolding settleRefund_def
      act_bind_step [where m = "refundEscrow demo_market_env (race_order 1 1 (Some 30) [5]) 0" and s = race_escalated, OF rf]
    by (simp add: order_Cancel_def order_Settled_def decide_def on_ord_def zoom_def SaveRefundOutcome_def SaveRefund_def
        OrdTx_def in_tx_def keep_ids_def act_defs Let_def race_escalated_eq race_run_defs)
  then show ?thesis
    by (simp add: advanceRefund_def f refund_Settled_def race_refund_def order_Settled_def race_order_def
        placed_order_def refund_Settle_def act_bind_def attempt_def)
qed

lemma race_settled_eq: "race_settled = race_escalated\<lparr>m_fin := race_refunded_fin\<rparr>"
  by (simp add: race_settled_def race_settled_run)


lemma race_ruled_eq: "race_ruled = race_settled\<lparr>m_ord := (m_ord race_settled)\<lparr>q_refunds :=
      [race_refund\<lparr>r_status := RefundRejected, r_deadline := None\<rparr>]\<rparr>,
    m_out := [TimerRefundResolved 1 False, FactRefundResolved 1 1 1 2 99 False ''no'']\<rparr>"
  by (simp add: race_ruled_def race_settled_eq race_escalated_eq race_run_defs void_def AdminResolveRefund_def
      requireModerator_def outside_def demo_market_env_def need_def decide_def on_ord_def zoom_def FindRefund_def FindOrder_def
      order_Settled_def Resolve_def SaveRefundOutcome_def SaveRefund_def OrdTx_def in_tx_def keep_ids_def update_where_def
      refund_columns_def refund_row_ok_def open_case_def refundTimers_def refund_Settled_def emit_def publishResolved_def
      act_defs Let_def)

definition race_released_fin :: fin_db where
  "race_released_fin = fst (ReleaseEscrow demo_env (race_hold 1 1 60\<lparr>er_key := release_key 1\<rparr>) race_refunded_fin)"

lemma release_run: "ReleaseEscrow demo_env (race_hold 1 1 60\<lparr>er_key := release_key 1\<rparr>) race_refunded_fin = (race_released_fin, Inr ())"
  unfolding race_released_fin_def
  by (rule run_ok)
    (simp add: race_hold_def race_refunded_fin_eq race_money run_defs key_defs dec_i64_def dec_nat.simps digit_def)

lemma race_released_fin_eq:
  "d_wallets race_released_fin (2, ''VND'') = Some \<lparr>w_account = 2, w_currency = ''VND'', w_available = 60, w_held = 20\<rparr>"
  "d_wallets race_released_fin (1, ''VND'') = Some \<lparr>w_account = 1, w_currency = ''VND'', w_available = 60, w_held = 0\<rparr>"
  "posted race_released_fin = posted race_refunded_fin \<union> {release_key 1}"
  "refund_key 1 @ '':seller'' \<in> posted race_refunded_fin"
  by (simp_all add: race_released_fin_def race_hold_def race_refunded_fin_eq race_money run_defs posted_def keys_of_def
      key_defs dec_i64_def dec_nat.simps digit_def) auto

lemma race_paid_fin: "m_fin race_paid = race_released_fin"
proof -
  let ?now = "300000000000000 :: time"
  let ?o = "race_order 1 1 (Some 30) [5]"
  have total: "orderTotal 1 race_ruled = (race_ruled, Inr (60, ''VND'', [race_line 1 1 60]))"
    by (rule race_orderTotal) (simp add: race_ruled_eq race_settled_eq race_escalated_eq)
  have fin: "m_fin race_ruled = race_refunded_fin" by (simp add: race_ruled_eq race_settled_eq)
  have f: "on_ord (FindOrder 1) race_ruled = (race_ruled, Inr ?o)"
    by (simp add: on_ord_def zoom_def FindOrder_def act_defs race_ruled_eq race_settled_eq race_escalated_eq race_market_def
        race_order_def placed_order_def)
  obtain m1 where claim: "on_ord (ClaimPayout ?now ?o) race_ruled = (m1, Inr (?o\<lparr>o_completed_at := Some ?now\<rparr>))"
    and m1: "m_fin m1 = race_refunded_fin"
    by (simp add: on_ord_def zoom_def ClaimPayout_def OrdTx_def in_tx_def act_defs Let_def recordOrderFact_def liveRefund_def
        race_ruled_eq race_settled_eq race_escalated_eq race_run_defs)
  have "escrow_of (?o\<lparr>o_completed_at := Some ?now\<rparr>) ''VND'' 60 0 (release_key 1) = race_hold 1 1 60\<lparr>er_key := release_key 1\<rparr>"
    by (simp add: escrow_of_def race_hold_def race_order_def placed_order_def)
  then have pay: "unless_posted (on_fin (ReleaseEscrow demo_env (escrow_of (?o\<lparr>o_completed_at := Some ?now\<rparr>) ''VND'' 60 0 (release_key 1)))) m1
      = (m1\<lparr>m_fin := race_released_fin\<rparr>, Inr ())"
    using release_run by (simp add: unless_posted_def on_fin_def zoom_def act_defs m1)
  let ?m2 = "m1\<lparr>m_fin := race_released_fin\<rparr>"
  let ?tail = "\<lambda>cl. act_bind (recordRelease ?now cl) (\<lambda>_. act_bind (publishSettled cl True) (\<lambda>_. ret True))"
  have quiet: "keeps (\<lambda>m. m_fin m = race_released_fin) (?tail cl)" for cl
    unfolding recordRelease_def publishSettled_def emit_def
    by (intro keeps_bind keeps_best_effort keeps_elsewhere(3) [where K = "\<lambda>d. d = race_released_fin"] keeps_ret keeps_modify) simp
  obtain m3 y where t: "?tail (?o\<lparr>o_completed_at := Some ?now\<rparr>) ?m2 = (m3, y)" by fastforce
  have m3: "m_fin m3 = race_released_fin" by (rule keepsD [OF quiet _ t]) simp
  have ids: "o_id ?o = 1" "o_id (?o\<lparr>o_completed_at := Some ?now\<rparr>) = 1" "\<not> order_Settled ?o"
    "PayoutDue ?o = Some 259200000000030"
    by (simp_all add: race_order_def placed_order_def order_Settled_def PayoutDue_def PayoutWindow_def hours_def)
  have env: "me_fin demo_market_env = demo_env" by (simp add: demo_market_env_def)
  have "releasePayout demo_market_env ?now ?o race_ruled = (m3, y)"
    using t claim pay total
    by (simp add: releasePayout_def act_bind_step ids env attempt_def act_bind_def split: prod.splits sum.splits)
  then show ?thesis
    using m3 f by (cases y) (simp_all add: race_paid_def ReleasePayout_def act_bind_def ret_def ids)
qed

lemma reach_fst: "fin_reach E db \<Longrightarrow> fin_reach E (fst (fin_call E now op db))"
  by (rule fin_reach.by_call [OF _ prod.collapse [symmetric]])

lemma fst_then_ret: "fst (act_bind c (\<lambda>_. ret ()) s) = fst (c s)"
  by (simp add: act_bind_def ret_def split: prod.splits sum.splits)

lemma race_reach: "fin_reach demo_env race_fin"
proof -
  have "fin_reach demo_env empty_fin" using fin_reach.from_empty [of demo_env "[]"] by (simp add: empty_fin_def)
  from reach_fst [OF reach_fst [OF reach_fst [OF reach_fst [OF this, of 0 "OpAdjust (demo_adjust 1 60 ''a'')"],
      of 0 "OpAdjust (demo_adjust 3 80 ''b'')"], of 0 "OpHoldEscrow (race_hold 1 1 60)"], of 0 "OpHoldEscrow (race_hold 3 2 80)"]
  show ?thesis by (simp add: race_fin_def race_held_def race_funded_def fst_then_ret)
qed

text \<open>
  C6: What a window's run decides on a copy of the case that has gone stale pays twice. The seller escalates
  after the run has read the case and before it settles it: the run returns the money to the buyer, finds the case moved,
  reports no error and leaves the order open. When a moderator then rules for the seller, the payout of the same order is
  released as well, out of the escrow that is held for another order of the seller: 20 is left of the 80 that order 2 owes.
\<close>

theorem stale_settlement_pays_twice:
  "tables_ok (m_ord race_market) \<and> fin_reach demo_env (m_fin race_market)
    \<and> snd (advanceRefund demo_market_env 110 race_refund race_escalated) = Inr False
    \<and> refunded race_paid 1 \<and> released race_paid 1
    \<and> avail (m_fin race_paid) (1, ''VND'') = 60 \<and> avail (m_fin race_paid) (2, ''VND'') = 60
    \<and> held (m_fin race_market) (2, ''VND'') = 60 + 80 \<and> held (m_fin race_paid) (2, ''VND'') = 20"
  using race_released_fin_eq race_market_ok race_reach
  by (simp add: race_settled_run refunded_def released_def race_paid_fin avail_def held_def race_market_def race_money)

end
