(* ===== verification/OrderWorkflows.thy ===== *)
theory OrderWorkflows
  imports OrderRefunds
begin

text \<open>
  The durable side of the order module (\<open>order/workflow.go\<close>, \<open>order/adapter/durable\<close>): the runs that
  hold the waits of a checkout, of an order and of one window of a refund case. A \<open>Run\<close> method is a
  phase machine: a wait races promises and timers, a journalled step calls a handler of the service.

  The runtime itself is not part of the repository. What a run relies on is written as the rules of
  \<open>world_step\<close>: a promise is resolved once, by a signal that was sent to the run; a race is won by a
  future that is complete; a step that was carried out may be lost before it is journalled, and is then
  carried out again; and a step whose error carries a code of the application is terminal for its run
  (\<open>newCoded\<close> in \<open>errx.go\<close>). The order in which signals, timers and handlers come is open.
\<close>

section \<open>Promises, signals and futures\<close>

datatype promise = PromPaid | PromCancelled | PromConfirmed | PromReceived | PromRefunded | PromResolved

type_synonym promises = "promise \<Rightarrow> bool option"

datatype workflow =
    CheckoutRun i64
  | OrderRun i64
  | RefundRun i64 refund_status

definition resolve_once :: "promise \<Rightarrow> bool \<Rightarrow> promises \<Rightarrow> promises" where
  "resolve_once p v ps = (case ps p of None \<Rightarrow> ps(p \<mapsto> v) | Some _ \<Rightarrow> ps)"

text \<open>The signal handlers of the runs, by what the service emits and the key it is sent under.\<close>

fun signal_of :: "workflow \<Rightarrow> outgoing \<Rightarrow> (promise \<times> bool) option" where
  "signal_of (CheckoutRun sid) (TimerCheckoutPaid s) = (if s = sid then Some (PromPaid, True) else None)"
| "signal_of (CheckoutRun sid) (TimerCheckoutCancelled s) = (if s = sid then Some (PromCancelled, True) else None)"
| "signal_of (OrderRun oid) (TimerOrderConfirmed key) = (if key = oid then Some (PromConfirmed, True) else None)"
| "signal_of (OrderRun oid) (TimerOrderReceived key) = (if key = oid then Some (PromReceived, True) else None)"
| "signal_of (OrderRun oid) (TimerOrderCancelled key) = (if key = oid then Some (PromCancelled, True) else None)"
| "signal_of (OrderRun oid) (TimerRefundRaised key) = (if key = oid then Some (PromRefunded, True) else None)"
| "signal_of (OrderRun oid) (TimerRefundResolved key buyerPaid) =
    (if key = oid then Some (PromResolved, buyerPaid) else None)"
| "signal_of _ _ = None"

text \<open>The run a call of the service starts; a run is keyed, so a second start attaches to the first.\<close>

fun run_started :: "outgoing \<Rightarrow> workflow option" where
  "run_started (TimerStartOrder oid) = Some (OrderRun oid)"
| "run_started (TimerRefundWindow rid st) = Some (RefundRun rid st)"
| "run_started _ = None"

datatype future = Promised promise | After time

fun future_ready :: "promises \<Rightarrow> time \<Rightarrow> future \<Rightarrow> bool" where
  "future_ready ps now (Promised p) = (ps p \<noteq> None)"
| "future_ready ps now (After due) = (due \<le> now)"

section \<open>The runs\<close>

text \<open>A phase is a wait, with the deadline of its timer, or a journalled step.\<close>

datatype phase =
    AwaitPayment time | SettleStep | AbandonStep
  | AwaitConfirmation time | EscalateStep | AwaitLateConfirmation | AwaitReceipt
  | EscrowWindow time | AwaitVerdict | PayoutStep
  | ReadStep | AwaitDeadline time | AdvanceStep
  | RunEnded | RunFailed

fun run_start :: "workflow \<Rightarrow> time \<Rightarrow> phase" where
  "run_start (CheckoutRun sid) now = AwaitPayment (now + checkoutWindow)"
| "run_start (OrderRun oid) now = AwaitConfirmation (now + SellerConfirmWindow)"
| "run_start (RefundRun rid st) now = ReadStep"

fun waits :: "phase \<Rightarrow> future list" where
  "waits (AwaitPayment due) = [Promised PromPaid, Promised PromCancelled, After due]"
| "waits (AwaitConfirmation due) = [Promised PromConfirmed, Promised PromCancelled, After due]"
| "waits AwaitLateConfirmation = [Promised PromConfirmed, Promised PromCancelled]"
| "waits AwaitReceipt = [Promised PromReceived, Promised PromCancelled]"
| "waits (EscrowWindow due) = [Promised PromRefunded, After due]"
| "waits AwaitVerdict = [Promised PromResolved]"
| "waits (AwaitDeadline due) = [After due]"
| "waits _ = []"

text \<open>What the run does once a future has won the race of its wait.\<close>

fun wake :: "time \<Rightarrow> promises \<Rightarrow> phase \<Rightarrow> future \<Rightarrow> phase" where
  "wake now ps (AwaitPayment _) winner = (if winner \<noteq> Promised PromPaid then AbandonStep else SettleStep)"
| "wake now ps (AwaitConfirmation due) winner =
    (if winner = After due then EscalateStep
     else if winner = Promised PromCancelled then RunEnded else AwaitReceipt)"
| "wake now ps AwaitLateConfirmation winner = (if winner = Promised PromCancelled then RunEnded else AwaitReceipt)"
| "wake now ps AwaitReceipt winner =
    (if winner = Promised PromCancelled then RunEnded else EscrowWindow (now + PayoutWindow))"
| "wake now ps (EscrowWindow _) winner = (if winner = Promised PromRefunded then AwaitVerdict else PayoutStep)"
| "wake now ps AwaitVerdict winner = (if ps PromResolved = Some True then RunEnded else PayoutStep)"
| "wake now ps (AwaitDeadline _) winner = AdvanceStep"
| "wake now ps ph winner = ph"

definition readRefund :: "i64 \<Rightarrow> refund_status \<Rightarrow> phase market_act" where
  "readRefund rid st =
    act_bind (on_ord (FindRefund rid)) (\<lambda>r.
    ret (case r_deadline r of
      None \<Rightarrow> RunEnded
    | Some due \<Rightarrow> if r_status r \<noteq> st then RunEnded else AwaitDeadline due))"

text \<open>The journalled step of a phase, and the phase the run is in once it is journalled.\<close>

fun activity :: "market_env \<Rightarrow> time \<Rightarrow> workflow \<Rightarrow> phase \<Rightarrow> phase market_act option" where
  "activity E now (CheckoutRun sid) SettleStep = Some (act_bind (SettlePaidSession E now sid) (\<lambda>_. ret RunEnded))"
| "activity E now (CheckoutRun sid) AbandonStep = Some (act_bind (AbandonCheckout now sid) (\<lambda>_. ret RunEnded))"
| "activity E now (OrderRun oid) EscalateStep =
    Some (act_bind (EscalateUnconfirmedOrder now oid) (\<lambda>_. ret AwaitLateConfirmation))"
| "activity E now (OrderRun oid) PayoutStep = Some (act_bind (ReleasePayout E now oid) (\<lambda>_. ret RunEnded))"
| "activity E now (RefundRun rid st) ReadStep = Some (readRefund rid st)"
| "activity E now (RefundRun rid st) AdvanceStep = Some (act_bind (AdvanceRefund E now rid) (\<lambda>_. ret RunEnded))"
| "activity E now _ _ = None"

text \<open>An error of the database carries no code, every error of a domain does, and what another module answers may.\<close>

fun coded :: "market_err \<Rightarrow> bool" where
  "coded (OrderErr (OrdDatabase _)) = False"
| "coded (FinanceErr (FinDatabase _)) = False"
| "coded (StockErr StockDatabase) = False"
| "coded _ = True"

section \<open>A run beside the handlers\<close>

record world =
  w_market :: market
  w_now :: time
  w_promises :: promises
  w_phase :: phase

inductive world_step :: "market_env \<Rightarrow> workflow \<Rightarrow> world \<Rightarrow> world \<Rightarrow> bool" for E run where
  handler: "market_call E (w_now w) op (w_market w) = (m', r) \<Longrightarrow> world_step E run w (w\<lparr>w_market := m'\<rparr>)"
| clock: "w_now w \<le> t \<Longrightarrow> world_step E run w (w\<lparr>w_now := t\<rparr>)"
| signal: "e \<in> set (m_out (w_market w)) \<Longrightarrow> signal_of run e = Some (p, v)
    \<Longrightarrow> world_step E run w (w\<lparr>w_promises := resolve_once p v (w_promises w)\<rparr>)"
| woken: "winner \<in> set (waits (w_phase w)) \<Longrightarrow> future_ready (w_promises w) (w_now w) winner
    \<Longrightarrow> world_step E run w (w\<lparr>w_phase := wake (w_now w) (w_promises w) (w_phase w) winner\<rparr>)"
| journalled: "activity E (w_now w) run (w_phase w) = Some a \<Longrightarrow> a (w_market w) = (m', Inr ph)
    \<Longrightarrow> world_step E run w (w\<lparr>w_market := m', w_phase := ph\<rparr>)"
| retried: "activity E (w_now w) run (w_phase w) = Some a \<Longrightarrow> a (w_market w) = (m', r)
    \<Longrightarrow> world_step E run w (w\<lparr>w_market := m'\<rparr>)"
| failed: "activity E (w_now w) run (w_phase w) = Some a \<Longrightarrow> a (w_market w) = (m', Inl e) \<Longrightarrow> coded e
    \<Longrightarrow> world_step E run w (w\<lparr>w_market := m', w_phase := RunFailed\<rparr>)"

inductive_cases world_stepE: "world_step E run w w'"

text \<open>A stretch of the world, with the number of times the run moved on.\<close>

inductive world_run :: "market_env \<Rightarrow> workflow \<Rightarrow> nat \<Rightarrow> world \<Rightarrow> world \<Rightarrow> bool" for E run where
  still: "world_run E run 0 w w"
| held: "world_run E run n w w' \<Longrightarrow> world_step E run w' w'' \<Longrightarrow> w_phase w'' = w_phase w' \<Longrightarrow> world_run E run n w w''"
| moved: "world_run E run n w w' \<Longrightarrow> world_step E run w' w'' \<Longrightarrow> w_phase w'' \<noteq> w_phase w' \<Longrightarrow> world_run E run (Suc n) w w''"

section \<open>A run comes to its end\<close>

fun phases_left :: "phase \<Rightarrow> nat" where
  "phases_left (AwaitPayment _) = 2"
| "phases_left SettleStep = 1"
| "phases_left AbandonStep = 1"
| "phases_left (AwaitConfirmation _) = 7"
| "phases_left EscalateStep = 6"
| "phases_left AwaitLateConfirmation = 5"
| "phases_left AwaitReceipt = 4"
| "phases_left (EscrowWindow _) = 3"
| "phases_left AwaitVerdict = 2"
| "phases_left PayoutStep = 1"
| "phases_left ReadStep = 3"
| "phases_left (AwaitDeadline _) = 2"
| "phases_left AdvanceStep = 1"
| "phases_left RunEnded = 0"
| "phases_left RunFailed = 0"

lemma wake_left: "winner \<in> set (waits ph) \<Longrightarrow> phases_left (wake now ps ph winner) < phases_left ph"
  by (cases ph) auto

lemma readRefund_phase: "readRefund rid st m = (m', Inr ph) \<Longrightarrow> ph = RunEnded \<or> (\<exists>due. ph = AwaitDeadline due)"
  unfolding readRefund_def act_bind_Inr
  by (auto simp: ret_def split: option.split_asm if_split_asm)

lemma activity_left:
  assumes "activity E now run ph = Some a" and "a m = (m', Inr ph')"
  shows "phases_left ph' < phases_left ph"
  using assms by (cases "(E, now, run, ph)" rule: activity.cases)
    (auto simp: act_runs dest: readRefund_phase)

lemma activity_running: "activity E now run ph = Some a \<Longrightarrow> 0 < phases_left ph"
  by (cases "(E, now, run, ph)" rule: activity.cases) auto

lemma step_left: "world_step E run w w' \<Longrightarrow> w_phase w' = w_phase w \<or> phases_left (w_phase w') < phases_left (w_phase w)"
  by (erule world_stepE) (auto dest: wake_left activity_left activity_running)

lemma run_left: "world_run E run n w w' \<Longrightarrow> n + phases_left (w_phase w') \<le> phases_left (w_phase w)"
  by (induction rule: world_run.induct) (auto dest: step_left)

definition fresh_world :: "workflow \<Rightarrow> market \<Rightarrow> time \<Rightarrow> world" where
  "fresh_world run m now = \<lparr>w_market = m, w_now = now, w_promises = (\<lambda>_. None), w_phase = run_start run now\<rparr>"

end
