(* ===== verification/MarketRefines.thy ===== *)
theory MarketRefines
  imports MarketEscrow OrderRules
begin

text \<open>
  The handlers refine the entities' state machines: whatever runs, the row of an order only moves along
  the steps of the order (\<open>order_step\<close>), and the row of a refund along those of the refund (\<open>refund_step\<close>).
  What OrderRules proves of the entities therefore holds of the rows.
\<close>

section \<open>Rows that move by steps\<close>

lemma order_step_columns:
  "order_step row ord \<Longrightarrow> o_events row = [] \<Longrightarrow> order_columns ord row = ClearEvents ord \<and> o_id ord = o_id row"
  by (erule order_step.cases) (auto simp: order_ops order_columns_def split: if_splits)

lemma refund_step_columns: "refund_step r r' \<Longrightarrow> refund_columns r' r = r' \<and> r_id r' = r_id r"
  by (erule refund_step.cases) (auto simp: refund_ops refund_columns_def Let_def split: if_splits)

lemma refund_steps_columns: "refund_step\<^sup>*\<^sup>* r r' \<Longrightarrow> refund_columns r' r = r' \<and> r_id r' = r_id r"
proof (induction rule: rtranclp_induct)
  case (step r1 r2)
  have "refund_columns r2 r = refund_columns r2 (refund_columns r1 r)" by (simp add: refund_columns_def)
  with step refund_step_columns [OF step(2)] show ?case by simp
qed (simp add: refund_columns_def)

definition lives :: "order \<Rightarrow> ord_db \<Rightarrow> bool" where
  "lives row0 db \<longleftrightarrow> (\<exists>row \<in> set (q_orders db). o_id row = o_id row0 \<and> order_step\<^sup>*\<^sup>* row0 row)"

definition refund_lives :: "refund \<Rightarrow> ord_db \<Rightarrow> bool" where
  "refund_lives r0 db \<longleftrightarrow> (\<exists>r \<in> set (q_refunds db). r_id r = r_id r0 \<and> refund_step\<^sup>*\<^sup>* r0 r)"

definition blank :: "ord_db \<Rightarrow> bool" where
  "blank db \<longleftrightarrow> (\<forall>row \<in> set (q_orders db). o_events row = [])"

definition track :: "order set \<Rightarrow> refund set \<Rightarrow> ord_db \<Rightarrow> bool" where
  "track A B db \<longleftrightarrow> tables_ok db \<and> blank db \<and> (\<forall>row0 \<in> A. lives row0 db) \<and> (\<forall>r0 \<in> B. refund_lives r0 db)"

lemma track_rows:
  assumes "track A B db" and "tables_ok db'" and "blank db'"
    and "\<And>row0. lives row0 db \<Longrightarrow> lives row0 db'" and "\<And>r0. refund_lives r0 db \<Longrightarrow> refund_lives r0 db'"
  shows "track A B db'"
  using assms by (simp add: track_def)

lemma unique_order: "tables_ok db \<Longrightarrow> row \<in> set (q_orders db) \<Longrightarrow> row' \<in> set (q_orders db) \<Longrightarrow> o_id row = o_id row' \<Longrightarrow> row = row'"
  by (auto simp: tables_ok_def orders_ok_def fresh_above_def distinct_map dest: inj_onD)

lemma unique_refund: "tables_ok db \<Longrightarrow> r \<in> set (q_refunds db) \<Longrightarrow> r' \<in> set (q_refunds db) \<Longrightarrow> r_id r = r_id r' \<Longrightarrow> r = r'"
  by (auto simp: tables_ok_def refunds_ok_def fresh_above_def distinct_map dest: inj_onD)

lemma lives_update:
  assumes "lives row0 db" and "q_orders db' = update_where P f (q_orders db)"
    and "\<And>row. row \<in> set (q_orders db) \<Longrightarrow> P row \<Longrightarrow> order_step\<^sup>*\<^sup>* row (f row) \<and> o_id (f row) = o_id row"
  shows "lives row0 db'"
proof -
  from assms(1) obtain row where row: "row \<in> set (q_orders db)" "o_id row = o_id row0" "order_step\<^sup>*\<^sup>* row0 row"
    by (auto simp: lives_def)
  show ?thesis
  proof (cases "P row")
    case True
    with row assms(3) [OF row(1)] show ?thesis
      unfolding lives_def assms(2) set_update_where by (intro bexI [of _ "f row"]) (auto intro: rtranclp_trans)
  qed (use row in \<open>auto simp: lives_def assms(2) set_update_where\<close>)
qed

lemma refund_lives_update:
  assumes "refund_lives r0 db" and "q_refunds db' = update_where P f (q_refunds db)"
    and "\<And>r. r \<in> set (q_refunds db) \<Longrightarrow> P r \<Longrightarrow> refund_step\<^sup>*\<^sup>* r (f r) \<and> r_id (f r) = r_id r"
  shows "refund_lives r0 db'"
proof -
  from assms(1) obtain r where r: "r \<in> set (q_refunds db)" "r_id r = r_id r0" "refund_step\<^sup>*\<^sup>* r0 r"
    by (auto simp: refund_lives_def)
  show ?thesis
  proof (cases "P r")
    case True
    with r assms(3) [OF r(1)] show ?thesis
      unfolding refund_lives_def assms(2) set_update_where by (intro bexI [of _ "f r"]) (auto intro: rtranclp_trans)
  qed (use r in \<open>auto simp: refund_lives_def assms(2) set_update_where\<close>)
qed

lemma blank_update: "blank db \<Longrightarrow> q_orders db' = update_where P f (q_orders db) \<Longrightarrow> (\<And>x. o_events (f x) = o_events x) \<Longrightarrow> blank db'"
  by (auto simp: blank_def set_update_where)

section \<open>The statements\<close>

lemma track_side:
  "keeps (track A B) (SaveItem i)" "keeps (track A B) (LinkItems oid iids)" "keeps (track A B) (InsertTransport now opt fee)"
  "keeps (track A B) (SaveTransport t st0)" "keeps (track A B) (BookTransport ro tid data)"
proof -
  have same: "track A B db'" if "q_orders db' = q_orders db" "q_refunds db' = q_refunds db" "q_order_seq db' = q_order_seq db"
      "q_refund_seq db' = q_refund_seq db" "track A B db" for db db' :: ord_db
    by (rule track_rows [OF that(5)])
       (use that in \<open>auto simp: track_def blank_def lives_def refund_lives_def intro: tables_same [of db' db]\<close>)
  show "keeps (track A B) (SaveItem i)" "keeps (track A B) (LinkItems oid iids)" "keeps (track A B) (InsertTransport now opt fee)"
    "keeps (track A B) (SaveTransport t st0)" "keeps (track A B) (BookTransport ro tid data)"
    by (rule keeps_side, rule same; assumption)+
qed

lemma track_CreateOrder: "keeps (track A B) (CreateOrder now ord iids)"
proof (rule keepsI)
  fix db db' r assume t: "track A B db" and run: "CreateOrder now ord iids db = (db', r)"
  have ok: "tables_ok db'" by (rule keepsD [OF tables.orders(1) _ run]) (use t in \<open>simp add: track_def\<close>)
  show "track A B db'"
  proof (cases r)
    case (Inl e)
    with CreateOrder_Inl run have "q_orders db' = q_orders db" "q_refunds db' = q_refunds db" by blast+
    with t ok show ?thesis by (simp add: track_def blank_def lives_def refund_lives_def)
  next
    case (Inr made)
    with CreateOrder_Inr run have "q_orders db' = q_orders db @ [new_order now ord (word_of_int (q_order_seq db + 1))]"
      "q_refunds db' = q_refunds db" by blast+
    with t ok show ?thesis by (auto simp: track_def blank_def lives_def refund_lives_def new_order_def)
  qed
qed

lemma track_InsertRefund: "keeps (track A B) (InsertRefund now rf)"
proof (rule keepsI)
  fix db db' r assume t: "track A B db" and run: "InsertRefund now rf db = (db', r)"
  have ok: "tables_ok db'" by (rule keepsD [OF tables.cases(1) _ run]) (use t in \<open>simp add: track_def\<close>)
  have "q_orders db' = q_orders db \<and> set (q_refunds db) \<subseteq> set (q_refunds db')"
    using run by (cases r) (auto dest: InsertRefund_Inl InsertRefund_Inr)
  then show "track A B db'"
    by (intro track_rows [OF t ok]) (use t in \<open>auto simp: track_def blank_def lives_def refund_lives_def subset_iff Bex_def\<close>)
qed

lemma track_ClaimPayout: "keeps (track A B) (ClaimPayout now ord)"
proof (rule keepsI)
  fix db db' r assume t: "track A B db" and run: "ClaimPayout now ord db = (db', r)"
  have ok: "tables_ok db'" by (rule keepsD [OF tables.orders(3) _ run]) (use t in \<open>simp add: track_def\<close>)
  show "track A B db'"
  proof (cases r)
    case (Inl e)
    with t run show ?thesis by (auto dest: ClaimPayout_Inl)
  next
    case (Inr made)
    with ClaimPayout_Inr run
    have rows: "q_orders db' = update_where (due_row (o_id ord) False) (\<lambda>row. row\<lparr>o_completed_at := Some now\<rparr>) (q_orders db)"
      "q_refunds db' = q_refunds db" by blast+
    have step: "order_step\<^sup>*\<^sup>* row (row\<lparr>o_completed_at := Some now\<rparr>) \<and> o_id (row\<lparr>o_completed_at := Some now\<rparr>) = o_id row"
      if "due_row (o_id ord) False row" for row
      using that order_step.intros(6) [of row now] by (auto simp: due_row_def open_order_def order_Settled_def)
    show ?thesis
      by (rule track_rows [OF t ok]) (use t rows step in
        \<open>auto simp: track_def refund_lives_def intro: blank_update [OF _ rows(1)] lives_update [OF _ rows(1)]\<close>)
  qed
qed

lemma track_save_order:
  assumes t: "track A B db" and row: "row \<in> set (q_orders db)" "order_step row ord" and run: "save_order ord db = (db', Inr u)"
  shows "track A B db'"
proof -
  have ev: "o_events row = []" using t row(1) by (simp add: track_def blank_def)
  note cols = order_step_columns [OF row(2) ev]
  from run have rows: "q_orders db' = update_where (open_order (o_id ord)) (order_columns ord) (q_orders db)"
    "q_refunds db' = q_refunds db" by (auto simp: save_order_Inr)
  have step: "order_step\<^sup>*\<^sup>* x (order_columns ord x) \<and> o_id (order_columns ord x) = o_id x"
    if "x \<in> set (q_orders db)" "open_order (o_id ord) x" for x
  proof -
    have "x = row" using that row(1) cols t unique_order [of db x row] by (simp add: track_def open_order_def)
    then show ?thesis
      using cols row(2) order_step.intros(8) [of ord]
      by (auto simp: ClearEvents_def intro: rtranclp.rtrancl_into_rtrancl)
  qed
  show ?thesis
    by (rule track_rows [OF t])
       (use t rows step run in \<open>auto simp: track_def refund_lives_def order_columns_def
          intro: save_order_tables blank_update [OF _ rows(1)] lives_update [OF _ rows(1)]\<close>)
qed


lemma track_SaveOrder:
  assumes t: "track A B db" and row: "row \<in> set (q_orders db)" "order_step row ord" and run: "SaveOrder ord db = (db', r)"
  shows "track A B db'"
proof (cases r)
  case (Inl e)
  with t run show ?thesis by (auto dest: SaveOrder_Inl)
next
  case (Inr u)
  with run obtain db1 where s: "save_order ord db = (db1, Inr ())"
    and db': "db' = db1\<lparr>q_audit := q_audit db1 @ map (\<lambda>e. (o_id ord, e)) (o_events ord)\<rparr>"
    by (auto simp: SaveOrder_Inr)
  have "track A B db1" by (rule track_save_order [OF t row s])
  then show ?thesis
    by (rule track_rows) (use \<open>track A B db1\<close> in \<open>auto simp: db' track_def blank_def lives_def refund_lives_def intro: tables_same\<close>)
qed

lemma track_MarkPayoutReleased:
  assumes t: "track A B db" and paid: "completed_row (o_id ord) db" and at: "o_released_at ord \<noteq> None"
    and run: "MarkPayoutReleased ord db = (db', r)"
  shows "track A B db'"
proof -
  let ?P = "\<lambda>row. o_id row = o_id ord \<and> o_released_at row = None"
  let ?f = "\<lambda>row. row\<lparr>o_released_at := o_released_at ord\<rparr>"
  note rows = MarkPayoutReleased_rows [OF run]
  have ok: "tables_ok db'" by (rule MarkPayoutReleased_tables [OF _ run]) (use t in \<open>simp add: track_def\<close>)
  show ?thesis
  proof (cases "q_orders db' = q_orders db")
    case True
    with rows t ok show ?thesis by (simp add: track_def blank_def lives_def refund_lives_def)
  next
    case False
    with rows have eq: "q_orders db' = update_where ?P ?f (q_orders db)" by blast
    obtain w where w: "w \<in> set (q_orders db)" "o_id w = o_id ord" "o_completed_at w \<noteq> None"
      using paid by (auto simp: completed_row_def)
    have step: "order_step\<^sup>*\<^sup>* x (?f x) \<and> o_id (?f x) = o_id x" if "x \<in> set (q_orders db)" "?P x" for x
    proof -
      have "x = w" using that w t unique_order [of db x w] by (simp add: track_def)
      moreover obtain n where "o_released_at ord = Some n" using at by blast
      ultimately show ?thesis
        using order_step.intros(7) [of x n] that w by (auto simp: order_MarkPayoutReleased_def)
    qed
    show ?thesis
      by (rule track_rows [OF t ok])
         (use t rows step in \<open>auto simp: track_def refund_lives_def intro: blank_update [OF _ eq] lives_update [OF _ eq]\<close>)
  qed
qed

lemma track_SaveRefund_Inr:
  assumes t: "track A B db" and r0: "r0 \<in> set (q_refunds db)" "refund_step\<^sup>*\<^sup>* r0 rf" and run: "SaveRefund rf st db = (db', Inr u)"
  shows "track A B db'"
proof -
  note cols = refund_steps_columns [OF r0(2)]
  from run have rows: "q_refunds db' = update_where (refund_from (r_id rf) st) (refund_columns rf) (q_refunds db)"
    "q_orders db' = q_orders db" by (auto simp: SaveRefund_Inr)
  have step: "refund_step\<^sup>*\<^sup>* x (refund_columns rf x) \<and> r_id (refund_columns rf x) = r_id x"
    if "x \<in> set (q_refunds db)" "refund_from (r_id rf) st x" for x
  proof -
    have "x = r0" using that r0(1) cols t unique_refund [of db x r0] by (simp add: track_def refund_from_def)
    then show ?thesis using cols r0(2) by simp
  qed
  show ?thesis
    by (rule track_rows [OF t])
       (use t rows step run in \<open>auto simp: track_def blank_def lives_def
          intro: SaveRefund_tables refund_lives_update [OF _ rows(1)]\<close>)
qed

lemma track_SaveRefund:
  assumes "track A B db" and "r0 \<in> set (q_refunds db)" "refund_step\<^sup>*\<^sup>* r0 rf" and "SaveRefund rf st db = (db', r)"
  shows "track A B db'"
  using assms track_SaveRefund_Inr [OF assms(1-3)] by (cases r) (auto dest: SaveRefund_Inl)

lemma track_SaveRefundOutcome:
  assumes t: "track A B db" and r0: "r0 \<in> set (q_refunds db)" "refund_step\<^sup>*\<^sup>* r0 rf"
    and cl: "\<And>ord. cl = Some ord \<Longrightarrow> \<exists>row \<in> set (q_orders db). order_step row ord"
    and run: "SaveRefundOutcome rf cl st db = (db', r)"
  shows "track A B db'"
proof (cases r)
  case (Inl e)
  with t run show ?thesis by (auto dest: SaveRefundOutcome_Inl)
next
  case (Inr u)
  with run obtain db1 where s: "SaveRefund rf st db = (db1, Inr ())"
    and rest: "case cl of None \<Rightarrow> db' = db1 | Some ord \<Rightarrow> save_order ord db1 = (db', Inr ())"
    by (auto simp: SaveRefundOutcome_Inr)
  have t1: "track A B db1" by (rule track_SaveRefund_Inr [OF t r0 s])
  have "q_orders db1 = q_orders db" using s by (auto simp: SaveRefund_Inr)
  with rest cl t1 show ?thesis by (cases cl) (auto intro: track_save_order)
qed


section \<open>The handlers\<close>

abbreviation tracks :: "order set \<Rightarrow> refund set \<Rightarrow> market \<Rightarrow> bool" where
  "tracks A B m \<equiv> track A B (m_ord m)"

interpretation track: market_base "tracks A B" for A B
proof
  show "keeps (tracks A B) (on_ord (SaveItem i))" "keeps (tracks A B) (on_ord (LinkItems oid iids))" for i oid iids
    by (intro keeps_on_ord track_side)+
  show "keeps (tracks A B) (on_ord (InsertTransport now opt fee))" "keeps (tracks A B) (on_ord (SaveTransport t st))"
    "keeps (tracks A B) (on_ord (BookTransport ro tid data))" for now opt fee t st ro tid data
    by (intro keeps_on_ord track_side)+
  show "keeps (tracks A B) (on_ord (CreateOrder now ord iids))" "keeps (tracks A B) (on_ord (ClaimPayout now ord))"
    "keeps (tracks A B) (on_ord (InsertRefund now rf))" for now ord iids rf
    by (intro keeps_on_ord track_CreateOrder track_ClaimPayout track_InsertRefund)+
qed (auto intro: keeps_elsewhere)

lemmas track_intros = track.statements track.keeps_emit track.keeps_helpers track.keeps_uncommitOrderStock
  track.keeps_bookShipment keeps_elsewhere keeps_intros

lemma ends_on_ord:
  "(\<And>db db' r. K db \<Longrightarrow> s db = (db', r) \<Longrightarrow> I db') \<Longrightarrow> ends (\<lambda>m. K (m_ord m)) (\<lambda>m. I (m_ord m)) (on_ord s)"
  unfolding ends_def
proof (intro allI impI)
  fix m :: market assume *: "\<And>db db' r. K db \<Longrightarrow> s db = (db', r) \<Longrightarrow> I db'" "K (m_ord m)"
  obtain db' r where "s (m_ord m) = (db', r)" by fastforce
  with *(1) [OF *(2)] show "I (m_ord (fst (on_ord s m)))" by (cases r) (auto simp: on_ord_def zoom_def)
qed

lemma ends_reads:
  assumes "\<And>m m' r. K m \<Longrightarrow> c m = (m', r) \<Longrightarrow> m' = m \<and> (\<forall>x. r = Inr x \<longrightarrow> Q x m)" and "\<And>m. K m \<Longrightarrow> J m"
    and "\<And>x. ends (\<lambda>m. K m \<and> Q x m) J (f x)"
  shows "ends K J (act_bind c f)"
proof (rule ends_bind [where K' = "\<lambda>x m. K m \<and> Q x m"])
  fix m m' r assume "K m" "c m = (m', r)"
  with assms(1) [OF this] assms(2) show "case r of Inl e \<Rightarrow> J m' | Inr x \<Rightarrow> K m' \<and> Q x m'" by (cases r) auto
qed (rule assms(3))

lemma ends_frame:
  assumes "keeps K c" and "\<And>m. K m \<Longrightarrow> J m" and "\<And>x. ends K J (f x)"
  shows "ends K J (act_bind c f)"
  by (rule ends_bind [where K' = "\<lambda>_. K"]) (use assms keepsD in \<open>fastforce split: sum.splits\<close>)+

lemma involved_reads: "involved a oid m = (m', r) \<Longrightarrow> m' = m \<and> (\<forall>ord. r = Inr ord \<longrightarrow> ord \<in> set (q_orders (m_ord m)))"
  by (cases r) (auto simp: involved_def act_runs on_ord_def zoom_Inr zoom_Inl need_def FindOrder_def find_Some_iff split: option.splits)

lemma refundParty_reads: "refundParty a rid m = (m', res) \<Longrightarrow> m' = m \<and> (\<forall>p. res = Inr p \<longrightarrow>
    fst p \<in> set (q_refunds (m_ord m)) \<and> snd p \<in> set (q_orders (m_ord m)))"
  by (cases res) (auto simp: refundParty_def act_runs on_ord_def zoom_Inr zoom_Inl need_def FindOrder_def FindRefund_def
      find_Some_iff split: option.splits)

lemma ends_involved:
  "(\<And>m. K m \<Longrightarrow> J m) \<Longrightarrow> (\<And>ord. ends (\<lambda>m. K m \<and> ord \<in> set (q_orders (m_ord m))) J (f ord))
    \<Longrightarrow> ends K J (act_bind (involved a oid) f)"
  by (rule ends_reads [where Q = "\<lambda>ord m. ord \<in> set (q_orders (m_ord m))"]) (auto dest: involved_reads)

lemma ends_refundParty:
  "(\<And>m. K m \<Longrightarrow> J m) \<Longrightarrow> (\<And>r ord. ends (\<lambda>m. K m \<and> r \<in> set (q_refunds (m_ord m)) \<and> ord \<in> set (q_orders (m_ord m))) J (f r ord))
    \<Longrightarrow> ends K J (act_bind (refundParty a rid) (\<lambda>(r, ord). f r ord))"
  by (rule ends_reads [where Q = "\<lambda>p m. fst p \<in> set (q_refunds (m_ord m)) \<and> snd p \<in> set (q_orders (m_ord m))"])
     (auto dest: refundParty_reads)

lemma ends_need: "(\<And>m. K m \<Longrightarrow> J m) \<Longrightarrow> (b \<Longrightarrow> ends K J (f ())) \<Longrightarrow> ends K J (act_bind (need b e) f)"
  by (cases b) (auto simp: ends_def need_def act_defs)

abbreviation holds_order :: "order \<Rightarrow> market \<Rightarrow> bool" where
  "holds_order row m \<equiv> row \<in> set (q_orders (m_ord m))"

abbreviation holds_refund :: "refund \<Rightarrow> market \<Rightarrow> bool" where
  "holds_refund r m \<equiv> r \<in> set (q_refunds (m_ord m))"

lemma save_step:
  assumes "order_step row ord" and "\<And>m. K m \<Longrightarrow> tracks A B m \<and> holds_order row m" and "keeps (tracks A B) k"
  shows "ends K (tracks A B) (act_bind (on_ord (SaveOrder ord)) (\<lambda>_. k))"
proof (rule ends_then_keeps [OF _ assms(3)])
  have "ends (\<lambda>m. track A B (m_ord m) \<and> row \<in> set (q_orders (m_ord m))) (tracks A B) (on_ord (SaveOrder ord))"
    by (rule ends_on_ord [where K = "\<lambda>db. track A B db \<and> row \<in> set (q_orders db)"])
       (use assms(1) track_SaveOrder in blast)
  with assms(2) show "ends K (tracks A B) (on_ord (SaveOrder ord))" by (simp add: ends_def)
qed

lemma save_refund_step:
  assumes "\<And>m. K m \<Longrightarrow> tracks A B m \<and> holds_refund r m" and "refund_step\<^sup>*\<^sup>* r r'"
  shows "ends K (tracks A B) (saveRefund r' st)"
  unfolding saveRefund_def
proof (rule ends_then_keeps)
  have "ends (\<lambda>m. track A B (m_ord m) \<and> r \<in> set (q_refunds (m_ord m))) (tracks A B) (on_ord (SaveRefund r' st))"
    by (rule ends_on_ord [where K = "\<lambda>db. track A B db \<and> r \<in> set (q_refunds db)"])
       (use assms(2) track_SaveRefund in blast)
  with assms(1) show "ends K (tracks A B) (on_ord (SaveRefund r' st))" by (simp add: ends_def)
qed (intro track_intros)

lemma ends_FindTransport:
  "(\<And>m. K m \<Longrightarrow> J m) \<Longrightarrow> (\<And>x. ends K J (f x)) \<Longrightarrow> ends K J (act_bind (on_ord (FindTransport t)) f)"
  by (rule ends_frame) (auto intro: track_intros)

lemma track_refundEscrow: "keeps (tracks A B) (refundEscrow E ord fee)"
  unfolding refundEscrow_def by (intro track_intros)

lemma keeps_asks: "keeps K (requireResources E ks)" "keeps K (requireModerator E a)"
  by (simp_all only: requireResources_def requireModerator_def) (intro keeps_intros)+

lemma ends_requireResources:
  "(\<And>m. K m \<Longrightarrow> J m) \<Longrightarrow> (\<And>x. ends K J (f x)) \<Longrightarrow> ends K J (act_bind (requireResources E ks) f)"
  by (rule ends_frame) (auto intro: keeps_asks)

lemma ends_requireModerator:
  "(\<And>m. K m \<Longrightarrow> J m) \<Longrightarrow> (\<And>x. ends K J (f x)) \<Longrightarrow> ends K J (act_bind (requireModerator E a) f)"
  by (rule ends_frame) (auto intro: keeps_asks)

lemmas ends_chain = ends_requireResources ends_requireModerator ends_FindRefund ends_involved ends_refundParty ends_need ends_bind_decide ends_FindTransport ends_FindOrder

lemma track_Confirm: "keeps (tracks A B) (ConfirmOrder E now a oid)"
  unfolding ConfirmOrder_def keeps_ends [symmetric]
  by (intro ends_chain save_step track_intros) (auto intro: order_step.intros)

lemma track_Decline: "keeps (tracks A B) (DeclineOrder E now a oid reason)"
  unfolding DeclineOrder_def keeps_ends [symmetric]
  by (intro ends_chain save_step track_intros track_refundEscrow) (auto intro: order_step.intros)

lemma track_Cancel: "keeps (tracks A B) (CancelOrder E now a oid)"
  unfolding CancelOrder_def keeps_ends [symmetric]
  by (intro ends_chain save_step track_intros track_refundEscrow) (auto intro: order_step.intros)

lemma track_escalate: "ends (\<lambda>m. tracks A B m \<and> holds_order ord m) (tracks A B) (escalateConfirmation now ord)"
  unfolding escalateConfirmation_def
  by (intro ends_chain save_step track_intros) (auto intro: order_step.intros)


lemma track_Receipt: "keeps (tracks A B) (ConfirmReceipt E now a oid ks)"
  unfolding ConfirmReceipt_def keeps_ends [symmetric]
  by (intro ends_chain save_step track_intros) (auto intro: order_step.intros)

lemma track_EscalateOne: "keeps (tracks A B) (EscalateUnconfirmedOrder now oid)"
  unfolding EscalateUnconfirmedOrder_def keeps_ends [symmetric]
  by (intro ends_chain track_escalate) auto

text \<open>The sweep writes the rows of its list one after the other, and each write leaves the others as they were listed.\<close>

definition listed :: "order list \<Rightarrow> market \<Rightarrow> bool" where
  "listed ords m \<longleftrightarrow> distinct (map o_id ords) \<and> set ords \<subseteq> set (q_orders (m_ord m))"

lemma escalate_rows:
  assumes "escalateConfirmation now ord m = (m', r)" and "row \<in> set (q_orders (m_ord m))" "o_id row \<noteq> o_id ord"
  shows "row \<in> set (q_orders (m_ord m'))"
proof (cases "EscalateConfirmation now ord")
  case (Inl e)
  with assms show ?thesis by (auto simp: escalateConfirmation_def decide_def act_defs)
next
  case (Inr ord')
  then have id: "o_id ord' = o_id ord" by (auto simp: EscalateConfirmation_def record_event_def split: if_splits)
  obtain m1 x where s: "on_ord (SaveOrder ord') m = (m1, x)" by fastforce
  have m1: "row \<in> set (q_orders (m_ord m1))"
    using s assms(2,3) id
    by (cases x) (auto simp: on_ord_def zoom_Inr zoom_Inl SaveOrder_Inr save_order_Inr set_update_where open_order_def dest!: SaveOrder_Inl)
  show ?thesis
    using assms(1) Inr s m1
    by (cases x) (auto simp: escalateConfirmation_def decide_def act_defs publishConfirmationLapsed_def emit_def)
qed

lemma track_escalate_each: "ends (\<lambda>m. tracks A B m \<and> listed ords m) (tracks A B) (escalate_each now ords)"
proof (induction ords)
  case (Cons ord ords)
  show ?case
    unfolding escalate_each.simps
  proof (rule ends_bind [where K' = "\<lambda>_ m. tracks A B m \<and> listed ords m"])
    fix m m' y
    assume K: "tracks A B m \<and> listed (ord # ords) m"
      and run: "(attempt (escalateConfirmation now ord) :: (market_err + unit) market_act) m = (m', y)"
    then obtain x where x: "escalateConfirmation now ord m = (m', x)" and y: "y = Inr x" by (cases y) auto
    have "tracks A B m'"
      using track_escalate [of A B ord now] K x unfolding ends_def listed_def by (metis fst_conv list.set_intros(1) subset_iff)
    moreover have "listed ords m'"
      using K escalate_rows [OF x] by (auto simp: listed_def) (metis imageI subset_iff)
    ultimately show "case y of Inl e \<Rightarrow> tracks A B m' | Inr x \<Rightarrow> tracks A B m' \<and> listed ords m'" using y by simp
  next
    fix r
    show "ends (\<lambda>m. tracks A B m \<and> listed ords m) (tracks A B) (case r of
        Inl e \<Rightarrow> if e = OrderErr ErrConfirmationAlreadyEscalated \<or> e = OrderErr ErrOrderSettled then escalate_each now ords else fail e
      | Inr _ \<Rightarrow> act_bind (escalate_each now ords) (\<lambda>n. ret (Suc n)))"
      by (intro ends_sum ends_if Cons.IH ends_then_keeps) (auto intro: ends_keeps keeps_intros)
  qed
qed (auto simp: ends_def ret_def)

lemma track_EscalateAll: "keeps (tracks A B) (EscalateUnconfirmedOrders now n)"
  unfolding EscalateUnconfirmedOrders_def keeps_ends [symmetric]
proof (rule ends_reads [where Q = listed])
  fix m m' r
  assume K: "tracks A B m" and run: "on_ord (UnconfirmedOrders (now - SellerConfirmWindow) n) m = (m', r)"
  have same: "m' = m" by (rule on_ord_reads [OF reads_statements(11) run])
  have "listed ords m" if "r = Inr ords" for ords
  proof -
    from run that obtain P where ords: "ords = take n (sort_key o_created_at (filter P (q_orders (m_ord m))))"
      by (auto simp: on_ord_def zoom_Inr UnconfirmedOrders_def)
    have "inj_on o_id (set (q_orders (m_ord m)))" and "distinct (q_orders (m_ord m))"
      using K by (auto simp: track_def tables_ok_def orders_ok_def fresh_above_def distinct_map)
    moreover have "set ords \<subseteq> set (q_orders (m_ord m))" unfolding ords using set_take_subset by fastforce
    ultimately show ?thesis unfolding listed_def ords by (auto simp: distinct_map intro: inj_on_subset)
  qed
  with same show "m' = m \<and> (\<forall>ords. r = Inr ords \<longrightarrow> listed ords m)" by blast
qed (auto intro: track_escalate_each)

section \<open>The handlers of a refund\<close>

lemma refund_one: "refund_step r r' \<Longrightarrow> refund_step\<^sup>*\<^sup>* r r'"
  by blast

lemma track_Withdraw: "keeps (tracks A B) (WithdrawRefund a rid)"
  unfolding WithdrawRefund_def keeps_ends [symmetric]
  by (intro ends_chain save_refund_step) (auto intro: refund_step.intros)

lemma track_AddEvidence: "keeps (tracks A B) (AddRefundAttachments E a rid ks)"
  unfolding AddRefundAttachments_def keeps_ends [symmetric]
  by (intro ends_chain ends_then_keeps save_refund_step track_intros) (auto intro: refund_step.intros)

lemma openReturnLeg_step: "openReturnLeg now r ord m = (m', Inr r') \<Longrightarrow> refund_step\<^sup>*\<^sup>* r r'"
  by (auto simp: openReturnLeg_def act_runs decide_def split: if_splits intro!: r_into_rtranclp intro: refund_step.intros(9) [OF sym])

lemma openReturnLeg_rows: "openReturnLeg now r ord m = (m', x) \<Longrightarrow> q_orders (m_ord m') = q_orders (m_ord m) \<and> q_refunds (m_ord m') = q_refunds (m_ord m)"
  by (cases x) (auto simp: openReturnLeg_def act_runs decide_def on_ord_def zoom_Inr zoom_Inl FindTransport_def
      split: if_splits dest!: insert_transport_rows)

lemma ends_openReturnLeg:
  assumes "\<And>m. K m \<Longrightarrow> tracks A B m" and "\<And>m m'. K m \<Longrightarrow> tracks A B m' \<Longrightarrow> q_orders (m_ord m') = q_orders (m_ord m)
      \<Longrightarrow> q_refunds (m_ord m') = q_refunds (m_ord m) \<Longrightarrow> K m'"
    and "\<And>r'. refund_step\<^sup>*\<^sup>* r r' \<Longrightarrow> ends K (tracks A B) (f r')"
  shows "ends K (tracks A B) (act_bind (openReturnLeg now r ord) f)"
proof (rule ends_bind [where K' = "\<lambda>r' m. K m \<and> refund_step\<^sup>*\<^sup>* r r'"])
  fix m m' x assume K: "K m" and run: "openReturnLeg now r ord m = (m', x)"
  have "tracks A B m'" by (rule keepsD [OF track.keeps_helpers(18) assms(1) [OF K] run])
  with assms(2) [OF K] openReturnLeg_rows [OF run] openReturnLeg_step [of now r ord m m'] run
  show "case x of Inl e \<Rightarrow> tracks A B m' | Inr r' \<Rightarrow> K m' \<and> refund_step\<^sup>*\<^sup>* r r'" by (cases x) auto
next
  fix r' show "ends (\<lambda>m. K m \<and> refund_step\<^sup>*\<^sup>* r r') (tracks A B) (f r')"
    using assms(3) [of r'] by (auto simp: ends_def)
qed

lemma track_Accept: "keeps (tracks A B) (AcceptRefund now a rid)"
  unfolding AcceptRefund_def keeps_ends [symmetric]
  by (intro ends_chain ends_openReturnLeg ends_then_keeps save_refund_step track_intros)
     (fastforce intro: refund_step.intros converse_rtranclp_into_rtranclp)+

lemma advanceLeg_rows: "advanceLeg tid st m = (m', x) \<Longrightarrow> q_orders (m_ord m') = q_orders (m_ord m) \<and> q_refunds (m_ord m') = q_refunds (m_ord m)"
  using side_statement_rows [of "SaveTransport t st0" _ _ _ t st0 ro data for t st0 ro data]
  by (cases x) (auto simp: advanceLeg_def act_runs decide_def on_ord_def zoom_Inr zoom_Inl FindTransport_def)

lemma ends_advanceLeg:
  assumes "\<And>m. K m \<Longrightarrow> tracks A B m" and "\<And>m m'. K m \<Longrightarrow> tracks A B m' \<Longrightarrow> q_orders (m_ord m') = q_orders (m_ord m)
      \<Longrightarrow> q_refunds (m_ord m') = q_refunds (m_ord m) \<Longrightarrow> K m'"
    and "\<And>t. ends K (tracks A B) (f t)"
  shows "ends K (tracks A B) (act_bind (advanceLeg tid st) f)"
proof (rule ends_bind [where K' = "\<lambda>_. K"])
  fix m m' x assume K: "K m" and run: "advanceLeg tid st m = (m', x)"
  have "tracks A B m'" by (rule keepsD [OF track.keeps_helpers(13) assms(1) [OF K] run])
  with assms(2) [OF K] advanceLeg_rows [OF run] show "case x of Inl e \<Rightarrow> tracks A B m' | Inr t \<Rightarrow> K m'" by (cases x) auto
qed (rule assms(3))

lemma ends_of_option:
  "(\<And>m. K m \<Longrightarrow> J m) \<Longrightarrow> (\<And>x. y = Some x \<Longrightarrow> ends K J (f x)) \<Longrightarrow> ends K J (act_bind (of_option e y) f)"
  by (cases y) (auto simp: ends_def act_defs)

lemma ends_ret: "(\<And>m. K m \<Longrightarrow> J m) \<Longrightarrow> ends K J (ret x)"
  by (simp add: ends_def ret_def)

lemma track_AdvanceReturn: "keeps (tracks A B) (AdvanceReturnShipment now a rid st)"
  unfolding AdvanceReturnShipment_def keeps_ends [symmetric] Let_def
  by (intro ends_chain ends_of_option ends_advanceLeg ends_if ends_ret ends_then_keeps save_refund_step track_intros)
     (auto intro: refund_step.intros split: if_splits)


lemma ends_LiveRefund:
  assumes "\<And>m. K m \<Longrightarrow> J m" and "\<And>r. ends (\<lambda>m. K m \<and> r \<in> set (q_refunds (m_ord m))) J (f r)"
  shows "ends K J (act_bind (on_ord (LiveRefundOnOrder oid)) f)"
proof (rule ends_reads [where Q = "\<lambda>r m. r \<in> set (q_refunds (m_ord m))"])
  fix m m' x assume run: "on_ord (LiveRefundOnOrder oid) m = (m', x)"
  have "m' = m" by (rule on_ord_reads [OF reads_statements(15) run])
  with run show "m' = m \<and> (\<forall>r. x = Inr r \<longrightarrow> r \<in> set (q_refunds (m_ord m)))"
    by (cases x) (auto simp: on_ord_def zoom_Inr LiveRefundOnOrder_def act_runs find_Some_iff)
qed (use assms in auto)

lemma track_EscalateRefund: "keeps (tracks A B) (EscalateRefund now a oid)"
  unfolding EscalateRefund_def keeps_ends [symmetric]
proof (intro ends_involved ends_LiveRefund ends_if)
  fix ord r
  let ?K = "\<lambda>m. (tracks A B m \<and> ord \<in> set (q_orders (m_ord m))) \<and> r \<in> set (q_refunds (m_ord m))"
  show "ends ?K (tracks A B) (ret r)" by (rule ends_ret) simp
  show "ends ?K (tracks A B) (act_bind (need (\<not> order_Settled ord) ErrOrderSettled) (\<lambda>_.
      act_bind (if r_status r = RefundAwaitingSeller \<or> r_status r = RefundReturned then need (o_seller ord = a) ErrNotTheSeller
        else refuse ErrRefundNotEscalatable) (\<lambda>_. act_bind (decide (Escalate now r)) (\<lambda>r'.
      act_bind (saveRefund r' (r_status r)) (\<lambda>_. ret r')))))"
    by (intro ends_need ends_frame [of ?K "if b then need c e else refuse e'" for b c e e'] ends_bind_decide
        ends_then_keeps save_refund_step keeps_if keeps_need keeps_refuse keeps_ret) (fastforce intro: refund_step.intros)+
qed auto

lemma track_settle:
  assumes "refund_Settle r = Inr r' \<or> refund_step r r'" and "\<not> order_Settled ord"
  shows "ends (\<lambda>m. tracks A B m \<and> holds_refund r m \<and> holds_order ord m) (tracks A B) (settleRefund E now r' ord st)"
  unfolding settleRefund_def
proof (rule ends_frame)
  let ?K = "\<lambda>m. tracks A B m \<and> holds_refund r m \<and> holds_order ord m"
  show "keeps ?K (refundEscrow E ord 0)"
    unfolding refundEscrow_def orderTotal_def
    by (intro keeps_bind keeps_pair keeps_if keeps_ret keeps_unless_posted keeps_read_statements
        keeps_elsewhere(1) [where I = "\<lambda>db. track A B db \<and> r \<in> set (q_refunds db) \<and> ord \<in> set (q_orders db)"])
  fix u
  have step: "refund_step r r'" using assms(1) by (auto intro: refund_step.intros)
  show "ends ?K (tracks A B) (act_bind (decide (order_Cancel now False ord)) (\<lambda>closed.
      act_bind (on_ord (SaveRefundOutcome r' (Some closed) st)) (\<lambda>_. act_bind (publishSettled closed False) (\<lambda>_.
      act_bind (uncommitOrderStock closed) (\<lambda>_. emit (TimerRefundResolved (o_id closed) True))))))"
  proof (rule ends_bind_decide)
    fix closed assume c: "order_Cancel now False ord = Inr closed"
    have "ends (\<lambda>m. track A B (m_ord m) \<and> r \<in> set (q_refunds (m_ord m)) \<and> ord \<in> set (q_orders (m_ord m))) (tracks A B)
        (on_ord (SaveRefundOutcome r' (Some closed) st))"
      by (rule ends_on_ord [where K = "\<lambda>db. track A B db \<and> r \<in> set (q_refunds db) \<and> ord \<in> set (q_orders db)"])
         (use step order_step.intros(5) [OF c] track_SaveRefundOutcome [of A B _ r r' "Some closed"] in blast)
    then show "ends ?K (tracks A B) (act_bind (on_ord (SaveRefundOutcome r' (Some closed) st)) (\<lambda>_.
        act_bind (publishSettled closed False) (\<lambda>_. act_bind (uncommitOrderStock closed) (\<lambda>_. emit (TimerRefundResolved (o_id closed) True)))))"
      by (rule ends_then_keeps) (intro track_intros)
  qed simp
qed simp

lemma track_attempt: "ends K J c \<Longrightarrow> (\<And>x. keeps J (f x)) \<Longrightarrow> ends K J (act_bind (attempt c) f)"
  by (rule ends_then_keeps) (auto simp: ends_def attempt_def split: prod.splits)

lemma track_advanceRefund: "ends (\<lambda>m. tracks A B m \<and> holds_refund r m) (tracks A B) (advanceRefund E now r)"
  unfolding advanceRefund_def
  by (intro ends_if ends_FindOrder ends_sum track_attempt ends_ret)
     (auto intro!: track_intros save_refund_step [where r = r] track_settle intro: refund_step.intros split: sum.splits)

lemma track_AdvanceRefund: "keeps (tracks A B) (AdvanceRefund E now rid)"
  unfolding AdvanceRefund_def keeps_ends [symmetric]
  by (intro ends_FindRefund ends_then_keeps track_advanceRefund keeps_ret)

lemma track_advance_each: "keeps (tracks A B) (advance_each E now rs)"
proof (induction rs)
  case (Cons r rs)
  then show ?case
    unfolding advance_each.simps keeps_ends [symmetric]
    by (intro ends_FindRefund ends_then_keeps track_advanceRefund)
       (auto simp: keeps_ends intro!: keeps_bind keeps_ret)
qed (simp add: keeps_ret)

lemma track_AdvanceOverdue: "keeps (tracks A B) (AdvanceOverdueRefunds E now n)"
  unfolding AdvanceOverdueRefunds_def by (intro keeps_bind track_advance_each keeps_read_statements)

lemma ends_outcome:
  assumes "refund_step\<^sup>*\<^sup>* r r'" and "\<And>m. K m \<Longrightarrow> tracks A B m \<and> holds_refund r m"
  shows "ends K (tracks A B) (on_ord (SaveRefundOutcome r' None st))"
proof -
  have "ends (\<lambda>m. track A B (m_ord m) \<and> r \<in> set (q_refunds (m_ord m))) (tracks A B) (on_ord (SaveRefundOutcome r' None st))"
    by (rule ends_on_ord [where K = "\<lambda>db. track A B db \<and> r \<in> set (q_refunds db)"])
       (use assms(1) track_SaveRefundOutcome [of A B _ r r' None] in blast)
  with assms(2) show ?thesis by (simp add: ends_def)
qed

text \<open>A verdict is paid out, or its case is written and its deadline announced.\<close>

definition pay_verdict :: "market_env \<Rightarrow> time \<Rightarrow> order \<Rightarrow> refund \<Rightarrow> unit market_act" where
  "pay_verdict E now ord r =
    (if r_status r = RefundAccepted then settleRefund E now r ord RefundDisputed
     else act_bind (on_ord (SaveRefundOutcome r None RefundDisputed)) (\<lambda>_. refundTimers r))"

lemma verdict_told: "keeps (tracks A B) (act_bind (publishResolved r ord a wins note) (\<lambda>_. ret r))"
  by (intro keeps_bind track.keeps_helpers keeps_ret)

lemma verdict_unpaid:
  assumes "refund_step\<^sup>*\<^sup>* r r2" and "r_status r2 \<noteq> RefundAccepted" and "\<And>m. K m \<Longrightarrow> tracks A B m \<and> holds_refund r m"
  shows "ends K (tracks A B) (pay_verdict E now ord r2)"
  unfolding pay_verdict_def if_not_P [OF assms(2)]
  by (rule ends_then_keeps [OF ends_outcome [OF assms(1,3)]]) (auto intro: track.keeps_helpers)

lemma verdict_paid:
  assumes "refund_step r r1" and "\<not> order_Settled ord"
    and K: "\<And>m. K m \<Longrightarrow> tracks A B m \<and> holds_refund r m \<and> holds_order ord m"
  shows "ends K (tracks A B) (pay_verdict E now ord r1)"
proof (cases "r_status r1 = RefundAccepted")
  case True
  have "ends (\<lambda>m. tracks A B m \<and> holds_refund r m \<and> holds_order ord m) (tracks A B) (settleRefund E now r1 ord RefundDisputed)"
    by (rule track_settle) (use assms in auto)
  with True K show ?thesis by (simp add: ends_def pay_verdict_def)
next
  case False
  have "refund_step\<^sup>*\<^sup>* r r1" using assms(1) by blast
  from verdict_unpaid [OF this False] show ?thesis using K by blast
qed

lemma verdict_returning:
  assumes "refund_step r r1" and "r_status r1 = RefundReturning"
    and K: "\<And>m. K m \<Longrightarrow> tracks A B m \<and> holds_refund r m"
  shows "ends K (tracks A B) (act_bind (openReturnLeg now r1 ord) (\<lambda>r2. act_bind (pay_verdict E now ord r2)
    (\<lambda>_. act_bind (publishResolved r2 ord a wins note) (\<lambda>_. ret r2))))"
proof (rule ends_bind [where K' = "\<lambda>r2 m. (tracks A B m \<and> holds_refund r m) \<and> refund_step\<^sup>*\<^sup>* r r2 \<and> r_status r2 \<noteq> RefundAccepted"])
  fix m m' x assume "K m" and run: "openReturnLeg now r1 ord m = (m', x)"
  note K = K [OF this(1)]
  have t': "tracks A B m'" by (rule keepsD [OF track.keeps_helpers(18) _ run]) (use K in simp)
  show "case x of Inl e \<Rightarrow> tracks A B m'
      | Inr r2 \<Rightarrow> (tracks A B m' \<and> holds_refund r m') \<and> refund_step\<^sup>*\<^sup>* r r2 \<and> r_status r2 \<noteq> RefundAccepted"
  proof (cases x)
    case (Inr r2)
    have "refund_step\<^sup>*\<^sup>* r r2"
      using openReturnLeg_step [OF run [unfolded Inr]] assms(1) by (rule converse_rtranclp_into_rtranclp [rotated])
    moreover have "r_status r2 = RefundReturning" using run assms(2) unfolding Inr by (rule openReturnLeg_status)
    moreover have "holds_refund r m'" using K openReturnLeg_rows [OF run] by simp
    ultimately show ?thesis using t' Inr by simp
  qed (use t' in simp)
next
  fix r2
  show "ends (\<lambda>m. (tracks A B m \<and> holds_refund r m) \<and> refund_step\<^sup>*\<^sup>* r r2 \<and> r_status r2 \<noteq> RefundAccepted) (tracks A B)
      (act_bind (pay_verdict E now ord r2) (\<lambda>_. act_bind (publishResolved r2 ord a wins note) (\<lambda>_. ret r2)))"
  proof (cases "refund_step\<^sup>*\<^sup>* r r2 \<and> r_status r2 \<noteq> RefundAccepted")
    case True
    then show ?thesis by (intro ends_then_keeps [OF verdict_unpaid verdict_told]) auto
  qed (auto simp: ends_def)
qed

lemma track_Resolve: "keeps (tracks A B) (AdminResolveRefund E now a rid wins note)"
  unfolding AdminResolveRefund_def keeps_ends [symmetric] pay_verdict_def [symmetric]
proof (intro ends_chain)
  fix u r ord w r1
  assume "\<not> order_Settled ord" and r1: "Resolve wins r = Inr r1"
  let ?K = "\<lambda>m. (tracks A B m \<and> holds_refund r m) \<and> holds_order ord m"
  have step: "refund_step r r1" using r1 by (rule refund_step.intros)
  show "ends ?K (tracks A B) (act_bind (if r_status r1 = RefundReturning then openReturnLeg now r1 ord else ret r1) (\<lambda>r2.
      act_bind (pay_verdict E now ord r2) (\<lambda>_. act_bind (publishResolved r2 ord a wins note) (\<lambda>_. ret r2))))"
  proof (cases "r_status r1 = RefundReturning")
    case True
    show ?thesis unfolding if_P [OF True] by (rule verdict_returning [OF step True]) simp
  next
    case False
    show ?thesis
      unfolding if_not_P [OF False] ret_bind
        by (intro ends_then_keeps [OF verdict_paid [OF step \<open>\<not> order_Settled ord\<close>] verdict_told]) simp
  qed
qed simp_all


section \<open>The payouts\<close>

lemma track_recordRelease:
  "ends (\<lambda>m. tracks A B m \<and> completed_row (o_id ord) (m_ord m)) (tracks A B) (recordRelease now ord)"
proof -
  have at: "o_released_at (order_MarkPayoutReleased now ord) \<noteq> None" and id: "o_id (order_MarkPayoutReleased now ord) = o_id ord"
    by (auto simp: order_MarkPayoutReleased_def)
  have "ends (\<lambda>m. track A B (m_ord m) \<and> completed_row (o_id ord) (m_ord m)) (tracks A B)
      (on_ord (MarkPayoutReleased (order_MarkPayoutReleased now ord)))"
    by (rule ends_on_ord [where K = "\<lambda>db. track A B db \<and> completed_row (o_id ord) db"])
       (use at id track_MarkPayoutReleased [of A B _ "order_MarkPayoutReleased now ord"] in auto)
  then show ?thesis
    unfolding recordRelease_def best_effort_def by (rule track_attempt) (rule keeps_ret)
qed

lemma keeps_completed: "keeps (\<lambda>m. tracks A B m \<and> completed_row oid (m_ord m)) (attempt (unless_posted (on_fin f)))"
  by (intro keeps_intros keeps_elsewhere(1) [where I = "\<lambda>db. track A B db \<and> completed_row oid db"])

lemma track_paid:
  "ends (\<lambda>m. tracks A B m \<and> completed_row (o_id ord) (m_ord m)) (tracks A B)
    (act_bind (attempt (unless_posted (on_fin f))) (\<lambda>paid. case paid of Inl e \<Rightarrow> ret x
      | Inr _ \<Rightarrow> act_bind (recordRelease now ord) (\<lambda>_. k)))" if "keeps (tracks A B) k"
  by (intro ends_frame [OF keeps_completed] ends_sum ends_ret ends_then_keeps track_recordRelease that) auto

lemma track_releasePayout: "keeps (tracks A B) (releasePayout E now ord)"
proof -
  have paid: "ends (\<lambda>m. tracks A B m \<and> completed_row (o_id cl) (m_ord m)) (tracks A B)
      (act_bind (attempt (unless_posted (on_fin f))) (\<lambda>paid. case paid of Inl e \<Rightarrow> ret False
        | Inr _ \<Rightarrow> act_bind (recordRelease now cl) (\<lambda>_. act_bind (publishSettled cl True) (\<lambda>_. ret True))))" for cl f
    by (rule track_paid) (intro track_intros)
  have claim: "keeps (tracks A B) (act_bind (attempt (on_ord (ClaimPayout now ord)) :: (market_err + order) market_act) f)"
    if f: "\<And>cl. ends (\<lambda>m. tracks A B m \<and> completed_row (o_id cl) (m_ord m)) (tracks A B) (f (Inr cl))"
      and g: "\<And>e. keeps (tracks A B) (f (Inl e))" for f :: "market_err + order \<Rightarrow> bool market_act"
    unfolding keeps_ends [symmetric]
  proof (rule ends_bind [where K' = "\<lambda>r m. tracks A B m \<and> (\<forall>cl. r = Inr cl \<longrightarrow> completed_row (o_id cl) (m_ord m))"])
    fix m m' and y
    assume t: "tracks A B m" and run: "(attempt (on_ord (ClaimPayout now ord)) :: (market_err + order) market_act) m = (m', y)"
    have t': "tracks A B m'" by (rule keepsD [OF keeps_attempt [OF track.rows(2)] t run])
    obtain x where x: "on_ord (ClaimPayout now ord) m = (m', x)" "y = Inr x" using run by (cases y) auto
    then have "completed_row (o_id cl) (m_ord m')" if "x = Inr cl" for cl
      using that ClaimPayout_completed [of now ord "m_ord m" "m_ord m'" cl] by (auto simp: on_ord_def zoom_Inr)
    with t' x show "case y of Inl e \<Rightarrow> tracks A B m'
        | Inr r \<Rightarrow> tracks A B m' \<and> (\<forall>cl. r = Inr cl \<longrightarrow> completed_row (o_id cl) (m_ord m'))" by simp
  next
    fix r
    show "ends (\<lambda>m. tracks A B m \<and> (\<forall>cl. r = Inr cl \<longrightarrow> completed_row (o_id cl) (m_ord m))) (tracks A B) (f r)"
      using f g by (cases r) (simp_all add: keeps_ends [symmetric] ends_def)
  qed
  show ?thesis
    unfolding releasePayout_def
    by (intro keeps_bind [OF track.keeps_helpers(5)] keeps_pair keeps_if keeps_ret claim; unfold sum.case; rule paid keeps_ret)
qed

lemma track_release_each: "keeps (tracks A B) (release_each E now ords)"
  by (induction ords) (auto intro!: keeps_bind keeps_ret track_releasePayout)

lemma track_ReleasePayout: "keeps (tracks A B) (ReleasePayout E now oid)"
  unfolding ReleasePayout_def by (intro track_releasePayout track_intros)

lemma track_ReleaseDue: "keeps (tracks A B) (ReleaseDuePayouts E now n)"
  unfolding ReleaseDuePayouts_def by (intro track_release_each track_intros)

text \<open>The payouts claimed earlier are retried on rows that stay completed.\<close>

definition claimed :: "order list \<Rightarrow> market \<Rightarrow> bool" where
  "claimed ords m \<longleftrightarrow> (\<forall>ord \<in> set ords. completed_row (o_id ord) (m_ord m))"

lemma keeps_claimed: "(\<And>oid. keeps (\<lambda>m. completed_row oid (m_ord m)) c) \<Longrightarrow> keeps (claimed ords) c"
  unfolding keeps_def claimed_def by blast

lemma keeps_both: "keeps I c \<Longrightarrow> keeps I' c \<Longrightarrow> keeps (\<lambda>m. I m \<and> I' m) c"
  unfolding keeps_def by blast

lemma track_retry_each:
  "set ords \<subseteq> set all \<Longrightarrow> keeps (\<lambda>m. tracks A B m \<and> claimed all m) (retry_each E now ords)"
proof (induction ords)
  case (Cons ord ords)
  let ?K = "\<lambda>m. tracks A B m \<and> claimed all m"
  have total: "keeps ?K (orderTotal (o_id ord))"
    by (intro keeps_both keeps_claimed track.keeps_helpers(5) completed.market.keeps_helpers(5))
  have pay: "keeps ?K (attempt (unless_posted (on_fin f)) :: (market_err + unit) market_act)" for f
    by (intro keeps_both keeps_claimed) (intro keeps_intros keeps_elsewhere)+
  have "ends ?K (tracks A B) (recordRelease now ord)"
    using track_recordRelease [of A B ord now] Cons.prems unfolding ends_def claimed_def by simp
  moreover have "keeps (claimed all) (recordRelease now ord)"
    by (intro keeps_claimed completed.market.keeps_payouts)
  ultimately have mark: "keeps ?K (recordRelease now ord)"
    unfolding keeps_ends [symmetric] by (simp add: ends_def)
  have IH: "keeps ?K (retry_each E now ords)" using Cons by simp
  show ?case
    unfolding retry_each.simps
    by (intro keeps_bind total keeps_pair keeps_if IH pay keeps_sum mark keeps_ret)
qed (simp add: keeps_ret)

lemma track_Retry: "keeps (tracks A B) (RetryClaimedPayouts E now n)"
  unfolding RetryClaimedPayouts_def
proof (rule keeps_bind_then [where K = "\<lambda>ords m. tracks A B m \<and> claimed ords m"])
  show "keeps (tracks A B) (on_ord (ClaimedPayouts n))" by (rule keeps_read_statements)
next
  fix m m' :: market and ords
  assume t: "tracks A B m" and run: "on_ord (ClaimedPayouts n) m = (m', Inr ords)"
  have m': "m' = m" by (rule on_ord_reads [OF reads_statements(13) run])
  from run have "claimed ords m"
    by (auto simp: on_ord_def zoom_Inr ClaimedPayouts_def claimed_def completed_row_def dest!: in_set_takeD)
  with t m' show "tracks A B m' \<and> claimed ords m'" by simp
qed (auto intro: track_retry_each)

section \<open>Every handler\<close>

lemma track_call: "keeps (tracks A B) (market_call E now op)"
proof (cases "base_op op")
  case False
  then show ?thesis
    by (cases op) (simp_all add: keeps_void track_Confirm track_Decline track_Cancel track_Receipt track_EscalateOne
        track_EscalateAll track_Withdraw track_AddEvidence track_Accept track_AdvanceReturn track_EscalateRefund
        track_AdvanceRefund track_AdvanceOverdue track_Resolve track_ReleasePayout track_ReleaseDue track_Retry)
qed (rule track.keeps_base_call)

lemma track_steps: "market_steps E m m' \<Longrightarrow> tracks A B m \<Longrightarrow> tracks A B m'"
  by (induction rule: market_steps.induct) (auto dest: keepsD [OF track_call])

lemma FindRefund_Inr: "FindRefund rid db = (db', Inr r) \<Longrightarrow> db' = db \<and> r \<in> set (q_refunds db) \<and> r_id r = rid"
  by (auto simp: FindRefund_def act_runs find_Some_iff)

lemma FindRefund_unique: "tables_ok db \<Longrightarrow> r \<in> set (q_refunds db) \<Longrightarrow> FindRefund (r_id r) db = (db, Inr r)"
  by (simp add: FindRefund_def act_defs tables_ok_def refunds_ok_def fresh_above_def find_unique)

lemma track_here: "tables_ok (m_ord m) \<Longrightarrow> \<forall>row \<in> set (q_orders (m_ord m)). o_events row = []
    \<Longrightarrow> tracks (set (q_orders (m_ord m))) (set (q_refunds (m_ord m))) m"
  by (auto simp: track_def blank_def lives_def refund_lives_def)

lemma track_order:
  assumes "tracks A B m" and "ord \<in> A"
  shows "\<exists>ord'. FindOrder (o_id ord) (m_ord m) = (m_ord m, Inr ord') \<and> order_step\<^sup>*\<^sup>* ord ord'"
  using assms FindOrder_unique unfolding track_def lives_def by metis

lemma track_refund:
  assumes "tracks A B m" and "r \<in> B"
  shows "\<exists>r'. FindRefund (r_id r) (m_ord m) = (m_ord m, Inr r') \<and> refund_step\<^sup>*\<^sup>* r r'"
  using assms FindRefund_unique unfolding track_def refund_lives_def by metis

text \<open>
  C5: The handlers implement the entities. Whatever the parties, the moderators, the couriers, the bus and the
  sweeps do in any number of calls, an order that could be read can still be read and has only moved along the
  steps an order offers, and a refund case only along the steps of a refund: no handler and no guarded write
  brings a row anywhere the entity's own methods and the claim of its payout could not have brought it.
\<close>

theorem handlers_refine_entities:
  assumes "tables_ok (m_ord m)" and "\<forall>row \<in> set (q_orders (m_ord m)). o_events row = []" and "market_steps E m m'"
  shows "(FindOrder oid (m_ord m) = (m_ord m, Inr ord) \<longrightarrow>
      (\<exists>ord'. FindOrder oid (m_ord m') = (m_ord m', Inr ord') \<and> order_step\<^sup>*\<^sup>* ord ord'))
    \<and> (FindRefund rid (m_ord m) = (m_ord m, Inr r) \<longrightarrow>
      (\<exists>r'. FindRefund rid (m_ord m') = (m_ord m', Inr r') \<and> refund_step\<^sup>*\<^sup>* r r'))"
  using track_order [OF track_steps [OF assms(3) track_here [OF assms(1,2)]]]
    track_refund [OF track_steps [OF assms(3) track_here [OF assms(1,2)]]]
  by (auto dest!: FindOrder_Inr FindRefund_Inr)

theorem handlers_refine_entities_witness:
  "\<exists>ord'. FindOrder 1 (m_ord cancelled_market) = (m_ord cancelled_market, Inr ord') \<and> order_step\<^sup>*\<^sup>* placed_order ord'"
proof -
  have "FindOrder 1 (m_ord placed) = (m_ord placed, Inr placed_order)"
    by (simp add: placed_ord_eq FindOrder_def act_defs placed_ord_def placed_order_def)
  moreover have "\<forall>row \<in> set (q_orders (m_ord placed)). o_events row = []"
    by (simp add: placed_ord_eq placed_ord_def placed_order_def)
  ultimately show ?thesis
    using handlers_refine_entities [OF tables.market.keeps_steps [OF placed_steps checkout_market_ok(1)] _ cancel_steps,
        of 1 placed_order] by blast
qed

end
