(* ===== verification/MarketRuns.thy ===== *)
theory MarketRuns
  imports OrderWorkflows MarketRefines
begin

text \<open>
  What the durable runs do to the market: they add nothing to what the handlers do, they come to an end, and
  where they meet the sweep or an early verdict they end before their work is done.
\<close>

section \<open>Every stretch of the world is a sequence of handlers\<close>

inductive world_steps :: "market_env \<Rightarrow> workflow \<Rightarrow> world \<Rightarrow> world \<Rightarrow> bool" for E run where
  start: "world_steps E run w w"
| more: "world_steps E run w w' \<Longrightarrow> world_step E run w' w'' \<Longrightarrow> world_steps E run w w''"

lemma then_ret: "act_bind a (\<lambda>_. ret c) m = (m', r) \<Longrightarrow> \<exists>r'. a m = (m', r')"
  by (cases r) (auto simp: act_runs)

lemma readRefund_reads: "readRefund rid st m = (m', r) \<Longrightarrow> m' = m"
  by (cases r) (auto simp: readRefund_def act_runs dest: on_ord_reads [OF reads_statements(14)])

lemma session_paid_call: "SettlePaidSession E now sid m = (m', r)
    \<Longrightarrow> market_call E now (OpPaid (SessionPaid sid KindBuyerCheckout a b c d e)) m = (m', r)"
  by (simp add: SubscribePaidSessions_def)

lemma abandon_call: "AbandonCheckout now sid m = (m', r)
    \<Longrightarrow> market_call E now (OpCancelled (SessionCancelled sid KindBuyerCheckout a b)) m = (m', r)"
  by (simp add: SubscribeCancelledSessions_def)

text \<open>A step of a run is a call of a handler, or a read.\<close>

lemma activity_call:
  assumes "activity E now run ph = Some a" and "a m = (m', r)"
  shows "m' = m \<or> (\<exists>op r'. market_call E now op m = (m', r'))"
  using assms
proof (cases "(E, now, run, ph)" rule: activity.cases)
  case (1 E now sid)
  with assms obtain r' where "SettlePaidSession E now sid m = (m', r')" by (auto dest: then_ret)
  with 1 show ?thesis using session_paid_call by blast
next
  case (2 E now sid)
  with assms obtain r' where "AbandonCheckout now sid m = (m', r')" by (auto dest: then_ret)
  with 2 show ?thesis using abandon_call by blast
next
  case (3 E now oid)
  with assms have "\<exists>r'. market_call E now (OpEscalateOrder oid) m = (m', r')" by (auto dest: then_ret)
  with 3 show ?thesis by blast
next
  case (4 E now oid)
  with assms have "\<exists>r'. market_call E now (OpReleasePayout oid) m = (m', r')" by (auto dest: then_ret)
  with 4 show ?thesis by blast
next
  case (6 E now rid st)
  with assms have "\<exists>r'. market_call E now (OpAdvanceRefund rid) m = (m', r')" by (auto dest: then_ret)
  with 6 show ?thesis by blast
qed (auto dest: readRefund_reads)

lemma world_step_market:
  "world_step E run w w' \<Longrightarrow> w_market w' = w_market w
    \<or> (\<exists>now op r. market_call E now op (w_market w) = (w_market w', r))"
  by (erule world_stepE) (force dest: activity_call)+

lemma worlds_market: "world_steps E run w w' \<Longrightarrow> market_steps E (w_market w) (w_market w')"
proof (induction rule: world_steps.induct)
  case (more w w' w'')
  from world_step_market [OF more(2)] show ?case
  proof (elim disjE exE)
    fix now op r assume "market_call E now op (w_market w') = (w_market w'', r)"
    with more.IH show ?thesis by (rule one_handler)
  qed (use more.IH in simp)
qed (rule no_handler)

lemma run_steps: "world_run E run n w w' \<Longrightarrow> world_steps E run w w'"
  by (induction rule: world_run.induct) (auto intro: world_steps.intros)


lemma over_for_good: "world_steps E run w w' \<Longrightarrow> phases_left (w_phase w) = 0 \<Longrightarrow> w_phase w' = w_phase w"
  by (induction rule: world_steps.induct) (auto dest: step_left)

section \<open>The race of the confirmation window with the sweep\<close>

definition chased :: "order \<Rightarrow> bool" where
  "chased ord \<longleftrightarrow> order_Settled ord \<or> o_confirmed_at ord \<noteq> None \<or> o_escalated_at ord \<noteq> None"

lemma chased_step: "order_step ord ord' \<Longrightarrow> chased ord \<Longrightarrow> chased ord'"
  by (erule order_step.cases) (auto simp: chased_def order_ops split: if_splits)

lemma chased_steps: "order_step\<^sup>*\<^sup>* ord ord' \<Longrightarrow> chased ord \<Longrightarrow> chased ord'"
  by (induction rule: rtranclp_induct) (auto dest: chased_step)

lemma chased_refused:
  assumes "FindOrder oid (m_ord m) = (m_ord m, Inr ord)" and "chased ord"
  shows "\<exists>e. EscalateUnconfirmedOrder now oid m = (m, Inl (OrderErr e)) \<and> coded (OrderErr e)"
proof -
  have "on_ord (FindOrder oid) m = (m, Inr ord)" using assms(1) by (simp add: on_ord_def zoom_def)
  moreover have "\<exists>e. EscalateConfirmation now ord = Inl e \<and> coded (OrderErr e)"
    using assms(2) by (auto simp: EscalateConfirmation_def chased_def)
  ultimately show ?thesis
    by (auto simp: EscalateUnconfirmedOrder_def escalateConfirmation_def decide_def act_defs)
qed

lemma chased_stuck:
  assumes "tracks A B (w_market w)" and "ord \<in> A" and "chased ord"
    and "world_steps E (OrderRun (o_id ord)) w w'" and "w_phase w = EscalateStep"
  shows "w_phase w' = EscalateStep \<or> w_phase w' = RunFailed"
  using assms(4,5,1)
proof (induction rule: world_steps.induct)
  case (more w w' w'')
  have "tracks A B (w_market w')" by (rule track_steps [OF worlds_market [OF more(1)]]) (rule more.prems(2))
  from track_order [OF this assms(2)] obtain ord' where
    found: "FindOrder (o_id ord) (m_ord (w_market w')) = (m_ord (w_market w'), Inr ord')" "chased ord'"
    using chased_steps assms(3) by blast
  show ?case
  proof (cases "w_phase w' = EscalateStep")
    case True
    obtain e where "EscalateUnconfirmedOrder (w_now w') (o_id ord) (w_market w') = (w_market w', Inl (OrderErr e))"
      using chased_refused [OF found] by blast
    with more(2) True show ?thesis by (elim world_stepE) (auto simp: act_runs)
  next
    case False
    with more have "phases_left (w_phase w') = 0" by simp
    with step_left [OF more(2)] more False show ?thesis by auto
  qed
qed simp

text \<open>
  C10: The confirmation window of a run and the sweep do not agree on who chases the seller. If the seller has
  been chased by the sweep, or has answered, by the time the run's own timer gets to its step, the step is
  refused for good: whatever happens afterwards, the run repeats it or fails, and never waits for the
  confirmation, for the receipt or for the end of the escrow window, and never pays out.
\<close>

theorem lost_race_ends_run:
  assumes "tables_ok (m_ord (w_market w))" and "\<forall>row \<in> set (q_orders (m_ord (w_market w))). o_events row = []"
    and "FindOrder oid (m_ord (w_market w)) = (m_ord (w_market w), Inr ord)"
    and "o_escalated_at ord \<noteq> None \<or> o_confirmed_at ord \<noteq> None \<or> order_Settled ord"
    and "w_phase w = EscalateStep" and "world_steps E (OrderRun oid) w w'"
  shows "w_phase w' = EscalateStep \<or> w_phase w' = RunFailed"
proof -
  from assms(3) have "ord \<in> set (q_orders (m_ord (w_market w)))" "o_id ord = oid" by (auto dest: FindOrder_Inr)
  with chased_stuck [OF track_here [OF assms(1,2)], of ord] assms(4-6) show ?thesis by (auto simp: chased_def)
qed

definition swept_market :: market where
  "swept_market = fst (market_call demo_market_env (20 + SellerConfirmWindow) (OpEscalateOrders 100) placed)"

definition swept_order :: order where
  "swept_order = placed_order\<lparr>o_escalated_at := Some (20 + SellerConfirmWindow)\<rparr>"

lemma swept_orders: "q_orders (m_ord swept_market) = [swept_order]"
  by (simp add: swept_market_def swept_order_def placed_ord_eq placed_ord_def placed_order_def market_run_defs act_defs in_tx_def void_def
      EscalateUnconfirmedOrders_def escalateConfirmation_def EscalateConfirmation_def UnconfirmedOrders_def
      SellerConfirmWindow_def hours_def order_Settled_def record_event_def publishConfirmationLapsed_def)

text \<open>The run of order 1, whose window closes when the sweep has just run.\<close>

definition late_world :: world where
  "late_world = \<lparr>w_market = swept_market, w_now = 20 + SellerConfirmWindow, w_promises = (\<lambda>_. None), w_phase = EscalateStep\<rparr>"

theorem lost_race_ends_run_witness:
  "world_step demo_market_env (OrderRun 1) late_world (late_world\<lparr>w_phase := RunFailed\<rparr>)
    \<and> w_phase ` Collect (world_steps demo_market_env (OrderRun 1) late_world) \<subseteq> {EscalateStep, RunFailed}"
proof -
  have found: "FindOrder 1 (m_ord swept_market) = (m_ord swept_market, Inr swept_order)"
    by (simp add: FindOrder_def act_defs swept_orders swept_order_def placed_order_def)
  have "tables_ok (m_ord swept_market)"
    unfolding swept_market_def
    by (rule tables.market.keeps_steps [OF one_handler [OF placed_steps prod.collapse [symmetric]] checkout_market_ok(1)])
  moreover have "\<forall>row \<in> set (q_orders (m_ord swept_market)). o_events row = []"
    by (simp add: swept_orders swept_order_def placed_order_def)
  moreover have "o_escalated_at swept_order \<noteq> None" by (simp add: swept_order_def)
  moreover obtain e where "EscalateUnconfirmedOrder (20 + SellerConfirmWindow) 1 swept_market = (swept_market, Inl (OrderErr e))"
    "coded (OrderErr e)"
    using chased_refused [OF found] by (auto simp: chased_def swept_order_def)
  then have "world_step demo_market_env (OrderRun 1) late_world (late_world\<lparr>w_market := swept_market, w_phase := RunFailed\<rparr>)"
    by (intro failed [where a = "act_bind (EscalateUnconfirmedOrder (20 + SellerConfirmWindow) 1) (\<lambda>_. ret AwaitLateConfirmation)"])
      (auto simp: late_world_def act_runs)
  ultimately show ?thesis
    using lost_race_ends_run [of late_world 1 swept_order] found by (auto simp: late_world_def)
qed

section \<open>The payout\<close>

text \<open>What is best-effort in the program never fails as an action.\<close>

definition never_fails :: "'a market_act \<Rightarrow> bool" where
  "never_fails c \<longleftrightarrow> (\<forall>m. isl (snd (c m)) = False)"

lemma never_fails_run: "never_fails c \<Longrightarrow> \<exists>m' x. c m = (m', Inr x)"
  unfolding never_fails_def by (metis prod.collapse sum.collapse(2))

lemma never_fails_intros:
  "never_fails (ret x)" "never_fails (attempt a)" "never_fails (best_effort b)" "never_fails (emit e)"
  by (auto simp: never_fails_def best_effort_def emit_def act_defs split: prod.splits)

lemma never_fails_bind: "never_fails c \<Longrightarrow> (\<And>x. never_fails (f x)) \<Longrightarrow> never_fails (act_bind c f)"
  unfolding never_fails_def act_bind_def by (auto split: prod.splits sum.splits) (metis isl_def snd_conv)

lemma never_fails_total: "never_fails (orderTotal oid)"
  by (simp add: never_fails_def orderTotal_def on_ord_def zoom_def OrderItems_def act_defs)

lemma never_fails_releasePayout: "never_fails (releasePayout E now ord)"
proof -
  have fin: "never_fails (case x of Inl e \<Rightarrow> ret False | Inr u \<Rightarrow>
      act_bind (recordRelease now cl) (\<lambda>_. act_bind (publishSettled cl True) (\<lambda>_. ret True)))" for x :: "market_err + unit" and cl
    unfolding recordRelease_def publishSettled_def by (cases x) (auto intro!: never_fails_bind never_fails_intros)
  have "never_fails (case r of Inl e \<Rightarrow> ret False | Inr cl \<Rightarrow> act_bind (attempt (b cl)) (\<lambda>x. case x of Inl e \<Rightarrow> ret False | Inr u \<Rightarrow>
      act_bind (recordRelease now cl) (\<lambda>_. act_bind (publishSettled cl True) (\<lambda>_. ret True))))"
    for r :: "market_err + order" and b :: "order \<Rightarrow> unit market_act"
    by (cases r) (auto intro!: never_fails_bind never_fails_intros fin)
  then show ?thesis
    unfolding releasePayout_def
    by (intro never_fails_bind never_fails_total) (auto intro!: never_fails_bind never_fails_intros split: prod.split)
qed

lemma ClaimPayout_lands:
  assumes "row \<in> set (q_orders db)" and "o_id row = o_id ord" "\<not> order_Settled row" "o_received_at row \<noteq> None"
    and "\<not> liveRefund db (o_id ord)"
  shows "\<exists>db' cl. ClaimPayout now ord db = (db', Inr cl)"
  using assms by (auto simp: ClaimPayout_def OrdTx_def in_tx_def recordOrderFact_def Let_def act_defs order_Settled_def)

lemma releasePayout_claims:
  assumes "ord \<in> set (q_orders (m_ord m))" "\<not> order_Settled ord" "o_received_at ord \<noteq> None"
    and "\<not> liveRefund (m_ord m) (o_id ord)" and "orderTotal (o_id ord) m = (m, Inr (amount, currency, items))" "amount \<noteq> 0"
    and run: "releasePayout E now ord m = (m', r)"
  shows "completed_row (o_id ord) (m_ord m')"
proof -
  obtain db' cl where c: "ClaimPayout now ord (m_ord m) = (db', Inr cl)"
    using ClaimPayout_lands [of ord "m_ord m" ord now] assms by auto
  let ?m = "m\<lparr>m_ord := db'\<rparr>"
  have claim: "(attempt (on_ord (ClaimPayout now ord)) :: (market_err + order) market_act) m = (?m, Inr (Inr cl))"
    using c by (simp add: on_ord_def zoom_def act_defs)
  have start: "completed_row (o_id ord) (m_ord ?m)" using ClaimPayout_completed [OF c] by simp
  have kept: "keeps (\<lambda>m. completed_row (o_id ord) (m_ord m))
      (act_bind (attempt (unless_posted (on_fin f)) :: (market_err + unit) market_act) (\<lambda>paid. case paid of
          Inl _ \<Rightarrow> ret False
        | Inr _ \<Rightarrow> act_bind (recordRelease now cl) (\<lambda>_. act_bind (publishSettled cl True) (\<lambda>_. ret True))))" for f
    unfolding publishSettled_def
    by (intro keeps_intros keeps_elsewhere completed.market.keeps_payouts completed.market.keeps_emit)
  show ?thesis
    using run unfolding releasePayout_def act_bind_step [where m = "orderTotal (o_id ord)", OF assms(5)]
    by (simp add: assms(6) act_bind_step [where m = "attempt (on_ord (ClaimPayout now ord))", OF claim]) (rule keepsD [OF kept start])
qed

text \<open>The step that ends the run of an order: it always ends it, and it pays out if the payout is due.\<close>

lemma payout_step:
  assumes "FindOrder oid (m_ord m) = (m_ord m, Inr ord)" and "\<not> order_Settled ord" and "o_received_at ord = Some t"
  shows "act_bind (ReleasePayout E now oid) (\<lambda>_. ret RunEnded) m =
    (if now < t + PayoutWindow then m else fst (releasePayout E now ord m), Inr RunEnded)"
proof -
  obtain m' b where "releasePayout E now ord m = (m', Inr b)"
    using never_fails_run [OF never_fails_releasePayout] by blast
  moreover have "on_ord (FindOrder oid) m = (m, Inr ord)" using assms(1) by (simp add: on_ord_def zoom_def)
  ultimately show ?thesis using assms(2,3) by (simp add: ReleasePayout_def PayoutDue_def act_defs)
qed

lemma one_move: "world_step E run w w' \<Longrightarrow> w_phase w' \<noteq> w_phase w \<Longrightarrow> world_run E run n w0 w \<Longrightarrow> world_run E run (Suc n) w0 w'"
  by (rule moved)

lemma pay_and_end:
  assumes "FindOrder oid (m_ord (w_market w)) = (m_ord (w_market w), Inr ord)" and "\<not> order_Settled ord"
    and "o_received_at ord = Some t" and "w_phase w = PayoutStep"
  shows "world_step E (OrderRun oid) w (w\<lparr>w_market := if w_now w < t + PayoutWindow then w_market w
    else fst (releasePayout E (w_now w) ord (w_market w)), w_phase := RunEnded\<rparr>)"
  by (intro journalled) (simp add: assms(4), simp add: payout_step [OF assms(1-3)])


text \<open>
  C9: A verdict that comes early costs the seller the run. If the case raised against a received order was
  decided against the buyer before the seventy-two hours of the escrow window are over, the run goes on at once,
  finds the payout not due, changes nothing and ends: it never pays out, whatever happens afterwards, and the
  payout is left to the sweep.
\<close>

theorem early_verdict_ends_run_unpaid:
  assumes "FindOrder oid (m_ord (w_market w)) = (m_ord (w_market w), Inr ord)" and "\<not> order_Settled ord"
    and "o_received_at ord = Some t" and "w_now w < t + PayoutWindow" and "w_phase w = EscrowWindow due"
    and "w_promises w PromRefunded \<noteq> None" and "w_promises w PromResolved = Some False"
  shows "\<exists>w'. world_run E (OrderRun oid) 3 w w' \<and> w_phase w' = RunEnded \<and> w_market w' = w_market w
    \<and> (\<forall>w''. world_steps E (OrderRun oid) w' w'' \<longrightarrow> w_phase w'' = RunEnded)"
proof -
  define w1 where "w1 = w\<lparr>w_phase := AwaitVerdict\<rparr>"
  define w2 where "w2 = w\<lparr>w_phase := PayoutStep\<rparr>"
  define w3 where "w3 = w\<lparr>w_phase := RunEnded\<rparr>"
  have "world_step E (OrderRun oid) w w1"
    using woken [of "Promised PromRefunded" w E "OrderRun oid"] assms(5,6) by (simp add: w1_def)
  moreover have "world_step E (OrderRun oid) w1 w2"
    using woken [of "Promised PromResolved" w1 E "OrderRun oid"] assms(7) by (simp add: w1_def w2_def)
  moreover have "world_step E (OrderRun oid) w2 w3"
    using pay_and_end [of oid w2 ord t E] assms(1-4) by (simp add: w2_def w3_def)
  ultimately have "world_run E (OrderRun oid) (Suc (Suc (Suc 0))) w w3"
    using assms(5) by (auto intro!: one_move still simp: w1_def w2_def w3_def)
  moreover have "w_phase w'' = RunEnded" if "world_steps E (OrderRun oid) w3 w''" for w''
    using over_for_good [OF that] by (simp add: w3_def)
  ultimately show ?thesis by (intro exI [of _ w3]) (simp add: w3_def numeral_3_eq_3)
qed

section \<open>A received order to run on\<close>

definition received_order :: order where
  "received_order = placed_order\<lparr>o_confirmed_at := Some 20, o_received_at := Some 30, o_receipt := [5]\<rparr>"

definition received_world :: "promises \<Rightarrow> world" where
  "received_world ps = \<lparr>w_market = placed\<lparr>m_ord := placed_ord\<lparr>q_orders := [received_order]\<rparr>\<rparr>, w_now = 40,
    w_promises = ps, w_phase = EscrowWindow (40 + PayoutWindow)\<rparr>"

lemma received_found:
  "FindOrder 1 (m_ord (w_market (received_world ps))) = (m_ord (w_market (received_world ps)), Inr received_order)"
  by (simp add: FindOrder_def act_defs received_world_def received_order_def placed_order_def)

lemma received_facts: "\<not> order_Settled received_order" "o_received_at received_order = Some 30"
  by (simp_all add: received_order_def placed_order_def order_Settled_def)


theorem early_verdict_ends_run_unpaid_witness:
  "\<exists>w'. world_run demo_market_env (OrderRun 1) 3 (received_world [PromRefunded \<mapsto> True, PromResolved \<mapsto> False]) w'
    \<and> w_phase w' = RunEnded"
  using early_verdict_ends_run_unpaid [OF received_found received_facts,
      of "[PromRefunded \<mapsto> True, PromResolved \<mapsto> False]" "40 + PayoutWindow" demo_market_env]
  by (auto simp: received_world_def PayoutWindow_def hours_def)


end
