(* ===== verification/Spec2Isabelle.thy ===== *)
theory Spec2Isabelle
  imports OpaqueId FinanceSessions FinanceWithdrawals CatalogStock OrderRules SaleTerms MarketRace MarketRuns
begin

text \<open>
  A verification of the shopnexus marketplace server: the money, the stock and the sale.
\<close>

end
